(* ===== verification/Prelude.thy ===== *)
theory Prelude
  imports Main "HOL-Library.AList" "HOL-Library.Code_Target_Nat"
begin

text \<open>
  Shared vocabulary of the development: results that may be an error (the throw of a TypeScript
  function), HTTP replies, the falsy test on optional strings, and the insertion-ordered maps
  that stand for the JavaScript \<open>Map\<close> objects of the services.  The collection \<open>js\<close>
  gathers the equations that evaluate the modelled JavaScript operations, the collection
  \<open>handler\<close> the unfolding equations of route handlers.
\<close>

named_theorems js \<open>evaluation of the modelled JavaScript operations\<close>
named_theorems handler \<open>unfolding of route handlers\<close>

section \<open>Results and replies\<close>

text \<open>A function that may throw returns \<open>Inl\<close> of the error or \<open>Inr\<close> of the value.\<close>

definition bindE :: "('e + 'a) \<Rightarrow> ('a \<Rightarrow> 'e + 'b) \<Rightarrow> 'e + 'b" where
  "bindE m f = (case m of Inl e \<Rightarrow> Inl e | Inr x \<Rightarrow> f x)"

definition throwIf :: "bool \<Rightarrow> 'e \<Rightarrow> 'e + unit" where
  "throwIf p e = (if p then Inl e else Inr ())"

lemma bindE_Inl [simp]: "bindE (Inl e) f = Inl e"
  by (simp add: bindE_def)

lemma bindE_Inr [simp]: "bindE (Inr x) f = f x"
  by (simp add: bindE_def)

lemma bindE_eq_Inr [simp]: "bindE m f = Inr y \<longleftrightarrow> (\<exists>x. m = Inr x \<and> f x = Inr y)"
  by (cases m) auto

lemma bindE_eq_Inl [simp]:
  "bindE m f = Inl e \<longleftrightarrow> m = Inl e \<or> (\<exists>x. m = Inr x \<and> f x = Inl e)"
  by (cases m) auto

lemma throwIf_Inr [simp]: "throwIf p e = Inr u \<longleftrightarrow> \<not> p"
  by (simp add: throwIf_def)

lemma throwIf_Inl [simp]: "throwIf p e = Inl e' \<longleftrightarrow> p \<and> e' = e"
  by (auto simp add: throwIf_def)

lemma bindE_assoc: "bindE (bindE m f) g = bindE m (\<lambda>x. bindE (f x) g)"
  by (cases m) auto

text \<open>
  The error envelope every service sends with a status outside 2xx, and the reply of a route:
  a success with its status and body, an envelope with its status, or the framework's own 500 for
  an exception that no handler of the service catches.
\<close>

record envelope =
  env_code :: string
  env_message :: string
  env_requestId :: string
  env_retryable :: bool

datatype 'b reply =
    is_ok: Reply nat 'b
  | ErrReply nat envelope
  | ServerError string

primrec reply_status :: "'b reply \<Rightarrow> nat" where
  "reply_status (Reply n b) = n"
| "reply_status (ErrReply n e) = n"
| "reply_status (ServerError msg) = 500"

text \<open>\<open>sendError\<close> of the ledger and policy services.\<close>

definition sendError :: "nat \<Rightarrow> string \<Rightarrow> string \<Rightarrow> string \<Rightarrow> bool \<Rightarrow> 'b reply" where
  "sendError st c msg requestId retryable =
     ErrReply st \<lparr>env_code = c, env_message = msg, env_requestId = requestId, env_retryable = retryable\<rparr>"

lemma sendError_simps [simp]:
  "reply_status (sendError st c msg r b) = st"
  "sendError st c msg r b \<noteq> Reply n x"
  "Reply n x \<noteq> sendError st c msg r b"
  "\<not> is_ok (sendError st c msg r b)"
  by (simp_all add: sendError_def)

section \<open>Optional strings\<close>

text \<open>
  A body field of type \<open>string | undefined\<close>.  \<open>!x\<close> of the source is true of
  \<open>undefined\<close> and of the empty string.
\<close>

fun falsy :: "string option \<Rightarrow> bool" where
  "falsy None = True"
| "falsy (Some s) = (s = [])"

lemma not_falsy [simp]: "\<not> falsy x \<longleftrightarrow> (\<exists>s. x = Some s \<and> s \<noteq> [])"
  by (cases x) auto

text \<open>\<open>x ?? d\<close>: the default replaces only \<open>undefined\<close>.\<close>

fun coalesce :: "'a option \<Rightarrow> 'a \<Rightarrow> 'a" where
  "coalesce None d = d"
| "coalesce (Some x) d = x"

section \<open>Insertion-ordered maps\<close>

text \<open>
  What the services rely on of a \<open>Map\<close>: \<open>get\<close>, \<open>set\<close> and the iteration order, which
  is the order in which the keys were first set.
\<close>

locale ordered_map =
  fixes get :: "'s \<Rightarrow> 'k \<Rightarrow> 'v option"
    and put :: "'k \<Rightarrow> 'v \<Rightarrow> 's \<Rightarrow> 's"
    and keys :: "'s \<Rightarrow> 'k list"
  assumes get_put: "get (put k v s) k' = (if k' = k then Some v else get s k')"
    and keys_put: "keys (put k v s) = (if k \<in> set (keys s) then keys s else keys s @ [k])"
    and get_keys: "get s k = None \<longleftrightarrow> k \<notin> set (keys s)"
begin

lemma get_put_same [simp]: "get (put k v s) k = Some v"
  by (simp add: get_put)

lemma get_put_other [simp]: "k' \<noteq> k \<Longrightarrow> get (put k v s) k' = get s k'"
  by (simp add: get_put)

lemma distinct_keys_put: "distinct (keys s) \<Longrightarrow> distinct (keys (put k v s))"
  by (simp add: keys_put)

lemma set_keys_put: "set (keys (put k v s)) = insert k (set (keys s))"
  by (auto simp: keys_put)

lemma keys_put_present: "get s k = Some w \<Longrightarrow> keys (put k v s) = keys s"
  using get_keys [of s k] by (simp add: keys_put)

text \<open>A property of every stored value is kept by storing a value that has it.\<close>

lemma put_all:
  assumes "\<And>k v. get s k = Some v \<Longrightarrow> P k v" and "P k v" and "get (put k v s) k' = Some v'"
  shows "P k' v'"
  using assms by (cases "k' = k") auto

end

text \<open>The model of a \<open>Map\<close> with string keys.\<close>

type_synonym 'v jsmap = "(string \<times> 'v) list"

abbreviation jget :: "'v jsmap \<Rightarrow> string \<Rightarrow> 'v option" where
  "jget m k \<equiv> map_of m k"

abbreviation jset :: "string \<Rightarrow> 'v \<Rightarrow> 'v jsmap \<Rightarrow> 'v jsmap" where
  "jset k v m \<equiv> AList.update k v m"

definition jkeys :: "'v jsmap \<Rightarrow> string list" where
  "jkeys m = map fst m"

definition jvalues :: "'v jsmap \<Rightarrow> 'v list" where
  "jvalues m = map snd m"

lemma jkeys_update: "map fst (AList.update k v m) =
    (if k \<in> set (map fst m) then map fst m else map fst m @ [k])"
  by (simp add: update_keys)

interpretation jm: ordered_map map_of AList.update jkeys
  by unfold_locales (auto simp: jkeys_def update_conv' update_keys map_of_eq_None_iff)

lemma jvalues_update_new:
  "jget m k = None \<Longrightarrow> jvalues (jset k v m) = jvalues m @ [v]"
  by (induction m) (auto simp: jvalues_def split: if_splits)

lemma in_jvalues: "distinct (jkeys m) \<Longrightarrow> v \<in> set (jvalues m) \<longleftrightarrow> (\<exists>k. jget m k = Some v)"
  by (force simp: jvalues_def jkeys_def map_of_eq_Some_iff)

end
