(* ===== verification/Js_Strings.thy ===== *)
theory Js_Strings
  imports Prelude
begin

text \<open>
  The part of the JavaScript string and number library the services use, on strings whose code
  units are below 256 (the type \<open>string\<close> of HOL): case folding, trimming, the tests of the
  anchored regular expressions \<open>^0x[0-9a-fA-F]{n}$\<close> and \<open>^[0-9]+$\<close>, printing and
  reading in a base, \<open>padStart\<close>, \<open>BigInt(string)\<close>, and \<open>join\<close>.  The lemmas show
  that folding is idempotent and keeps length, that reading inverts printing in every base up to
  16, and that \<open>BigInt\<close> inverts decimal printing.
\<close>

section \<open>Characters\<close>

abbreviation code :: "char \<Rightarrow> nat" where
  "code c \<equiv> of_char c"

text \<open>\<open>toLowerCase\<close> on Latin-1: A to Z, and the accented capitals except the multiplication sign.\<close>

definition lower_char :: "char \<Rightarrow> char" where
  "lower_char c =
     (if 65 \<le> code c \<and> code c \<le> 90 \<or> 192 \<le> code c \<and> code c \<le> 222 \<and> code c \<noteq> 215
      then char_of (code c + 32) else c)"

definition to_lower :: "string \<Rightarrow> string" where
  "to_lower s = map lower_char s"

text \<open>White space of \<open>trim\<close> and of \<open>\s\<close> in regular expressions.\<close>

definition is_space :: "char \<Rightarrow> bool" where
  "is_space c \<longleftrightarrow> code c \<in> {9, 10, 11, 12, 13, 32, 160}"

definition js_trim :: "string \<Rightarrow> string" where
  "js_trim s = rev (dropWhile is_space (rev (dropWhile is_space s)))"

definition is_digit :: "char \<Rightarrow> bool" where
  "is_digit c \<longleftrightarrow> 48 \<le> code c \<and> code c \<le> 57"

definition is_hex :: "char \<Rightarrow> bool" where
  "is_hex c \<longleftrightarrow> is_digit c \<or> 97 \<le> code c \<and> code c \<le> 102 \<or> 65 \<le> code c \<and> code c \<le> 70"

lemma code_char_of [simp]: "n < 256 \<Longrightarrow> code (char_of n :: char) = n"
  by simp

lemma code_less_256 [simp]: "code c < 256"
  by (cases c) (simp add: of_char_def horner_sum_simps split: if_splits)

lemma char_eq_code: "c = d \<longleftrightarrow> code c = code d"
  by simp

lemma lower_char_idem [simp]: "lower_char (lower_char c) = lower_char c"
  by (auto simp: lower_char_def)

lemma to_lower_idem [simp]: "to_lower (to_lower s) = to_lower s"
  by (simp add: to_lower_def comp_def)

lemma to_lower_length [simp]: "length (to_lower s) = length s"
  by (simp add: to_lower_def)

lemma to_lower_append [simp]: "to_lower (s @ t) = to_lower s @ to_lower t"
  by (simp add: to_lower_def)

lemma to_lower_Nil [simp]: "to_lower s = [] \<longleftrightarrow> s = []" "to_lower [] = []"
  by (simp_all add: to_lower_def)

lemma is_digit_lower [simp]: "is_digit (lower_char c) \<longleftrightarrow> is_digit c"
  by (auto simp: is_digit_def lower_char_def)

lemma is_hex_lower [simp]: "is_hex c \<Longrightarrow> is_hex (lower_char c)"
  by (auto simp: is_hex_def is_digit_def lower_char_def)

lemma lower_digit [simp]: "is_digit c \<Longrightarrow> lower_char c = c"
  by (auto simp: is_digit_def lower_char_def)

lemma to_lower_digits [simp]: "list_all is_digit s \<Longrightarrow> to_lower s = s"
  by (induction s) (auto simp: to_lower_def)

section \<open>The validators' regular expressions\<close>

text \<open>\<open>/^[0-9]+$/\<close>.\<close>

definition is_decimal :: "string \<Rightarrow> bool" where
  "is_decimal s \<longleftrightarrow> s \<noteq> [] \<and> list_all is_digit s"

text \<open>\<open>/^0x[0-9a-fA-F]{n}$/\<close>.\<close>

definition is_hex_of_length :: "nat \<Rightarrow> string \<Rightarrow> bool" where
  "is_hex_of_length n s \<longleftrightarrow> take 2 s = ''0x'' \<and> length s = n + 2 \<and> list_all is_hex (drop 2 s)"

text \<open>\<open>/^0x[0-9a-fA-F]+$/\<close>.\<close>

definition is_hex_string :: "string \<Rightarrow> bool" where
  "is_hex_string s \<longleftrightarrow> take 2 s = ''0x'' \<and> drop 2 s \<noteq> [] \<and> list_all is_hex (drop 2 s)"

lemma is_hex_of_lengthD:
  assumes "is_hex_of_length n s"
  obtains t where "s = ''0x'' @ t" "length t = n" "list_all is_hex t"
proof -
  have "s = ''0x'' @ drop 2 s"
    using assms append_take_drop_id [of 2 s] by (simp add: is_hex_of_length_def)
  with assms show thesis by (intro that [of "drop 2 s"]) (auto simp: is_hex_of_length_def)
qed

lemma to_lower_0x [simp]: "to_lower (CHR ''0'' # CHR ''x'' # t) = CHR ''0'' # CHR ''x'' # to_lower t"
  by (simp add: to_lower_def lower_char_def)

lemma is_hex_of_length_lower: "is_hex_of_length n s \<Longrightarrow> is_hex_of_length n (to_lower s)"
  by (erule is_hex_of_lengthD) (auto simp: is_hex_of_length_def list_all_iff, auto simp: to_lower_def)

section \<open>Printing and reading in a base\<close>

definition digit_char :: "nat \<Rightarrow> char" where
  "digit_char n = char_of (if n < 10 then 48 + n else 87 + n)"

definition digit_val :: "char \<Rightarrow> nat" where
  "digit_val c =
     (if code c \<le> 57 then code c - 48 else if 97 \<le> code c then code c - 87 else code c - 55)"

text \<open>\<open>n.toString(b)\<close>, for \<open>2 \<le> b \<le> 16\<close>.\<close>

fun to_base :: "nat \<Rightarrow> nat \<Rightarrow> string" where
  "to_base b n =
     (if b < 2 \<or> n < b then [digit_char n] else to_base b (n div b) @ [digit_char (n mod b)])"

declare to_base.simps [simp del]

definition of_base :: "nat \<Rightarrow> string \<Rightarrow> nat" where
  "of_base b s = foldl (\<lambda>a c. a * b + digit_val c) 0 s"

lemma digit_val_char [simp]: "n < 16 \<Longrightarrow> digit_val (digit_char n) = n"
  by (auto simp: digit_val_def digit_char_def)

lemma of_base_Nil [simp]: "of_base b [] = 0"
  by (simp add: of_base_def)

lemma of_base_snoc [simp]: "of_base b (s @ [c]) = of_base b s * b + digit_val c"
  by (simp add: of_base_def)

lemma of_base_single [simp]: "of_base b [c] = digit_val c"
  by (simp add: of_base_def)

lemma foldl_base: "foldl (\<lambda>a c. a * b + digit_val c) a s = a * b ^ length s + of_base b s"
proof (induction s rule: rev_induct)
  case (snoc c s)
  then show ?case by (simp add: algebra_simps)
qed simp

lemma of_base_append: "of_base b (s @ t) = of_base b s * b ^ length t + of_base b t"
proof -
  have "of_base b (s @ t) = foldl (\<lambda>a c. a * b + digit_val c) (of_base b s) t"
    by (simp add: of_base_def)
  then show ?thesis by (simp only: foldl_base)
qed

lemma of_base_Cons: "of_base b (c # t) = digit_val c * b ^ length t + of_base b t"
  using of_base_append [of b "[c]" t] by simp

lemma of_to_base:
  assumes "2 \<le> b" "b \<le> 16"
  shows "of_base b (to_base b n) = n"
proof (induction n rule: less_induct)
  case (less n)
  show ?case
  proof (cases "n < b")
    case True
    with assms show ?thesis by (simp add: to_base.simps [of b n])
  next
    case False
    with assms have "n div b < n" by simp
    moreover have "n mod b < 16" using assms mod_less_divisor [of b n] by linarith
    ultimately show ?thesis using False assms less.IH [of "n div b"]
      by (simp add: to_base.simps [of b n])
  qed
qed

lemma to_base_nonempty [simp]: "to_base b n \<noteq> []"
  by (simp add: to_base.simps [of b n])

lemma digit_char_inj: "m < 16 \<Longrightarrow> n < 16 \<Longrightarrow> digit_char m = digit_char n \<longleftrightarrow> m = n"
  by (metis digit_val_char)

lemma to_base_inj: "2 \<le> b \<Longrightarrow> b \<le> 16 \<Longrightarrow> to_base b m = to_base b n \<longleftrightarrow> m = n"
  by (metis of_to_base)

lemma digit_char_digit [simp]: "n < 10 \<Longrightarrow> is_digit (digit_char n)"
  by (simp add: is_digit_def digit_char_def)

lemma digit_char_hex [simp]: "n < 16 \<Longrightarrow> is_hex (digit_char n)"
  by (auto simp: is_hex_def is_digit_def digit_char_def)

lemma to_base_all:
  assumes "\<And>d. d < b \<Longrightarrow> P (digit_char d)" "2 \<le> b"
  shows "list_all P (to_base b n)"
proof (induction n rule: less_induct)
  case (less n)
  show ?case
  proof (cases "n < b")
    case True
    with assms show ?thesis by (simp add: to_base.simps [of b n])
  next
    case False
    with assms have "n div b < n" by simp
    then show ?thesis using False assms less.IH [of "n div b"]
      by (simp add: to_base.simps [of b n])
  qed
qed

text \<open>A number below \<open>b ^ k\<close> prints in at most \<open>k\<close> digits.\<close>

lemma to_base_length_le:
  assumes "n < b ^ k" "2 \<le> b" "0 < k"
  shows "length (to_base b n) \<le> k"
  using assms
proof (induction k arbitrary: n)
  case (Suc k)
  show ?case
  proof (cases "n < b")
    case True
    then show ?thesis by (simp add: to_base.simps [of b n])
  next
    case False
    have "0 < k"
    proof (rule ccontr)
      assume "\<not> 0 < k"
      with Suc.prems False show False by simp
    qed
    moreover have "n div b < b ^ k"
      using Suc.prems by (simp add: less_mult_imp_div_less mult.commute)
    ultimately have "length (to_base b (n div b)) \<le> k" using Suc by blast
    with False show ?thesis by (simp add: to_base.simps [of b n])
  qed
qed simp

abbreviation dec :: "nat \<Rightarrow> string" where
  "dec n \<equiv> to_base 10 n"

text \<open>\<open>String(n)\<close> of an integer.\<close>

definition dec_int :: "int \<Rightarrow> string" where
  "dec_int i = (if i < 0 then ''-'' @ dec (nat (- i)) else dec (nat i))"

lemma dec_digits [simp]: "list_all is_digit (dec n)"
  by (rule to_base_all) auto

lemma dec_decimal [simp]: "is_decimal (dec n)"
  by (simp add: is_decimal_def)

lemma of_dec [simp]: "of_base 10 (dec n) = n"
  by (simp add: of_to_base)

lemma dec_inj [simp]: "dec m = dec n \<longleftrightarrow> m = n"
  by (simp add: to_base_inj)

lemma minus_not_digit [simp]: "\<not> is_digit (CHR ''-'')"
  by (simp add: is_digit_def)

lemma hd_dec_digit: "is_digit (hd (dec n))"
  using dec_digits [of n] by (metis hd_in_set list_all_iff to_base_nonempty)

lemma dec_int_inj [simp]: "dec_int i = dec_int j \<longleftrightarrow> i = j"
proof -
  have minus: "CHR ''-'' # t \<noteq> dec n" for n t
    using hd_dec_digit [of n] by (metis list.sel(1) minus_not_digit)
  show ?thesis
    using minus minus [symmetric] by (auto simp: dec_int_def)
qed

section \<open>BigInt, padStart, join\<close>

text \<open>
  \<open>BigInt(string)\<close>: white space around is dropped, the empty string is 0, a decimal
  integer may carry a sign, \<open>0x\<close>, \<open>0o\<close> and \<open>0b\<close> prefixes may not; every other
  string throws a \<open>SyntaxError\<close> (\<open>None\<close>).
\<close>

definition digits_below :: "nat \<Rightarrow> string \<Rightarrow> bool" where
  "digits_below b s \<longleftrightarrow> s \<noteq> [] \<and> list_all (\<lambda>c. is_hex c \<and> digit_val c < b) s"

fun bigint_literal :: "string \<Rightarrow> int option" where
  "bigint_literal [] = Some 0"
| "bigint_literal (c # s) =
     (if c = CHR ''0'' \<and> s \<noteq> [] \<and> to_lower (take 1 s) = ''x'' \<and> digits_below 16 (drop 1 s)
        then Some (int (of_base 16 (drop 1 s)))
      else if c = CHR ''0'' \<and> s \<noteq> [] \<and> to_lower (take 1 s) = ''o'' \<and> digits_below 8 (drop 1 s)
        then Some (int (of_base 8 (drop 1 s)))
      else if c = CHR ''0'' \<and> s \<noteq> [] \<and> to_lower (take 1 s) = ''b'' \<and> digits_below 2 (drop 1 s)
        then Some (int (of_base 2 (drop 1 s)))
      else if c = CHR ''-'' then (if is_decimal s then Some (- int (of_base 10 s)) else None)
      else if c = CHR ''+'' then (if is_decimal s then Some (int (of_base 10 s)) else None)
      else if is_decimal (c # s) then Some (int (of_base 10 (c # s))) else None)"

declare bigint_literal.simps [simp del]

definition js_bigint :: "string \<Rightarrow> int option" where
  "js_bigint s = bigint_literal (js_trim s)"

lemma is_digit_not_space: "is_digit c \<Longrightarrow> \<not> is_space c"
  by (auto simp: is_digit_def is_space_def)

lemma trim_no_space:
  assumes "list_all (\<lambda>c. \<not> is_space c) s"
  shows "js_trim s = s"
proof -
  have keep: "dropWhile is_space t = t" if "list_all (\<lambda>c. \<not> is_space c) t" for t
    using that by (cases t) auto
  show ?thesis using assms by (simp add: js_trim_def keep)
qed

lemma trim_digits: "list_all is_digit s \<Longrightarrow> js_trim s = s"
  by (rule trim_no_space) (auto simp: list_all_iff is_digit_not_space)

lemma digit_not_letter: "is_digit d \<Longrightarrow> lower_char d \<notin> {CHR ''x'', CHR ''o'', CHR ''b''}"
  by (auto simp: is_digit_def)

lemma bigint_decimal: "is_decimal s \<Longrightarrow> js_bigint s = Some (int (of_base 10 s))"
proof -
  assume dec: "is_decimal s"
  then obtain c t where s: "s = c # t" "is_digit c" "list_all is_digit t"
    by (cases s) (auto simp: is_decimal_def)
  have "to_lower (take 1 t) \<notin> {''x'', ''o'', ''b''}"
    using s(3) by (cases t) (auto simp: to_lower_def is_digit_def)
  moreover have "c \<noteq> CHR ''-''" "c \<noteq> CHR ''+''"
    using s(2) by (auto simp: is_digit_def)
  moreover have "js_trim s = s" using s by (intro trim_digits) simp
  ultimately show ?thesis using dec s(1) by (simp add: js_bigint_def bigint_literal.simps)
qed

lemma bigint_dec [simp, js]: "js_bigint (dec n) = Some (int n)"
  by (simp add: bigint_decimal)

text \<open>\<open>s.padStart(n, c)\<close>.\<close>

definition pad_start :: "nat \<Rightarrow> char \<Rightarrow> string \<Rightarrow> string" where
  "pad_start n c s = replicate (n - length s) c @ s"

lemma pad_start_length [simp]: "length (pad_start n c s) = max n (length s)"
  by (simp add: pad_start_def)

lemma of_base_replicate_zero [simp]: "of_base b (replicate k CHR ''0'' @ s) = of_base b s"
  by (induction k) (auto simp: of_base_Cons digit_val_def)

lemma of_base_pad [simp]: "of_base b (pad_start n CHR ''0'' s) = of_base b s"
  by (simp add: pad_start_def)

lemma pad_start_all: "P c \<Longrightarrow> list_all P s \<Longrightarrow> list_all P (pad_start n c s)"
  by (auto simp: pad_start_def list_all_iff)

text \<open>\<open>xs.join(sep)\<close>.\<close>

fun js_join :: "string \<Rightarrow> string list \<Rightarrow> string" where
  "js_join sep [] = []"
| "js_join sep [x] = x"
| "js_join sep (x # y # xs) = x @ sep @ js_join sep (y # xs)"

text \<open>\<open>s.split(c)\<close> at a separator character.\<close>

fun js_split :: "char \<Rightarrow> string \<Rightarrow> string list" where
  "js_split c [] = [[]]"
| "js_split c (x # s) =
     (if x = c then [] # js_split c s
      else case js_split c s of w # ws \<Rightarrow> (x # w) # ws | [] \<Rightarrow> [[x]])"

text \<open>
  Splitting at a separator character inverts \<open>join\<close> on parts without that character, which is
  what makes a delimited encoding readable back.
\<close>

lemma append_sep_inj:
  assumes "c \<notin> set x" "c \<notin> set x'"
  shows "x @ c # y = x' @ c # y' \<longleftrightarrow> x = x' \<and> y = y'"
  using assms
proof (induction x arbitrary: x')
  case Nil
  then show ?case by (cases x') auto
next
  case (Cons a x)
  then show ?case by (cases x') auto
qed

lemma js_join_inj:
  assumes "\<forall>x \<in> set xs. c \<notin> set x" "\<forall>x \<in> set ys. c \<notin> set x" "length xs = length ys"
  shows "js_join [c] xs = js_join [c] ys \<longleftrightarrow> xs = ys"
  using assms(3,1,2)
proof (induction xs ys rule: list_induct2)
  case (Cons x xs y ys)
  then show ?case
    by (cases xs; cases ys) (auto simp: append_sep_inj)
qed simp

end
