(* ===== verification/Js_Values.thy ===== *)
theory Js_Values
  imports Js_Strings
begin

text \<open>
  JSON values as the services receive them in a request body, property access, and the conversion
  \<open>Number(value)\<close> that \<open>parseChainId\<close> applies to an unvalidated value.  A JSON number is
  an integer or a literal that overflows to infinity; fractional literals are outside the model.
  An absent property (\<open>undefined\<close>) is \<open>None\<close>.
\<close>

datatype json =
    JNull
  | JBool bool
  | JNum int
  | JInfinity bool
  | JStr string
  | JArr "json list"
  | JObj "(string \<times> json) list"

text \<open>\<open>JSON.parse\<close> keeps the last of several members with one name.\<close>

definition jmember :: "(string \<times> json) list \<Rightarrow> string \<Rightarrow> json option" where
  "jmember ms k = map_of (rev ms) k"

text \<open>
  \<open>v[k]\<close> of a value whose \<open>typeof\<close> is \<open>"object"\<close>: an array has none of the names the
  services read.
\<close>

fun jprop :: "json \<Rightarrow> string \<Rightarrow> json option" where
  "jprop (JObj ms) k = jmember ms k"
| "jprop v k = None"

text \<open>\<open>typeof v === "object" && v !== null\<close>.\<close>

fun is_object :: "json option \<Rightarrow> bool" where
  "is_object (Some (JObj ms)) = True"
| "is_object (Some (JArr vs)) = True"
| "is_object v = False"

text \<open>\<open>typeof v\<close>, for the error messages.\<close>

fun js_typeof :: "json option \<Rightarrow> string" where
  "js_typeof None = ''undefined''"
| "js_typeof (Some (JBool b)) = ''boolean''"
| "js_typeof (Some (JNum n)) = ''number''"
| "js_typeof (Some (JInfinity s)) = ''number''"
| "js_typeof (Some (JStr s)) = ''string''"
| "js_typeof (Some v) = ''object''"

text \<open>
  \<open>String(v)\<close>.  An array prints its elements joined by commas, \<open>null\<close> elements as the
  empty string.
\<close>

fun js_string :: "json \<Rightarrow> string" where
  "js_string JNull = ''null''"
| "js_string (JBool b) = (if b then ''true'' else ''false'')"
| "js_string (JNum n) = dec_int n"
| "js_string (JInfinity p) = (if p then ''Infinity'' else ''-Infinity'')"
| "js_string (JStr s) = s"
| "js_string (JArr vs) = js_join '','' (map (\<lambda>v. if v = JNull then [] else js_string v) vs)"
| "js_string (JObj fs) = ''[object Object]''"

fun js_string_opt :: "json option \<Rightarrow> string" where
  "js_string_opt None = ''undefined''"
| "js_string_opt (Some v) = js_string v"

section \<open>Number(value)\<close>

text \<open>
  The result of \<open>Number\<close>: an integer, a finite number that is no integer, or an infinity or
  \<open>NaN\<close>.
\<close>

datatype jnum = NInt int | NFraction | NNotFinite

text \<open>
  A decimal literal \<open>digits[.digits][e[sign]digits]\<close> without sign: its integer value when it
  is an integer.  Values are exact: the rounding of a literal to a double is not modelled.
\<close>

definition decimal_value :: "string \<Rightarrow> string \<Rightarrow> int \<Rightarrow> jnum" where
  "decimal_value whole frac ex =
     (let m = int (of_base 10 (whole @ frac)); k = ex - int (length frac)
      in if 0 \<le> k then NInt (m * 10 ^ nat k)
         else if m mod 10 ^ nat (- k) = 0 then NInt (m div 10 ^ nat (- k)) else NFraction)"

definition exponent_value :: "string \<Rightarrow> int option" where
  "exponent_value s =
     (if is_decimal s then Some (int (of_base 10 s))
      else if take 1 s = ''+'' \<and> is_decimal (drop 1 s) then Some (int (of_base 10 (drop 1 s)))
      else if take 1 s = ''-'' \<and> is_decimal (drop 1 s) then Some (- int (of_base 10 (drop 1 s)))
      else None)"

definition decimal_literal :: "string \<Rightarrow> jnum option" where
  "decimal_literal s =
     (let whole = takeWhile is_digit s; s1 = dropWhile is_digit s;
          frac = (if take 1 s1 = ''.'' then takeWhile is_digit (drop 1 s1) else []);
          s2 = (if take 1 s1 = ''.'' then dropWhile is_digit (drop 1 s1) else s1)
      in if whole = [] \<and> frac = [] then None
         else if s2 = [] then Some (decimal_value whole frac 0)
         else if to_lower (take 1 s2) = ''e''
           then map_option (decimal_value whole frac) (exponent_value (drop 1 s2))
         else None)"

text \<open>A string that is no numeric literal is \<open>NaN\<close>.\<close>

definition number_of_string :: "string \<Rightarrow> jnum" where
  "number_of_string s0 =
     (let s = js_trim s0
      in if s = [] then NInt 0
         else if to_lower (take 2 s) = ''0x'' \<and> digits_below 16 (drop 2 s)
           then NInt (int (of_base 16 (drop 2 s)))
         else if to_lower (take 2 s) = ''0o'' \<and> digits_below 8 (drop 2 s)
           then NInt (int (of_base 8 (drop 2 s)))
         else if to_lower (take 2 s) = ''0b'' \<and> digits_below 2 (drop 2 s)
           then NInt (int (of_base 2 (drop 2 s)))
         else if take 1 s = ''-''
           then (case decimal_literal (drop 1 s) of Some (NInt n) \<Rightarrow> NInt (- n)
                 | Some r \<Rightarrow> r | None \<Rightarrow> NNotFinite)
         else if take 1 s = ''+''
           then (case decimal_literal (drop 1 s) of Some n \<Rightarrow> n | None \<Rightarrow> NNotFinite)
         else (case decimal_literal s of Some n \<Rightarrow> n | None \<Rightarrow> NNotFinite))"

text \<open>An array or object goes through its string.\<close>

fun js_number :: "json \<Rightarrow> jnum" where
  "js_number JNull = NInt 0"
| "js_number (JBool b) = NInt (if b then 1 else 0)"
| "js_number (JNum n) = NInt n"
| "js_number (JInfinity p) = NNotFinite"
| "js_number (JStr s) = number_of_string s"
| "js_number (JArr vs) = number_of_string (js_string (JArr vs))"
| "js_number (JObj fs) = number_of_string (js_string (JObj fs))"

lemma decimal_literal_digits:
  assumes "is_decimal s"
  shows "decimal_literal s = Some (NInt (int (of_base 10 s)))"
proof -
  have "takeWhile is_digit s = s" "dropWhile is_digit s = []" "s \<noteq> []"
    using assms by (simp_all add: is_decimal_def list_all_iff)
  then show ?thesis
    by (simp add: decimal_literal_def decimal_value_def Let_def
        del: takeWhile_eq_all_conv dropWhile_eq_Nil_conv)
qed

lemma number_of_dec [simp, js]: "number_of_string (dec n) = NInt (int n)"
proof -
  obtain c t where s: "dec n = c # t" by (cases "dec n") auto
  have d: "list_all is_digit (c # t)" using dec_digits [of n] s by simp
  have "to_lower (take 2 (c # t)) \<notin> {''0x'', ''0o'', ''0b''}"
    using d by (cases t) (auto simp: to_lower_def is_digit_def)
  moreover have "c \<noteq> CHR ''-''" "c \<noteq> CHR ''+''" using d by (auto simp: is_digit_def)
  moreover have "js_trim (c # t) = c # t" using d by (rule trim_digits)
  moreover have "decimal_literal (c # t) = Some (NInt (int n))"
    using decimal_literal_digits [OF dec_decimal, of n] by (simp only: s [symmetric] of_dec)
  ultimately show ?thesis by (simp add: number_of_string_def s)
qed

lemma number_of_dec_int [simp]: "number_of_string (dec_int i) = NInt i"
proof (cases "i < 0")
  case True
  define n where "n = nat (- i)"
  have "\<not> is_space CHR ''-''" by (simp add: is_space_def)
  then have "js_trim (CHR ''-'' # dec n) = CHR ''-'' # dec n"
    using dec_digits [of n] by (intro trim_no_space) (auto simp: list_all_iff is_digit_not_space)
  moreover have "to_lower (take 2 (CHR ''-'' # dec n)) \<notin> {''0x'', ''0o'', ''0b''}"
    by (auto simp: to_lower_def lower_char_def)
  moreover have "decimal_literal (dec n) = Some (NInt (int n))"
    using decimal_literal_digits [OF dec_decimal, of n] by simp
  ultimately have "number_of_string (CHR ''-'' # dec n) = NInt (- int n)"
    by (simp add: number_of_string_def)
  then show ?thesis using True by (simp add: dec_int_def n_def)
qed (simp add: dec_int_def)

end
