(* ===== verification/Errors.thy ===== *)
theory Errors
  imports Js_Values
begin

text \<open>
  \<open>packages/contracts/src/errors.ts\<close>: the error codes, the exception class \<open>AppError\<close> with
  its factories, and the envelope it turns into.  A thrown value is a \<open>js_error\<close>: an
  \<open>AppError\<close>, a plain \<open>Error\<close>, or an error of the web framework that carries a status.
  The em dash of the source's messages is written \<open>--\<close>.
\<close>

datatype error_code =
    BAD_REQUEST | UNAUTHORIZED | FORBIDDEN | NOT_FOUND | INTERNAL
  | UNSUPPORTED_CHAIN | MANDATE_NOT_FOUND | TX_NOT_FOUND | RPC_FAILED | RPC_TIMEOUT
  | CHAIN_NOT_CONFIGURED | TOKEN_DECIMALS_INVALID | X402_MALFORMED
  | SIGNER_UNPINNED_MANDATE | SIGNER_WRONG_RECIPIENT | SIGNER_CEILING | SIGNER_WRONG_FROM
  | SIGNER_WRONG_CHAIN | SIGNER_WINDOW | SIGNER_REPLAY | SIGNER_DOMAIN_MISMATCH
  | SIGNER_KMS_FAILED
  | RUN_NOT_FOUND | DEPENDENCY_UNAVAILABLE | DOMAIN_MISMATCH | MCP_UNREACHABLE
  | MCP_RESULT_MALFORMED | CARDAPI_FAILED

fun code_name :: "error_code \<Rightarrow> string" where
  "code_name BAD_REQUEST = ''BAD_REQUEST''"
| "code_name UNAUTHORIZED = ''UNAUTHORIZED''"
| "code_name FORBIDDEN = ''FORBIDDEN''"
| "code_name NOT_FOUND = ''NOT_FOUND''"
| "code_name INTERNAL = ''INTERNAL''"
| "code_name UNSUPPORTED_CHAIN = ''UNSUPPORTED_CHAIN''"
| "code_name MANDATE_NOT_FOUND = ''MANDATE_NOT_FOUND''"
| "code_name TX_NOT_FOUND = ''TX_NOT_FOUND''"
| "code_name RPC_FAILED = ''RPC_FAILED''"
| "code_name RPC_TIMEOUT = ''RPC_TIMEOUT''"
| "code_name CHAIN_NOT_CONFIGURED = ''CHAIN_NOT_CONFIGURED''"
| "code_name TOKEN_DECIMALS_INVALID = ''TOKEN_DECIMALS_INVALID''"
| "code_name X402_MALFORMED = ''X402_MALFORMED''"
| "code_name SIGNER_UNPINNED_MANDATE = ''SIGNER_UNPINNED_MANDATE''"
| "code_name SIGNER_WRONG_RECIPIENT = ''SIGNER_WRONG_RECIPIENT''"
| "code_name SIGNER_CEILING = ''SIGNER_CEILING''"
| "code_name SIGNER_WRONG_FROM = ''SIGNER_WRONG_FROM''"
| "code_name SIGNER_WRONG_CHAIN = ''SIGNER_WRONG_CHAIN''"
| "code_name SIGNER_WINDOW = ''SIGNER_WINDOW''"
| "code_name SIGNER_REPLAY = ''SIGNER_REPLAY''"
| "code_name SIGNER_DOMAIN_MISMATCH = ''SIGNER_DOMAIN_MISMATCH''"
| "code_name SIGNER_KMS_FAILED = ''SIGNER_KMS_FAILED''"
| "code_name RUN_NOT_FOUND = ''RUN_NOT_FOUND''"
| "code_name DEPENDENCY_UNAVAILABLE = ''DEPENDENCY_UNAVAILABLE''"
| "code_name DOMAIN_MISMATCH = ''DOMAIN_MISMATCH''"
| "code_name MCP_UNREACHABLE = ''MCP_UNREACHABLE''"
| "code_name MCP_RESULT_MALFORMED = ''MCP_RESULT_MALFORMED''"
| "code_name CARDAPI_FAILED = ''CARDAPI_FAILED''"

record app_error =
  ae_status :: nat
  ae_code :: error_code
  ae_message :: string
  ae_retryable :: bool

text \<open>
  What a handler may throw.  \<open>FrameworkError\<close> stands for the errors Fastify itself raises
  with a \<open>statusCode\<close>, such as a body that is no JSON.
\<close>

datatype js_error =
    AppError app_error
  | JsError string
  | FrameworkError nat string

definition mk_app_error :: "nat \<Rightarrow> error_code \<Rightarrow> string \<Rightarrow> bool \<Rightarrow> js_error" where
  "mk_app_error st c msg retry =
     AppError \<lparr>ae_status = st, ae_code = c, ae_message = msg, ae_retryable = retry\<rparr>"

text \<open>\<open>err instanceof Error ? err.message : String(err)\<close>.\<close>

fun error_text :: "js_error \<Rightarrow> string" where
  "error_text (AppError e) = ae_message e"
| "error_text (JsError m) = m"
| "error_text (FrameworkError n m) = m"

definition toEnvelope :: "app_error \<Rightarrow> string \<Rightarrow> envelope" where
  "toEnvelope e requestId =
     \<lparr>env_code = code_name (ae_code e), env_message = ae_message e,
      env_requestId = requestId, env_retryable = ae_retryable e\<rparr>"

definition badRequestCode :: "string \<Rightarrow> error_code \<Rightarrow> js_error" where
  "badRequestCode msg c = mk_app_error 400 c msg False"

abbreviation badRequest :: "string \<Rightarrow> js_error" where
  "badRequest msg \<equiv> badRequestCode msg BAD_REQUEST"

definition unauthorized :: js_error where
  "unauthorized = mk_app_error 401 UNAUTHORIZED ''invalid or missing X-Internal-Token'' False"

definition notFound :: "error_code \<Rightarrow> string \<Rightarrow> js_error" where
  "notFound c msg = mk_app_error 404 c msg False"

definition rpcFailed :: "string \<Rightarrow> js_error" where
  "rpcFailed msg = mk_app_error 502 RPC_FAILED msg True"

definition rpcTimeout :: "string \<Rightarrow> js_error" where
  "rpcTimeout msg = mk_app_error 504 RPC_TIMEOUT msg True"

definition signerRefusal :: "error_code \<Rightarrow> string \<Rightarrow> js_error" where
  "signerRefusal c msg = mk_app_error (if c = SIGNER_REPLAY then 409 else 403) c msg False"

lemmas app_error_defs = mk_app_error_def badRequestCode_def unauthorized_def notFound_def
  rpcFailed_def rpcTimeout_def signerRefusal_def

text \<open>The status of a thrown \<open>AppError\<close>, and its code.\<close>

fun thrown_status :: "js_error \<Rightarrow> nat option" where
  "thrown_status (AppError e) = Some (ae_status e)"
| "thrown_status _ = None"

fun thrown_code :: "js_error \<Rightarrow> error_code option" where
  "thrown_code (AppError e) = Some (ae_code e)"
| "thrown_code _ = None"

lemma thrown_simps [simp]:
  "thrown_status (mk_app_error st c msg r) = Some st"
  "thrown_code (mk_app_error st c msg r) = Some c"
  by (simp_all add: mk_app_error_def)

lemma code_name_inj: "code_name c = code_name d \<longleftrightarrow> c = d"
  by (cases c; cases d; simp)

text \<open>\<open>BigInt(s)\<close>, which throws on a text that is no integer.\<close>

definition bigint :: "string \<Rightarrow> js_error + int" where
  "bigint s = (case js_bigint s of
      None \<Rightarrow> Inl (JsError (''Cannot convert '' @ s @ '' to a BigInt''))
    | Some n \<Rightarrow> Inr n)"

lemma bigint_Inr [simp]: "bigint s = Inr n \<longleftrightarrow> js_bigint s = Some n"
  by (simp add: bigint_def split: option.splits)

end
