(* ===== verification/Contract_Types.thy ===== *)
theory Contract_Types
  imports Errors
begin

text \<open>
  The wire types and verified constants shared by every service:
  \<open>packages/contracts/src/types.ts\<close>, \<open>constants.ts\<close>, \<open>resolvedItem.ts\<close> and
  \<open>registry.ts\<close> with the deployment record \<open>registry.json\<close>.  Addresses, hex strings and
  base-unit amounts are strings, as in the source; numbers are integers.
\<close>

section \<open>Types\<close>

type_synonym address = string
type_synonym hex = string
type_synonym uint = string

record x402_extra =
  x_assetTransferMethod :: string
  x_name :: string
  x_version :: string

text \<open>\<open>X402Accepted\<close> is \<open>X402Requirements\<close> without \<open>x402Version\<close>.\<close>

record x402_accepted =
  c_scheme :: string
  c_network :: string
  c_chainId :: int
  c_amount :: uint
  c_asset :: address
  c_payTo :: address
  c_maxTimeoutSeconds :: int
  c_extra :: x402_extra

record x402_requirements = x402_accepted +
  c_x402Version :: int

record mandate =
  m_mandateId :: hex
  m_owner :: address
  m_agentId :: string
  m_chainId :: int
  m_asset :: address
  m_settlementRecipient :: address
  m_maxPerCard :: uint
  m_maxPerWindow :: uint
  m_maxCardsPerWindow :: int
  m_windowSeconds :: int
  m_maxAuthValiditySeconds :: int
  m_expiresAt :: int
  m_revoked :: bool
  m_intentConstraint :: string
  m_merchantAllowlist :: "string list"
  m_policyVersion :: int

record td_domain =
  d_name :: string
  d_version :: string
  d_chainId :: int
  d_verifyingContract :: address

record td_message =
  t_from :: address
  t_to :: address
  t_value :: uint
  t_validAfter :: int
  t_validBefore :: int
  t_nonce :: hex

text \<open>The EIP-712 typed data of \<open>TransferWithAuthorization\<close>.\<close>

record typed_data =
  td_domain_of :: td_domain
  td_primaryType :: string
  td_types :: "(string \<times> string) list"
  td_message_of :: td_message

record pinned_mandate =
  p_settlementRecipient :: address
  p_hardMaxTotal :: uint

record resolved_item =
  r_title :: string
  r_sku :: string
  r_price :: uint
  r_merchantDomain :: string
  r_checkoutUrl :: string

section \<open>Constants\<close>

record chain_constants =
  k_chainId :: int
  k_rpc :: string
  k_xsgd :: address
  k_settlementRecipient :: "address option"
  k_eip712Name :: string
  k_eip712Version :: "string option"
  k_explorerTxBase :: string

definition FUJI :: chain_constants where
  "FUJI = \<lparr>k_chainId = 43113,
     k_rpc = ''https://api.avax-test.network/ext/bc/C/rpc'',
     k_xsgd = ''0xd769410dc8772695a7f55a304d2125320a65c2a5'',
     k_settlementRecipient = Some ''0x99a2B2962a6AC463FBe04664027Fdb3F68bd4Cc8'',
     k_eip712Name = ''XSGD'', k_eip712Version = Some ''2'',
     k_explorerTxBase = ''https://testnet.snowtrace.io/tx/''\<rparr>"

definition MAINNET :: chain_constants where
  "MAINNET = \<lparr>k_chainId = 43114,
     k_rpc = ''https://api.avax.network/ext/bc/C/rpc'',
     k_xsgd = ''0xb2F85b7AB3c2b6f62DF06dE6aE7D09c010a5096E'',
     k_settlementRecipient = None,
     k_eip712Name = ''XSGD'', k_eip712Version = None,
     k_explorerTxBase = ''https://snowtrace.io/tx/''\<rparr>"

definition CHAINS :: "int \<Rightarrow> chain_constants option" where
  "CHAINS c = (if c = 43113 then Some FUJI else if c = 43114 then Some MAINNET else None)"

definition SUPPORTED_CHAIN_IDS :: "int list" where
  "SUPPORTED_CHAIN_IDS = [43113, 43114]"

definition isSupportedChainId :: "int \<Rightarrow> bool" where
  "isSupportedChainId v \<longleftrightarrow> v = 43113 \<or> v = 43114"

definition XSGD_DECIMALS :: nat where
  "XSGD_DECIMALS = 6"

definition MAX_AUTH_WINDOW_SECONDS :: int where
  "MAX_AUTH_WINDOW_SECONDS = 600"

definition X402_VERSION :: int where
  "X402_VERSION = 1"

definition CARDAPI_SANDBOX_ISSUE_CARD :: string where
  "CARDAPI_SANDBOX_ISSUE_CARD = ''https://card.straitsx.ai/sandbox/cardapi/issue_card''"

definition MCP_SSE_SANDBOX :: string where
  "MCP_SSE_SANDBOX = ''https://card.straitsx.ai/sandbox/sse''"

definition CARDAPI_PRODUCTION_ISSUE_CARD :: "string option" where
  "CARDAPI_PRODUCTION_ISSUE_CARD = None"

definition MCP_SSE_PRODUCTION :: "string option" where
  "MCP_SSE_PRODUCTION = None"

record service_ports =
  port_ledger :: int
  port_policy :: int
  port_signer :: int
  port_chainGateway :: int
  port_agentOrchestrator :: int
  port_dashboard :: int

definition SERVICE_PORTS :: service_ports where
  "SERVICE_PORTS = \<lparr>port_ledger = 4001, port_policy = 4002, port_signer = 4003,
     port_chainGateway = 4004, port_agentOrchestrator = 4005, port_dashboard = 3000\<rparr>"

definition FUNDING_ORIGIN_WALLET :: address where
  "FUNDING_ORIGIN_WALLET = ''0x9f6B4A5DE73CE365238F27236ea04A747E691bF7''"

section \<open>The registry deployment record\<close>

definition registry_addresses :: "(string \<times> string option) list" where
  "registry_addresses =
     [(''43113'', Some ''0x47b9b484944d95bc04888e40ad585462a06e7c6d''),
      (''43114'', Some ''0x47b9b484944d95bc04888e40ad585462a06e7c6d'')]"

definition registry_deploy_blocks :: "(string \<times> int option) list" where
  "registry_deploy_blocks = [(''43113'', Some 57773961), (''43114'', Some 92883345)]"

definition getRegistryDeployBlock :: "(string \<times> int option) list \<Rightarrow> int \<Rightarrow> int option" where
  "getRegistryDeployBlock file chainId =
     (case map_of file (dec_int chainId) of None \<Rightarrow> None | Some b \<Rightarrow> b)"

text \<open>\<open>addresses[String(chainId)] ?? null\<close>, over any deployment record.\<close>

definition getRegistryAddress :: "(string \<times> string option) list \<Rightarrow> int \<Rightarrow> address option" where
  "getRegistryAddress file chainId =
     (case map_of file (dec_int chainId) of None \<Rightarrow> None | Some a \<Rightarrow> a)"

definition requireRegistryAddress ::
    "(string \<times> string option) list \<Rightarrow> int \<Rightarrow> js_error + address" where
  "requireRegistryAddress file chainId =
     (case getRegistryAddress file chainId of
        None \<Rightarrow> Inl (mk_app_error 400 CHAIN_NOT_CONFIGURED
          (''mandate-registry is not deployed on chain '' @ dec_int chainId @
           '' -- packages/contracts/registry.json has a null address. '' @
           ''Deploy it and run scripts/sync-registry.ts.'') False)
      | Some a \<Rightarrow> Inr a)"

lemma requireRegistryAddress_null:
  "requireRegistryAddress file chainId = Inr a \<longleftrightarrow> getRegistryAddress file chainId = Some a"
  by (simp add: requireRegistryAddress_def split: option.splits)

end
