(* ===== verification/Js_Date.thy ===== *)
theory Js_Date
  imports Js_Strings
begin

text \<open>
  The clock library the services use: \<open>Date.prototype.toISOString\<close> of an instant in
  milliseconds since 1970, and \<open>Date.parse\<close>.  \<open>Date.parse\<close> is modelled on the two ISO
  forms the services write, \<open>YYYY-MM-DDThh:mm:ss.sssZ\<close> and \<open>YYYY-MM-DDThh:mm:ssZ\<close>, with the
  field ranges of the engine (days 1 to 31 in every month); what it makes of any other string is
  the engine's, and is the argument \<open>other\<close> of the model (\<open>None\<close> is \<open>NaN\<close>).  The round
  trip shows that an instant the ledger prints is the instant a later check reads.
\<close>

section \<open>Days and civil dates\<close>

definition civil_from_days :: "int \<Rightarrow> int \<times> int \<times> int" where
  "civil_from_days days =
     (let z = days + 719468; era = z div 146097; doe = z mod 146097;
          c = min 3 (doe div 36524); in_c = doe - c * 36524;
          q = in_c div 1461; in_q = in_c mod 1461;
          a = min 3 (in_q div 365); doy = in_q - 365 * a;
          mp = (5 * doy + 2) div 153;
          d = doy - (153 * mp + 2) div 5 + 1;
          m = (if mp < 10 then mp + 3 else mp - 9);
          y = 100 * c + 4 * q + a + era * 400 + (if m \<le> 2 then 1 else 0)
      in (y, m, d))"

definition days_from_civil :: "int \<Rightarrow> int \<Rightarrow> int \<Rightarrow> int" where
  "days_from_civil y0 m d =
     (let y = (if m \<le> 2 then y0 - 1 else y0); era = y div 400; yoe = y mod 400;
          doy = (153 * (if m > 2 then m - 3 else m + 9) + 2) div 5 + d - 1;
          doe = yoe * 365 + yoe div 4 - yoe div 100 + doy
      in era * 146097 + doe - 719468)"

text \<open>The parts of a day within its 400-year era.\<close>

lemma era_parts:
  fixes doe :: int
  assumes "0 \<le> doe" "doe < 146097"
  defines "c \<equiv> min 3 (doe div 36524)"
  defines "q \<equiv> (doe - c * 36524) div 1461"
  defines "r \<equiv> (doe - c * 36524) mod 1461"
  defines "a \<equiv> min 3 (r div 365)"
  defines "doy \<equiv> r - 365 * a"
  shows "0 \<le> c" "c \<le> 3" "0 \<le> q" "q \<le> 24" "0 \<le> a" "a \<le> 3" "0 \<le> doy" "doy \<le> 365"
    "doe = 36524 * c + 1461 * q + 365 * a + doy"
proof -
  have c: "0 \<le> c" "c \<le> 3" "36524 * c \<le> doe" "doe < 36524 * c + 36525"
    unfolding c_def using assms(1,2) by (auto simp: min_def)
  have qr: "doe - c * 36524 = 1461 * q + r" "0 \<le> r" "r < 1461"
    unfolding q_def r_def by simp_all
  have q: "0 \<le> q" "q \<le> 24" using qr c by linarith+
  have a: "0 \<le> a" "a \<le> 3" "365 * a \<le> r" "r < 365 * a + 366"
    unfolding a_def using qr(2,3) by (auto simp: min_def)
  show "0 \<le> c" "c \<le> 3" "0 \<le> q" "q \<le> 24" "0 \<le> a" "a \<le> 3" "0 \<le> doy" "doy \<le> 365"
    "doe = 36524 * c + 1461 * q + 365 * a + doy"
    using c qr q a unfolding doy_def by linarith+
qed

text \<open>The month and day of a day of the year that starts in March.\<close>

lemma month_parts:
  fixes doy :: int
  assumes "0 \<le> doy" "doy \<le> 365"
  defines "mp \<equiv> (5 * doy + 2) div 153"
  shows "0 \<le> mp" "mp \<le> 11" "1 \<le> doy - (153 * mp + 2) div 5 + 1"
    "doy - (153 * mp + 2) div 5 + 1 \<le> 31"
proof -
  have mp: "153 * mp \<le> 5 * doy + 2" "5 * doy + 2 < 153 * mp + 153"
    unfolding mp_def by presburger+
  have "5 * ((153 * mp + 2) div 5) \<le> 153 * mp + 2" "153 * mp + 2 < 5 * ((153 * mp + 2) div 5) + 5"
    by presburger+
  with mp assms(1,2) show "0 \<le> mp" "mp \<le> 11" "1 \<le> doy - (153 * mp + 2) div 5 + 1"
    "doy - (153 * mp + 2) div 5 + 1 \<le> 31" by linarith+
qed

lemma days_civil_days:
  assumes "civil_from_days n = (y, m, d)"
  shows "days_from_civil y m d = n \<and> 1 \<le> m \<and> m \<le> 12 \<and> 1 \<le> d \<and> d \<le> 31 \<and>
    400 * ((n + 719468) div 146097) \<le> y \<and> y \<le> 400 * ((n + 719468) div 146097) + 400"
proof -
  define z where "z = n + 719468"
  define era where "era = z div 146097"
  define doe where "doe = z mod 146097"
  define c where "c = min 3 (doe div 36524)"
  define q where "q = (doe - c * 36524) div 1461"
  define r where "r = (doe - c * 36524) mod 1461"
  define a where "a = min 3 (r div 365)"
  define doy where "doy = r - 365 * a"
  define mp where "mp = (5 * doy + 2) div 153"
  define yoe where "yoe = 100 * c + 4 * q + a"
  have doe: "0 \<le> doe" "doe < 146097" unfolding doe_def by simp_all
  have parts: "0 \<le> c" "c \<le> 3" "0 \<le> q" "q \<le> 24" "0 \<le> a" "a \<le> 3" "0 \<le> doy" "doy \<le> 365"
      "doe = 36524 * c + 1461 * q + 365 * a + doy"
    using era_parts [OF doe] unfolding c_def q_def r_def a_def doy_def by blast+
  have mon: "0 \<le> mp" "mp \<le> 11" "1 \<le> doy - (153 * mp + 2) div 5 + 1"
      "doy - (153 * mp + 2) div 5 + 1 \<le> 31"
    using month_parts [OF parts(7,8)] unfolding mp_def by blast+
  have "civil_from_days n =
      (yoe + era * 400 + (if (if mp < 10 then mp + 3 else mp - 9) \<le> 2 then 1 else 0),
       (if mp < 10 then mp + 3 else mp - 9), doy - (153 * mp + 2) div 5 + 1)"
    by (simp only: civil_from_days_def Let_def z_def era_def doe_def c_def q_def r_def
        a_def doy_def mp_def yoe_def)
  then have m: "m = (if mp < 10 then mp + 3 else mp - 9)"
    and d: "d = doy - (153 * mp + 2) div 5 + 1"
    and y: "y = yoe + era * 400 + (if m \<le> 2 then 1 else 0)"
    using assms by simp_all
  have yoe: "0 \<le> yoe" "yoe \<le> 399" using parts unfolding yoe_def by linarith+
  have "yoe div 4 = 25 * c + q"
    by (rule int_div_pos_eq [where r = a]) (use parts in \<open>simp_all add: yoe_def\<close>)
  moreover have "yoe div 100 = c"
    by (rule int_div_pos_eq [where r = "4 * q + a"]) (use parts in \<open>simp_all add: yoe_def\<close>)
  moreover have "yoe * 365 + (25 * c + q) - c + doy = doe"
    using parts(9) unfolding yoe_def by (simp add: algebra_simps)
  ultimately have doe_yoe: "yoe * 365 + yoe div 4 - yoe div 100 + doy = doe" by simp
  have y_era: "(if m \<le> 2 then y - 1 else y) = yoe + era * 400" using y by simp
  have era: "(yoe + era * 400) div 400 = era" "(yoe + era * 400) mod 400 = yoe"
    using yoe by simp_all
  have mp': "(if m > 2 then m - 3 else m + 9) = mp" using m mon(1,2) by simp
  have z: "era * 146097 + doe = z" unfolding era_def doe_def by simp
  have "days_from_civil y m d = n"
    unfolding days_from_civil_def Let_def y_era era mp' using doe_yoe z z_def d by simp
  moreover have "1 \<le> m" "m \<le> 12" using m mon by auto
  ultimately show ?thesis using mon d y yoe unfolding era_def z_def by auto
qed

section \<open>toISOString and Date.parse\<close>

definition pad_num :: "nat \<Rightarrow> int \<Rightarrow> string" where
  "pad_num k n = pad_start k CHR ''0'' (dec (nat n))"

definition iso_year :: "int \<Rightarrow> string" where
  "iso_year y =
     (if 0 \<le> y \<and> y \<le> 9999 then pad_num 4 y
      else if y < 0 then ''-'' @ pad_num 6 (- y) else ''+'' @ pad_num 6 y)"

definition toISOString :: "int \<Rightarrow> string" where
  "toISOString ms =
     (case civil_from_days (ms div 86400000) of (y, m, d) \<Rightarrow>
        let t = ms mod 86400000 in
        iso_year y @ ''-'' @ pad_num 2 m @ ''-'' @ pad_num 2 d @ ''T'' @
        pad_num 2 (t div 3600000) @ '':'' @ pad_num 2 (t div 60000 mod 60) @ '':'' @
        pad_num 2 (t div 1000 mod 60) @ ''.'' @ pad_num 3 (t mod 1000) @ ''Z'')"

text \<open>The digits at positions \<open>i .. i + k - 1\<close> of a string, as a number.\<close>

definition field_at :: "string \<Rightarrow> nat \<Rightarrow> nat \<Rightarrow> int" where
  "field_at s i k = int (of_base 10 (take k (drop i s)))"

definition digits_at :: "string \<Rightarrow> nat \<Rightarrow> nat \<Rightarrow> bool" where
  "digits_at s i k \<longleftrightarrow> list_all is_digit (take k (drop i s))"

text \<open>The fixed characters and digit positions of the two ISO forms.\<close>

definition iso_shape :: "string \<Rightarrow> bool" where
  "iso_shape s \<longleftrightarrow>
     (length s = 24 \<and> s ! 19 = CHR ''.'' \<and> digits_at s 20 3 \<and> s ! 23 = CHR ''Z'' \<or>
      length s = 20 \<and> s ! 19 = CHR ''Z'') \<and>
     digits_at s 0 4 \<and> s ! 4 = CHR ''-'' \<and> digits_at s 5 2 \<and> s ! 7 = CHR ''-'' \<and>
     digits_at s 8 2 \<and> s ! 10 = CHR ''T'' \<and> digits_at s 11 2 \<and> s ! 13 = CHR '':'' \<and>
     digits_at s 14 2 \<and> s ! 16 = CHR '':'' \<and> digits_at s 17 2"

definition date_parse :: "(string \<Rightarrow> int option) \<Rightarrow> string \<Rightarrow> int option" where
  "date_parse other s =
     (let y = field_at s 0 4; m = field_at s 5 2; d = field_at s 8 2;
          h = field_at s 11 2; mi = field_at s 14 2; sec = field_at s 17 2;
          milli = (if length s = 24 then field_at s 20 3 else 0)
      in if iso_shape s \<and> 1 \<le> m \<and> m \<le> 12 \<and> 1 \<le> d \<and> d \<le> 31 \<and> h < 24 \<and> mi < 60 \<and> sec < 60
         then Some (days_from_civil y m d * 86400000 + h * 3600000 + mi * 60000 + sec * 1000 + milli)
         else other s)"

lemma pad_num_digits:
  assumes "0 \<le> n" "n < 10 ^ k" "0 < k"
  shows "length (pad_num k n) = k" "list_all is_digit (pad_num k n)"
    "int (of_base 10 (pad_num k n)) = n"
proof -
  have "nat n < 10 ^ k" using assms by (simp add: nat_less_iff)
  then have "length (dec (nat n)) \<le> k" using assms(3) by (intro to_base_length_le) auto
  then show "length (pad_num k n) = k" by (simp add: pad_num_def)
  show "list_all is_digit (pad_num k n)"
    unfolding pad_num_def by (rule pad_start_all) (simp_all add: is_digit_def)
  show "int (of_base 10 (pad_num k n)) = n" using assms(1) by (simp add: pad_num_def)
qed

lemma length_2: "length xs = 2 \<longleftrightarrow> (\<exists>a b. xs = [a, b])"
  by (auto simp: numeral_2_eq_2 length_Suc_conv)

lemma length_3: "length xs = 3 \<longleftrightarrow> (\<exists>a b c. xs = [a, b, c])"
  by (auto simp: numeral_3_eq_3 length_Suc_conv)

lemma length_4: "length xs = 4 \<longleftrightarrow> (\<exists>a b c d. xs = [a, b, c, d])"
  by (auto simp: numeral_Bit0 length_Suc_conv)

text \<open>Reading the parts of a string of the long ISO form.\<close>

lemma date_parse_parts:
  assumes len: "length ys = 4" "length ms = 2" "length ds = 2" "length hs = 2" "length mis = 2"
      "length ss = 2" "length ls = 3"
    and dig: "list_all is_digit (ys @ ms @ ds @ hs @ mis @ ss @ ls)"
    and num: "int (of_base 10 ys) = y" "int (of_base 10 ms) = m" "int (of_base 10 ds) = d"
      "int (of_base 10 hs) = h" "int (of_base 10 mis) = mi" "int (of_base 10 ss) = sec"
      "int (of_base 10 ls) = l"
    and range: "1 \<le> m" "m \<le> 12" "1 \<le> d" "d \<le> 31" "h < 24" "mi < 60" "sec < 60"
  shows "date_parse other (ys @ ''-'' @ ms @ ''-'' @ ds @ ''T'' @ hs @ '':'' @ mis @ '':'' @ ss @
      ''.'' @ ls @ ''Z'') =
    Some (days_from_civil y m d * 86400000 + h * 3600000 + mi * 60000 + sec * 1000 + l)"
proof -
  let ?s = "ys @ ''-'' @ ms @ ''-'' @ ds @ ''T'' @ hs @ '':'' @ mis @ '':'' @ ss @ ''.'' @ ls @ ''Z''"
  from len obtain a b c e f g i j k n p q r t u v w where
    parts: "ys = [a, b, c, e]" "ms = [f, g]" "ds = [i, j]" "hs = [k, n]" "mis = [p, q]"
      "ss = [r, t]" "ls = [u, v, w]"
    unfolding length_2 length_3 length_4 by blast
  have "iso_shape ?s" "length ?s = 24"
    using dig unfolding parts by (simp_all add: iso_shape_def digits_at_def)
  moreover have "field_at ?s 0 4 = y" "field_at ?s 5 2 = m" "field_at ?s 8 2 = d"
      "field_at ?s 11 2 = h" "field_at ?s 14 2 = mi" "field_at ?s 17 2 = sec" "field_at ?s 20 3 = l"
    using num unfolding parts by (simp_all add: field_at_def)
  ultimately show ?thesis using range unfolding date_parse_def Let_def by simp
qed

lemma clock_parts:
  fixes t :: int
  shows "t div 3600000 * 3600000 + t div 60000 mod 60 * 60000 + t div 1000 mod 60 * 1000 +
    t mod 1000 = t"
proof -
  define a where "a = t div 1000"
  define b where "b = a div 60"
  have "t div 60000 = b" "t div 3600000 = b div 60"
    unfolding a_def b_def by (simp_all add: div_mult2_eq [symmetric])
  moreover have "b div 60 * 3600000 + b mod 60 * 60000 + a mod 60 * 1000 + t mod 1000 =
      ((b div 60 * 60 + b mod 60) * 60 + a mod 60) * 1000 + t mod 1000"
    by (simp only: algebra_simps)
  moreover have "(b div 60 * 60 + b mod 60) * 60 + a mod 60 = a" unfolding b_def by simp
  moreover have "a * 1000 + t mod 1000 = t" unfolding a_def by simp
  ultimately show ?thesis unfolding a_def [symmetric] by simp
qed

text \<open>
  \<open>Date.parse(new Date(ms).toISOString()) = ms\<close>, from 1970 until March of the year 9600.
\<close>

lemma date_parse_toISOString:
  assumes "0 \<le> ms" "ms < 240744960000000"
  shows "date_parse other (toISOString ms) = Some ms"
proof -
  define t where "t = ms mod 86400000"
  obtain y m d where ymd: "civil_from_days (ms div 86400000) = (y, m, d)"
    by (cases "civil_from_days (ms div 86400000)")
  note civil = days_civil_days [OF ymd]
  have t: "0 \<le> t" "t < 86400000" unfolding t_def by simp_all
  have "0 \<le> ms div 86400000" "ms div 86400000 \<le> 2786399"
    using assms zdiv_mono1 [of 0 ms 86400000] zdiv_mono1 [of ms 240744959999999 86400000] by simp_all
  then have "4 \<le> (ms div 86400000 + 719468) div 146097" "(ms div 86400000 + 719468) div 146097 \<le> 23"
    using zdiv_mono1 [of 719468 "ms div 86400000 + 719468" 146097]
      zdiv_mono1 [of "ms div 86400000 + 719468" 3505867 146097] by simp_all
  then have y: "0 \<le> y" "y \<le> 9999" using civil by linarith+
  have hms: "0 \<le> t div 3600000" "t div 3600000 < 24" "0 \<le> t div 60000 mod 60" "t div 60000 mod 60 < 60"
      "0 \<le> t div 1000 mod 60" "t div 1000 mod 60 < 60" "0 \<le> t mod 1000" "t mod 1000 < 1000"
    using t zdiv_mono1 [of t 86399999 3600000] by auto
  have iso: "toISOString ms = pad_num 4 y @ ''-'' @ pad_num 2 m @ ''-'' @ pad_num 2 d @ ''T'' @
      pad_num 2 (t div 3600000) @ '':'' @ pad_num 2 (t div 60000 mod 60) @ '':'' @
      pad_num 2 (t div 1000 mod 60) @ ''.'' @ pad_num 3 (t mod 1000) @ ''Z''"
    using y unfolding toISOString_def ymd Let_def t_def iso_year_def by simp
  have bounds: "1 \<le> m" "m \<le> 12" "1 \<le> d" "d \<le> 31" using civil by blast+
  have Y: "length (pad_num 4 y) = 4" "list_all is_digit (pad_num 4 y)"
      "int (of_base 10 (pad_num 4 y)) = y"
    by (rule pad_num_digits; use y in simp)+
  have two: "length (pad_num 2 x) = 2 \<and> list_all is_digit (pad_num 2 x) \<and>
      int (of_base 10 (pad_num 2 x)) = x" if "0 \<le> x" "x < 100" for x
    using pad_num_digits [of x 2] that by simp
  have M: "0 \<le> m" "m < 100" and D: "0 \<le> d" "d < 100" using bounds by linarith+
  have H: "t div 3600000 < 100" "t div 60000 mod 60 < 100" "t div 1000 mod 60 < 100"
    by (rule less_trans, rule hms, simp)+
  have L: "length (pad_num 3 (t mod 1000)) = 3" "list_all is_digit (pad_num 3 (t mod 1000))"
      "int (of_base 10 (pad_num 3 (t mod 1000))) = t mod 1000"
    by (rule pad_num_digits; use hms(7,8) in simp)+
  note parts = Y L two [OF M] two [OF D] two [OF hms(1) H(1)] two [OF hms(3) H(2)]
    two [OF hms(5) H(3)]
  have "date_parse other (toISOString ms) = Some (days_from_civil y m d * 86400000 +
      t div 3600000 * 3600000 + t div 60000 mod 60 * 60000 + t div 1000 mod 60 * 1000 + t mod 1000)"
    unfolding iso
    by (rule date_parse_parts) (simp_all only: parts list_all_append simp_thms bounds hms)
  moreover have "t div 3600000 * 3600000 + t div 60000 mod 60 * 60000 + t div 1000 mod 60 * 1000 +
      t mod 1000 = t"
    by (rule clock_parts)
  moreover have "days_from_civil y m d * 86400000 + t = ms"
    unfolding t_def civil [THEN conjunct1] by simp
  ultimately show ?thesis by (simp only: add.assoc)
qed

end
