(* ===== verification/Validation.thy ===== *)
theory Validation
  imports Contract_Types Js_Date
begin

text \<open>
  \<open>packages/contracts/src/validation.ts\<close>: the shared request validators.  Each throws a 400
  \<open>AppError\<close> or returns the normalised value.  The checksum function \<open>getAddress\<close> is the
  library viem's and stays a parameter of the routes that call it.
\<close>

text \<open>The text of an unvalidated value inside an error message.\<close>

definition got :: "json option \<Rightarrow> string" where
  "got raw = '', got \"'' @ js_string_opt raw @ ''\"''"

definition parseAddress :: "json option \<Rightarrow> string \<Rightarrow> js_error + address" where
  "parseAddress raw field =
     (case raw of
        Some (JStr s) \<Rightarrow>
          if is_hex_of_length 40 s then Inr (to_lower s)
          else Inl (badRequest (field @ '' must be a 0x-prefixed 20-byte hex address'' @ got raw))
      | _ \<Rightarrow> Inl (badRequest (field @ '' must be a 0x-prefixed 20-byte hex address'' @ got raw)))"

definition parseBytes32 :: "json option \<Rightarrow> string \<Rightarrow> js_error + hex" where
  "parseBytes32 raw field =
     (case raw of
        Some (JStr s) \<Rightarrow>
          if is_hex_of_length 64 s then Inr (to_lower s)
          else Inl (badRequest (field @ '' must be 0x-prefixed 32-byte hex'' @ got raw))
      | _ \<Rightarrow> Inl (badRequest (field @ '' must be 0x-prefixed 32-byte hex'' @ got raw)))"

definition parseMandateId :: "json option \<Rightarrow> js_error + hex" where
  "parseMandateId raw = parseBytes32 raw ''mandateId''"

definition parseTxHash :: "json option \<Rightarrow> js_error + hex" where
  "parseTxHash raw = parseBytes32 raw ''txHash''"

definition parseUint :: "json option \<Rightarrow> string \<Rightarrow> js_error + uint" where
  "parseUint raw field =
     (case raw of
        Some (JStr s) \<Rightarrow>
          if is_decimal s then Inr s
          else Inl (badRequest (field @ '' must be a base-unit decimal string (e.g. \"5000000\"), got '' @ js_typeof raw))
      | _ \<Rightarrow> Inl (badRequest (field @ '' must be a base-unit decimal string (e.g. \"5000000\"), got '' @ js_typeof raw)))"

definition parseChainId :: "json option \<Rightarrow> js_error + int" where
  "parseChainId raw =
     (if raw \<in> {None, Some JNull, Some (JStr [])} then Inl (badRequest ''chainId is required'')
      else case map_option js_number raw of
        Some (NInt n) \<Rightarrow>
          if isSupportedChainId n then Inr n
          else Inl (badRequestCode (''unsupported chainId '' @ js_string_opt raw @
                 '' -- expected 43113 or 43114'') UNSUPPORTED_CHAIN)
      | _ \<Rightarrow> Inl (badRequestCode (''unsupported chainId '' @ js_string_opt raw @
                 '' -- expected 43113 or 43114'') UNSUPPORTED_CHAIN))"

definition requireObject :: "json option \<Rightarrow> string \<Rightarrow> js_error + (string \<times> json) list" where
  "requireObject body what =
     (case body of
        Some (JObj fs) \<Rightarrow> Inr fs
      | _ \<Rightarrow> Inl (badRequest (what @ '' must be a JSON object'')))"

definition refuseIfNull :: "'a option \<Rightarrow> error_code \<Rightarrow> string \<Rightarrow> js_error + 'a" where
  "refuseIfNull v c msg = (case v of None \<Rightarrow> Inl (badRequestCode msg c) | Some x \<Rightarrow> Inr x)"

definition isoSeconds :: "int \<Rightarrow> string" where
  "isoSeconds ms = take 19 (toISOString ms) @ ''Z''"

section \<open>What the validators accept\<close>

lemma parseAddress_Inr:
  "parseAddress raw field = Inr a \<longleftrightarrow>
     (\<exists>s. raw = Some (JStr s) \<and> is_hex_of_length 40 s \<and> a = to_lower s)"
  by (auto simp: parseAddress_def split: option.splits json.splits if_splits)

lemma parseBytes32_Inr:
  "parseBytes32 raw field = Inr a \<longleftrightarrow>
     (\<exists>s. raw = Some (JStr s) \<and> is_hex_of_length 64 s \<and> a = to_lower s)"
  by (auto simp: parseBytes32_def split: option.splits json.splits if_splits)

lemma parseUint_Inr:
  "parseUint raw field = Inr s \<longleftrightarrow> raw = Some (JStr s) \<and> is_decimal s"
  by (auto simp: parseUint_def split: option.splits json.splits if_splits)

lemma parseChainId_Inr:
  "parseChainId raw = Inr n \<longleftrightarrow>
     (\<exists>v. raw = Some v \<and> v \<noteq> JNull \<and> v \<noteq> JStr [] \<and> js_number v = NInt n) \<and>
     isSupportedChainId n"
  by (auto simp: parseChainId_def split: option.splits jnum.splits if_splits)

lemma requireObject_Inr [simp]: "requireObject b w = Inr fs \<longleftrightarrow> b = Some (JObj fs)"
  by (auto simp: requireObject_def split: option.splits json.splits)

lemmas parse_Inr = parseAddress_Inr parseBytes32_Inr parseUint_Inr parseChainId_Inr
  parseMandateId_def parseTxHash_def

lemma parseAddress_Inl: "parseAddress raw f = Inl e \<Longrightarrow> thrown_status e = Some 400"
  by (auto simp: parseAddress_def badRequestCode_def split: option.splits json.splits if_splits)

lemma parseBytes32_Inl: "parseBytes32 raw f = Inl e \<Longrightarrow> thrown_status e = Some 400"
  by (auto simp: parseBytes32_def badRequestCode_def split: option.splits json.splits if_splits)

lemma parseUint_Inl: "parseUint raw f = Inl e \<Longrightarrow> thrown_status e = Some 400"
  by (auto simp: parseUint_def badRequestCode_def split: option.splits json.splits if_splits)

lemma parseChainId_Inl: "parseChainId raw = Inl e \<Longrightarrow> thrown_status e = Some 400"
  by (auto simp: parseChainId_def badRequestCode_def split: option.splits jnum.splits if_splits)

lemma requireObject_Inl: "requireObject b w = Inl e \<Longrightarrow> thrown_status e = Some 400"
  by (auto simp: requireObject_def badRequestCode_def split: option.splits json.splits)

text \<open>A parsed amount reads as a number, and a parsed hex value is in lower case.\<close>

lemma parseUint_bigint: "parseUint raw f = Inr s \<Longrightarrow> js_bigint s = Some (int (of_base 10 s))"
  by (simp add: parseUint_Inr bigint_decimal)

lemma parseAddress_lower: "parseAddress raw f = Inr a \<Longrightarrow> to_lower a = a"
  by (auto simp: parseAddress_Inr)

lemma parseAddress_shape: "parseAddress raw f = Inr a \<Longrightarrow> is_hex_of_length 40 a"
  by (auto simp: parseAddress_Inr intro: is_hex_of_length_lower)

lemma parseBytes32_lower: "parseBytes32 raw f = Inr a \<Longrightarrow> to_lower a = a"
  by (auto simp: parseBytes32_Inr)

lemma parseBytes32_shape: "parseBytes32 raw f = Inr a \<Longrightarrow> is_hex_of_length 64 a"
  by (auto simp: parseBytes32_Inr intro: is_hex_of_length_lower)

end
