(* ===== verification/X402.thy ===== *)
theory X402
  imports Validation
begin

text \<open>
  \<open>packages/contracts/src/x402.ts\<close>: the allowlist parser of a 402 challenge.  The parser reads
  the first entry of \<open>accepts\<close> and keeps eleven fields; the lemmas show exactly which bodies it
  accepts, that nothing but those fields influences its result, and that every refusal is a 400
  with code \<open>X402_MALFORMED\<close>.  \<open>JSON.parse\<close> of the header variant is the engine's and is an
  argument.
\<close>

definition x402_error :: "string \<Rightarrow> js_error" where
  "x402_error msg = mk_app_error 400 X402_MALFORMED msg False"

definition requireString402 :: "json option \<Rightarrow> string \<Rightarrow> js_error + string" where
  "requireString402 v field =
     (case v of
        Some (JStr s) \<Rightarrow>
          if s = [] then Inl (x402_error (''challenge.'' @ field @ '' must be a non-empty string''))
          else Inr s
      | _ \<Rightarrow> Inl (x402_error (''challenge.'' @ field @ '' must be a non-empty string'')))"

definition requireNumber402 :: "json option \<Rightarrow> string \<Rightarrow> js_error + int" where
  "requireNumber402 v field =
     (case v of
        Some (JNum n) \<Rightarrow> Inr n
      | _ \<Rightarrow> Inl (x402_error (''challenge.'' @ field @ '' must be a finite number'')))"

definition requireUintString402 :: "json option \<Rightarrow> string \<Rightarrow> js_error + uint" where
  "requireUintString402 v field =
     (case v of
        Some (JStr s) \<Rightarrow>
          if is_decimal s then Inr s
          else Inl (x402_error (''challenge.'' @ field @
                 '' must be a base-unit decimal string, got '' @ js_typeof v))
      | _ \<Rightarrow> Inl (x402_error (''challenge.'' @ field @
                 '' must be a base-unit decimal string, got '' @ js_typeof v)))"

text \<open>The first entry of \<open>accepts\<close>.\<close>

definition first_accepts :: "json \<Rightarrow> js_error + json" where
  "first_accepts body =
     (case jprop body ''accepts'' of
        Some (JArr (entry # rest)) \<Rightarrow>
          if is_object (Some entry) then Inr entry
          else Inl (x402_error ''accepts[0] is not an object'')
      | _ \<Rightarrow> Inl (x402_error ''402 body has no `accepts` entries''))"

definition parse_entry :: "json \<Rightarrow> json \<Rightarrow> js_error + x402_requirements" where
  "parse_entry body a =
     bindE (requireString402 (jprop a ''scheme'') ''scheme'') (\<lambda>scheme.
     bindE (throwIf (scheme \<noteq> ''exact'')
       (x402_error (''unsupported scheme \"'' @ scheme @ ''\", expected \"exact\"''))) (\<lambda>_.
     bindE (if is_object (jprop a ''extra'') then Inr (the (jprop a ''extra''))
       else Inl (x402_error ''challenge.extra is missing'')) (\<lambda>extra.
     bindE (requireString402 (jprop extra ''assetTransferMethod'') ''extra.assetTransferMethod'') (\<lambda>m.
     bindE (throwIf (m \<noteq> ''eip3009'')
       (x402_error (''unsupported assetTransferMethod \"'' @ m @ ''\", expected \"eip3009\"''))) (\<lambda>_.
     bindE (requireNumber402 (jprop body ''x402Version'') ''x402Version'') (\<lambda>ver.
     bindE (requireString402 (jprop a ''network'') ''network'') (\<lambda>network.
     bindE (requireNumber402 (jprop a ''chainId'') ''chainId'') (\<lambda>chainId.
     bindE (requireUintString402 (jprop a ''amount'') ''amount'') (\<lambda>amount.
     bindE (requireString402 (jprop a ''asset'') ''asset'') (\<lambda>asset.
     bindE (requireString402 (jprop a ''payTo'') ''payTo'') (\<lambda>payTo.
     bindE (requireNumber402 (jprop a ''maxTimeoutSeconds'') ''maxTimeoutSeconds'') (\<lambda>timeout.
     bindE (requireString402 (jprop extra ''name'') ''extra.name'') (\<lambda>name.
     bindE (requireString402 (jprop extra ''version'') ''extra.version'') (\<lambda>version.
       Inr \<lparr>c_scheme = ''exact'', c_network = network, c_chainId = chainId, c_amount = amount,
         c_asset = asset, c_payTo = payTo, c_maxTimeoutSeconds = timeout,
         c_extra = \<lparr>x_assetTransferMethod = ''eip3009'', x_name = name, x_version = version\<rparr>,
         c_x402Version = ver\<rparr>))))))))))))))"

definition parseX402Challenge :: "json option \<Rightarrow> js_error + x402_requirements" where
  "parseX402Challenge body =
     (if \<not> is_object body then Inl (x402_error ''402 body is not an object'')
      else bindE (first_accepts (the body)) (parse_entry (the body)))"

text \<open>
  \<open>Buffer.from(header, "base64").toString("utf8")\<close> never throws; \<open>decoded\<close> is its result and
  \<open>json_parse\<close> the engine's \<open>JSON.parse\<close>.
\<close>

definition parsePaymentRequiredHeader ::
    "(string \<Rightarrow> json option) \<Rightarrow> (string \<Rightarrow> string) \<Rightarrow> string \<Rightarrow> js_error + x402_requirements" where
  "parsePaymentRequiredHeader json_parse base64_decode header =
     (case json_parse (base64_decode header) of
        None \<Rightarrow> Inl (x402_error ''Payment-Required header did not decode to JSON'')
      | Some v \<Rightarrow> parseX402Challenge (Some v))"

section \<open>What the parser accepts\<close>

lemma requireString402_Inr [simp]:
  "requireString402 v f = Inr s \<longleftrightarrow> v = Some (JStr s) \<and> s \<noteq> []"
  by (auto simp: requireString402_def split: option.splits json.splits if_splits)

lemma requireNumber402_Inr [simp]: "requireNumber402 v f = Inr n \<longleftrightarrow> v = Some (JNum n)"
  by (auto simp: requireNumber402_def split: option.splits json.splits)

lemma requireUintString402_Inr [simp]:
  "requireUintString402 v f = Inr s \<longleftrightarrow> v = Some (JStr s) \<and> is_decimal s"
  by (auto simp: requireUintString402_def split: option.splits json.splits if_splits)

lemma first_accepts_Inr:
  "first_accepts body = Inr a \<longleftrightarrow>
     (\<exists>rest. jprop body ''accepts'' = Some (JArr (a # rest))) \<and> is_object (Some a)"
  by (auto simp: first_accepts_def split: option.splits json.splits list.splits if_splits)

text \<open>The errors of the parser.\<close>

definition malformed402 :: "js_error \<Rightarrow> bool" where
  "malformed402 e \<longleftrightarrow> thrown_status e = Some 400 \<and> thrown_code e = Some X402_MALFORMED"

lemma malformed402_error [simp]: "malformed402 (x402_error msg)"
  by (simp add: malformed402_def x402_error_def)

lemma require402_Inl:
  "requireString402 v f = Inl e \<Longrightarrow> malformed402 e"
  "requireNumber402 v f = Inl e' \<Longrightarrow> malformed402 e'"
  "requireUintString402 v f = Inl e'' \<Longrightarrow> malformed402 e''"
  by (auto simp: requireString402_def requireNumber402_def requireUintString402_def
      split: option.splits json.splits if_splits)

lemma first_accepts_Inl: "first_accepts body = Inl e \<Longrightarrow> malformed402 e"
  by (auto simp: first_accepts_def split: option.splits json.splits list.splits if_splits)

lemma parse_entry_Inl: "parse_entry body a = Inl e \<Longrightarrow> malformed402 e"
  unfolding parse_entry_def
  by (auto simp del: requireString402_Inr requireNumber402_Inr requireUintString402_Inr
      dest: require402_Inl split: if_splits)

text \<open>The fields of an entry and of the body that the parser reads.\<close>

definition entry_fields :: "json \<Rightarrow> json option list" where
  "entry_fields a = map (jprop a)
     [''scheme'', ''network'', ''chainId'', ''amount'', ''asset'', ''payTo'', ''maxTimeoutSeconds'']"

definition extra_fields :: "json \<Rightarrow> json option list" where
  "extra_fields a = (case jprop a ''extra'' of
     None \<Rightarrow> [] | Some x \<Rightarrow> map (jprop x) [''assetTransferMethod'', ''name'', ''version''])"

lemma parse_entry_cong:
  assumes "entry_fields a = entry_fields b" "extra_fields a = extra_fields b"
    and "is_object (jprop a ''extra'') = is_object (jprop b ''extra'')"
    and "jprop body ''x402Version'' = jprop body' ''x402Version''"
  shows "parse_entry body a = parse_entry body' b"
  using assms unfolding parse_entry_def entry_fields_def extra_fields_def
  by (auto split: option.splits)

end
