(* ===== verification/Intent_Matcher.thy ===== *)
theory Intent_Matcher
  imports Contract_Types
begin

text \<open>
  \<open>services/policy-service/src/matcher.ts\<close>: the token-overlap matcher behind check 9.  A
  \<open>Set\<close> of tokens is a duplicate-free list in insertion order.
\<close>

datatype match_outcome = Match | Uncertain

definition STOPWORDS :: "string list" where
  "STOPWORDS = [''the'', ''a'', ''an'', ''of'', ''and'', ''or'', ''in'', ''size'', ''under'',
     ''up'', ''to'', ''for'', ''with'']"

text \<open>\<open>.replace(/[^a-z0-9\s]/g, " ")\<close> on one character.\<close>

definition plain_char :: "char \<Rightarrow> char" where
  "plain_char c = (if 97 \<le> code c \<and> code c \<le> 122 \<or> is_digit c \<or> is_space c then c else CHR '' '')"

lemma drop_runs_shorter:
  "dropWhile (\<lambda>c. \<not> P c) s \<noteq> [] \<Longrightarrow>
   length (dropWhile P (dropWhile (\<lambda>c. \<not> P c) s)) < length s"
proof (induction s)
  case (Cons c s)
  show ?case
  proof (cases "P c")
    case True
    then show ?thesis using length_dropWhile_le [of P s] by simp
  qed (use Cons in simp)
qed simp

text \<open>\<open>.split(/\s+/)\<close>: the pieces between runs of white space.\<close>

function split_space :: "string \<Rightarrow> string list" where
  "split_space s =
     (let word = takeWhile (\<lambda>c. \<not> is_space c) s; rest = dropWhile (\<lambda>c. \<not> is_space c) s
      in if rest = [] then [word] else word # split_space (dropWhile is_space rest))"
  by pat_completeness auto

termination
  by (relation "measure length") (simp_all add: drop_runs_shorter)

declare split_space.simps [simp del]

text \<open>\<open>new Set(words)\<close> keeps the first of equal words.\<close>

definition js_set :: "'a list \<Rightarrow> 'a list" where
  "js_set xs = fold (\<lambda>x acc. if x \<in> set acc then acc else acc @ [x]) xs []"

definition tokenize :: "string \<Rightarrow> string list" where
  "tokenize text = js_set
     (filter (\<lambda>word. length word > 1 \<and> word \<notin> set STOPWORDS \<and> \<not> is_decimal word)
       (split_space (map plain_char (to_lower text))))"

text \<open>The ratio \<open>overlap / min\<close> is at least one half when twice the overlap reaches the minimum.\<close>

definition heuristicIntentMatcher :: "resolved_item \<Rightarrow> string \<Rightarrow> match_outcome" where
  "heuristicIntentMatcher resolvedItem intentConstraint =
     (let titleTokens = tokenize (r_title resolvedItem); constraintTokens = tokenize intentConstraint
      in if length titleTokens = 0 \<or> length constraintTokens = 0 then Uncertain
         else let overlap = length (filter (\<lambda>t. t \<in> set constraintTokens) titleTokens)
           in if 2 * overlap \<ge> min (length titleTokens) (length constraintTokens) then Match
              else Uncertain)"

lemma js_set_fold:
  "distinct acc \<Longrightarrow>
   set (fold (\<lambda>x acc. if x \<in> set acc then acc else acc @ [x]) xs acc) = set acc \<union> set xs \<and>
   distinct (fold (\<lambda>x acc. if x \<in> set acc then acc else acc @ [x]) xs acc)"
  by (induction xs arbitrary: acc) auto

lemma js_set_simps [simp]: "set (js_set xs) = set xs" "distinct (js_set xs)"
  using js_set_fold [of "[]" xs] by (simp_all add: js_set_def)

text \<open>A match rests on a shared significant word.\<close>

lemma overlap_card:
  "distinct ts \<Longrightarrow> length (filter (\<lambda>t. t \<in> set cs) ts) = card (set ts \<inter> set cs)"
  by (simp add: distinct_card [symmetric] Int_def conj_commute)

lemma distinct_tokenize [simp]: "distinct (tokenize text)"
  by (simp add: tokenize_def)

lemma matcher_iff:
  "heuristicIntentMatcher item constraint = Match \<longleftrightarrow>
     (let T = set (tokenize (r_title item)); C = set (tokenize constraint)
      in T \<noteq> {} \<and> C \<noteq> {} \<and> min (card T) (card C) \<le> 2 * card (T \<inter> C))"
  by (simp add: heuristicIntentMatcher_def Let_def overlap_card distinct_card)

lemma match_shares_word:
  assumes "heuristicIntentMatcher item constraint = Match"
  shows "\<exists>w. w \<in> set (tokenize (r_title item)) \<and> w \<in> set (tokenize constraint) \<and>
    length w > 1 \<and> w \<notin> set STOPWORDS \<and> \<not> is_decimal w"
proof -
  let ?T = "set (tokenize (r_title item))" let ?C = "set (tokenize constraint)"
  have "?T \<noteq> {}" "?C \<noteq> {}" "min (card ?T) (card ?C) \<le> 2 * card (?T \<inter> ?C)"
    using assms unfolding matcher_iff Let_def by auto
  moreover from this have "0 < min (card ?T) (card ?C)" by (simp add: card_gt_0_iff)
  ultimately have "?T \<inter> ?C \<noteq> {}" by (metis card.empty mult_0_right not_le)
  then obtain w where "w \<in> ?T" "w \<in> ?C" by blast
  then show ?thesis by (auto simp: tokenize_def)
qed

end
