(* ===== verification/Ledger_Store.thy ===== *)
theory Ledger_Store
  imports Mandate_Codec Js_Date
begin

text \<open>
  \<open>services/ledger-service/src/store.ts\<close>: the records the ledger keeps, its event feed, and the
  public view of an intent.  An optional field is an \<open>option\<close>.  The JavaScript maps are
  insertion-ordered association lists, so that the iteration order of the routes is kept; an
  object that a route mutates in place is replaced under its key.
\<close>

datatype intent_state =
    INTENT_CREATED | CHALLENGE_ATTACHED | NONCE_RESERVED | SIGNED | SETTLED | CAPTURED

datatype decision = Signed | Refused | Escalated

record settlement =
  s_settlementTx :: string
  s_blockNumber :: int
  s_cardOpaqueId :: string
  s_rawToolResultHash :: "string option"

record spend =
  sp_merchantDomain :: string
  sp_orderTotal :: string
  sp_itemSku :: string
  sp_orderId :: string
  sp_observedAt :: string

record capture =
  cp_orderId :: string
  cp_capturedAt :: string
  cp_settlementTx :: string
  cp_blockNumber :: int

record intent =
  i_requestId :: string
  i_mandateId :: string
  i_agentId :: string
  i_instruction :: string
  i_instructionHash :: string
  i_createdAt :: string
  i_challenge :: "x402_requirements option"
  i_challengeAttachedAt :: "string option"
  i_nonce :: "string option"
  i_nonceReservedAt :: "string option"
  i_nonceReleased :: bool
  i_decision :: "decision option"
  i_decidedAt :: "string option"
  i_policyHash :: "string option"
  i_merchantDomain :: "string option"
  i_validAfter :: "int option"
  i_validBefore :: "int option"
  i_settlement :: "settlement option"
  i_spend :: "spend option"
  i_capture :: "capture option"
  i_state :: intent_state

record decision_entry =
  de_sequence :: nat
  de_requestId :: string
  de_decision :: decision
  de_check :: "string option"
  de_detail :: "string option"
  de_decidedAt :: string

record policy_record =
  pr_policy :: mandate
  pr_policyVersion :: nat

datatype escalation_reason = WINDOW_BUDGET_EXCEEDED | INTENT_MISMATCH

record escalation =
  e_requestId :: string
  e_mandateId :: string
  e_reason :: escalation_reason
  e_approvalUrl :: string
  e_createdAt :: string
  e_expiresAt :: int
  e_ttlSeconds :: int
  e_resolved :: bool
  e_decision :: "escalation_decision option"
  e_approvedBy :: "string option"
  e_resolvedAt :: "string option"
  e_merchantDomain :: "string option"

section \<open>The public view of an intent\<close>

record challenge_view =
  cv_payTo :: address
  cv_asset :: address
  cv_chainId :: int
  cv_amount :: uint

record intent_view =
  v_requestId :: string
  v_mandateId :: string
  v_agentId :: string
  v_instruction :: string
  v_instructionHash :: string
  v_createdAt :: string
  v_state :: intent_state
  v_decision :: "decision option"
  v_decidedAt :: "string option"
  v_policyHash :: "string option"
  v_merchantDomain :: "string option"
  v_challenge :: "challenge_view option"
  v_nonce :: "string option"
  v_nonceReserved :: bool
  v_settlement :: "(string \<times> int \<times> string) option"
  v_spend :: "spend option"
  v_capture :: "capture option"

definition challengeViewOf :: "x402_requirements \<Rightarrow> challenge_view" where
  "challengeViewOf c = \<lparr>cv_payTo = c_payTo c, cv_asset = c_asset c, cv_chainId = c_chainId c,
     cv_amount = c_amount c\<rparr>"

text \<open>\<open>...(x ? { f: x } : {})\<close> drops an empty string as well as \<open>undefined\<close>.\<close>

definition truthy_only :: "string option \<Rightarrow> string option" where
  "truthy_only x = (if falsy x then None else x)"

definition intentViewOf :: "intent \<Rightarrow> intent_view" where
  "intentViewOf i =
     \<lparr>v_requestId = i_requestId i, v_mandateId = i_mandateId i, v_agentId = i_agentId i,
      v_instruction = i_instruction i, v_instructionHash = i_instructionHash i,
      v_createdAt = i_createdAt i, v_state = i_state i,
      v_decision = i_decision i,
      v_decidedAt = truthy_only (i_decidedAt i),
      v_policyHash = truthy_only (i_policyHash i),
      v_merchantDomain = truthy_only (i_merchantDomain i),
      v_challenge = map_option challengeViewOf (i_challenge i),
      v_nonce = i_nonce i,
      v_nonceReserved = (i_nonce i \<noteq> None \<and> \<not> i_nonceReleased i),
      v_settlement = map_option (\<lambda>s. (s_settlementTx s, s_blockNumber s, s_cardOpaqueId s))
        (i_settlement i),
      v_spend = i_spend i,
      v_capture = i_capture i\<rparr>"

section \<open>The event feed and the store\<close>

datatype event_payload =
    IntentCreated string string string intent_view
  | ChallengeAttached string string intent_view
  | NonceReserved string string intent_view
  | NonceReleased string string intent_view
  | DecisionRecorded string string decision "string option" "string option" intent_view
  | SettlementRecorded string string string int intent_view
  | SpendRecorded string string string string string intent_view
  | CaptureRecorded string string string string intent_view
  | EscalationCreated string string escalation_reason int string int
  | EscalationResolved string string escalation_decision string
  | PolicyPut string nat
  | StandingApprovalSet string string int

record ledger_event =
  ev_seq :: nat
  ev_at :: string
  ev_payload :: event_payload

record ledger =
  l_intents :: "intent jsmap"
  l_decisionLog :: "decision_entry list"
  l_policies :: "policy_record jsmap"
  l_escalations :: "escalation jsmap"
  l_standing :: "int jsmap"
  l_seq :: nat
  l_events :: "ledger_event list"

definition empty_ledger :: ledger where
  "empty_ledger = \<lparr>l_intents = [], l_decisionLog = [], l_policies = [], l_escalations = [],
     l_standing = [], l_seq = 0, l_events = []\<rparr>"

text \<open>\<open>appendEvent\<close>: the counter is incremented first, the event carries its new value.\<close>

definition appendEvent :: "int \<Rightarrow> event_payload \<Rightarrow> ledger \<Rightarrow> ledger" where
  "appendEvent now payload l =
     l\<lparr>l_seq := l_seq l + 1,
       l_events := l_events l @ [\<lparr>ev_seq = l_seq l + 1, ev_at = toISOString now, ev_payload = payload\<rparr>]\<rparr>"

text \<open>Store an intent under its key and announce the mutation.\<close>

definition put_intent :: "int \<Rightarrow> (intent_view \<Rightarrow> event_payload) \<Rightarrow> string \<Rightarrow> intent \<Rightarrow> ledger \<Rightarrow> ledger" where
  "put_intent now ev requestId i l =
     appendEvent now (ev (intentViewOf i)) (l\<lparr>l_intents := jset requestId i (l_intents l)\<rparr>)"

definition resetStore :: "ledger \<Rightarrow> ledger" where
  "resetStore l = l\<lparr>l_intents := [], l_policies := [], l_decisionLog := [], l_escalations := [],
     l_standing := []\<rparr>"

text \<open>
  The intent whose state changes are followed by every route: the projections that
  \<open>appendEvent\<close> and \<open>put_intent\<close> leave alone.
\<close>

lemma appendEvent_simps [simp]:
  "l_intents (appendEvent now p l) = l_intents l"
  "l_decisionLog (appendEvent now p l) = l_decisionLog l"
  "l_policies (appendEvent now p l) = l_policies l"
  "l_escalations (appendEvent now p l) = l_escalations l"
  "l_standing (appendEvent now p l) = l_standing l"
  "l_seq (appendEvent now p l) = l_seq l + 1"
  by (simp_all add: appendEvent_def)

lemma put_intent_simps [simp]:
  "l_intents (put_intent now ev k i l) = jset k i (l_intents l)"
  "l_decisionLog (put_intent now ev k i l) = l_decisionLog l"
  "l_policies (put_intent now ev k i l) = l_policies l"
  "l_escalations (put_intent now ev k i l) = l_escalations l"
  "l_standing (put_intent now ev k i l) = l_standing l"
  "l_seq (put_intent now ev k i l) = l_seq l + 1"
  by (simp_all add: put_intent_def)

end
