(* ===== verification/Policy_Checks.thy ===== *)
theory Policy_Checks
  imports Intent_Matcher Mandate_Codec Js_Date Ledger_Store
begin

text \<open>
  \<open>services/policy-service/src/checks\<close>: the eight deterministic checks, their order, and the
  escalation gate of check 9.  A check returns \<open>None\<close> when it passes.  Checks 5 and 6 convert
  amounts with \<open>BigInt\<close>, which throws on a text that is no integer.
\<close>

section \<open>Types\<close>

record registry_mandate =
  rm_owner :: address
  rm_policyHash :: hex
  rm_expiresAt :: int
  rm_revoked :: bool

record check_context =
  cx_now :: int
  cx_mandate :: mandate
  cx_registry :: "registry_mandate option"
  cx_challenge :: x402_requirements
  cx_requestedAmount :: uint
  cx_spent :: uint
  cx_cardCount :: int
  cx_intentCreatedAt :: string
  cx_challengeAttachedAt :: "string option"
  cx_maxSaneValiditySeconds :: int

datatype check_failure =
    Refuse (failed_check: string) string
  | Escalate (failed_check: string) escalation_reason string

type_synonym check_result = "js_error + check_failure option"

section \<open>The checks\<close>

definition precondition_intent_exists :: "intent option \<Rightarrow> check_failure option" where
  "precondition_intent_exists intentRecord =
     (if intentRecord = None
      then Some (Refuse ''precondition_intent_exists'' ''no intent record exists for this requestId'')
      else None)"

definition check1_mandate_live :: "check_context \<Rightarrow> check_result" where
  "check1_mandate_live ctx =
     (case cx_registry ctx of
        None \<Rightarrow> Inr (Some (Refuse ''check1_mandate_live''
          (''mandate '' @ m_mandateId (cx_mandate ctx) @ '' not found on-chain'')))
      | Some r \<Rightarrow>
          if rm_revoked r then Inr (Some (Refuse ''check1_mandate_live''
            (''mandate '' @ m_mandateId (cx_mandate ctx) @ '' is revoked on-chain'')))
          else if cx_now ctx \<ge> rm_expiresAt r then Inr (Some (Refuse ''check1_mandate_live''
            (''mandate expired at '' @ dec_int (rm_expiresAt r) @ '', now is '' @ dec_int (cx_now ctx))))
          else Inr None)"

definition check2_policy_hash :: "(string \<Rightarrow> hex) \<Rightarrow> check_context \<Rightarrow> check_result" where
  "check2_policy_hash keccak_text ctx =
     (case cx_registry ctx of
        None \<Rightarrow> Inr None
      | Some r \<Rightarrow>
          let localHash = hashPolicy keccak_text (cx_mandate ctx)
          in if to_lower localHash \<noteq> to_lower (rm_policyHash r)
             then Inr (Some (Refuse ''check2_policy_hash''
               (''local policyHash '' @ localHash @ '' != on-chain policyHash '' @ rm_policyHash r)))
             else Inr None)"

definition check3_chain_asset :: "check_context \<Rightarrow> check_result" where
  "check3_chain_asset ctx =
     (let c = cx_challenge ctx; m = cx_mandate ctx
      in if c_chainId c \<noteq> m_chainId m then Inr (Some (Refuse ''check3_chain_asset''
           (''challenge.chainId '' @ dec_int (c_chainId c) @ '' != mandate.chainId '' @ dec_int (m_chainId m))))
         else if to_lower (c_asset c) \<noteq> to_lower (m_asset m) then Inr (Some (Refuse ''check3_chain_asset''
           (''challenge.asset '' @ c_asset c @ '' != mandate.asset '' @ m_asset m)))
         else Inr None)"

definition check4_recipient_pinned :: "check_context \<Rightarrow> check_result" where
  "check4_recipient_pinned ctx =
     (let c = cx_challenge ctx; m = cx_mandate ctx
      in if to_lower (c_payTo c) \<noteq> to_lower (m_settlementRecipient m)
         then Inr (Some (Refuse ''check4_recipient_pinned''
           (''challenge.payTo '' @ c_payTo c @ '' != mandate.settlementRecipient '' @ m_settlementRecipient m)))
         else Inr None)"

definition MIN_AMOUNT_BASE_UNITS :: int where "MIN_AMOUNT_BASE_UNITS = 5000000"

definition HARD_CAP_BASE_UNITS :: int where "HARD_CAP_BASE_UNITS = 30000000"

definition check5_amount_bounds :: "check_context \<Rightarrow> check_result" where
  "check5_amount_bounds ctx =
     bindE (bigint (c_amount (cx_challenge ctx))) (\<lambda>amount.
     bindE (bigint (m_maxPerCard (cx_mandate ctx))) (\<lambda>maxPerCard.
       let ceiling = (if maxPerCard < HARD_CAP_BASE_UNITS then maxPerCard else HARD_CAP_BASE_UNITS)
       in if amount < MIN_AMOUNT_BASE_UNITS \<or> amount > ceiling
          then Inr (Some (Refuse ''check5_amount_bounds''
            (''challenge.amount '' @ dec_int amount @ '' outside bounds ['' @
             dec_int MIN_AMOUNT_BASE_UNITS @ '', '' @ dec_int ceiling @ '']'')))
          else if c_amount (cx_challenge ctx) \<noteq> cx_requestedAmount ctx
          then Inr (Some (Refuse ''check5_amount_bounds''
            (''challenge.amount '' @ c_amount (cx_challenge ctx) @ '' != requestedAmount '' @
             cx_requestedAmount ctx)))
          else Inr None))"

definition check6_window_budget :: "check_context \<Rightarrow> check_result" where
  "check6_window_budget ctx =
     bindE (bigint (cx_spent ctx)) (\<lambda>spent.
     bindE (bigint (c_amount (cx_challenge ctx))) (\<lambda>amount.
     bindE (bigint (m_maxPerWindow (cx_mandate ctx))) (\<lambda>maxPerWindow.
       if spent + amount > maxPerWindow
       then Inr (Some (Escalate ''check6_window_budget'' WINDOW_BUDGET_EXCEEDED
         (''spent '' @ dec_int spent @ '' + amount '' @ dec_int amount @ '' > maxPerWindow '' @
          dec_int maxPerWindow)))
       else if cx_cardCount ctx \<ge> m_maxCardsPerWindow (cx_mandate ctx)
       then Inr (Some (Escalate ''check6_window_budget'' WINDOW_BUDGET_EXCEEDED
         (''cardCount '' @ dec_int (cx_cardCount ctx) @ '' >= maxCardsPerWindow '' @
          dec_int (m_maxCardsPerWindow (cx_mandate ctx)))))
       else Inr None)))"

definition check7_validity_sane :: "check_context \<Rightarrow> check_result" where
  "check7_validity_sane ctx =
     (let window = min (m_maxAuthValiditySeconds (cx_mandate ctx)) (c_maxTimeoutSeconds (cx_challenge ctx))
      in if window > cx_maxSaneValiditySeconds ctx
         then Inr (Some (Refuse ''check7_validity_sane''
           (''computed window '' @ dec_int window @ ''s exceeds sane ceiling '' @
            dec_int (cx_maxSaneValiditySeconds ctx) @ ''s'')))
         else Inr None)"

text \<open>A comparison with \<open>NaN\<close> is false: two strings of which one is no date pass.\<close>

definition check8_intent_bound :: "(string \<Rightarrow> int option) \<Rightarrow> check_context \<Rightarrow> check_result" where
  "check8_intent_bound other ctx =
     (if falsy (cx_challengeAttachedAt ctx)
      then Inr (Some (Refuse ''check8_intent_bound'' ''no challenge is attached to this intent''))
      else let attached = the (cx_challengeAttachedAt ctx)
        in if (case (date_parse other (cx_intentCreatedAt ctx), date_parse other attached) of
                 (Some created, Some att) \<Rightarrow> created \<ge> att | _ \<Rightarrow> False)
           then Inr (Some (Refuse ''check8_intent_bound''
             (''intent.createdAt '' @ cx_intentCreatedAt ctx @
              '' is not strictly before challengeAttachedAt '' @ attached)))
           else Inr None)"

text \<open>Check 9; the matcher is an argument, as in the source.\<close>

definition check9_intent_match ::
    "(resolved_item \<Rightarrow> string \<Rightarrow> match_outcome) \<Rightarrow> resolved_item \<Rightarrow> string \<Rightarrow> string list \<Rightarrow> bool \<Rightarrow>
     check_failure option" where
  "check9_intent_match matcher resolvedItem intentConstraint merchantAllowlist hasStandingApproval =
     (if hasStandingApproval then None
      else let allowlisted = merchantAllowlist = [] \<or>
             (\<exists>domain \<in> set merchantAllowlist. to_lower domain = to_lower (r_merchantDomain resolvedItem))
        in if \<not> allowlisted
           then Some (Escalate ''check9_intent_match'' INTENT_MISMATCH
             (''resolvedItem.merchantDomain '' @ r_merchantDomain resolvedItem @
              '' is not in merchantAllowlist''))
           else if matcher resolvedItem intentConstraint = Uncertain
           then Some (Escalate ''check9_intent_match'' INTENT_MISMATCH
             (''resolvedItem \"'' @ r_title resolvedItem @
              ''\" does not confidently match intentConstraint \"'' @ intentConstraint @ ''\"''))
           else None)"

section \<open>Order, indices and explanations\<close>

definition CHECKS ::
    "(string \<Rightarrow> hex) \<Rightarrow> (string \<Rightarrow> int option) \<Rightarrow> (string \<times> (check_context \<Rightarrow> check_result)) list" where
  "CHECKS keccak_text other =
     [(''check1_mandate_live'', check1_mandate_live),
      (''check2_policy_hash'', check2_policy_hash keccak_text),
      (''check3_chain_asset'', check3_chain_asset),
      (''check4_recipient_pinned'', check4_recipient_pinned),
      (''check5_amount_bounds'', check5_amount_bounds),
      (''check6_window_budget'', check6_window_budget),
      (''check7_validity_sane'', check7_validity_sane),
      (''check8_intent_bound'', check8_intent_bound other)]"

definition CHECK_INDEX :: "string \<Rightarrow> nat option" where
  "CHECK_INDEX = map_of
     [(''precondition_intent_exists'', 0), (''precondition_merchant_domain'', 0),
      (''check1_mandate_live'', 1), (''check2_policy_hash'', 2), (''check3_chain_asset'', 3),
      (''check4_recipient_pinned'', 4), (''check5_amount_bounds'', 5),
      (''check6_window_budget'', 6), (''check7_validity_sane'', 7), (''check8_intent_bound'', 8)]"

definition HUMAN_EXPLANATIONS :: "string \<Rightarrow> string option" where
  "HUMAN_EXPLANATIONS = map_of
     [(''precondition_intent_exists'',
       ''No record of this purchase request exists. Nothing was signed and no money moved.''),
      (''precondition_merchant_domain'',
       ''The merchant domain required to bind this payment was missing. Nothing was signed and no money moved.''),
      (''check1_mandate_live'',
       ''This mandate is not currently active -- it may be revoked or expired. Nothing was signed and no money moved.''),
      (''check2_policy_hash'',
       ''The stored purchase policy no longer matches what was authorised on-chain. Nothing was signed and no money moved.''),
      (''check3_chain_asset'',
       ''The payment requirements name a different network or token than this mandate allows. Nothing was signed and no money moved.''),
      (''check4_recipient_pinned'',
       ''The payment was addressed to an account this mandate does not recognise. Nothing was signed and no money moved.''),
      (''check5_amount_bounds'',
       ''The requested amount falls outside what this mandate permits. Nothing was signed and no money moved.''),
      (''check7_validity_sane'',
       ''The signature validity window computed for this payment was longer than allowed. Nothing was signed and no money moved.''),
      (''check8_intent_bound'',
       ''This payment request has no verified purchase instruction behind it. Nothing was signed and no money moved.'')]"

text \<open>The loop over \<open>CHECKS\<close>: the names passed and the first failure, if any.\<close>

fun run_checks ::
    "(string \<times> (check_context \<Rightarrow> check_result)) list \<Rightarrow> check_context \<Rightarrow> string list \<Rightarrow>
     js_error + string list \<times> check_failure option" where
  "run_checks [] ctx checksPassed = Inr (checksPassed, None)"
| "run_checks ((name, fn) # rest) ctx checksPassed =
     (case fn ctx of
        Inl e \<Rightarrow> Inl e
      | Inr None \<Rightarrow> run_checks rest ctx (checksPassed @ [name])
      | Inr (Some failure) \<Rightarrow> Inr (checksPassed, Some failure))"

end
