(* ===== verification/Policy_Check_Properties.thy ===== *)
theory Policy_Check_Properties
  imports Policy_Checks
begin

text \<open>
  What the checks decide.  One lemma per check says when it passes; \<open>payment_allowed\<close> is the
  specification of the whole list, and the loop of the service decides it, stops at the first
  failure, and can only escalate at check 6.
\<close>

named_theorems check_pass \<open>when a check passes\<close>

lemma check1_pass [check_pass]: "check1_mandate_live ctx = Inr None \<longleftrightarrow>
    (\<exists>r. cx_registry ctx = Some r \<and> \<not> rm_revoked r \<and> cx_now ctx < rm_expiresAt r)"
  by (auto simp: check1_mandate_live_def split: option.splits)

lemma check2_pass [check_pass]: "check2_policy_hash h ctx = Inr None \<longleftrightarrow>
    (\<forall>r. cx_registry ctx = Some r \<longrightarrow>
       to_lower (hashPolicy h (cx_mandate ctx)) = to_lower (rm_policyHash r))"
  by (auto simp: check2_policy_hash_def Let_def split: option.splits)

lemma check3_pass [check_pass]: "check3_chain_asset ctx = Inr None \<longleftrightarrow>
    c_chainId (cx_challenge ctx) = m_chainId (cx_mandate ctx) \<and>
    to_lower (c_asset (cx_challenge ctx)) = to_lower (m_asset (cx_mandate ctx))"
  by (simp add: check3_chain_asset_def Let_def)

lemma check4_pass [check_pass]: "check4_recipient_pinned ctx = Inr None \<longleftrightarrow>
    to_lower (c_payTo (cx_challenge ctx)) = to_lower (m_settlementRecipient (cx_mandate ctx))"
  by (simp add: check4_recipient_pinned_def Let_def)

lemma check5_pass [check_pass]: "check5_amount_bounds ctx = Inr None \<longleftrightarrow>
    (\<exists>a p. js_bigint (c_amount (cx_challenge ctx)) = Some a \<and>
       js_bigint (m_maxPerCard (cx_mandate ctx)) = Some p \<and>
       5000000 \<le> a \<and> a \<le> p \<and> a \<le> 30000000 \<and> c_amount (cx_challenge ctx) = cx_requestedAmount ctx)"
  by (cases "js_bigint (c_amount (cx_challenge ctx))"; cases "js_bigint (m_maxPerCard (cx_mandate ctx))")
    (auto simp: check5_amount_bounds_def Let_def MIN_AMOUNT_BASE_UNITS_def HARD_CAP_BASE_UNITS_def
      bigint_def)

lemma check6_pass [check_pass]: "check6_window_budget ctx = Inr None \<longleftrightarrow>
    (\<exists>s a w. js_bigint (cx_spent ctx) = Some s \<and>
       js_bigint (c_amount (cx_challenge ctx)) = Some a \<and>
       js_bigint (m_maxPerWindow (cx_mandate ctx)) = Some w \<and> s + a \<le> w \<and>
       cx_cardCount ctx < m_maxCardsPerWindow (cx_mandate ctx))"
  by (cases "js_bigint (cx_spent ctx)"; cases "js_bigint (c_amount (cx_challenge ctx))";
      cases "js_bigint (m_maxPerWindow (cx_mandate ctx))")
    (auto simp: check6_window_budget_def bigint_def)

lemma check7_pass [check_pass]: "check7_validity_sane ctx = Inr None \<longleftrightarrow>
    min (m_maxAuthValiditySeconds (cx_mandate ctx)) (c_maxTimeoutSeconds (cx_challenge ctx))
      \<le> cx_maxSaneValiditySeconds ctx"
  by (auto simp: check7_validity_sane_def Let_def)

lemma check8_pass [check_pass]: "check8_intent_bound other ctx = Inr None \<longleftrightarrow>
    (\<exists>att. cx_challengeAttachedAt ctx = Some att \<and> att \<noteq> [] \<and>
       (\<forall>c a. date_parse other (cx_intentCreatedAt ctx) = Some c \<longrightarrow>
          date_parse other att = Some a \<longrightarrow> c < a))"
  by (auto simp: check8_intent_bound_def Let_def split: option.splits)

lemma check_failure_names:
  "check1_mandate_live ctx = Inr (Some f) \<Longrightarrow> \<exists>d. f = Refuse ''check1_mandate_live'' d"
  "check2_policy_hash h ctx = Inr (Some f) \<Longrightarrow> \<exists>d. f = Refuse ''check2_policy_hash'' d"
  "check3_chain_asset ctx = Inr (Some f) \<Longrightarrow> \<exists>d. f = Refuse ''check3_chain_asset'' d"
  "check4_recipient_pinned ctx = Inr (Some f) \<Longrightarrow> \<exists>d. f = Refuse ''check4_recipient_pinned'' d"
  "check5_amount_bounds ctx = Inr (Some f) \<Longrightarrow> \<exists>d. f = Refuse ''check5_amount_bounds'' d"
  "check6_window_budget ctx = Inr (Some f) \<Longrightarrow>
     \<exists>d. f = Escalate ''check6_window_budget'' WINDOW_BUDGET_EXCEEDED d"
  "check7_validity_sane ctx = Inr (Some f) \<Longrightarrow> \<exists>d. f = Refuse ''check7_validity_sane'' d"
  "check8_intent_bound other ctx = Inr (Some f) \<Longrightarrow> \<exists>d. f = Refuse ''check8_intent_bound'' d"
  by (auto simp: check1_mandate_live_def check2_policy_hash_def check3_chain_asset_def
      check4_recipient_pinned_def check5_amount_bounds_def check6_window_budget_def
      check7_validity_sane_def check8_intent_bound_def Let_def split: option.splits if_splits)

section \<open>The loop\<close>

lemma run_checks_pass:
  "run_checks cs ctx ps = Inr (qs, None) \<longleftrightarrow>
     (\<forall>(n, fn) \<in> set cs. fn ctx = Inr None) \<and> qs = ps @ map fst cs"
  by (induction cs ctx ps rule: run_checks.induct) (auto split: sum.splits option.splits)

lemma run_checks_fail:
  "run_checks cs ctx ps = Inr (qs, Some f) \<Longrightarrow>
   \<exists>as n fn bs. cs = as @ (n, fn) # bs \<and> (\<forall>(m, g) \<in> set as. g ctx = Inr None) \<and>
     qs = ps @ map fst as \<and> fn ctx = Inr (Some f)"
proof (induction cs ctx ps rule: run_checks.induct)
  case (2 name fn rest ctx ps)
  show ?case
  proof (cases "fn ctx = Inr None")
    case True
    with 2 obtain as n gn bs where "rest = as @ (n, gn) # bs" "\<forall>(m, g) \<in> set as. g ctx = Inr None"
        "qs = (ps @ [name]) @ map fst as" "gn ctx = Inr (Some f)" by fastforce
    with True show ?thesis by (intro exI [of _ "(name, fn) # as"]) auto
  next
    case False
    with "2.prems" have "fn ctx = Inr (Some f)" "qs = ps"
      by (auto split: sum.splits option.splits)
    then show ?thesis by fastforce
  qed
qed simp

text \<open>The specification of checks 1 to 8.\<close>

definition payment_allowed :: "(string \<Rightarrow> hex) \<Rightarrow> (string \<Rightarrow> int option) \<Rightarrow> check_context \<Rightarrow> bool" where
  "payment_allowed h other ctx \<longleftrightarrow>
     (let m = cx_mandate ctx; c = cx_challenge ctx in
      (\<exists>r. cx_registry ctx = Some r \<and> \<not> rm_revoked r \<and> cx_now ctx < rm_expiresAt r \<and>
         to_lower (hashPolicy h m) = to_lower (rm_policyHash r)) \<and>
      c_chainId c = m_chainId m \<and> to_lower (c_asset c) = to_lower (m_asset m) \<and>
      to_lower (c_payTo c) = to_lower (m_settlementRecipient m) \<and>
      (\<exists>a p s w. js_bigint (c_amount c) = Some a \<and> js_bigint (m_maxPerCard m) = Some p \<and>
         js_bigint (cx_spent ctx) = Some s \<and> js_bigint (m_maxPerWindow m) = Some w \<and>
         5000000 \<le> a \<and> a \<le> 30000000 \<and> a \<le> p \<and> s + a \<le> w) \<and>
      c_amount c = cx_requestedAmount ctx \<and> cx_cardCount ctx < m_maxCardsPerWindow m \<and>
      min (m_maxAuthValiditySeconds m) (c_maxTimeoutSeconds c) \<le> cx_maxSaneValiditySeconds ctx \<and>
      (\<exists>att. cx_challengeAttachedAt ctx = Some att \<and> att \<noteq> [] \<and>
         (\<forall>x y. date_parse other (cx_intentCreatedAt ctx) = Some x \<longrightarrow>
            date_parse other att = Some y \<longrightarrow> x < y)))"

lemma all_checks_pass:
  "(\<forall>(n, fn) \<in> set (CHECKS h other). fn ctx = Inr None) \<longleftrightarrow> payment_allowed h other ctx"
  unfolding payment_allowed_def Let_def
  by (simp add: CHECKS_def check_pass) (auto 0 3)

text \<open>A check reports its own name, and only check 6 escalates.\<close>

lemma checks_fail_name:
  assumes "(n, fn) \<in> set (CHECKS h other)" "fn ctx = Inr (Some f)"
  shows "failed_check f = n \<and>
    (case f of Refuse c d \<Rightarrow> n \<noteq> ''check6_window_budget''
     | Escalate c r d \<Rightarrow> n = ''check6_window_budget'' \<and> r = WINDOW_BUDGET_EXCEEDED)"
  using assms by (auto simp: CHECKS_def dest!: check_failure_names)

lemma CHECK_INDEX_nth:
  "k < 8 \<Longrightarrow> CHECK_INDEX (fst (CHECKS h other ! k)) = Some (k + 1)"
  by (simp add: CHECKS_def CHECK_INDEX_def less_Suc_eq numeral_eq_Suc) auto

lemma explained:
  "(n, fn) \<in> set (CHECKS h other) \<Longrightarrow> n \<noteq> ''check6_window_budget'' \<Longrightarrow> HUMAN_EXPLANATIONS n \<noteq> None"
  by (auto simp: CHECKS_def HUMAN_EXPLANATIONS_def)

lemma run_checks_allowed:
  "run_checks (CHECKS h other) ctx [] = Inr (ps, None) \<longleftrightarrow>
     payment_allowed h other ctx \<and> ps = map fst (CHECKS h other)"
  unfolding run_checks_pass using all_checks_pass [of h other ctx] by auto

text \<open>C11. The check loop of the policy service passes exactly when the payment is allowed: the mandate is
  live and its hash is the one on chain, chain, asset and recipient are pinned, the amount is the
  requested one, between 5 and 30 XSGD and under the mandate's ceiling, the window budget and card
  count have room, the validity is sane and the challenge was attached after the intent.  It then
  reports the eight names in order.\<close>

theorem checks_decide_payment_allowed:
  "run_checks (CHECKS h other) ctx [] = Inr (ps, None) \<longleftrightarrow>
     payment_allowed h other ctx \<and> ps = map fst (CHECKS h other)"
  by (rule run_checks_allowed)

text \<open>The first failing check decides: the checks before it passed and are the ones reported, a refusal
  names a check with its own index and explanation, and the only check of the loop that escalates
  is the window budget.\<close>

theorem first_failure_decides:
  assumes "run_checks (CHECKS h other) ctx [] = Inr (ps, Some f)"
  shows "(\<forall>(n, fn) \<in> set (take (length ps) (CHECKS h other)). fn ctx = Inr None) \<and>
    ps = map fst (take (length ps) (CHECKS h other)) \<and>
    CHECK_INDEX (failed_check f) = Some (length ps + 1) \<and>
    (case f of
       Refuse c d \<Rightarrow> c \<noteq> ''check6_window_budget'' \<and> HUMAN_EXPLANATIONS c \<noteq> None
     | Escalate c r d \<Rightarrow> c = ''check6_window_budget'' \<and> r = WINDOW_BUDGET_EXCEEDED)"
proof -
  obtain as n fn bs where s: "CHECKS h other = as @ (n, fn) # bs" "\<forall>(m, g) \<in> set as. g ctx = Inr None"
      "ps = map fst as" "fn ctx = Inr (Some f)"
    using run_checks_fail [OF assms] by auto
  have k: "length as < 8"
    using arg_cong [OF s(1), of length] by (simp add: CHECKS_def)
  have mem: "(n, fn) \<in> set (CHECKS h other)" and nth: "CHECKS h other ! length as = (n, fn)"
    by (simp_all add: s(1))
  have idx: "CHECK_INDEX n = Some (length as + 1)"
    using CHECK_INDEX_nth [OF k, of h other] by (simp add: nth)
  have "take (length ps) (CHECKS h other) = as" by (simp add: s)
  then show ?thesis
    using s checks_fail_name [OF mem s(4)] idx explained [OF mem] by (cases f) simp_all
qed

end
