(* ===== verification/Ledger_Service.thy ===== *)
theory Ledger_Service
  imports Ledger_Store Http_Plumbing
begin

text \<open>
  The routes of \<open>services/ledger-service/src/app.ts\<close>.  A handler takes the instant \<open>now\<close> of
  \<open>Date.now()\<close> in milliseconds, the fields of its path, query or body (an absent field is
  \<open>None\<close>) and the store, and returns the reply and the store it leaves.  No handler of the
  ledger awaits between its guard and its write, so a handler is one step.
\<close>

section \<open>Authentication\<close>

text \<open>
  The \<open>onRequest\<close> hook.  An unset \<open>INTERNAL_TOKEN\<close> falls back to the literal
  \<open>dev-secret\<close>; the health route is matched on the whole url.
\<close>

definition ledger_token :: "environment \<Rightarrow> string" where
  "ledger_token env = coalesce (env ''INTERNAL_TOKEN'') ''dev-secret''"

definition ledger_auth :: "string \<Rightarrow> request \<Rightarrow> 'b reply option" where
  "ledger_auth internalToken req =
     (if rq_url req = ''/health'' then None
      else if rq_headers req ''x-internal-token'' \<noteq> Some internalToken
        then Some (sendError 401 ''UNAUTHORIZED'' ''missing or invalid X-Internal-Token'' ''n/a'' False)
      else None)"

section \<open>Intents\<close>

text \<open>
  \<open>POST /intent\<close> (B3).  \<open>hash\<close> is the library's \<open>keccak256(toBytes(s))\<close>.  The body of the
  reply is \<open>requestId\<close>, \<open>state\<close>, \<open>instructionHash\<close> and \<open>immutable\<close>.
\<close>

definition post_intent ::
    "(string \<Rightarrow> hex) \<Rightarrow> int \<Rightarrow> string option \<Rightarrow> string option \<Rightarrow> string option \<Rightarrow> string option \<Rightarrow>
     string option \<Rightarrow> ledger \<Rightarrow> (string \<times> intent_state \<times> string \<times> bool) reply \<times> ledger" where
  "post_intent hash now requestId mandateId agentId instruction createdAt l =
     (if falsy requestId \<or> falsy mandateId \<or> falsy agentId \<or> falsy instruction \<or> falsy createdAt
      then (sendError 400 ''INVALID_BODY''
              ''requestId, mandateId, agentId, instruction, createdAt are required''
              (coalesce requestId ''n/a'') False, l)
      else if jget (l_intents l) (the requestId) \<noteq> None
      then (sendError 409 ''INTENT_EXISTS'' (''intent '' @ the requestId @ '' already exists'')
              (the requestId) False, l)
      else let instructionHash = hashIntentInstruction hash (the instruction);
               i = \<lparr>i_requestId = the requestId, i_mandateId = the mandateId, i_agentId = the agentId,
                    i_instruction = the instruction, i_instructionHash = instructionHash,
                    i_createdAt = the createdAt, i_challenge = None, i_challengeAttachedAt = None,
                    i_nonce = None, i_nonceReservedAt = None, i_nonceReleased = False,
                    i_decision = None, i_decidedAt = None, i_policyHash = None,
                    i_merchantDomain = None, i_validAfter = None, i_validBefore = None,
                    i_settlement = None, i_spend = None, i_capture = None,
                    i_state = INTENT_CREATED\<rparr>
        in (Reply 201 (the requestId, INTENT_CREATED, instructionHash, True),
            put_intent now (IntentCreated (the requestId) (the mandateId) (the agentId))
              (the requestId) i l))"

definition intent_not_found :: "string \<Rightarrow> 'b reply" where
  "intent_not_found requestId =
     sendError 404 ''INTENT_NOT_FOUND'' (''no intent for '' @ requestId) requestId False"

definition get_intent :: "string \<Rightarrow> ledger \<Rightarrow> intent reply" where
  "get_intent requestId l =
     (case jget (l_intents l) requestId of
        None \<Rightarrow> intent_not_found requestId
      | Some i \<Rightarrow> Reply 200 i)"

text \<open>
  \<open>Array.prototype.sort\<close> is stable.  \<open>before a b\<close> is \<open>compare(a, b) <= 0\<close>; an insertion
  sort that keeps equal elements in order is any stable sort.
\<close>

fun insert_by :: "('a \<Rightarrow> 'a \<Rightarrow> bool) \<Rightarrow> 'a \<Rightarrow> 'a list \<Rightarrow> 'a list" where
  "insert_by before x [] = [x]"
| "insert_by before x (y # ys) = (if before x y then x # y # ys else y # insert_by before x ys)"

fun js_sort :: "('a \<Rightarrow> 'a \<Rightarrow> bool) \<Rightarrow> 'a list \<Rightarrow> 'a list" where
  "js_sort before [] = []"
| "js_sort before (x # xs) = insert_by before x (js_sort before xs)"

text \<open>\<open>GET /intents\<close>; \<open>localeCompare\<close> is the host's collation.  The event stream opens with
  the same list.\<close>

definition get_intents :: "(string \<Rightarrow> string \<Rightarrow> int) \<Rightarrow> ledger \<Rightarrow> intent_view list reply" where
  "get_intents localeCompare l =
     Reply 200 (map intentViewOf
       (js_sort (\<lambda>a b. localeCompare (i_createdAt b) (i_createdAt a) \<le> 0) (jvalues (l_intents l))))"

datatype stream_message = Snapshot "intent_view list" | Append ledger_event

text \<open>
  \<open>GET /ledger/events\<close>: what a client that connects at store \<open>l\<close> has received when the store
  is \<open>l'\<close>: the snapshot, then the events emitted since.
\<close>

definition event_stream :: "(string \<Rightarrow> string \<Rightarrow> int) \<Rightarrow> ledger \<Rightarrow> ledger \<Rightarrow> stream_message list" where
  "event_stream localeCompare l l' =
     Snapshot (map intentViewOf
       (js_sort (\<lambda>a b. localeCompare (i_createdAt b) (i_createdAt a) \<le> 0) (jvalues (l_intents l))))
     # map Append (drop (length (l_events l)) (l_events l'))"

section \<open>Challenge and nonce\<close>

text \<open>\<open>POST /intent/:requestId/challenge\<close> (B4).\<close>

definition post_challenge ::
    "int \<Rightarrow> string \<Rightarrow> x402_requirements option \<Rightarrow> ledger \<Rightarrow>
     (string \<times> intent_state \<times> string) reply \<times> ledger" where
  "post_challenge now requestId challenge l =
     (case jget (l_intents l) requestId of
        None \<Rightarrow> (intent_not_found requestId, l)
      | Some i \<Rightarrow>
        (case challenge of
           None \<Rightarrow> (sendError 400 ''INVALID_BODY'' ''challenge is required'' requestId False, l)
         | Some c \<Rightarrow>
           if i_challenge i \<noteq> None
           then (sendError 409 ''CHALLENGE_EXISTS''
                   (''challenge already attached to '' @ requestId) requestId False, l)
           else let attachedAt = toISOString now;
                    i' = i\<lparr>i_challenge := Some c, i_challengeAttachedAt := Some attachedAt,
                           i_state := CHALLENGE_ATTACHED\<rparr>
             in (Reply 200 (requestId, CHALLENGE_ATTACHED, attachedAt),
                 put_intent now (ChallengeAttached requestId (i_mandateId i)) requestId i' l)))"

text \<open>\<open>intent.nonce && !intent.nonceReleased\<close>: a reservation is live.\<close>

definition nonce_live :: "intent \<Rightarrow> bool" where
  "nonce_live i \<longleftrightarrow> \<not> falsy (i_nonce i) \<and> \<not> i_nonceReleased i"

text \<open>\<open>POST /intent/:requestId/nonce\<close> (B5), the replay boundary.\<close>

definition post_nonce ::
    "int \<Rightarrow> string \<Rightarrow> string option \<Rightarrow> ledger \<Rightarrow> (string \<times> string \<times> bool \<times> string) reply \<times> ledger" where
  "post_nonce now requestId nonce l =
     (case jget (l_intents l) requestId of
        None \<Rightarrow> (intent_not_found requestId, l)
      | Some i \<Rightarrow>
          if falsy nonce
          then (sendError 400 ''INVALID_BODY'' ''nonce is required'' requestId False, l)
          else if nonce_live i
          then (sendError 409 ''NONCE_ALREADY_RESERVED''
                  (''a nonce is already reserved for '' @ requestId) requestId False, l)
          else let reservedAt = toISOString now;
                   i' = i\<lparr>i_nonce := nonce, i_nonceReservedAt := Some reservedAt,
                          i_nonceReleased := False, i_state := NONCE_RESERVED\<rparr>
            in (Reply 200 (requestId, the nonce, True, reservedAt),
                put_intent now (NonceReserved requestId (i_mandateId i)) requestId i' l))"

text \<open>\<open>POST /intent/:requestId/release-nonce\<close> (B6).\<close>

definition release_nonce :: "int \<Rightarrow> string \<Rightarrow> ledger \<Rightarrow> (string \<times> bool) reply \<times> ledger" where
  "release_nonce now requestId l =
     (case jget (l_intents l) requestId of
        None \<Rightarrow> (intent_not_found requestId, l)
      | Some i \<Rightarrow>
          if i_decision i = Some Signed
          then (sendError 409 ''NONCE_BURNED''
                  (''intent '' @ requestId @ '' is already signed; the nonce is terminal'')
                  requestId False, l)
          else if falsy (i_nonce i) \<or> i_nonceReleased i
          then (sendError 400 ''NONCE_NOT_RESERVED''
                  (''no reserved nonce to release for '' @ requestId) requestId False, l)
          else let i' = i\<lparr>i_nonceReleased := True, i_nonce := None, i_nonceReservedAt := None,
                          i_state := CHALLENGE_ATTACHED\<rparr>
            in (Reply 200 (requestId, True),
                put_intent now (NonceReleased requestId (i_mandateId i)) requestId i' l))"

section \<open>The rolling window\<close>

text \<open>
  The guards of the loop of \<open>GET /window/:mandateId\<close> (B7).  \<open>from\<close> is \<open>windowStartedAtMs\<close>,
  \<open>None\<close> for \<open>NaN\<close>; a comparison with \<open>NaN\<close> is false, so an intent whose \<open>decidedAt\<close> is no
  date is counted.  \<open>other\<close> is the host's parse of the strings that are not in the ISO form.
\<close>

definition in_window ::
    "(string \<Rightarrow> int option) \<Rightarrow> string \<Rightarrow> int option \<Rightarrow> intent \<Rightarrow> bool" where
  "in_window other mandateId from i \<longleftrightarrow>
     i_mandateId i = mandateId \<and> i_decision i = Some Signed \<and> \<not> falsy (i_decidedAt i) \<and>
     i_challenge i \<noteq> None \<and>
     \<not> (case (date_parse other (the (i_decidedAt i)), from) of
          (Some t, Some f) \<Rightarrow> t < f
        | _ \<Rightarrow> False)"

text \<open>The loop: \<open>BigInt(amount)\<close> throws on a text that is no integer.\<close>

fun window_loop ::
    "(intent \<Rightarrow> bool) \<Rightarrow> intent list \<Rightarrow> int \<Rightarrow> nat \<Rightarrow> js_error + int \<times> nat" where
  "window_loop counted [] spent cardCount = Inr (spent, cardCount)"
| "window_loop counted (i # is) spent cardCount =
     (if \<not> counted i then window_loop counted is spent cardCount
      else let amount = c_amount (the (i_challenge i))
        in case js_bigint amount of
             None \<Rightarrow> Inl (JsError (''Cannot convert '' @ amount @ '' to a BigInt''))
           | Some n \<Rightarrow> window_loop counted is (spent + n) (cardCount + 1))"

text \<open>A date outside the range of ECMAScript time values has no ISO form.\<close>

definition MAX_TIME :: int where
  "MAX_TIME = 8640000000000000"

record window_response =
  w_mandateId :: string
  w_windowSeconds :: int
  w_windowStartedAt :: string
  w_spent :: uint
  w_cardCount :: nat
  w_remaining :: "uint option"

definition uncaught :: "js_error \<Rightarrow> 'b reply" where
  "uncaught e = ServerError (case e of AppError a \<Rightarrow> ae_message a | JsError m \<Rightarrow> m | FrameworkError n m \<Rightarrow> m)"

text \<open>
  The route.  \<open>windowSeconds\<close> is the integer the query's text denotes, or \<open>None\<close> when
  \<open>Number\<close> of it is \<open>NaN\<close>; the start of the window is then no date and \<open>toISOString\<close>
  throws after the loop.  A text that denotes a fraction or an infinity is outside the model.
\<close>

definition get_window ::
    "(string \<Rightarrow> int option) \<Rightarrow> int \<Rightarrow> string \<Rightarrow> int option \<Rightarrow> string option \<Rightarrow> ledger \<Rightarrow>
     window_response reply" where
  "get_window other now mandateId windowSeconds maxPerWindow l =
     (let windowStartedAtMs = map_option (\<lambda>w. now - w * 1000) windowSeconds
      in case window_loop (in_window other mandateId windowStartedAtMs) (jvalues (l_intents l)) 0 0 of
           Inl e \<Rightarrow> uncaught e
         | Inr (spent, cardCount) \<Rightarrow>
             (case windowStartedAtMs of
                None \<Rightarrow> uncaught (JsError ''Invalid time value'')
              | Some from \<Rightarrow>
                  if \<bar>from\<bar> > MAX_TIME then uncaught (JsError ''Invalid time value'')
                  else let response =
                        \<lparr>w_mandateId = mandateId, w_windowSeconds = the windowSeconds,
                         w_windowStartedAt = toISOString from, w_spent = dec_int spent,
                         w_cardCount = cardCount, w_remaining = None\<rparr>
                    in if falsy maxPerWindow then Reply 200 response
                       else case js_bigint (the maxPerWindow) of
                           None \<Rightarrow> uncaught (JsError (''Cannot convert '' @ the maxPerWindow @ '' to a BigInt''))
                         | Some cap \<Rightarrow>
                             let remaining = cap - spent
                             in Reply 200 (response\<lparr>w_remaining :=
                                  Some (dec_int (if remaining > 0 then remaining else 0))\<rparr>)))"

section \<open>Policies, escalations and standing approvals\<close>

definition get_policy :: "string \<Rightarrow> ledger \<Rightarrow> policy_record reply" where
  "get_policy mandateId l =
     (case jget (l_policies l) mandateId of
        None \<Rightarrow> sendError 404 ''POLICY_NOT_FOUND'' (''no policy on file for '' @ mandateId) mandateId False
      | Some r \<Rightarrow> Reply 200 r)"

definition put_policy ::
    "int \<Rightarrow> string \<Rightarrow> mandate option \<Rightarrow> ledger \<Rightarrow> (string \<times> nat) reply \<times> ledger" where
  "put_policy now mandateId policy l =
     (case policy of
        None \<Rightarrow> (sendError 400 ''INVALID_BODY'' ''policy is required'' mandateId False, l)
      | Some p \<Rightarrow>
          let policyVersion = coalesce (map_option pr_policyVersion (jget (l_policies l) mandateId)) 0 + 1
          in (Reply 200 (mandateId, policyVersion),
              appendEvent now (PolicyPut mandateId policyVersion)
                (l\<lparr>l_policies := jset mandateId \<lparr>pr_policy = p, pr_policyVersion = policyVersion\<rparr>
                   (l_policies l)\<rparr>)))"

definition post_escalation ::
    "int \<Rightarrow> string option \<Rightarrow> string option \<Rightarrow> escalation_reason option \<Rightarrow> string option \<Rightarrow>
     int option \<Rightarrow> string option \<Rightarrow> ledger \<Rightarrow> escalation reply \<times> ledger" where
  "post_escalation now requestId mandateId reason approvalUrl ttlSeconds merchantDomain l =
     (if falsy requestId \<or> falsy mandateId \<or> reason = None \<or> falsy approvalUrl \<or>
         ttlSeconds = None \<or> ttlSeconds = Some 0
      then (sendError 400 ''INVALID_BODY''
              ''requestId, mandateId, reason, approvalUrl, ttlSeconds are required''
              (coalesce requestId ''n/a'') False, l)
      else case jget (l_escalations l) (the requestId) of
          Some existing \<Rightarrow> (Reply 200 existing, l)
        | None \<Rightarrow>
            let expiresAt = now div 1000 + the ttlSeconds;
                r = \<lparr>e_requestId = the requestId, e_mandateId = the mandateId, e_reason = the reason,
                     e_approvalUrl = the approvalUrl, e_createdAt = toISOString now,
                     e_expiresAt = expiresAt, e_ttlSeconds = the ttlSeconds, e_resolved = False,
                     e_decision = None, e_approvedBy = None, e_resolvedAt = None,
                     e_merchantDomain = merchantDomain\<rparr>
            in (Reply 201 r,
                appendEvent now (EscalationCreated (the requestId) (the mandateId) (the reason)
                    expiresAt (the approvalUrl) (the ttlSeconds))
                  (l\<lparr>l_escalations := jset (the requestId) r (l_escalations l)\<rparr>)))"

definition escalation_not_found :: "string \<Rightarrow> 'b reply" where
  "escalation_not_found requestId =
     sendError 404 ''ESCALATION_NOT_FOUND'' (''no escalation for '' @ requestId) requestId False"

definition get_escalation :: "string \<Rightarrow> ledger \<Rightarrow> escalation reply" where
  "get_escalation requestId l =
     (case jget (l_escalations l) requestId of
        None \<Rightarrow> escalation_not_found requestId
      | Some r \<Rightarrow> Reply 200 r)"

definition put_escalation ::
    "int \<Rightarrow> string \<Rightarrow> escalation_decision option \<Rightarrow> string option \<Rightarrow> ledger \<Rightarrow>
     escalation reply \<times> ledger" where
  "put_escalation now requestId decision approvedBy l =
     (case jget (l_escalations l) requestId of
        None \<Rightarrow> (escalation_not_found requestId, l)
      | Some r \<Rightarrow>
          (case decision of
             None \<Rightarrow> (sendError 400 ''INVALID_BODY'' ''decision is required'' requestId False, l)
           | Some d \<Rightarrow>
               let resolvedAt = toISOString now;
                   r' = r\<lparr>e_resolved := True, e_decision := Some d, e_approvedBy := approvedBy,
                          e_resolvedAt := Some resolvedAt\<rparr>
               in (Reply 200 r',
                   appendEvent now (EscalationResolved requestId (e_mandateId r) d resolvedAt)
                     (l\<lparr>l_escalations := jset requestId r' (l_escalations l)\<rparr>))))"

text \<open>The key of a standing approval, \<open>`${mandateId}::${merchantDomain.toLowerCase()}`\<close>.\<close>

definition standing_key :: "string \<Rightarrow> string \<Rightarrow> string" where
  "standing_key mandateId merchantDomain = mandateId @ ''::'' @ to_lower merchantDomain"

definition post_standing_approval ::
    "int \<Rightarrow> string option \<Rightarrow> string option \<Rightarrow> int option \<Rightarrow> ledger \<Rightarrow>
     (string \<times> string \<times> int) reply \<times> ledger" where
  "post_standing_approval now mandateId merchantDomain expiresAt l =
     (if falsy mandateId \<or> falsy merchantDomain \<or> expiresAt = None \<or> expiresAt = Some 0
      then (sendError 400 ''INVALID_BODY'' ''mandateId, merchantDomain, expiresAt are required''
              (coalesce mandateId ''n/a'') False, l)
      else (Reply 200 (the mandateId, the merchantDomain, the expiresAt),
            appendEvent now (StandingApprovalSet (the mandateId) (the merchantDomain) (the expiresAt))
              (l\<lparr>l_standing := jset (standing_key (the mandateId) (the merchantDomain)) (the expiresAt)
                 (l_standing l)\<rparr>)))"

text \<open>The reply is \<open>active\<close> and \<open>expiresAt\<close>.\<close>

definition get_standing_approval ::
    "int \<Rightarrow> string option \<Rightarrow> string option \<Rightarrow> ledger \<Rightarrow> (bool \<times> int option) reply" where
  "get_standing_approval now mandateId merchantDomain l =
     (if falsy mandateId \<or> falsy merchantDomain
      then sendError 400 ''INVALID_BODY'' ''mandateId and merchantDomain query params are required''
             ''n/a'' False
      else let expiresAt = jget (l_standing l) (standing_key (the mandateId) (the merchantDomain));
               active = (case expiresAt of None \<Rightarrow> False | Some e \<Rightarrow> e > now div 1000)
        in Reply 200 (active, expiresAt))"

section \<open>Decision, settlement, capture, spend\<close>

record decision_body =
  db_requestId :: "string option"
  db_decision :: "decision option"
  db_check :: "string option"
  db_detail :: "string option"
  db_decidedAt :: "string option"
  db_policyHash :: "string option"
  db_merchantDomain :: "string option"
  db_validAfter :: "int option"
  db_validBefore :: "int option"

text \<open>\<open>POST /decision\<close> (B8).\<close>

definition decide :: "decision_body \<Rightarrow> intent \<Rightarrow> intent" where
  "decide body i =
     (let i1 = i\<lparr>i_decision := db_decision body, i_decidedAt := db_decidedAt body\<rparr>
      in if db_decision body = Some Signed
         then i1\<lparr>i_state := SIGNED, i_policyHash := db_policyHash body,
                 i_merchantDomain := db_merchantDomain body, i_validAfter := db_validAfter body,
                 i_validBefore := db_validBefore body\<rparr>
         else i1)"

definition post_decision :: "int \<Rightarrow> decision_body \<Rightarrow> ledger \<Rightarrow> (bool \<times> nat) reply \<times> ledger" where
  "post_decision now body l =
     (let requestId = db_requestId body
      in if falsy requestId \<or> db_decision body = None \<or> falsy (db_decidedAt body)
         then (sendError 400 ''INVALID_BODY'' ''requestId, decision, decidedAt are required''
                 (coalesce requestId ''n/a'') False, l)
         else case jget (l_intents l) (the requestId) of
             None \<Rightarrow> (intent_not_found (the requestId), l)
           | Some i \<Rightarrow>
               let sequence = length (l_decisionLog l) + 1;
                   entry = \<lparr>de_sequence = sequence, de_requestId = the requestId,
                     de_decision = the (db_decision body), de_check = db_check body,
                     de_detail = db_detail body, de_decidedAt = the (db_decidedAt body)\<rparr>
               in (Reply 200 (True, sequence),
                   put_intent now
                     (DecisionRecorded (the requestId) (i_mandateId i) (the (db_decision body))
                        (db_check body) (db_detail body))
                     (the requestId) (decide body i)
                     (l\<lparr>l_decisionLog := l_decisionLog l @ [entry]\<rparr>)))"

text \<open>\<open>POST /intent/:requestId/settlement\<close> (B9).\<close>

definition post_settlement ::
    "int \<Rightarrow> string \<Rightarrow> string option \<Rightarrow> int option \<Rightarrow> string option \<Rightarrow> string option \<Rightarrow> ledger \<Rightarrow>
     (string \<times> intent_state \<times> string) reply \<times> ledger" where
  "post_settlement now requestId settlementTx blockNumber cardOpaqueId rawToolResultHash l =
     (case jget (l_intents l) requestId of
        None \<Rightarrow> (intent_not_found requestId, l)
      | Some i \<Rightarrow>
          if falsy settlementTx \<or> blockNumber = None \<or> falsy cardOpaqueId
          then (sendError 400 ''INVALID_BODY'' ''settlementTx, blockNumber, cardOpaqueId are required''
                  requestId False, l)
          else if (case rawToolResultHash of None \<Rightarrow> False | Some h \<Rightarrow> \<not> is_hex_of_length 64 h)
          then (sendError 400 ''INVALID_BODY''
                  ''rawToolResultHash must be a 32-byte 0x hex hash when present'' requestId False, l)
          else let i' = i\<lparr>i_settlement := Some \<lparr>s_settlementTx = the settlementTx,
                            s_blockNumber = the blockNumber, s_cardOpaqueId = the cardOpaqueId,
                            s_rawToolResultHash = rawToolResultHash\<rparr>,
                          i_state := SETTLED\<rparr>
            in (Reply 200 (requestId, SETTLED, the settlementTx),
                put_intent now
                  (SettlementRecorded requestId (i_mandateId i) (the settlementTx) (the blockNumber))
                  requestId i' l))"

text \<open>\<open>POST /intent/:requestId/capture\<close> (B9b).\<close>

definition post_capture ::
    "int \<Rightarrow> string \<Rightarrow> string option \<Rightarrow> string option \<Rightarrow> string option \<Rightarrow> int option \<Rightarrow> ledger \<Rightarrow>
     (string \<times> intent_state \<times> string \<times> string) reply \<times> ledger" where
  "post_capture now requestId orderId capturedAt settlementTx blockNumber l =
     (case jget (l_intents l) requestId of
        None \<Rightarrow> (intent_not_found requestId, l)
      | Some i \<Rightarrow>
          if falsy orderId \<or> falsy capturedAt
          then (sendError 400 ''INVALID_BODY'' ''orderId, capturedAt are required'' requestId False, l)
          else if i_capture i \<noteq> None
          then (sendError 409 ''CAPTURE_EXISTS'' (''capture already recorded for '' @ requestId)
                  requestId False, l)
          else (case i_settlement i of
             None \<Rightarrow> (sendError 409 ''SETTLEMENT_NOT_RECORDED''
                        (''settlement must precede capture for '' @ requestId) requestId False, l)
           | Some s \<Rightarrow>
               if \<not> falsy settlementTx \<and> s_settlementTx s \<noteq> the settlementTx
               then (sendError 409 ''SETTLEMENT_MISMATCH''
                       ''capture settlementTx does not match the recorded settlement'' requestId False, l)
               else let i' = i\<lparr>i_capture := Some \<lparr>cp_orderId = the orderId,
                                 cp_capturedAt = the capturedAt, cp_settlementTx = s_settlementTx s,
                                 cp_blockNumber = coalesce blockNumber (s_blockNumber s)\<rparr>,
                               i_state := CAPTURED\<rparr>
                 in (Reply 200 (requestId, CAPTURED, the orderId, s_settlementTx s),
                     put_intent now
                       (CaptureRecorded requestId (i_mandateId i) (the orderId) (s_settlementTx s))
                       requestId i' l)))"

text \<open>\<open>POST /intent/:requestId/spend\<close>; the reply is \<open>recorded\<close>, \<open>status\<close>, \<open>proof\<close>.\<close>

definition post_spend ::
    "int \<Rightarrow> string \<Rightarrow> string option \<Rightarrow> string option \<Rightarrow> string option \<Rightarrow> string option \<Rightarrow>
     string option \<Rightarrow> ledger \<Rightarrow> (bool \<times> string \<times> string) reply \<times> ledger" where
  "post_spend now requestId merchantDomain orderTotal itemSku orderId observedAt l =
     (case jget (l_intents l) requestId of
        None \<Rightarrow> (intent_not_found requestId, l)
      | Some i \<Rightarrow>
          if falsy merchantDomain \<or> falsy orderTotal \<or> falsy itemSku \<or> falsy orderId \<or> falsy observedAt
          then (sendError 400 ''INVALID_BODY''
                  ''merchantDomain, orderTotal, itemSku, orderId, observedAt are required''
                  requestId False, l)
          else let i' = i\<lparr>i_spend := Some \<lparr>sp_merchantDomain = the merchantDomain,
                            sp_orderTotal = the orderTotal, sp_itemSku = the itemSku,
                            sp_orderId = the orderId, sp_observedAt = the observedAt\<rparr>\<rparr>
            in (Reply 200 (True, ''observed'', ''none''),
                put_intent now
                  (SpendRecorded requestId (i_mandateId i) (the orderId) (the orderTotal)
                     (the merchantDomain))
                  requestId i' l))"

section \<open>The receipt\<close>

record receipt =
  rc_requestId :: string
  rc_mandateId :: string
  rc_policyHash :: "string option"
  rc_intent :: string
  rc_intentHash :: string
  rc_merchantDomain :: "string option"
  rc_challenge :: "challenge_view option"
  rc_authorization :: "(int option \<times> int option \<times> string) option"
  rc_settlementTx :: "string option"
  rc_blockNumber :: "int option"
  rc_cardOpaqueId :: "string option"
  rc_rawToolResultHash :: "string option"
  rc_decision :: "decision option"
  rc_decidedAt :: "string option"
  rc_spendLeg :: "string \<times> (string \<times> string) option \<times> string"

text \<open>
  \<open>GET /receipt/:requestId\<close>; \<open>null\<close> is \<open>None\<close>.  The spend leg is its status, the observed
  domain and total, and its proof, which is \<open>none\<close> in both cases.
\<close>

definition receipt_of :: "intent \<Rightarrow> receipt" where
  "receipt_of i =
     \<lparr>rc_requestId = i_requestId i, rc_mandateId = i_mandateId i, rc_policyHash = i_policyHash i,
      rc_intent = i_instruction i, rc_intentHash = i_instructionHash i,
      rc_merchantDomain = i_merchantDomain i,
      rc_challenge = map_option challengeViewOf (i_challenge i),
      rc_authorization = (if falsy (i_nonce i) then None
        else Some (i_validAfter i, i_validBefore i, the (i_nonce i))),
      rc_settlementTx = map_option s_settlementTx (i_settlement i),
      rc_blockNumber = map_option s_blockNumber (i_settlement i),
      rc_cardOpaqueId = map_option s_cardOpaqueId (i_settlement i),
      rc_rawToolResultHash = Option.bind (i_settlement i) s_rawToolResultHash,
      rc_decision = i_decision i, rc_decidedAt = i_decidedAt i,
      rc_spendLeg = (case i_spend i of
          Some s \<Rightarrow> (''observed'', Some (sp_merchantDomain s, sp_orderTotal s), ''none'')
        | None \<Rightarrow> (''absent'', None, ''none''))\<rparr>"

definition get_receipt :: "string \<Rightarrow> ledger \<Rightarrow> receipt reply" where
  "get_receipt requestId l =
     (case jget (l_intents l) requestId of
        None \<Rightarrow> intent_not_found requestId
      | Some i \<Rightarrow> Reply 200 (receipt_of i))"

end
