(* ===== verification/Actions.thy ===== *)
theory Actions
  imports Errors
begin

text \<open>
  Actions of a service: an action takes the world and returns what it throws or yields, and the
  world it leaves, so that what was written before a throw stays written.  \<open>catching\<close> is
  \<open>try ... catch\<close>, and \<open>within\<close> runs an action on one component of a larger world.
\<close>

type_synonym ('w, 'a) io = "'w \<Rightarrow> (js_error + 'a) \<times> 'w"

definition ret :: "'a \<Rightarrow> ('w, 'a) io" where
  "ret x w = (Inr x, w)"

definition andThen :: "('w, 'a) io \<Rightarrow> ('a \<Rightarrow> ('w, 'b) io) \<Rightarrow> ('w, 'b) io" where
  "andThen m f w = (case m w of (Inl e, w') \<Rightarrow> (Inl e, w') | (Inr x, w') \<Rightarrow> f x w')"

definition lift :: "js_error + 'a \<Rightarrow> ('w, 'a) io" where
  "lift r w = (r, w)"

lemma ret_apply [simp]: "ret x w = (Inr x, w)"
  by (simp add: ret_def)

lemma lift_apply [simp]: "lift r w = (r, w)"
  by (simp add: lift_def)

lemma andThen_ret [simp]: "andThen (ret x) f = f x"
  by (simp add: andThen_def fun_eq_iff)

lemma andThen_assoc: "andThen (andThen m f) g = andThen m (\<lambda>x. andThen (f x) g)"
  by (simp add: andThen_def fun_eq_iff split: prod.splits sum.splits)

text \<open>\<open>try { m } catch (e) { h(e) }\<close>.\<close>

definition catching :: "('w, 'a) io \<Rightarrow> (js_error \<Rightarrow> ('w, 'a) io) \<Rightarrow> ('w, 'a) io" where
  "catching m h w = (case m w of (Inl e, w') \<Rightarrow> h e w' | (Inr x, w') \<Rightarrow> (Inr x, w'))"

text \<open>An action on a component, by its reader and writer.\<close>

definition within :: "('w \<Rightarrow> 'v) \<Rightarrow> ('v \<Rightarrow> 'w \<Rightarrow> 'w) \<Rightarrow> ('v, 'a) io \<Rightarrow> ('w, 'a) io" where
  "within get put m w = (case m (get w) of (r, v) \<Rightarrow> (r, put v w))"

lemma io_Inr:
  "andThen m f w = (Inr y, w'') \<longleftrightarrow> (\<exists>x w'. m w = (Inr x, w') \<and> f x w' = (Inr y, w''))"
  by (auto simp: andThen_def split: prod.splits sum.splits)

lemma io_Inl:
  "andThen m f w = (Inl e, w'') \<longleftrightarrow>
     m w = (Inl e, w'') \<or> (\<exists>x w'. m w = (Inr x, w') \<and> f x w' = (Inl e, w''))"
  by (auto simp: andThen_def split: prod.splits sum.splits)

lemma io_within: "within get put m w = (r, w') \<longleftrightarrow> (\<exists>v. m (get w) = (r, v) \<and> w' = put v w)"
  by (auto simp: within_def split: prod.splits)

lemma andThen_cases:
  assumes "andThen m f w = (r, w')"
  obtains (throws) e where "m w = (Inl e, w')" "r = Inl e"
    | (goes_on) x v where "m w = (Inr x, v)" "f x v = (r, w')"
  using assms by (auto simp: andThen_def split: prod.splits sum.splits)

section \<open>What an action preserves\<close>

text \<open>Whatever the action throws or yields, it leaves a world with the property.\<close>

definition preserves :: "('w \<Rightarrow> bool) \<Rightarrow> ('w, 'a) io \<Rightarrow> bool" where
  "preserves I m \<longleftrightarrow> (\<forall>w. I w \<longrightarrow> I (snd (m w)))"

named_theorems preserved \<open>actions that preserve a property\<close>

lemma preservesD: "preserves I m \<Longrightarrow> I w \<Longrightarrow> m w = (r, w') \<Longrightarrow> I w'"
  unfolding preserves_def by (metis snd_conv)

lemma preserves_ret [preserved]: "preserves I (ret x)"
  by (simp add: preserves_def)

lemma preserves_lift [preserved]: "preserves I (lift r)"
  by (simp add: preserves_def)

lemma preserves_Pair [preserved]: "preserves I (Pair r)"
  by (simp add: preserves_def)

lemma preserves_andThen [preserved]:
  assumes "preserves I m" "\<And>x. preserves I (f x)"
  shows "preserves I (andThen m f)"
  unfolding preserves_def
proof (intro allI impI)
  fix w assume w: "I w"
  obtain r w1 where m: "m w = (r, w1)" by (cases "m w")
  have "I w1" by (rule preservesD [OF assms(1) w m])
  then show "I (snd (andThen m f w))"
    using assms(2) by (cases r) (simp_all add: andThen_def m preserves_def)
qed

lemma preserves_catching [preserved]:
  assumes "preserves I m" "\<And>e. preserves I (h e)"
  shows "preserves I (catching m h)"
  unfolding preserves_def
proof (intro allI impI)
  fix w assume w: "I w"
  obtain r w1 where m: "m w = (r, w1)" by (cases "m w")
  have "I w1" by (rule preservesD [OF assms(1) w m])
  then show "I (snd (catching m h w))"
    using assms(2) by (cases r) (simp_all add: catching_def m preserves_def)
qed

lemma preserves_case_prod [preserved]:
  "(\<And>a b. preserves I (f a b)) \<Longrightarrow> preserves I (case p of (a, b) \<Rightarrow> f a b)"
  by (cases p) simp

lemma preserves_if [preserved]:
  "preserves I m \<Longrightarrow> preserves I n \<Longrightarrow> preserves I (if b then m else n)"
  by simp

lemma preserves_option [preserved]:
  "preserves I m \<Longrightarrow> (\<And>x. preserves I (f x)) \<Longrightarrow> preserves I (case o' of None \<Rightarrow> m | Some x \<Rightarrow> f x)"
  by (cases o') simp_all

end
