(* ===== verification/Policy_Clients.thy ===== *)
theory Policy_Clients
  imports Ledger_Service Policy_Checks Actions
begin

text \<open>
  The clients through which the policy service reaches the other services
  (\<open>services/policy-service/src/clients\<close>), and the signing tail of \<open>signing.ts\<close> and
  \<open>typedData.ts\<close>.  The ledger client runs on the model of the ledger service; the signer and
  the registry read of chain-gateway are fields of the environment.  A response that is no success
  makes most calls throw a plain \<open>Error\<close>.  Request ids, mandate ids and domains are assumed free of characters that
  change the path of a URL.
\<close>

section \<open>Uncaught exceptions\<close>

text \<open>An exception that no handler catches becomes the framework's 500.\<close>

definition respond :: "('w, 'b reply) io \<Rightarrow> 'w \<Rightarrow> 'b reply \<times> 'w" where
  "respond m w = (case m w of (Inl e, w') \<Rightarrow> (uncaught e, w') | (Inr r, w') \<Rightarrow> (r, w'))"

section \<open>The world and the environment\<close>

text \<open>The state of the signer service is a parameter of the world.\<close>

record 's world =
  wd_ledger :: ledger
  wd_signer :: 's

datatype sign_result =
    SignOk string address string
  | SignFail nat string string

text \<open>
  The environment: hash functions, the host's date parse, the verifier of personal signatures,
  the mandate read of chain-gateway (its 404 is \<open>None\<close>), the signer's \<open>POST /sign\<close>, and the
  configuration of \<open>buildApp\<close> and \<open>typedData.ts\<close>.
\<close>

record 's policy_env =
  pe_keccak_text :: "string \<Rightarrow> hex"
  pe_keccak_hex :: "string \<Rightarrow> hex"
  pe_date_other :: "string \<Rightarrow> int option"
  pe_verify :: message_verifier
  pe_registry :: "hex \<Rightarrow> int \<Rightarrow> js_error + registry_mandate option"
  pe_sign :: "string \<Rightarrow> hex \<Rightarrow> typed_data \<Rightarrow> x402_accepted \<Rightarrow> string \<Rightarrow> 's \<Rightarrow> (js_error + sign_result) \<times> 's"
  pe_payingWallet :: address
  pe_maxSaneValiditySeconds :: int
  pe_escalationTtlSeconds :: int
  pe_dashboardUrl :: string

section \<open>The ledger client\<close>

text \<open>\<open>if (!res.ok) throw new Error(`ledger name status`)\<close>, with and without the 404 case.\<close>

definition expect_ok :: "string \<Rightarrow> 'b reply \<Rightarrow> js_error + 'b" where
  "expect_ok name r = (case r of
      Reply st b \<Rightarrow> Inr b
    | _ \<Rightarrow> Inl (JsError (''ledger '' @ name @ '' '' @ dec (reply_status r))))"

definition found_or_null :: "string \<Rightarrow> 'b reply \<Rightarrow> js_error + 'b option" where
  "found_or_null name r =
     (if reply_status r = 404 then Inr None else bindE (expect_ok name r) (\<lambda>b. Inr (Some b)))"

definition reading :: "(ledger \<Rightarrow> js_error + 'a) \<Rightarrow> ('s world, 'a) io" where
  "reading f w = (f (wd_ledger w), w)"

definition writing :: "string \<Rightarrow> (ledger \<Rightarrow> 'b reply \<times> ledger) \<Rightarrow> ('s world, 'b) io" where
  "writing name f w = (case f (wd_ledger w) of (r, l) \<Rightarrow> (expect_ok name r, w\<lparr>wd_ledger := l\<rparr>))"

definition getIntent :: "string \<Rightarrow> ('s world, intent option) io" where
  "getIntent requestId = reading (\<lambda>l. found_or_null ''getIntent'' (get_intent requestId l))"

definition getPolicy :: "string \<Rightarrow> ('s world, policy_record option) io" where
  "getPolicy mandateId = reading (\<lambda>l. found_or_null ''getPolicy'' (get_policy mandateId l))"

definition putPolicy :: "int \<Rightarrow> string \<Rightarrow> mandate \<Rightarrow> ('s world, string \<times> nat) io" where
  "putPolicy now mandateId policy = writing ''putPolicy'' (put_policy now mandateId (Some policy))"

definition getWindowUsage ::
    "(string \<Rightarrow> int option) \<Rightarrow> int \<Rightarrow> string \<Rightarrow> int \<Rightarrow> string \<Rightarrow> ('s world, string \<times> nat) io" where
  "getWindowUsage other now mandateId windowSeconds maxPerWindow =
     reading (\<lambda>l. bindE (expect_ok ''getWindowUsage''
         (get_window other now mandateId (Some windowSeconds) (Some maxPerWindow) l))
       (\<lambda>r. Inr (w_spent r, w_cardCount r)))"

text \<open>The result is \<open>None\<close> when the nonce is reserved, else the error code; it never throws.\<close>

definition reserveNonce :: "int \<Rightarrow> string \<Rightarrow> string \<Rightarrow> ('s world, string option) io" where
  "reserveNonce now requestId nonce w =
     (case post_nonce now requestId (Some nonce) (wd_ledger w) of (r, l) \<Rightarrow>
        (Inr (case r of Reply st b \<Rightarrow> None
            | ErrReply st e \<Rightarrow> Some (env_code e)
            | ServerError m \<Rightarrow> Some ''NONCE_RESERVE_FAILED''),
         w\<lparr>wd_ledger := l\<rparr>))"

text \<open>The response of a release is ignored.\<close>

definition releaseNonce :: "int \<Rightarrow> string \<Rightarrow> ('s world, unit) io" where
  "releaseNonce now requestId w =
     (Inr (), w\<lparr>wd_ledger := snd (release_nonce now requestId (wd_ledger w))\<rparr>)"

definition recordDecision :: "int \<Rightarrow> decision_body \<Rightarrow> ('s world, bool \<times> nat) io" where
  "recordDecision now entry = writing ''recordDecision'' (post_decision now entry)"

definition createEscalation ::
    "int \<Rightarrow> string \<Rightarrow> string \<Rightarrow> escalation_reason \<Rightarrow> string \<Rightarrow> int \<Rightarrow> string option \<Rightarrow>
     ('s world, escalation) io" where
  "createEscalation now requestId mandateId reason approvalUrl ttlSeconds merchantDomain =
     writing ''createEscalation'' (post_escalation now (Some requestId) (Some mandateId) (Some reason)
       (Some approvalUrl) (Some ttlSeconds) merchantDomain)"

definition getEscalation :: "string \<Rightarrow> ('s world, escalation option) io" where
  "getEscalation requestId = reading (\<lambda>l. found_or_null ''getEscalation'' (get_escalation requestId l))"

definition resolveEscalationStorage ::
    "int \<Rightarrow> string \<Rightarrow> escalation_decision \<Rightarrow> string option \<Rightarrow> ('s world, escalation) io" where
  "resolveEscalationStorage now requestId decision approvedBy =
     writing ''resolveEscalationStorage'' (put_escalation now requestId (Some decision) approvedBy)"

definition getStandingApproval :: "int \<Rightarrow> string \<Rightarrow> string \<Rightarrow> ('s world, bool) io" where
  "getStandingApproval now mandateId merchantDomain =
     reading (\<lambda>l. bindE (expect_ok ''getStandingApproval''
         (get_standing_approval now (Some mandateId) (Some merchantDomain) l)) (\<lambda>r. Inr (fst r)))"

definition setStandingApproval :: "int \<Rightarrow> string \<Rightarrow> string \<Rightarrow> int \<Rightarrow> ('s world, string \<times> string \<times> int) io" where
  "setStandingApproval now mandateId merchantDomain expiresAt =
     writing ''setStandingApproval''
       (post_standing_approval now (Some mandateId) (Some merchantDomain) (Some expiresAt))"

section \<open>The signing tail\<close>

definition signWith ::
    "'s policy_env \<Rightarrow> string \<Rightarrow> hex \<Rightarrow> typed_data \<Rightarrow> x402_accepted \<Rightarrow> string \<Rightarrow> ('s world, sign_result) io" where
  "signWith env requestId mandateId typedData accepted resource w =
     (case pe_sign env requestId mandateId typedData accepted resource (wd_signer w) of
        (r, s) \<Rightarrow> (r, w\<lparr>wd_signer := s\<rparr>))"

definition TRANSFER_TYPES :: "(string \<times> string) list" where
  "TRANSFER_TYPES =
     [(''from'', ''address''), (''to'', ''address''), (''value'', ''uint256''),
      (''validAfter'', ''uint256''), (''validBefore'', ''uint256''), (''nonce'', ''bytes32'')]"

definition buildTypedData ::
    "address \<Rightarrow> mandate \<Rightarrow> x402_requirements \<Rightarrow> string \<Rightarrow> int \<Rightarrow> int \<Rightarrow> string \<Rightarrow> typed_data" where
  "buildTypedData payingWallet m challenge amount validAfter validBefore nonce =
     \<lparr>td_domain_of = \<lparr>d_name = x_name (c_extra challenge), d_version = x_version (c_extra challenge),
        d_chainId = c_chainId challenge, d_verifyingContract = c_asset challenge\<rparr>,
      td_primaryType = ''TransferWithAuthorization'',
      td_types = TRANSFER_TYPES,
      td_message_of = \<lparr>t_from = payingWallet, t_to = m_settlementRecipient m, t_value = amount,
        t_validAfter = validAfter, t_validBefore = validBefore, t_nonce = nonce\<rparr>\<rparr>"

datatype signing_outcome =
    SigningOk string string int int
  | SigningFail nat string string bool

text \<open>\<open>performSigning\<close>: nonce, reservation, validity window, signature; the nonce is released
  when the signer refuses.  \<open>now\<close> is in milliseconds, \<open>nowSec\<close> the seconds its caller read.\<close>

definition performSigning ::
    "'s policy_env \<Rightarrow> int \<Rightarrow> string \<Rightarrow> hex \<Rightarrow> mandate \<Rightarrow> x402_requirements \<Rightarrow> string \<Rightarrow> int \<Rightarrow> string \<Rightarrow>
     hex \<Rightarrow> hex \<Rightarrow> string \<Rightarrow> ('s world, signing_outcome) io" where
  "performSigning env now requestId mandateId m challenge amount nowSec resource
      policyHash intentHash merchantDomain =
     andThen (lift (buildCommitmentNonce (pe_keccak_text env) (pe_keccak_hex env) requestId policyHash
       intentHash merchantDomain)) (\<lambda>nonce.
     andThen (reserveNonce now requestId nonce) (\<lambda>reserved.
       case reserved of
         Some c \<Rightarrow> ret (SigningFail 409 c (''nonce reservation failed for '' @ requestId) False)
       | None \<Rightarrow>
           let window = min (m_maxAuthValiditySeconds m) (c_maxTimeoutSeconds challenge);
               validAfter = nowSec - 5; validBefore = validAfter + window;
               typedData = buildTypedData (pe_payingWallet env) m challenge amount validAfter
                 validBefore nonce;
               accepted = x402_accepted.truncate challenge
           in andThen (signWith env requestId mandateId typedData accepted resource) (\<lambda>signResult.
             case signResult of
               SignFail st c msg \<Rightarrow>
                 andThen (releaseNonce now requestId) (\<lambda>_. ret (SigningFail st c msg (st \<ge> 500)))
             | SignOk header signer at \<Rightarrow> ret (SigningOk header nonce validAfter validBefore))))"

end
