(* ===== verification/Policy_Service.thy ===== *)
theory Policy_Service
  imports Policy_Clients
begin

text \<open>
  The routes of \<open>services/policy-service/src/app.ts\<close>: a payment request, the resolution of an
  escalation, and the policy with its hash-drift check.  One instant \<open>now\<close> stands for all the
  clock reads of a handler.
\<close>

definition policy_auth :: "string \<Rightarrow> request \<Rightarrow> 'b reply option" where
  "policy_auth internalToken req =
     (if rq_url req = ''/health'' then None
      else if rq_headers req ''x-internal-token'' \<noteq> Some internalToken
        then Some (sendError 401 ''UNAUTHORIZED'' ''missing or invalid X-Internal-Token'' ''n/a'' False)
      else None)"

abbreviation nowSec :: "int \<Rightarrow> int" where
  "nowSec now \<equiv> now div 1000"

definition refusal_entry :: "int \<Rightarrow> string \<Rightarrow> decision \<Rightarrow> string \<Rightarrow> string \<Rightarrow> decision_body" where
  "refusal_entry now requestId d check detail =
     \<lparr>db_requestId = Some requestId, db_decision = Some d, db_check = Some check,
      db_detail = Some detail, db_decidedAt = Some (toISOString now), db_policyHash = None,
      db_merchantDomain = None, db_validAfter = None, db_validBefore = None\<rparr>"

definition signed_entry :: "int \<Rightarrow> string \<Rightarrow> hex \<Rightarrow> string \<Rightarrow> int \<Rightarrow> int \<Rightarrow> decision_body" where
  "signed_entry now requestId policyHash merchantDomain validAfter validBefore =
     \<lparr>db_requestId = Some requestId, db_decision = Some Signed, db_check = None, db_detail = None,
      db_decidedAt = Some (toISOString now), db_policyHash = Some policyHash,
      db_merchantDomain = Some merchantDomain, db_validAfter = Some validAfter,
      db_validBefore = Some validBefore\<rparr>"

section \<open>POST /payment/request\<close>

record payment_body =
  pb_requestId :: "string option"
  pb_mandateId :: "string option"
  pb_requestedAmount :: "string option"
  pb_challenge :: "x402_requirements option"
  pb_resolvedItem :: "resolved_item option"

record refused_body =
  rf_requestId :: string
  rf_check :: string
  rf_checkIndex :: "nat option"
  rf_detail :: string
  rf_humanExplanation :: string
  rf_decidedAt :: string

record escalated_body =
  es_requestId :: string
  es_reason :: escalation_reason
  es_approvalUrl :: string
  es_expiresAt :: int
  es_ttlSeconds :: int

record signed_body =
  sg_requestId :: string
  sg_header :: string
  sg_nonce :: string
  sg_validAfter :: int
  sg_validBefore :: int
  sg_checksPassed :: "string list"
  sg_decidedAt :: string

datatype payment_reply =
    PRefused refused_body
  | PEscalated escalated_body
  | PSigned signed_body

definition refuseAndRecord ::
    "int \<Rightarrow> string \<Rightarrow> string \<Rightarrow> string \<Rightarrow> ('s world, payment_reply reply) io" where
  "refuseAndRecord now requestId check detail =
     andThen (recordDecision now (refusal_entry now requestId Refused check detail)) (\<lambda>_.
       ret (Reply 422 (PRefused \<lparr>rf_requestId = requestId, rf_check = check,
         rf_checkIndex = CHECK_INDEX check, rf_detail = detail,
         rf_humanExplanation = coalesce (HUMAN_EXPLANATIONS check) detail,
         rf_decidedAt = toISOString now\<rparr>)))"

definition escalateAndRespond ::
    "'s policy_env \<Rightarrow> int \<Rightarrow> string \<Rightarrow> string \<Rightarrow> string \<Rightarrow> escalation_reason \<Rightarrow> string \<Rightarrow> string \<Rightarrow>
     ('s world, payment_reply reply) io" where
  "escalateAndRespond env now requestId mandateId check reason detail merchantDomain =
     (let approvalUrl = pe_dashboardUrl env @ ''/approve/'' @ requestId in
      andThen (createEscalation now requestId mandateId reason approvalUrl
        (pe_escalationTtlSeconds env) (Some merchantDomain)) (\<lambda>e.
      andThen (recordDecision now (refusal_entry now requestId Escalated check detail)) (\<lambda>_.
        ret (Reply 202 (PEscalated \<lparr>es_requestId = requestId, es_reason = reason,
          es_approvalUrl = e_approvalUrl e, es_expiresAt = e_expiresAt e,
          es_ttlSeconds = e_ttlSeconds e\<rparr>)))))"

text \<open>Both failures of a check.\<close>

definition respondFailure ::
    "'s policy_env \<Rightarrow> int \<Rightarrow> string \<Rightarrow> string \<Rightarrow> string \<Rightarrow> check_failure \<Rightarrow>
     ('s world, payment_reply reply) io" where
  "respondFailure env now requestId mandateId merchantDomain f =
     (case f of
        Escalate c r d \<Rightarrow> escalateAndRespond env now requestId mandateId c r d merchantDomain
      | Refuse c d \<Rightarrow> refuseAndRecord now requestId c d)"

text \<open>The part after all checks: reserve the nonce, sign and record.\<close>

definition signAndRecord ::
    "'s policy_env \<Rightarrow> int \<Rightarrow> string \<Rightarrow> string \<Rightarrow> string \<Rightarrow> mandate \<Rightarrow> x402_requirements \<Rightarrow> intent \<Rightarrow>
     string \<Rightarrow> string list \<Rightarrow> ('s world, payment_reply reply) io" where
  "signAndRecord env now requestId mandateId requestedAmount m challenge i merchantDomain checksPassed =
     (let policyHash = hashPolicy (pe_keccak_text env) m in
      andThen (performSigning env now requestId mandateId m challenge requestedAmount (nowSec now)
        CARDAPI_SANDBOX_ISSUE_CARD policyHash (i_instructionHash i) merchantDomain) (\<lambda>signing.
        case signing of
          SigningFail st c msg retry \<Rightarrow>
            andThen (recordDecision now (refusal_entry now requestId Refused ''signer_refused'' msg))
              (\<lambda>_. ret (sendError st c msg requestId retry))
        | SigningOk header nonce validAfter validBefore \<Rightarrow>
            andThen (recordDecision now
              (signed_entry now requestId policyHash merchantDomain validAfter validBefore)) (\<lambda>_.
              ret (Reply 200 (PSigned \<lparr>sg_requestId = requestId, sg_header = header, sg_nonce = nonce,
                sg_validAfter = validAfter, sg_validBefore = validBefore,
                sg_checksPassed = checksPassed, sg_decidedAt = toISOString now\<rparr>)))))"

definition payment_context ::
    "'s policy_env \<Rightarrow> int \<Rightarrow> mandate \<Rightarrow> registry_mandate option \<Rightarrow> x402_requirements \<Rightarrow> string \<Rightarrow>
     string \<times> nat \<Rightarrow> intent \<Rightarrow> check_context" where
  "payment_context env now m registry challenge requestedAmount usage i =
     \<lparr>cx_now = nowSec now, cx_mandate = m, cx_registry = registry, cx_challenge = challenge,
      cx_requestedAmount = requestedAmount, cx_spent = fst usage, cx_cardCount = int (snd usage),
      cx_intentCreatedAt = i_createdAt i, cx_challengeAttachedAt = i_challengeAttachedAt i,
      cx_maxSaneValiditySeconds = pe_maxSaneValiditySeconds env\<rparr>"

text \<open>The checks on a loaded intent, policy and merchant domain.\<close>

definition decidePayment ::
    "'s policy_env \<Rightarrow> int \<Rightarrow> string \<Rightarrow> string \<Rightarrow> string \<Rightarrow> x402_requirements \<Rightarrow> resolved_item \<Rightarrow>
     intent \<Rightarrow> mandate \<Rightarrow> ('s world, payment_reply reply) io" where
  "decidePayment env now requestId mandateId requestedAmount challenge resolvedItem i m =
     (let merchantDomain = r_merchantDomain resolvedItem in
      andThen (getWindowUsage (pe_date_other env) now mandateId (m_windowSeconds m) (m_maxPerWindow m))
        (\<lambda>usage.
      andThen (lift (pe_registry env mandateId (m_chainId m))) (\<lambda>registry.
      let ctx = payment_context env now m registry challenge requestedAmount usage i in
      andThen (lift (run_checks (CHECKS (pe_keccak_text env) (pe_date_other env)) ctx [])) (\<lambda>r.
        case r of
          (_, Some f) \<Rightarrow> respondFailure env now requestId mandateId merchantDomain f
        | (checksPassed, None) \<Rightarrow>
            andThen (getStandingApproval now mandateId merchantDomain) (\<lambda>hasStandingApproval.
              case check9_intent_match heuristicIntentMatcher resolvedItem (m_intentConstraint m)
                     (m_merchantAllowlist m) hasStandingApproval of
                Some f \<Rightarrow> respondFailure env now requestId mandateId merchantDomain f
              | None \<Rightarrow> signAndRecord env now requestId mandateId requestedAmount m challenge i
                  merchantDomain (checksPassed @ [''check9_intent_match'']))))))"

definition payment_request ::
    "'s policy_env \<Rightarrow> int \<Rightarrow> payment_body \<Rightarrow> 's world \<Rightarrow> payment_reply reply \<times> 's world" where
  "payment_request env now body = respond
     (if falsy (pb_requestId body) \<or> falsy (pb_mandateId body) \<or> falsy (pb_requestedAmount body) \<or>
         pb_challenge body = None
      then ret (sendError 400 ''INVALID_BODY''
             ''requestId, mandateId, requestedAmount, challenge are required''
             (coalesce (pb_requestId body) ''n/a'') False)
      else let requestId = the (pb_requestId body); mandateId = the (pb_mandateId body) in
        andThen (getIntent requestId) (\<lambda>intentRecord.
          case precondition_intent_exists intentRecord of
            Some f \<Rightarrow> respondFailure env now requestId mandateId [] f
          | None \<Rightarrow>
              (case pb_resolvedItem body of
                 None \<Rightarrow> refuseAndRecord now requestId ''precondition_merchant_domain''
                   ''resolvedItem.merchantDomain is required to bind the authorization nonce''
               | Some item \<Rightarrow>
                   if js_trim (r_merchantDomain item) = []
                   then refuseAndRecord now requestId ''precondition_merchant_domain''
                     ''resolvedItem.merchantDomain is required to bind the authorization nonce''
                   else andThen (getPolicy mandateId) (\<lambda>policyRecord.
                     case policyRecord of
                       None \<Rightarrow> ret (sendError 404 ''POLICY_NOT_FOUND''
                         (''no policy on file for mandate '' @ mandateId) requestId False)
                     | Some p \<Rightarrow> decidePayment env now requestId mandateId
                         (the (pb_requestedAmount body)) (the (pb_challenge body)) item
                         (the intentRecord) (pr_policy p)))))"

section \<open>POST /escalation/:requestId/resolve\<close>

datatype standing_scope = Once | Merchant_Window

datatype resolve_reply =
    RDenied string string string
  | RSigned string string

text \<open>\<open>resolveEscalationStorage\<close> followed by \<open>recordDecision\<close>.\<close>

definition closeEscalation ::
    "int \<Rightarrow> string \<Rightarrow> escalation_decision \<Rightarrow> string option \<Rightarrow> decision_body \<Rightarrow> ('s world, unit) io" where
  "closeEscalation now requestId d approvedBy entry =
     andThen (resolveEscalationStorage now requestId d approvedBy) (\<lambda>_.
     andThen (recordDecision now entry) (\<lambda>_. ret ()))"

text \<open>The approval once the owner's signature is verified.\<close>

definition approveEscalation ::
    "'s policy_env \<Rightarrow> int \<Rightarrow> string \<Rightarrow> string \<Rightarrow> standing_scope option \<Rightarrow> escalation \<Rightarrow> mandate \<Rightarrow>
     ('s world, resolve_reply reply) io" where
  "approveEscalation env now requestId approvedBy standing e m =
     andThen (getIntent requestId) (\<lambda>intentRecord.
       case Option.bind intentRecord i_challenge of
         None \<Rightarrow> ret (sendError 404 ''CHALLENGE_NOT_FOUND''
           (''no challenge attached to intent '' @ requestId) requestId False)
       | Some challenge \<Rightarrow>
           if (case e_merchantDomain e of None \<Rightarrow> True | Some d \<Rightarrow> js_trim d = [])
           then andThen (closeEscalation now requestId Deny (Some approvedBy)
                  (refusal_entry now requestId Refused ''precondition_merchant_domain''
                    ''the escalation does not contain the merchant domain required to bind the authorization nonce''))
                  (\<lambda>_. ret (sendError 422 ''MERCHANT_DOMAIN_REQUIRED''
                    ''the escalation does not contain the merchant domain required to bind the authorization nonce''
                    requestId False))
           else let merchantDomain = the (e_merchantDomain e);
                    policyHash = hashPolicy (pe_keccak_text env) m in
             andThen (performSigning env now requestId (e_mandateId e) m challenge
               (c_amount challenge) (nowSec now) CARDAPI_SANDBOX_ISSUE_CARD policyHash
               (i_instructionHash (the intentRecord)) merchantDomain) (\<lambda>signing.
               case signing of
                 SigningFail st c msg retry \<Rightarrow>
                   andThen (closeEscalation now requestId Deny (Some approvedBy)
                       (refusal_entry now requestId Refused ''signer_refused'' msg))
                     (\<lambda>_. ret (sendError st c msg requestId retry))
               | SigningOk header nonce validAfter validBefore \<Rightarrow>
                   andThen (closeEscalation now requestId Approve (Some approvedBy)
                       (signed_entry now requestId policyHash merchantDomain validAfter validBefore)) (\<lambda>_.
                   andThen (if standing = Some Merchant_Window \<and> e_reason e = INTENT_MISMATCH
                            then andThen (setStandingApproval now (e_mandateId e) merchantDomain
                                   (nowSec now + m_windowSeconds m)) (\<lambda>_. ret ())
                            else ret ()) (\<lambda>_.
                     ret (Reply 200 (RSigned header nonce))))))"

definition resolve_escalation ::
    "'s policy_env \<Rightarrow> int \<Rightarrow> string \<Rightarrow> escalation_decision option \<Rightarrow> string option \<Rightarrow> string option \<Rightarrow>
     standing_scope option \<Rightarrow> 's world \<Rightarrow> resolve_reply reply \<times> 's world" where
  "resolve_escalation env now requestId decision approvedBy signature standing = respond
     (case decision of
        None \<Rightarrow> ret (sendError 400 ''INVALID_BODY'' ''decision is required'' requestId False)
      | Some d \<Rightarrow>
        andThen (getEscalation requestId) (\<lambda>escalation.
          case escalation of
            None \<Rightarrow> ret (sendError 404 ''ESCALATION_NOT_FOUND''
              (''no escalation for '' @ requestId) requestId False)
          | Some e \<Rightarrow>
              if e_resolved e
              then ret (sendError 409 ''ESCALATION_ALREADY_RESOLVED''
                (''escalation '' @ requestId @ '' was already resolved'') requestId False)
              else if nowSec now > e_expiresAt e
              then andThen (closeEscalation now requestId Deny None
                     (refusal_entry now requestId Refused ''escalation_expired''
                       (''escalation TTL of '' @ dec_int (e_ttlSeconds e) @
                        ''s elapsed with no response; auto-denied'')))
                     (\<lambda>_. ret (sendError 410 ''ESCALATION_EXPIRED''
                       (''escalation '' @ requestId @ '' expired'') requestId False))
              else andThen (getPolicy (e_mandateId e)) (\<lambda>policyRecord.
                case policyRecord of
                  None \<Rightarrow> ret (sendError 404 ''POLICY_NOT_FOUND''
                    (''no policy on file for mandate '' @ e_mandateId e) requestId False)
                | Some p \<Rightarrow>
                    let m = pr_policy p in
                    if falsy approvedBy \<or> to_lower (the approvedBy) \<noteq> to_lower (m_owner m)
                    then ret (sendError 403 ''NOT_MANDATE_OWNER''
                      ''approvedBy does not match mandate.owner'' requestId False)
                    else if falsy signature
                    then ret (sendError 403 ''ESCALATION_SIGNATURE_REQUIRED''
                      ''signature is required to resolve an escalation'' requestId False)
                    else case verifyEscalationSignature (pe_verify env) requestId (e_mandateId e) d
                           (the signature) (m_owner m) of
                        Some reason \<Rightarrow> ret (sendError 403 ''ESCALATION_SIGNATURE_INVALID'' reason
                          requestId False)
                      | None \<Rightarrow>
                          if d = Deny
                          then andThen (closeEscalation now requestId Deny approvedBy
                                 (refusal_entry now requestId Refused ''escalation_denied''
                                   ''human denied the escalated request''))
                                 (\<lambda>_. ret (Reply 200 (RDenied requestId ''escalation_denied''
                                   ''human denied the escalated request'')))
                          else approveEscalation env now requestId (the approvedBy) standing e m)))"

section \<open>The policy routes\<close>

record policy_view =
  pv_mandateId :: string
  pv_policy :: "mandate option"
  pv_policyHash :: hex
  pv_policyVersion :: nat
  pv_onChainHash :: "hex option"
  pv_inSync :: bool

definition policy_get ::
    "'s policy_env \<Rightarrow> string \<Rightarrow> 's world \<Rightarrow> policy_view reply \<times> 's world" where
  "policy_get env mandateId = respond
     (andThen (getPolicy mandateId) (\<lambda>policyRecord.
        case policyRecord of
          None \<Rightarrow> ret (sendError 404 ''POLICY_NOT_FOUND'' (''no policy on file for '' @ mandateId)
            mandateId False)
        | Some p \<Rightarrow>
            let policyHash = hashPolicy (pe_keccak_text env) (pr_policy p) in
            andThen (lift (pe_registry env mandateId (m_chainId (pr_policy p)))) (\<lambda>registry.
              let onChainHash = map_option rm_policyHash registry;
                  inSync = (case onChainHash of None \<Rightarrow> False
                    | Some h \<Rightarrow> to_lower h = to_lower policyHash)
              in ret (Reply 200 \<lparr>pv_mandateId = mandateId, pv_policy = Some (pr_policy p),
                   pv_policyHash = policyHash, pv_policyVersion = pr_policyVersion p,
                   pv_onChainHash = onChainHash, pv_inSync = inSync\<rparr>))))"

text \<open>The two hashes that the reply of a drift carries beside its envelope are left out.\<close>

definition policy_put ::
    "'s policy_env \<Rightarrow> int \<Rightarrow> string \<Rightarrow> mandate option \<Rightarrow> 's world \<Rightarrow> policy_view reply \<times> 's world" where
  "policy_put env now mandateId policy = respond
     (case policy of
        None \<Rightarrow> ret (sendError 400 ''INVALID_BODY'' ''policy is required'' mandateId False)
      | Some p \<Rightarrow>
          let proposedHash = hashPolicy (pe_keccak_text env) p in
          andThen (lift (pe_registry env mandateId (m_chainId p))) (\<lambda>registry.
            case map_option rm_policyHash registry of
              None \<Rightarrow> ret (sendError 404 ''MANDATE_NOT_FOUND''
                (''mandate '' @ mandateId @ '' not found on-chain'') mandateId False)
            | Some onChainHash \<Rightarrow>
                if to_lower proposedHash \<noteq> to_lower onChainHash
                then ret (sendError 409 ''POLICY_HASH_DRIFT''
                  ''the proposed policy body no longer matches the on-chain policyHash'' mandateId False)
                else andThen (putPolicy now mandateId p) (\<lambda>result.
                  ret (Reply 200 \<lparr>pv_mandateId = mandateId, pv_policy = None,
                    pv_policyHash = proposedHash, pv_policyVersion = snd result,
                    pv_onChainHash = Some onChainHash, pv_inSync = True\<rparr>))))"

end
