(* ===== verification/Ledger_Invariants.thy ===== *)
theory Ledger_Invariants
  imports Ledger_Service
begin

text \<open>
  The ledger as a transition system.  A command is a mutating request with its fields; one step
  runs the handler of that command at some instant.  The relation \<open>intent_change\<close> is the
  abstract specification of what a step may do to one intent, and every handler refines it; the
  invariants are then proved once over the relation.  The read routes do not change the store.
\<close>

section \<open>Commands and steps\<close>

datatype ledger_cmd =
    PostIntent "string option" "string option" "string option" "string option" "string option"
  | PostChallenge string "x402_requirements option"
  | PostNonce string "string option"
  | ReleaseNonce string
  | PutPolicy string "mandate option"
  | PostEscalation "string option" "string option" "escalation_reason option" "string option"
      "int option" "string option"
  | PutEscalation string "escalation_decision option" "string option"
  | PostStanding "string option" "string option" "int option"
  | PostDecision decision_body
  | PostSettlement string "string option" "int option" "string option" "string option"
  | PostCapture string "string option" "string option" "string option" "int option"
  | PostSpend string "string option" "string option" "string option" "string option" "string option"

text \<open>Whether the request was accepted, and the store it leaves.\<close>

fun ledger_apply :: "(string \<Rightarrow> hex) \<Rightarrow> int \<Rightarrow> ledger_cmd \<Rightarrow> ledger \<Rightarrow> bool \<times> ledger" where
  "ledger_apply h now (PostIntent r m a i c) l = map_prod is_ok id (post_intent h now r m a i c l)"
| "ledger_apply h now (PostChallenge r c) l = map_prod is_ok id (post_challenge now r c l)"
| "ledger_apply h now (PostNonce r n) l = map_prod is_ok id (post_nonce now r n l)"
| "ledger_apply h now (ReleaseNonce r) l = map_prod is_ok id (release_nonce now r l)"
| "ledger_apply h now (PutPolicy m p) l = map_prod is_ok id (put_policy now m p l)"
| "ledger_apply h now (PostEscalation r m e u t d) l =
     map_prod is_ok id (post_escalation now r m e u t d l)"
| "ledger_apply h now (PutEscalation r d b) l = map_prod is_ok id (put_escalation now r d b l)"
| "ledger_apply h now (PostStanding m d e) l = map_prod is_ok id (post_standing_approval now m d e l)"
| "ledger_apply h now (PostDecision b) l = map_prod is_ok id (post_decision now b l)"
| "ledger_apply h now (PostSettlement r t b c w) l =
     map_prod is_ok id (post_settlement now r t b c w l)"
| "ledger_apply h now (PostCapture r i c t b) l = map_prod is_ok id (post_capture now r i c t b l)"
| "ledger_apply h now (PostSpend r m t s i ob) l = map_prod is_ok id (post_spend now r m t s i ob l)"

abbreviation ledger_next :: "(string \<Rightarrow> hex) \<Rightarrow> int \<Rightarrow> ledger_cmd \<Rightarrow> ledger \<Rightarrow> ledger" where
  "ledger_next h now c l \<equiv> snd (ledger_apply h now c l)"

abbreviation accepts :: "(string \<Rightarrow> hex) \<Rightarrow> int \<Rightarrow> ledger_cmd \<Rightarrow> ledger \<Rightarrow> bool" where
  "accepts h now c l \<equiv> fst (ledger_apply h now c l)"

text \<open>A sequence of requests, each with the instant at which it is handled.\<close>

fun ledger_run :: "(string \<Rightarrow> hex) \<Rightarrow> (int \<times> ledger_cmd) list \<Rightarrow> ledger \<Rightarrow> ledger" where
  "ledger_run h [] l = l"
| "ledger_run h ((now, c) # cs) l = ledger_run h cs (ledger_next h now c l)"

inductive ledger_reachable :: "(string \<Rightarrow> hex) \<Rightarrow> ledger \<Rightarrow> bool" for h where
  start: "ledger_reachable h empty_ledger"
| step: "ledger_reachable h l \<Longrightarrow> ledger_reachable h (ledger_next h now c l)"

lemma ledger_reachable_run: "ledger_reachable h l \<Longrightarrow> ledger_reachable h (ledger_run h cs l)"
  by (induction h cs l rule: ledger_run.induct) (auto intro: ledger_reachable.step)

lemma ledger_run_append: "ledger_run h (cs @ ds) l = ledger_run h ds (ledger_run h cs l)"
  by (induction h cs l rule: ledger_run.induct) auto

lemmas intent_handler_defs = post_intent_def post_challenge_def post_nonce_def release_nonce_def
  post_decision_def post_settlement_def post_capture_def post_spend_def intent_not_found_def

lemmas other_handler_defs = put_policy_def post_escalation_def put_escalation_def
  post_standing_approval_def escalation_not_found_def

section \<open>What a step may do to one intent\<close>

inductive intent_change ::
    "(string \<Rightarrow> hex) \<Rightarrow> string \<Rightarrow> intent option \<Rightarrow> intent option \<Rightarrow> bool" for h k where
  same: "intent_change h k x x"
| create: "i_requestId i = k \<Longrightarrow> k \<noteq> [] \<Longrightarrow> i_instructionHash i = hashIntentInstruction h (i_instruction i) \<Longrightarrow>
    i_challenge i = None \<Longrightarrow> i_challengeAttachedAt i = None \<Longrightarrow> i_nonce i = None \<Longrightarrow>
    i_nonceReservedAt i = None \<Longrightarrow> \<not> i_nonceReleased i \<Longrightarrow>
    i_decision i = None \<Longrightarrow> i_decidedAt i = None \<Longrightarrow> i_settlement i = None \<Longrightarrow> i_capture i = None \<Longrightarrow>
    i_state i = INTENT_CREATED \<Longrightarrow> intent_change h k None (Some i)"
| challenge: "i_challenge i = None \<Longrightarrow>
    intent_change h k (Some i) (Some (i\<lparr>i_challenge := Some c, i_challengeAttachedAt := Some t,
      i_state := CHALLENGE_ATTACHED\<rparr>))"
| reserve: "\<not> nonce_live i \<Longrightarrow> n \<noteq> [] \<Longrightarrow>
    intent_change h k (Some i) (Some (i\<lparr>i_nonce := Some n, i_nonceReservedAt := Some t,
      i_nonceReleased := False, i_state := NONCE_RESERVED\<rparr>))"
| release: "i_decision i \<noteq> Some Signed \<Longrightarrow> nonce_live i \<Longrightarrow>
    intent_change h k (Some i) (Some (i\<lparr>i_nonceReleased := True, i_nonce := None,
      i_nonceReservedAt := None, i_state := CHALLENGE_ATTACHED\<rparr>))"
| decide: "db_decision b \<noteq> None \<Longrightarrow> \<not> falsy (db_decidedAt b) \<Longrightarrow>
    intent_change h k (Some i) (Some (decide b i))"
| settle: "intent_change h k (Some i) (Some (i\<lparr>i_settlement := Some s, i_state := SETTLED\<rparr>))"
| capture: "i_capture i = None \<Longrightarrow> i_settlement i = Some s \<Longrightarrow> cp_settlementTx cp = s_settlementTx s \<Longrightarrow>
    intent_change h k (Some i) (Some (i\<lparr>i_capture := Some cp, i_state := CAPTURED\<rparr>))"
| spend: "intent_change h k (Some i) (Some (i\<lparr>i_spend := Some sp\<rparr>))"

inductive_cases intent_change_from_Some: "intent_change h k (Some i) x"

lemma get_put_intent:
  "jget (l_intents (put_intent now ev k i l)) k' = (if k' = k then Some i else jget (l_intents l) k')"
  by (simp add: jm.get_put)

text \<open>A handler that stores one intent changes only that one, by an allowed change.\<close>

lemma put_intent_change:
  "intent_change h k (jget (l_intents l) k) (Some i) \<Longrightarrow>
   intent_change h k' (jget (l_intents l) k') (jget (l_intents (put_intent now ev k i l)) k')"
  by (simp add: jm.get_put intent_change.same)

lemma post_intent_change:
  "intent_change h k (jget (l_intents l) k) (jget (l_intents (snd (post_intent h now r m a i c l))) k)"
  by (auto simp: post_intent_def Let_def jm.get_put intro!: intent_change.same intent_change.create)

lemma post_challenge_change:
  "intent_change h k (jget (l_intents l) k) (jget (l_intents (snd (post_challenge now r c l))) k)"
  by (auto simp: post_challenge_def Let_def jm.get_put split: option.split
      intro!: intent_change.same intent_change.challenge)

lemma post_nonce_change:
  "intent_change h k (jget (l_intents l) k) (jget (l_intents (snd (post_nonce now r n l))) k)"
  by (auto simp: post_nonce_def Let_def jm.get_put split: option.split
      intro!: intent_change.same intent_change.reserve)

lemma release_nonce_change:
  "intent_change h k (jget (l_intents l) k) (jget (l_intents (snd (release_nonce now r l))) k)"
  by (auto simp: release_nonce_def nonce_live_def Let_def jm.get_put split: option.split
      intro!: intent_change.same intent_change.release)

lemma post_decision_change:
  "intent_change h k (jget (l_intents l) k) (jget (l_intents (snd (post_decision now b l))) k)"
  by (auto simp: post_decision_def Let_def jm.get_put split: option.split
      intro!: intent_change.same intent_change.decide)

lemma post_settlement_change:
  "intent_change h k (jget (l_intents l) k) (jget (l_intents (snd (post_settlement now r t n c w l))) k)"
  by (auto simp: post_settlement_def Let_def jm.get_put split: option.split
      intro!: intent_change.same intent_change.settle)

lemma post_capture_change:
  "intent_change h k (jget (l_intents l) k) (jget (l_intents (snd (post_capture now r oi c t b l))) k)"
  by (auto simp: post_capture_def Let_def jm.get_put split: option.split
      intro!: intent_change.same intent_change.capture)

lemma post_spend_change:
  "intent_change h k (jget (l_intents l) k) (jget (l_intents (snd (post_spend now r m t s oi ob l))) k)"
  by (auto simp: post_spend_def Let_def jm.get_put split: option.split
      intro!: intent_change.same intent_change.spend)

lemma other_handlers_intents [simp]:
  "l_intents (snd (put_policy now m p l)) = l_intents l"
  "l_intents (snd (post_escalation now r m2 e u t d l)) = l_intents l"
  "l_intents (snd (put_escalation now q dd b l)) = l_intents l"
  "l_intents (snd (post_standing_approval now m3 d3 ex l)) = l_intents l"
  by (auto simp: other_handler_defs Let_def split: option.split)

lemmas handler_changes = post_intent_change post_challenge_change post_nonce_change
  release_nonce_change post_decision_change post_settlement_change post_capture_change
  post_spend_change

text \<open>Every step of the ledger refines the relation, at every key.\<close>

lemma ledger_next_change:
  "intent_change h k (jget (l_intents l) k) (jget (l_intents (ledger_next h now c l)) k)"
  by (cases c) (simp_all add: handler_changes intent_change.same)

section \<open>The invariant of an intent\<close>

text \<open>
  What each lifecycle state implies of the record, and which optional fields come together.
  The routes have no guard on the state itself, so the state tells what was written last and not
  that every earlier stage was passed.
\<close>

fun state_ok :: "intent_state \<Rightarrow> intent \<Rightarrow> bool" where
  "state_ok INTENT_CREATED i \<longleftrightarrow> i_challenge i = None \<and> i_nonce i = None \<and> i_settlement i = None \<and>
     i_capture i = None \<and> i_decision i \<noteq> Some Signed"
| "state_ok CHALLENGE_ATTACHED i \<longleftrightarrow> i_challenge i \<noteq> None \<or> i_nonceReleased i"
| "state_ok NONCE_RESERVED i \<longleftrightarrow> nonce_live i"
| "state_ok SIGNED i \<longleftrightarrow> i_decision i \<noteq> None"
| "state_ok SETTLED i \<longleftrightarrow> i_settlement i \<noteq> None"
| "state_ok CAPTURED i \<longleftrightarrow> i_settlement i \<noteq> None \<and> i_capture i \<noteq> None"

definition intent_ok :: "(string \<Rightarrow> hex) \<Rightarrow> string \<Rightarrow> intent \<Rightarrow> bool" where
  "intent_ok h k i \<longleftrightarrow>
     i_requestId i = k \<and> k \<noteq> [] \<and>
     i_instructionHash i = hashIntentInstruction h (i_instruction i) \<and>
     (i_challenge i = None \<longleftrightarrow> i_challengeAttachedAt i = None) \<and>
     (i_nonce i = None \<longleftrightarrow> i_nonceReservedAt i = None) \<and>
     i_nonce i \<noteq> Some [] \<and>
     (i_nonceReleased i \<longrightarrow> i_nonce i = None) \<and>
     (i_decision i = None \<longleftrightarrow> i_decidedAt i = None) \<and>
     (i_capture i \<noteq> None \<longrightarrow> i_settlement i \<noteq> None) \<and>
     state_ok (i_state i) i"

lemma decide_simps [simp]:
  "i_requestId (decide b i) = i_requestId i"
  "i_mandateId (decide b i) = i_mandateId i"
  "i_agentId (decide b i) = i_agentId i"
  "i_instruction (decide b i) = i_instruction i"
  "i_instructionHash (decide b i) = i_instructionHash i"
  "i_createdAt (decide b i) = i_createdAt i"
  "i_challenge (decide b i) = i_challenge i"
  "i_challengeAttachedAt (decide b i) = i_challengeAttachedAt i"
  "i_nonce (decide b i) = i_nonce i"
  "i_nonceReservedAt (decide b i) = i_nonceReservedAt i"
  "i_nonceReleased (decide b i) = i_nonceReleased i"
  "i_decision (decide b i) = db_decision b"
  "i_decidedAt (decide b i) = db_decidedAt b"
  "i_settlement (decide b i) = i_settlement i"
  "i_capture (decide b i) = i_capture i"
  "i_spend (decide b i) = i_spend i"
  "i_state (decide b i) = (if db_decision b = Some Signed then SIGNED else i_state i)"
  by (simp_all add: Ledger_Service.decide_def Let_def)

lemma nonce_live_decide [simp]: "nonce_live (decide b i) = nonce_live i"
  by (simp add: nonce_live_def)

lemma nonce_live_ok: "intent_ok h k i \<Longrightarrow> nonce_live i \<longleftrightarrow> i_nonce i \<noteq> None"
  by (auto simp: intent_ok_def nonce_live_def)

lemma state_ok_spend [simp]: "state_ok s (i\<lparr>i_spend := sp\<rparr>) = state_ok s i"
  by (cases s) (auto simp: nonce_live_def)

lemma state_ok_decide:
  "db_decision b \<noteq> None \<Longrightarrow> state_ok (i_state i) i \<Longrightarrow> state_ok (i_state (decide b i)) (decide b i)"
  by (cases "i_state i") auto

lemma intent_ok_updates:
  assumes "intent_ok h k i"
  shows "i_challenge i = None \<Longrightarrow> intent_ok h k (i\<lparr>i_challenge := Some c, i_challengeAttachedAt := Some t,
      i_state := CHALLENGE_ATTACHED\<rparr>)"
    and "n \<noteq> [] \<Longrightarrow> intent_ok h k (i\<lparr>i_nonce := Some n, i_nonceReservedAt := Some t,
      i_nonceReleased := False, i_state := NONCE_RESERVED\<rparr>)"
    and "intent_ok h k (i\<lparr>i_nonceReleased := True, i_nonce := None, i_nonceReservedAt := None,
      i_state := CHALLENGE_ATTACHED\<rparr>)"
    and "db_decision b \<noteq> None \<Longrightarrow> db_decidedAt b \<noteq> None \<Longrightarrow> intent_ok h k (decide b i)"
    and "intent_ok h k (i\<lparr>i_settlement := Some s, i_state := SETTLED\<rparr>)"
    and "i_settlement i = Some s \<Longrightarrow> intent_ok h k (i\<lparr>i_capture := Some cp, i_state := CAPTURED\<rparr>)"
    and "intent_ok h k (i\<lparr>i_spend := sp\<rparr>)"
  using assms state_ok_decide [of b i]
  by (clarsimp simp: intent_ok_def nonce_live_def)+

lemma intent_change_ok:
  assumes "intent_change h k x y" "\<And>i. x = Some i \<Longrightarrow> intent_ok h k i" "y = Some j"
  shows "intent_ok h k j"
  using assms
proof cases
  case (create i)
  then show ?thesis using assms(3) by (simp add: intent_ok_def)
qed (use assms(2,3) in \<open>auto intro: intent_ok_updates\<close>)

section \<open>What never changes\<close>

definition intent_frozen :: "intent \<Rightarrow> intent \<Rightarrow> bool" where
  "intent_frozen i j \<longleftrightarrow>
     i_requestId j = i_requestId i \<and> i_mandateId j = i_mandateId i \<and> i_agentId j = i_agentId i \<and>
     i_instruction j = i_instruction i \<and> i_instructionHash j = i_instructionHash i \<and>
     i_createdAt j = i_createdAt i \<and>
     (i_challenge i \<noteq> None \<longrightarrow>
        i_challenge j = i_challenge i \<and> i_challengeAttachedAt j = i_challengeAttachedAt i) \<and>
     (i_capture i \<noteq> None \<longrightarrow> i_capture j = i_capture i) \<and>
     (i_settlement i \<noteq> None \<longrightarrow> i_settlement j \<noteq> None) \<and>
     (i_decision i \<noteq> None \<longrightarrow> i_decision j \<noteq> None)"

lemma intent_frozen_refl [simp]: "intent_frozen i i"
  by (simp add: intent_frozen_def)

lemma intent_frozen_trans: "intent_frozen i j \<Longrightarrow> intent_frozen j k \<Longrightarrow> intent_frozen i k"
  by (auto simp: intent_frozen_def)

lemma intent_change_frozen:
  assumes "intent_change h k (Some i) y"
  shows "\<exists>j. y = Some j \<and> intent_frozen i j"
  using assms by cases (auto simp: intent_frozen_def)

lemma ledger_run_frozen:
  "jget (l_intents l) k = Some i \<Longrightarrow>
   \<exists>j. jget (l_intents (ledger_run h cs l)) k = Some j \<and> intent_frozen i j"
proof (induction h cs l arbitrary: i rule: ledger_run.induct)
  case (2 h now c cs l)
  obtain j where j: "jget (l_intents (ledger_next h now c l)) k = Some j" "intent_frozen i j"
    using ledger_next_change [of h k l now c] "2.prems" intent_change_frozen by metis
  from "2.IH" [OF j(1)] j(2) show ?case
    by (auto intro: intent_frozen_trans)
qed simp

end
