(* ===== verification/Samples.thy ===== *)
theory Samples
  imports Policy_Service Ledger_Invariants
begin

text \<open>
  Concrete data for the witnesses: a mandate, a challenge, an item, a ledger in which the intent, its
  challenge and the policy are on file, and an environment whose hash is constant and whose signer
  counts the requests it signs.
\<close>

definition sample_mandate :: mandate where
  "sample_mandate = \<lparr>m_mandateId = ''0xm'', m_owner = ''0xA0'', m_agentId = ''agent'',
     m_chainId = 43113, m_asset = ''0xASSET'', m_settlementRecipient = ''0xPAY'',
     m_maxPerCard = ''20000000'', m_maxPerWindow = ''50000000'', m_maxCardsPerWindow = 5,
     m_windowSeconds = 100, m_maxAuthValiditySeconds = 300, m_expiresAt = 2000, m_revoked = False,
     m_intentConstraint = ''red shoes'', m_merchantAllowlist = [], m_policyVersion = 1\<rparr>"

definition sample_challenge :: x402_requirements where
  "sample_challenge = \<lparr>c_scheme = ''exact'', c_network = ''n'', c_chainId = 43113,
     c_amount = ''7000000'', c_asset = ''0xasset'', c_payTo = ''0xpay'', c_maxTimeoutSeconds = 60,
     c_extra = \<lparr>x_assetTransferMethod = ''eip3009'', x_name = ''XSGD'', x_version = ''2''\<rparr>,
     c_x402Version = 1\<rparr>"

definition sample_item :: resolved_item where
  "sample_item = \<lparr>r_title = ''Red shoes'', r_sku = ''s'', r_price = ''7000000'',
     r_merchantDomain = ''shop.example'', r_checkoutUrl = ''u''\<rparr>"

definition toy_hash :: "string \<Rightarrow> hex" where
  "toy_hash s = ''0x'' @ replicate 64 (CHR ''0'')"

definition sample_registry :: registry_mandate where
  "sample_registry = \<lparr>rm_owner = ''0xA0'', rm_policyHash = toy_hash [], rm_expiresAt = 2000,
     rm_revoked = False\<rparr>"

definition sample_env :: "nat policy_env" where
  "sample_env = \<lparr>pe_keccak_text = toy_hash, pe_keccak_hex = toy_hash, pe_date_other = (\<lambda>s. None),
     pe_verify = (\<lambda>a m s. Inr (a = ''0xA0'')), pe_registry = (\<lambda>m c. Inr (Some sample_registry)),
     pe_sign = (\<lambda>k m td ac re s. (Inr (SignOk ''header'' ''0xW'' ''t''), s + 1)),
     pe_payingWallet = ''0xW'', pe_maxSaneValiditySeconds = 300, pe_escalationTtlSeconds = 300,
     pe_dashboardUrl = ''http://d''\<rparr>"

definition sample_world :: "nat world" where
  "sample_world = \<lparr>wd_ledger = ledger_run toy_hash
     [(0, PostIntent (Some ''r'') (Some ''0xm'') (Some ''agent'') (Some ''buy red shoes'')
        (Some ''1970-01-01T00:00:00.000Z'')),
      (5, PostChallenge ''r'' (Some sample_challenge)),
      (6, PutPolicy ''0xm'' (Some sample_mandate))] empty_ledger, wd_signer = 0\<rparr>"

definition escalated_world :: "nat world" where
  "escalated_world = sample_world\<lparr>wd_ledger := ledger_run toy_hash
     [(7, PostEscalation (Some ''r'') (Some ''0xm'') (Some INTENT_MISMATCH) (Some ''u'') (Some 300)
        (Some ''shop.example''))] (wd_ledger sample_world)\<rparr>"

definition sample_body :: payment_body where
  "sample_body = \<lparr>pb_requestId = Some ''r'', pb_mandateId = Some ''0xm'',
     pb_requestedAmount = Some ''7000000'', pb_challenge = Some sample_challenge,
     pb_resolvedItem = Some sample_item\<rparr>"

text \<open>The sample payment is signed, once.\<close>

lemma sample_payment_signed:
  "is_ok (fst (payment_request sample_env 1000000 sample_body sample_world)) \<and>
   wd_signer (snd (payment_request sample_env 1000000 sample_body sample_world)) = 1"
  by code_simp

end
