(* ===== verification/Der.thy ===== *)
theory Der
  imports Errors "HOL-Library.Word"
begin

unbundle bit_operations_syntax

text \<open>
  The byte codecs of the signer service: \<open>keys/der.ts\<close> (ECDSA signatures in DER and low-s
  normalisation), and the SPKI public key that \<open>keys/local-key-source.ts\<close> builds and
  \<open>keys/derive-address.ts\<close> reads.  A \<open>Uint8Array\<close> is a list of 8-bit words; reading past
  its end gives \<open>undefined\<close>, here \<open>None\<close>.  A \<open>bigint\<close> that the code keeps non-negative is
  a natural number.
\<close>

type_synonym byte = "8 word"

definition byte_at :: "byte list \<Rightarrow> nat \<Rightarrow> byte option" where
  "byte_at bs i = (if i < length bs then Some (bs ! i) else None)"

definition js_slice :: "'a list \<Rightarrow> nat \<Rightarrow> nat \<Rightarrow> 'a list" where
  "js_slice xs i j = drop i (take j xs)"

section \<open>Low s\<close>

definition SECP256K1_ORDER :: nat where
  "SECP256K1_ORDER = 0xfffffffffffffffffffffffffffffffebaaedce6af48a03bbfd25e8cd0364141"

definition SECP256K1_HALF_ORDER :: nat where
  "SECP256K1_HALF_ORDER = drop_bit 1 SECP256K1_ORDER"

definition isHighS :: "nat \<Rightarrow> bool" where
  "isHighS s \<longleftrightarrow> s > SECP256K1_HALF_ORDER"

definition normaliseS :: "nat \<Rightarrow> nat" where
  "normaliseS s = (if isHighS s then SECP256K1_ORDER - s else s)"

definition assertScalar :: "nat \<Rightarrow> string \<Rightarrow> js_error + nat" where
  "assertScalar v name =
     (if v = 0 \<or> v \<ge> SECP256K1_ORDER
      then Inl (JsError (''invalid signature '' @ name @ '': out of range 1..n-1'')) else Inr v)"

section \<open>Lengths\<close>

text \<open>The loop of \<open>encodeLength\<close>: the big-endian bytes of the length in front of \<open>bytes\<close>.\<close>

function length_bytes :: "nat \<Rightarrow> byte list \<Rightarrow> byte list" where
  "length_bytes remaining bytes =
     (if remaining = 0 then bytes
      else length_bytes (drop_bit 8 remaining) (word_of_nat (remaining AND 0xff) # bytes))"
  by pat_completeness auto

termination
  by (relation "measure fst") (simp_all add: drop_bit_eq_div)

declare length_bytes.simps [simp del]

definition encodeLength :: "nat \<Rightarrow> byte list" where
  "encodeLength n =
     (if n < 0x80 then [word_of_nat n]
      else let bytes = length_bytes n [] in (0x80 OR word_of_nat (length bytes)) # bytes)"

text \<open>The loop of \<open>readLength\<close>.\<close>

fun read_bytes :: "string \<Rightarrow> byte list \<Rightarrow> nat \<Rightarrow> nat \<Rightarrow> nat \<Rightarrow> js_error + nat" where
  "read_bytes what der offset 0 acc = Inr acc"
| "read_bytes what der offset (Suc count) acc =
     (case byte_at der offset of
        None \<Rightarrow> Inl (JsError (what @ '' truncated: length''))
      | Some b \<Rightarrow> read_bytes what der (offset + 1) count (acc * 256 + unat b))"

text \<open>\<open>readLength\<close> and \<open>readDerLength\<close> differ in the prefix of their messages only.\<close>

definition readLength :: "string \<Rightarrow> byte list \<Rightarrow> nat \<Rightarrow> js_error + nat \<times> nat" where
  "readLength what der offset =
     (case byte_at der offset of
        None \<Rightarrow> Inl (JsError (what @ '' truncated: missing length''))
      | Some first \<Rightarrow>
          if first < 0x80 then Inr (unat first, offset + 1)
          else let count = unat (first AND 0x7f)
            in if count = 0 then Inl (JsError (what @ '' indefinite length is not allowed''))
               else if count > 4 then Inl (JsError (what @ '' length too large''))
               else bindE (read_bytes what der (offset + 1) count 0)
                 (\<lambda>n. Inr (n, offset + 1 + count)))"

section \<open>Integers and signatures\<close>

text \<open>The bytes of an even number of hex digits.\<close>

fun hex_bytes :: "string \<Rightarrow> byte list" where
  "hex_bytes (a # b # rest) = word_of_nat (of_base 16 [a, b]) # hex_bytes rest"
| "hex_bytes _ = []"

definition toDerInteger :: "nat \<Rightarrow> byte list" where
  "toDerInteger v =
     (if v = 0 then [0]
      else let hex = to_base 16 v;
               padded = (if length hex mod 2 = 0 then hex else CHR ''0'' # hex);
               bytes = hex_bytes padded
        in if hd bytes AND 0x80 \<noteq> 0 then 0 # bytes else bytes)"

definition INTEGER_TAG :: byte where "INTEGER_TAG = 0x02"
definition SEQUENCE_TAG :: byte where "SEQUENCE_TAG = 0x30"
definition BIT_STRING_TAG :: byte where "BIT_STRING_TAG = 0x03"

definition encodeSignatureDer :: "nat \<Rightarrow> nat \<Rightarrow> js_error + byte list" where
  "encodeSignatureDer r s =
     bindE (assertScalar r ''r'') (\<lambda>_.
     bindE (assertScalar s ''s'') (\<lambda>_.
       let rBytes = INTEGER_TAG # encodeLength (length (toDerInteger r)) @ toDerInteger r;
           sBytes = INTEGER_TAG # encodeLength (length (toDerInteger s)) @ toDerInteger s;
           inner = rBytes @ sBytes
       in Inr (SEQUENCE_TAG # encodeLength (length inner) @ inner)))"

text \<open>\<open>value = (value << 8n) | BigInt(byte)\<close> over the content.\<close>

definition bytes_value :: "byte list \<Rightarrow> nat" where
  "bytes_value content = foldl (\<lambda>v b. push_bit 8 v OR unat b) 0 content"

definition readInteger :: "byte list \<Rightarrow> nat \<Rightarrow> js_error + nat \<times> nat" where
  "readInteger der offset =
     (if byte_at der offset \<noteq> Some INTEGER_TAG
      then Inl (JsError ''DER signature INTEGER tag missing'')
      else bindE (readLength ''DER'' der (offset + 1)) (\<lambda>(len, nxt).
        if len = 0 then Inl (JsError ''DER INTEGER is empty'')
        else let content = js_slice der nxt (nxt + len)
          in if length content \<noteq> len then Inl (JsError ''DER INTEGER truncated'')
             else if hd content AND 0x80 \<noteq> 0
             then Inl (JsError ''DER signature INTEGER is negative'')
             else Inr (bytes_value content, nxt + len)))"

definition parseSignatureDer :: "byte list \<Rightarrow> js_error + nat \<times> nat" where
  "parseSignatureDer der =
     (if byte_at der 0 \<noteq> Some SEQUENCE_TAG
      then Inl (JsError ''DER signature must start with a SEQUENCE'')
      else bindE (readLength ''DER'' der 1) (\<lambda>(seqLength, seqContent).
        if seqContent + seqLength \<noteq> length der
        then Inl (JsError ''DER signature length mismatch'')
        else bindE (readInteger der seqContent) (\<lambda>(r, afterR).
          bindE (readInteger der afterR) (\<lambda>(s, afterS).
            if afterS \<noteq> seqContent + seqLength
            then Inl (JsError ''DER signature has trailing bytes'')
            else bindE (assertScalar r ''r'') (\<lambda>r'.
              bindE (assertScalar s ''s'') (\<lambda>s'. Inr (r', s')))))))"

section \<open>SPKI public keys\<close>

definition OID_EC_PUBLIC_KEY :: "byte list" where
  "OID_EC_PUBLIC_KEY = [0x06, 0x07, 0x2a, 0x86, 0x48, 0xce, 0x3d, 0x02, 0x01]"

definition OID_SECP256K1 :: "byte list" where
  "OID_SECP256K1 = [0x06, 0x05, 0x2b, 0x81, 0x04, 0x00, 0x0a]"

definition buildSpkiDer :: "byte list \<Rightarrow> js_error + byte list" where
  "buildSpkiDer point =
     (if length point \<noteq> 65 \<or> byte_at point 0 \<noteq> Some 0x04
      then Inl (JsError ''uncompressed point must be 65 bytes starting with 0x04'')
      else let algorithm = 0x30 # encodeLength (length OID_EC_PUBLIC_KEY + length OID_SECP256K1)
                 @ OID_EC_PUBLIC_KEY @ OID_SECP256K1;
               bitStringContent = 0 # point;
               bitString = 0x03 # encodeLength (length bitStringContent) @ bitStringContent;
               inner = algorithm @ bitString
        in Inr (0x30 # encodeLength (length inner) @ inner))"

definition extractUncompressedPoint :: "byte list \<Rightarrow> js_error + byte list" where
  "extractUncompressedPoint spki =
     (if byte_at spki 0 \<noteq> Some SEQUENCE_TAG
      then Inl (JsError ''SPKI DER must start with a SEQUENCE'')
      else bindE (readLength ''SPKI DER'' spki 1) (\<lambda>(_, cursor).
        if byte_at spki cursor \<noteq> Some SEQUENCE_TAG
        then Inl (JsError ''SPKI DER missing algorithm SEQUENCE'')
        else bindE (readLength ''SPKI DER'' spki (cursor + 1)) (\<lambda>(algLength, algNext).
          let cursor = algNext + algLength
          in if byte_at spki cursor \<noteq> Some BIT_STRING_TAG
             then Inl (JsError ''SPKI DER missing BIT STRING (public key)'')
             else bindE (readLength ''SPKI DER'' spki (cursor + 1)) (\<lambda>(bitLength, contentStart).
               if byte_at spki contentStart \<noteq> Some 0x00
               then Inl (JsError ''SPKI DER BIT STRING has non-zero unused-bits count'')
               else let point = js_slice spki (contentStart + 1) (contentStart + bitLength)
                 in if length point \<noteq> 65 \<or> byte_at point 0 \<noteq> Some 0x04
                    then Inl (JsError (''SPKI DER BIT STRING is not a 65-byte uncompressed secp256k1 point (got ''
                      @ dec (length point) @ '' bytes)''))
                    else Inr point))))"

definition bytesToHex :: "byte list \<Rightarrow> string" where
  "bytesToHex bs = ''0x'' @ concat (map (\<lambda>b. pad_start 2 CHR ''0'' (to_base 16 (unat b))) bs)"

text \<open>
  \<open>addressFromUncompressedPoint\<close> and \<open>deriveAddressFromSpki\<close>: the last 20 bytes of the hash
  of \<open>x || y\<close>, checksummed.  \<open>keccak_bytes\<close> and \<open>getAddress\<close> are the library viem's.
\<close>

definition addressFromUncompressedPoint ::
    "(byte list \<Rightarrow> byte list) \<Rightarrow> (string \<Rightarrow> string) \<Rightarrow> byte list \<Rightarrow> string" where
  "addressFromUncompressedPoint keccak_bytes getAddress point =
     (let hash = keccak_bytes (drop 1 point)
      in getAddress (bytesToHex (drop (length hash - 20) hash)))"

definition deriveAddressFromSpki ::
    "(byte list \<Rightarrow> byte list) \<Rightarrow> (string \<Rightarrow> string) \<Rightarrow> byte list \<Rightarrow> js_error + string" where
  "deriveAddressFromSpki keccak_bytes getAddress spki =
     bindE (extractUncompressedPoint spki)
       (\<lambda>point. Inr (addressFromUncompressedPoint keccak_bytes getAddress point))"

end
