(* ===== verification/Json_Text.thy ===== *)
theory Json_Text
  imports Js_Values
begin

text \<open>
  \<open>JSON.stringify\<close>, UTF-8 and base64, as the signer uses them to write its payment header.
  Characters are code units below 256; numbers are integers.
\<close>

definition escape_char :: "char \<Rightarrow> string" where
  "escape_char c =
     (if code c = 34 then [CHR 0x5C, CHR 0x22]
      else if code c = 92 then [CHR 0x5C, CHR 0x5C]
      else if code c = 8 then [CHR 0x5C, CHR ''b'']
      else if code c = 9 then [CHR 0x5C, CHR ''t'']
      else if code c = 10 then [CHR 0x5C, CHR ''n'']
      else if code c = 12 then [CHR 0x5C, CHR ''f'']
      else if code c = 13 then [CHR 0x5C, CHR ''r'']
      else if code c < 32 then [CHR 0x5C, CHR ''u''] @ pad_start 4 CHR ''0'' (to_base 16 (code c))
      else [c])"

definition json_quote :: "string \<Rightarrow> string" where
  "json_quote s = CHR 0x22 # concat (map escape_char s) @ [CHR 0x22]"

fun json_stringify :: "json \<Rightarrow> string" where
  "json_stringify JNull = ''null''"
| "json_stringify (JBool b) = (if b then ''true'' else ''false'')"
| "json_stringify (JNum n) = dec_int n"
| "json_stringify (JInfinity p) = ''null''"
| "json_stringify (JStr s) = json_quote s"
| "json_stringify (JArr vs) = ''['' @ js_join '','' (map json_stringify vs) @ '']''"
| "json_stringify (JObj ms) =
     ''{'' @ js_join '','' (map (\<lambda>(k, v). json_quote k @ '':'' @ json_stringify v) ms) @ ''}''"

definition utf8 :: "string \<Rightarrow> nat list" where
  "utf8 s = concat (map (\<lambda>c. if code c < 128 then [code c] else [192 + code c div 64, 128 + code c mod 64]) s)"

section \<open>base64\<close>

definition b64_char :: "nat \<Rightarrow> char" where
  "b64_char n = char_of
     (if n < 26 then 65 + n else if n < 52 then 71 + n else if n < 62 then n - 4
      else if n = 62 then 43 else 47 :: nat)"

definition b64_val :: "char \<Rightarrow> nat" where
  "b64_val c =
     (if 65 \<le> code c \<and> code c \<le> 90 then code c - 65
      else if 97 \<le> code c \<and> code c \<le> 122 then code c - 71
      else if 48 \<le> code c \<and> code c \<le> 57 then code c + 4
      else if code c = 43 then 62 else 63)"

fun base64 :: "nat list \<Rightarrow> string" where
  "base64 [] = []"
| "base64 [a] = [b64_char (a div 4), b64_char (a mod 4 * 16), CHR ''='', CHR ''='']"
| "base64 [a, b] =
     [b64_char (a div 4), b64_char (a mod 4 * 16 + b div 16), b64_char (b mod 16 * 4), CHR ''='']"
| "base64 (a # b # c # rest) =
     b64_char (a div 4) # b64_char (a mod 4 * 16 + b div 16) # b64_char (b mod 16 * 4 + c div 64)
       # b64_char (c mod 64) # base64 rest"

text \<open>The reader of well-formed base64, for stating what the encoder preserves.\<close>

fun base64_read :: "string \<Rightarrow> nat list" where
  "base64_read (p # q # r # s # rest) =
     (if s = CHR ''='' then
        (if r = CHR ''='' then [b64_val p * 4 + b64_val q div 16]
         else [b64_val p * 4 + b64_val q div 16, b64_val q mod 16 * 16 + b64_val r div 4])
      else [b64_val p * 4 + b64_val q div 16, b64_val q mod 16 * 16 + b64_val r div 4,
            b64_val r mod 4 * 64 + b64_val s] @ base64_read rest)"
| "base64_read _ = []"

lemma b64_val_char [simp]: "n < 64 \<Longrightarrow> b64_val (b64_char n) = n"
  by (auto simp: b64_val_def b64_char_def)

lemma b64_char_not_pad [simp]: "n < 64 \<Longrightarrow> b64_char n \<noteq> CHR ''=''"
proof
  assume "n < 64" "b64_char n = CHR ''=''"
  then have "code (b64_char n) = 61" by simp
  with \<open>n < 64\<close> show False by (auto simp: b64_char_def split: if_splits)
qed

lemma base64_read_base64: "\<forall>b \<in> set bs. b < 256 \<Longrightarrow> base64_read (base64 bs) = bs"
proof (induction bs rule: base64.induct)
  case (2 a)
  then have "a div 4 < 64" "a mod 4 * 16 < 64" by auto
  then show ?case by simp
next
  case (3 a b)
  then have "a div 4 < 64" "a mod 4 * 16 + b div 16 < 64" "b mod 16 * 4 < 64" by auto
  moreover have "(a mod 4 * 16 + b div 16) div 16 = a mod 4" "(a mod 4 * 16 + b div 16) mod 16 = b div 16"
    using 3 by auto
  ultimately show ?case by simp
next
  case (4 a b c rest)
  then have "a div 4 < 64" "a mod 4 * 16 + b div 16 < 64" "b mod 16 * 4 + c div 64 < 64" "c mod 64 < 64"
    by auto
  moreover have "(a mod 4 * 16 + b div 16) div 16 = a mod 4" "(a mod 4 * 16 + b div 16) mod 16 = b div 16"
    "(b mod 16 * 4 + c div 64) div 4 = b mod 16" "(b mod 16 * 4 + c div 64) mod 4 = c div 64"
    using 4 by auto
  ultimately show ?case using 4 by simp
qed simp

lemma utf8_simps [simp]:
  "utf8 [] = []"
  "utf8 (c # s) = (if code c < 128 then code c # utf8 s
     else (192 + code c div 64) # (128 + code c mod 64) # utf8 s)"
  by (simp_all add: utf8_def)

lemma utf8_bytes: "\<forall>b \<in> set (utf8 s). b < 256"
proof (induction s)
  case (Cons c s)
  have "code c < 256" by simp
  then have "code c div 64 < 4" by (simp only: less_mult_imp_div_less)
  then have "192 + code c div 64 < 256" by simp
  moreover have "128 + code c mod 64 < 256" by (rule less_trans [of _ 192]) simp_all
  ultimately show ?case using Cons by simp
qed simp

lemma utf8_inj: "utf8 s = utf8 t \<Longrightarrow> s = t"
proof (induction s arbitrary: t)
  case Nil
  then show ?case by (cases t) (auto split: if_splits)
next
  case (Cons c s)
  then obtain d u where t: "t = d # u" by (cases t) (auto split: if_splits)
  have "code c = code d \<and> utf8 s = utf8 u"
  proof (cases "code c < 128 \<or> code d < 128")
    case True
    then show ?thesis using Cons.prems t by (auto split: if_splits)
  next
    case False
    then have "code c div 64 = code d div 64" "code c mod 64 = code d mod 64" "utf8 s = utf8 u"
      using Cons.prems t by simp_all
    then show ?thesis by (metis div_mult_mod_eq)
  qed
  then show ?case using Cons.IH t by (metis char_of_char)
qed

text \<open>A base64 text determines the text it was made from.\<close>

lemma base64_text_inj: "base64 (utf8 s) = base64 (utf8 t) \<Longrightarrow> s = t"
  by (metis base64_read_base64 utf8_bytes utf8_inj)

end
