(* ===== verification/Signer_Rail.thy ===== *)
theory Signer_Rail
  imports Validation Der Json_Text
begin

text \<open>
  \<open>services/signer-service/src/sign\<close>: the pinned mandates and the seven refusals of
  \<open>rail.ts\<close>, the domain assertion and the typed data of \<open>typed-data.ts\<close>, and the signature
  pipeline of \<open>pipeline.ts\<close>.  Curve recovery, the hashes and the checksum are library
  functions and stay arguments.
\<close>

section \<open>Pinned mandates\<close>

text \<open>
  \<open>Object.entries\<close> of a parsed object: the names in the order of their first occurrence, each with
  its last value.  (Names that are array indices would come first; no mandate id is one.)
\<close>

definition object_entries :: "(string \<times> json) list \<Rightarrow> (string \<times> json) list" where
  "object_entries ms = map (\<lambda>k. (k, the (jmember ms k))) (rev (remdups (rev (map fst ms))))"

fun pin_entries ::
    "(string \<times> json) list \<Rightarrow> pinned_mandate jsmap \<Rightarrow> js_error + pinned_mandate jsmap" where
  "pin_entries [] pinned = Inr pinned"
| "pin_entries ((mandateId, v) # rest) pinned =
     (case (jprop v ''settlementRecipient'', jprop v ''hardMaxTotal'') of
        (Some (JStr recipient), Some (JStr ceiling)) \<Rightarrow>
          pin_entries rest (jset (to_lower mandateId)
            \<lparr>p_settlementRecipient = to_lower recipient, p_hardMaxTotal = ceiling\<rparr> pinned)
      | _ \<Rightarrow> Inl (JsError (''PINNED_MANDATES entry \"'' @ mandateId @
               ''\" is missing settlementRecipient or hardMaxTotal'')))"

text \<open>\<open>json_parse\<close> is the host's \<open>JSON.parse\<close>, \<open>None\<close> when it throws.\<close>

definition parsePinnedMandates ::
    "(string \<Rightarrow> json option) \<Rightarrow> string option \<Rightarrow> js_error + pinned_mandate jsmap" where
  "parsePinnedMandates json_parse raw =
     (if falsy raw then Inr []
      else case json_parse (the raw) of
        None \<Rightarrow> Inl (JsError ''PINNED_MANDATES is not valid JSON'')
      | Some (JObj ms) \<Rightarrow> pin_entries (object_entries ms) []
      | Some _ \<Rightarrow> Inl (JsError ''PINNED_MANDATES must be a JSON object''))"

definition parseUintAsBigInt :: "string \<Rightarrow> js_error + int" where
  "parseUintAsBigInt v =
     (if \<not> is_decimal v
      then Inl (JsError (''hardMaxTotal must be a base-unit decimal string, got \"'' @ v @ ''\"''))
      else bigint v)"

section \<open>The rail\<close>

record rail_input =
  ri_mandateId :: hex
  ri_from :: hex
  ri_to :: hex
  ri_value :: int
  ri_validAfter :: int
  ri_validBefore :: int
  ri_chainId :: int

record rail_config =
  rl_pinned :: "pinned_mandate jsmap"
  rl_signerAddress :: hex
  rl_chainId :: int
  rl_hasSeen :: "string \<Rightarrow> bool"

datatype rail_result = RailOk | RailRefuse error_code string nat

definition checkRail :: "rail_input \<Rightarrow> string \<Rightarrow> rail_config \<Rightarrow> js_error + rail_result" where
  "checkRail input requestId config =
     (case jget (rl_pinned config) (ri_mandateId input) of
        None \<Rightarrow> Inr (RailRefuse SIGNER_UNPINNED_MANDATE ''mandateId is not in the pinned map'' 403)
      | Some entry \<Rightarrow>
          if ri_to input \<noteq> p_settlementRecipient entry
          then Inr (RailRefuse SIGNER_WRONG_RECIPIENT ''message.to != pinned settlementRecipient'' 403)
          else bindE (parseUintAsBigInt (p_hardMaxTotal entry)) (\<lambda>hardMax.
            if ri_value input > hardMax
            then Inr (RailRefuse SIGNER_CEILING ''message.value exceeds pinned hardMaxTotal'' 403)
            else if ri_from input \<noteq> rl_signerAddress config
            then Inr (RailRefuse SIGNER_WRONG_FROM ''message.from != configured paying wallet'' 403)
            else if ri_chainId input \<noteq> rl_chainId config
            then Inr (RailRefuse SIGNER_WRONG_CHAIN ''domain.chainId != configured chain'' 403)
            else if ri_validBefore input - ri_validAfter input > MAX_AUTH_WINDOW_SECONDS
            then Inr (RailRefuse SIGNER_WINDOW
              (''validBefore - validAfter exceeds '' @ dec_int MAX_AUTH_WINDOW_SECONDS @ ''s'') 403)
            else if rl_hasSeen config requestId
            then Inr (RailRefuse SIGNER_REPLAY ''requestId already signed'' 409)
            else Inr RailOk))"

definition throwRailRefusal :: "rail_result \<Rightarrow> js_error + unit" where
  "throwRailRefusal r = (case r of RailOk \<Rightarrow> Inr () | RailRefuse c msg st \<Rightarrow> Inl (signerRefusal c msg))"

section \<open>Typed data\<close>

record expected_domain =
  x_chainId :: int
  x_asset :: hex
  x_domainName :: string
  x_domainVersion :: string

record typed_data_input =
  bt_from :: hex
  bt_to :: hex
  bt_value :: string
  bt_validAfter :: int
  bt_validBefore :: int
  bt_nonce :: hex
  bt_domain :: td_domain

definition assertDomainMatches :: "td_domain \<Rightarrow> expected_domain \<Rightarrow> js_error + unit" where
  "assertDomainMatches d e =
     (let verifyingContract = to_lower (d_verifyingContract d)
      in if d_chainId d \<noteq> x_chainId e \<or> verifyingContract \<noteq> to_lower (x_asset e) \<or>
            d_name d \<noteq> x_domainName e \<or> d_version d \<noteq> x_domainVersion e
         then Inl (signerRefusal SIGNER_DOMAIN_MISMATCH
           (''challenge domain does not match configured chain constants (chainId '' @
            dec_int (d_chainId d) @ '', verifyingContract '' @ verifyingContract @ '', name '' @
            d_name d @ '', version '' @ d_version d @ '')''))
         else Inr ())"

definition buildTransferWithAuthorizationTypedData :: "typed_data_input \<Rightarrow> typed_data" where
  "buildTransferWithAuthorizationTypedData b =
     \<lparr>td_domain_of = (bt_domain b)\<lparr>d_verifyingContract := to_lower (d_verifyingContract (bt_domain b))\<rparr>,
      td_primaryType = ''TransferWithAuthorization'',
      td_types = [(''from'', ''address''), (''to'', ''address''), (''value'', ''uint256''),
        (''validAfter'', ''uint256''), (''validBefore'', ''uint256''), (''nonce'', ''bytes32'')],
      td_message_of = \<lparr>t_from = to_lower (bt_from b), t_to = to_lower (bt_to b), t_value = bt_value b,
        t_validAfter = bt_validAfter b, t_validBefore = bt_validBefore b, t_nonce = bt_nonce b\<rparr>\<rparr>"

section \<open>The pipeline\<close>

record signature_parts =
  g_v :: nat
  g_r :: hex
  g_s :: hex

text \<open>\<open>n.toString(16)\<close> of a \<open>bigint\<close>.\<close>

definition big_hex :: "int \<Rightarrow> string" where
  "big_hex n = (if n < 0 then CHR ''-'' # to_base 16 (nat (- n)) else to_base 16 (nat n))"

definition packSignature65 :: "signature_parts \<Rightarrow> js_error + hex" where
  "packSignature65 parts =
     bindE (bigint (g_r parts)) (\<lambda>r.
     bindE (bigint (g_s parts)) (\<lambda>s.
       Inr (''0x'' @ pad_start 64 CHR ''0'' (big_hex r) @ pad_start 64 CHR ''0'' (big_hex s) @
         pad_start 2 CHR ''0'' (to_base 16 (g_v parts)))))"

record x402_authorization =
  au_from :: address
  au_to :: address
  au_value :: string
  au_validAfter :: string
  au_validBefore :: string
  au_nonce :: hex

record x402_header_input =
  h_x402Version :: json
  h_resource :: string
  h_accepted :: x402_accepted
  h_authorization :: x402_authorization

definition accepted_json :: "x402_accepted \<Rightarrow> json" where
  "accepted_json c = JObj
     [(''scheme'', JStr (c_scheme c)), (''network'', JStr (c_network c)), (''chainId'', JNum (c_chainId c)),
      (''amount'', JStr (c_amount c)), (''asset'', JStr (c_asset c)), (''payTo'', JStr (c_payTo c)),
      (''maxTimeoutSeconds'', JNum (c_maxTimeoutSeconds c)),
      (''extra'', JObj [(''assetTransferMethod'', JStr (x_assetTransferMethod (c_extra c))),
        (''name'', JStr (x_name (c_extra c))), (''version'', JStr (x_version (c_extra c)))])]"

definition authorization_json :: "x402_authorization \<Rightarrow> json" where
  "authorization_json a = JObj
     [(''from'', JStr (au_from a)), (''to'', JStr (au_to a)), (''value'', JStr (au_value a)),
      (''validAfter'', JStr (au_validAfter a)), (''validBefore'', JStr (au_validBefore a)),
      (''nonce'', JStr (au_nonce a))]"

definition x402_payload :: "x402_header_input \<Rightarrow> hex \<Rightarrow> json" where
  "x402_payload input signature65 = JObj
     [(''x402Version'', h_x402Version input), (''resource'', JStr (h_resource input)),
      (''accepted'', accepted_json (h_accepted input)),
      (''payload'', JObj [(''signature'', JStr signature65),
        (''authorization'', authorization_json (h_authorization input))]),
      (''extensions'', JObj [])]"

definition buildX402Header :: "x402_header_input \<Rightarrow> signature_parts \<Rightarrow> js_error + string" where
  "buildX402Header input signature =
     bindE (packSignature65 signature) (\<lambda>sig65.
       Inr (base64 (utf8 (json_stringify (x402_payload input sig65)))))"

definition toBigIntHex :: "nat \<Rightarrow> hex" where
  "toBigIntHex v =
     (let hex = to_base 16 v in ''0x'' @ (if length hex mod 2 \<noteq> 0 then CHR ''0'' # hex else hex))"

definition bigIntTo32Bytes :: "nat \<Rightarrow> byte list" where
  "bigIntTo32Bytes v = hex_bytes (pad_start 64 CHR ''0'' (to_base 16 v))"

text \<open>
  \<open>recoverV\<close>.  \<open>recover_point\<close> is the curve library's public-key recovery from the 65 bytes of
  recovery id, r and s: the uncompressed point, \<open>None\<close> when it throws.
\<close>

fun try_recovery ::
    "(byte list \<Rightarrow> byte list option) \<Rightarrow> (byte list \<Rightarrow> address) \<Rightarrow> nat \<Rightarrow> nat \<Rightarrow> address \<Rightarrow> nat list \<Rightarrow>
     nat option" where
  "try_recovery recover_point point_address r s expected [] = None"
| "try_recovery recover_point point_address r s expected (recovery # rest) =
     (case recover_point (word_of_nat recovery # bigIntTo32Bytes r @ bigIntTo32Bytes s) of
        None \<Rightarrow> try_recovery recover_point point_address r s expected rest
      | Some point \<Rightarrow>
          if point_address point = expected then Some (27 + (recovery AND 1))
          else try_recovery recover_point point_address r s expected rest)"

definition recoverV ::
    "(byte list \<Rightarrow> byte list \<Rightarrow> byte list option) \<Rightarrow> (byte list \<Rightarrow> byte list) \<Rightarrow> (string \<Rightarrow> string) \<Rightarrow>
     nat \<Rightarrow> nat \<Rightarrow> byte list \<Rightarrow> address \<Rightarrow> js_error + nat" where
  "recoverV recover_key keccak_bytes getAddress r s digest derivedAddress =
     (case try_recovery (\<lambda>sig. recover_key sig digest) (addressFromUncompressedPoint keccak_bytes getAddress)
             r s (getAddress derivedAddress) [0, 1, 2, 3] of
        None \<Rightarrow> Inl (JsError (''signature recovery failed: no recovery id recovers '' @ derivedAddress))
      | Some v \<Rightarrow> Inr v)"

definition parseAndNormalise :: "byte list \<Rightarrow> js_error + nat \<times> nat" where
  "parseAndNormalise der = bindE (parseSignatureDer der) (\<lambda>(r, s). Inr (r, normaliseS s))"

end
