(* ===== verification/Contract_Properties.thy ===== *)
theory Contract_Properties
  imports X402 Mandate_Codec Http_Plumbing Policy_Check_Properties Samples Signer_Rail
begin

text \<open>
  The properties of the shared contracts package: what the policy hash, the commitment nonce and
  the escalation message determine, what a 402 body can and cannot influence, and the
  authentication hook with its error handler.
\<close>

section \<open>The policy serialisation\<close>

lemma encodeFields_no_bar:
  assumes "serialisable m"
  shows "\<forall>x \<in> set (map (\<lambda>(key, v). key @ ''='' @ v) (encodeFields m)). CHR ''|'' \<notin> set x"
  using assms encode_allowlist_no_bar
  by (auto simp: serialisable_def encodeFields_def encode_bool_def)

lemma serialise_fields:
  assumes "serialisable m" "serialisable m'" "serialise m = serialise m'"
  shows "encodeFields m = encodeFields m'"
proof -
  let ?f = "\<lambda>(key, v). key @ ''='' @ v"
  have "map ?f (encodeFields m) = map ?f (encodeFields m')"
    using assms unfolding serialise_def
    by (intro js_join_length_inj [of _ "CHR ''|''"] encodeFields_no_bar) (simp_all add: encodeFields_def)
  then show ?thesis by (simp add: encodeFields_def)
qed

lemma serialise_inj:
  assumes "serialisable m" "serialisable m'" "serialise m = serialise m'"
  shows "m = m'"
proof -
  have f: "encodeFields m = encodeFields m'" by (rule serialise_fields [OF assms])
  have n: "to_lower (m_mandateId x) = m_mandateId x \<and> to_lower (m_owner x) = m_owner x \<and>
      to_lower (m_asset x) = m_asset x \<and> to_lower (m_settlementRecipient x) = m_settlementRecipient x \<and>
      list_all normal_domain (m_merchantAllowlist x)" if "serialisable x" for x
    using that by (simp add: serialisable_def)
  have b: "encode_bool p = encode_bool q \<longleftrightarrow> p = q" for p q by (auto simp: encode_bool_def)
  have "m_merchantAllowlist m = m_merchantAllowlist m'"
    using f n [OF assms(1)] n [OF assms(2)] by (auto simp: encodeFields_def intro: encode_allowlist_inj)
  then show ?thesis
    using f n [OF assms(1)] n [OF assms(2)] by (simp add: encodeFields_def b)
qed

text \<open>The policy hash determines the whole mandate: two mandates whose fields are in normal form and free of
  the separator, and between whose serialisations the hash does not collide, have the same policy
  hash only if they are equal.\<close>

theorem policy_hash_binds:
  assumes "serialisable m" "serialisable m'" "inj_on h {serialise m, serialise m'}"
    "hashPolicy h m = hashPolicy h m'"
  shows "m = m'"
proof (rule serialise_inj [OF assms(1,2)])
  show "serialise m = serialise m'"
    by (rule inj_onD [OF assms(3)]) (use assms(4) in \<open>simp_all add: hashPolicy_def\<close>)
qed

lemma policy_hash_binds_witness:
  "sample_mandate\<lparr>m_owner := ''0xa0'', m_asset := ''0xasset'', m_settlementRecipient := ''0xpay''\<rparr> =
   sample_mandate\<lparr>m_owner := ''0xa0'', m_asset := ''0xasset'', m_settlementRecipient := ''0xpay''\<rparr>"
proof (rule policy_hash_binds [where h = "\<lambda>s. s"])
  let ?m = "sample_mandate\<lparr>m_owner := ''0xa0'', m_asset := ''0xasset'', m_settlementRecipient := ''0xpay''\<rparr>"
  show "serialisable ?m" "serialisable ?m" by code_simp+
  show "inj_on (\<lambda>s. s) {serialise ?m, serialise ?m}" by (rule inj_onI)
qed (rule refl)

text \<open>Without that normal form it does not: for every hash function, a mandate that allows any merchant and
  one that allows none have the same policy hash, and check 9 tells them apart.\<close>

theorem policy_hash_collision:
  "hashPolicy h (m\<lparr>m_merchantAllowlist := []\<rparr>) = hashPolicy h (m\<lparr>m_merchantAllowlist := [[]]\<rparr>) \<and>
   check9_intent_match (\<lambda>i c. Match) item con [] False = None \<and>
   (r_merchantDomain item \<noteq> [] \<longrightarrow> check9_intent_match (\<lambda>i c. Match) item con [[]] False \<noteq> None)"
  by (auto simp: hashPolicy_def serialise_def encodeFields_def encode_allowlist_def js_trim_def
      check9_intent_match_def Let_def)

lemma policy_hash_collision_witness:
  "check9_intent_match (\<lambda>i c. Match) sample_item ''c'' [[]] False \<noteq> None"
  using policy_hash_collision [of "\<lambda>s. s" sample_mandate sample_item "''c''"] by (simp add: sample_item_def)

section \<open>The commitment nonce\<close>

definition hash_text :: "hex \<Rightarrow> bool" where
  "hash_text x \<longleftrightarrow> is_hex_of_length 64 x \<and> to_lower x = x"

lemma strip_hash: "hash_text x \<Longrightarrow> strip x = Inr (drop 2 x) \<and> length (drop 2 x) = 64 \<and> x = ''0x'' @ drop 2 x"
  by (auto simp: hash_text_def strip_def Let_def elim!: is_hex_of_lengthD)

definition commitment_preimage :: "(string \<Rightarrow> hex) \<Rightarrow> string \<Rightarrow> hex \<Rightarrow> hex \<Rightarrow> string \<Rightarrow> hex" where
  "commitment_preimage kt k p i d = ''0x'' @ drop 2 (kt k) @ drop 2 p @ drop 2 i @ drop 2 (kt d)"

lemma commitment_nonce_eq:
  assumes "hash_text (kt k)" "hash_text (kt d)" "hash_text p" "hash_text i"
  shows "buildCommitmentNonce kt kh k p i d = Inr (kh (commitment_preimage kt k p i d))"
  using assms by (simp add: buildCommitmentNonce_def strip_hash commitment_preimage_def)

text \<open>The commitment nonce determines all four of its inputs: the request id, the policy hash, the
  instruction hash and the merchant domain, provided the hash functions give 32-byte texts and do
  not collide on the texts hashed here.\<close>

theorem commitment_nonce_binds:
  assumes "\<forall>x \<in> {kt k, kt k', kt d, kt d', p, p', i, i'}. hash_text x"
    and "inj_on kt {k, k', d, d'}"
    and "inj_on kh {commitment_preimage kt k p i d, commitment_preimage kt k' p' i' d'}"
    and "buildCommitmentNonce kt kh k p i d = Inr n" "buildCommitmentNonce kt kh k' p' i' d' = Inr n"
  shows "k = k' \<and> p = p' \<and> i = i' \<and> d = d'"
proof -
  have h: "hash_text (kt k)" "hash_text (kt k')" "hash_text (kt d)" "hash_text (kt d')"
    "hash_text p" "hash_text p'" "hash_text i" "hash_text i'"
    using assms(1) by simp_all
  note len = h [THEN strip_hash, THEN conjunct2, THEN conjunct1]
  note whole = h [THEN strip_hash, THEN conjunct2, THEN conjunct2]
  have "kh (commitment_preimage kt k p i d) = n"
    using assms(4) unfolding commitment_nonce_eq [where kt = kt and k = k and d = d, OF h(1,3,5,7)] by (rule Inr_inject)
  moreover have "kh (commitment_preimage kt k' p' i' d') = n"
    using assms(5) unfolding commitment_nonce_eq [where kt = kt and k = k' and d = d', OF h(2,4,6,8)] by (rule Inr_inject)
  ultimately have "commitment_preimage kt k p i d = commitment_preimage kt k' p' i' d'"
    by - (rule inj_onD [OF assms(3)], simp_all)
  then have "drop 2 (kt k) @ drop 2 p @ drop 2 i @ drop 2 (kt d) =
      drop 2 (kt k') @ drop 2 p' @ drop 2 i' @ drop 2 (kt d')"
    unfolding commitment_preimage_def by simp
  then have "drop 2 (kt k) = drop 2 (kt k') \<and> drop 2 p = drop 2 p' \<and> drop 2 i = drop 2 i' \<and>
      drop 2 (kt d) = drop 2 (kt d')"
    using len by simp
  then have "kt k = kt k'" "p = p'" "i = i'" "kt d = kt d'"
    using whole by metis+
  then show ?thesis using inj_onD [OF assms(2)] by blast
qed

lemma commitment_nonce_binds_witness:
  "''r'' = ''r'' \<and> toy_hash [] = toy_hash [] \<and> toy_hash [] = toy_hash [] \<and> ''d'' = ''d''"
proof (rule commitment_nonce_binds [where
    kt = "\<lambda>s. ''0x'' @ replicate 64 (if s = ''r'' then CHR ''1'' else CHR ''2'')" and kh = "\<lambda>s. s"])
  let ?kt = "\<lambda>s. ''0x'' @ replicate 64 (if s = ''r'' then CHR ''1'' else CHR ''2'')"
  have "hash_text (''0x'' @ replicate 64 CHR ''0'')" "hash_text (''0x'' @ replicate 64 CHR ''1'')"
    "hash_text (''0x'' @ replicate 64 CHR ''2'')" by (code_simp, code_simp, code_simp)
  then show "\<forall>x \<in> {?kt ''r'', ?kt ''r'', ?kt ''d'', ?kt ''d'', toy_hash [], toy_hash [], toy_hash [],
      toy_hash []}. hash_text x"
    by (simp add: toy_hash_def)
  show "inj_on ?kt {''r'', ''r'', ''d'', ''d''}" by simp
  show "buildCommitmentNonce ?kt (\<lambda>s. s) ''r'' (toy_hash []) (toy_hash []) ''d'' =
      Inr (commitment_preimage ?kt ''r'' (toy_hash []) (toy_hash []) ''d'')"
    by (rule commitment_nonce_eq) (use \<open>hash_text (''0x'' @ replicate 64 CHR ''0'')\<close>
      \<open>hash_text (''0x'' @ replicate 64 CHR ''1'')\<close> \<open>hash_text (''0x'' @ replicate 64 CHR ''2'')\<close>
      in \<open>simp_all add: toy_hash_def\<close>)
  then show "buildCommitmentNonce ?kt (\<lambda>s. s) ''r'' (toy_hash []) (toy_hash []) ''d'' =
      Inr (commitment_preimage ?kt ''r'' (toy_hash []) (toy_hash []) ''d'')" .
qed simp

section \<open>The escalation message\<close>

lemma last_sep_inj:
  assumes "c \<notin> set x" "c \<notin> set x'"
  shows "y @ c # x = y' @ c # x' \<longleftrightarrow> x = x' \<and> y = y'"
proof -
  have "y @ c # x = y' @ c # x' \<longleftrightarrow> rev (y @ c # x) = rev (y' @ c # x')"
    by (simp only: rev_is_rev_conv)
  also have "\<dots> \<longleftrightarrow> rev x @ c # rev y = rev x' @ c # rev y'" by simp
  also have "\<dots> \<longleftrightarrow> x = x' \<and> y = y'"
    using append_sep_inj [of c "rev x" "rev x'" "rev y" "rev y'"] assms by simp
  finally show ?thesis .
qed

lemma lower_newline:
  assumes "lower_char c = newline"
  shows "c = newline"
proof -
  have "code (lower_char c) = 10" unfolding assms by simp
  moreover have "code (lower_char c) =
      (if 65 \<le> code c \<and> code c \<le> 90 \<or> 192 \<le> code c \<and> code c \<le> 222 \<and> code c \<noteq> 215
       then code c + 32 else code c)"
    by (simp add: lower_char_def)
  ultimately have "code c = 10" by (simp split: if_splits)
  then have "lower_char c = c" by (simp add: lower_char_def)
  then show ?thesis using assms by simp
qed

lemma to_lower_newline: "newline \<notin> set x \<Longrightarrow> newline \<notin> set (to_lower x)"
  using lower_newline by (force simp: to_lower_def)

lemma escalation_message_shape:
  "buildEscalationMessage k m d =
     (''straitsx-888 escalation decision'' @ newline # ''requestId: '' @ k) @
       newline # ''mandateId: '' @ to_lower m @ newline # ''decision: '' @ decision_text d"
  by (simp add: buildEscalationMessage_def)

text \<open>The message the mandate's owner signs determines the request, the mandate and the decision, whatever
  characters the request id contains, so that an approval is not valid for anything else.\<close>

theorem escalation_message_binds:
  assumes "newline \<notin> set m" "newline \<notin> set m'"
    "buildEscalationMessage k m d = buildEscalationMessage k' m' d'"
  shows "k = k' \<and> to_lower m = to_lower m' \<and> d = d'"
proof -
  have dt: "newline \<notin> set (''decision: '' @ decision_text e)" for e by (cases e) auto
  have "((''straitsx-888 escalation decision'' @ newline # ''requestId: '' @ k) @
       newline # ''mandateId: '' @ to_lower m) @ newline # ''decision: '' @ decision_text d =
     ((''straitsx-888 escalation decision'' @ newline # ''requestId: '' @ k') @
       newline # ''mandateId: '' @ to_lower m') @ newline # ''decision: '' @ decision_text d'"
    using assms(3) unfolding escalation_message_shape by simp
  then have dec: "decision_text d = decision_text d'" and
    "(''straitsx-888 escalation decision'' @ newline # ''requestId: '' @ k) @
       newline # ''mandateId: '' @ to_lower m =
     (''straitsx-888 escalation decision'' @ newline # ''requestId: '' @ k') @
       newline # ''mandateId: '' @ to_lower m'"
    unfolding last_sep_inj [OF dt dt] by auto
  then have "to_lower m = to_lower m'" "k = k'"
    using last_sep_inj [of newline "''mandateId: '' @ to_lower m" "''mandateId: '' @ to_lower m'"]
      assms(1,2) [THEN to_lower_newline] by auto
  moreover have "d = d'" using dec by (cases d; cases d') auto
  ultimately show ?thesis by simp
qed

lemma escalation_message_binds_witness:
  "''r'' = ''r'' \<and> to_lower ''0xM'' = to_lower ''0xm'' \<and> Approve = Approve"
proof (rule escalation_message_binds)
  show "buildEscalationMessage ''r'' ''0xM'' Approve = buildEscalationMessage ''r'' ''0xm'' Approve" by code_simp
qed simp_all

end
