(* ===== verification/Der_Properties.thy ===== *)
theory Der_Properties
  imports Der
begin

text \<open>
  The byte codecs are correct: an encoded length is read back, a signature encoded in DER is parsed
  back to the same scalars, whatever parses lies in the scalar range, the low-s normalisation picks the one
  representative of a signature and its mirror image, and the point of a public key survives SPKI.
\<close>

section \<open>Bytes and numbers\<close>

definition be_value :: "byte list \<Rightarrow> nat \<Rightarrow> nat" where
  "be_value bs acc = foldl (\<lambda>v b. v * 256 + unat b) acc bs"

lemma be_value_simps [simp]:
  "be_value [] acc = acc"
  "be_value (b # bs) acc = be_value bs (acc * 256 + unat b)"
  by (simp_all add: be_value_def)

lemma be_value_append: "be_value (as @ bs) acc = be_value bs (be_value as acc)"
  by (simp add: be_value_def)

lemma byte_lt [simp]: "unat (b :: byte) < 256"
  using unsigned_less [of b, where 'a = nat] by simp

lemma shift_or: "b < 256 \<Longrightarrow> push_bit 8 (a :: nat) OR b = a * 256 + b"
proof -
  assume b: "b < 256"
  have "take_bit 8 b = b" using b by (simp add: take_bit_nat_eq_self_iff)
  then have "push_bit 8 a AND b = 0"
    by (metis bit_and_iff bit_eqI bit_push_bit_iff bit_take_bit_iff bit_0_eq bot_apply bot_bool_def not_le)
  then show ?thesis by (simp add: disjunctive_add_eq_or [symmetric] push_bit_eq_mult)
qed

lemma bytes_value_eq: "bytes_value bs = be_value bs 0"
  unfolding bytes_value_def be_value_def by (simp add: shift_or)

lemma byte_at_mid [simp]: "byte_at (as @ b # bs) (length as) = Some b"
  by (simp add: byte_at_def)

lemma read_bytes_mid:
  "i = length pre \<Longrightarrow> n = length bs \<Longrightarrow> read_bytes w (pre @ bs @ post) i n acc = Inr (be_value bs acc)"
proof (induction bs arbitrary: pre i n acc)
  case (Cons b bs)
  then show ?case using Cons.IH [of "i + 1" "pre @ [b]" "n - 1"] by (simp add: byte_at_def nth_append)
qed simp

lemma and_0xff: "(n :: nat) AND 0xff = n mod 256"
  using take_bit_eq_mask [of 8 n] by (simp add: take_bit_eq_mod mask_eq_exp_minus_1)

lemma length_bytes_step:
  "n \<noteq> 0 \<Longrightarrow> length_bytes n acc = length_bytes (n div 256) (word_of_nat (n mod 256) # acc)"
  by (simp add: length_bytes.simps [of n] and_0xff drop_bit_eq_div)

lemma length_bytes_0 [simp]: "length_bytes 0 acc = acc"
  by (simp add: length_bytes.simps)

lemma unat_byte [simp]: "unat (word_of_nat (n mod 256) :: byte) = n mod 256"
  by (simp add: unat_of_nat)

lemma length_bytes_value:
  "\<exists>bs. length_bytes n acc = bs @ acc \<and> be_value bs 0 = n \<and>
     (\<forall>k. n < 256 ^ k \<longrightarrow> length bs \<le> k) \<and> (n \<noteq> 0 \<longrightarrow> bs \<noteq> [])"
proof (induction n arbitrary: acc rule: less_induct)
  case (less n)
  show ?case
  proof (cases "n = 0")
    case False
    then obtain bs where bs: "length_bytes (n div 256) (word_of_nat (n mod 256) # acc) =
        bs @ word_of_nat (n mod 256) # acc" "be_value bs 0 = n div 256"
        "\<And>k. n div 256 < 256 ^ k \<Longrightarrow> length bs \<le> k"
      using less.IH [of "n div 256" "word_of_nat (n mod 256) # acc"] by auto
    have "length bs + 1 \<le> k" if "n < 256 ^ k" for k
    proof (cases k)
      case (Suc j)
      with that have "n div 256 < 256 ^ j" by (simp add: less_mult_imp_div_less mult.commute)
      then show ?thesis using bs(3) [of j] Suc by simp
    qed (use that False in simp)
    then show ?thesis
      using bs(1,2) False
      by (intro exI [of _ "bs @ [word_of_nat (n mod 256)]"]) (simp add: length_bytes_step be_value_append)
  qed (auto intro: exI [of _ "[]"])
qed

text \<open>An encoded length is read back wherever it stands.\<close>

lemma readLength_encodeLength:
  assumes "n < 2 ^ 32" "i = length pre"
  shows "readLength w (pre @ encodeLength n @ post) i = Inr (n, i + length (encodeLength n))"
proof (cases "n < 128")
  case True
  then have "(word_of_nat n :: byte) < 0x80"
    by (simp add: word_less_nat_alt unat_of_nat)
  then show ?thesis
    using True assms by (simp add: readLength_def encodeLength_def byte_at_def unat_of_nat)
next
  case False
  obtain bs where bs: "length_bytes n [] = bs" "be_value bs 0 = n" "length bs \<le> 4" "bs \<noteq> []"
    using length_bytes_value [of n "[]"] assms(1) False by auto
  let ?h = "0x80 OR word_of_nat (length bs) :: byte"
  have "0 < length bs" using bs(4) by simp
  with bs(3) have "length bs = 1 \<or> length bs = 2 \<or> length bs = 3 \<or> length bs = 4" by linarith
  then have "\<not> ?h < 0x80" "unat (?h AND 0x7f) = length bs"
    by (auto simp: word_less_nat_alt)
  moreover have "read_bytes w ((pre @ [?h]) @ bs @ post) (i + 1) (length bs) 0 = Inr (be_value bs 0)"
    by (rule read_bytes_mid) (simp_all add: assms(2))
  ultimately show ?thesis
    using False assms(2) bs by (simp add: readLength_def encodeLength_def byte_at_def Let_def)
qed


section \<open>INTEGER\<close>

definition hex_digits :: "string \<Rightarrow> bool" where
  "hex_digits s \<longleftrightarrow> list_all (\<lambda>c. digit_val c < 16) s"

lemma to_base_hex_digits: "hex_digits (to_base 16 n)"
  unfolding hex_digits_def by (rule to_base_all) auto

lemma hex_bytes_value:
  "hex_digits s \<Longrightarrow> even (length s) \<Longrightarrow> be_value (hex_bytes s) acc = acc * 16 ^ length s + of_base 16 s"
proof (induction s arbitrary: acc rule: hex_bytes.induct)
  case (1 a b rest)
  have "of_base 16 [a, b] < 256" using 1(2) by (simp add: hex_digits_def of_base_Cons)
  then have "unat (word_of_nat (of_base 16 [a, b]) :: byte) = of_base 16 [a, b]"
    by (simp add: unat_of_nat)
  moreover have "of_base 16 (a # b # rest) = of_base 16 [a, b] * 16 ^ length rest + of_base 16 rest"
    using of_base_append [of 16 "[a, b]" rest] by simp
  ultimately show ?case using 1 by (simp add: hex_digits_def algebra_simps)
qed auto

lemma hex_bytes_length: "length (hex_bytes s) = length s div 2"
  by (induction s rule: hex_bytes.induct) auto

text \<open>What \<open>toDerInteger\<close> writes: the value, in at least one byte, without a sign bit.\<close>

lemma toDerInteger_ok:
  assumes "v < 256 ^ k" "0 < k"
  shows "be_value (toDerInteger v) 0 = v \<and> toDerInteger v \<noteq> [] \<and> hd (toDerInteger v) AND 0x80 = 0 \<and>
    length (toDerInteger v) \<le> k + 1"
proof (cases "v = 0")
  case False
  define p where "p = (let hex = to_base 16 v in if length hex mod 2 = 0 then hex else CHR ''0'' # hex)"
  have p: "hex_digits p" "even (length p)" "of_base 16 p = v" "p \<noteq> []"
    using to_base_hex_digits [of v] of_to_base [of 16 v]
    by (auto simp: p_def Let_def hex_digits_def of_base_Cons digit_val_def)
  have v: "be_value (hex_bytes p) 0 = v" using hex_bytes_value [OF p(1,2)] p(3) by simp
  then have ne: "hex_bytes p \<noteq> []" using False by auto
  have "v < 16 ^ (2 * k)" using assms(1) by (simp add: power_mult)
  then have "length (to_base 16 v) \<le> 2 * k" using assms(2) by (intro to_base_length_le) auto
  then have "length p \<le> 2 * k + 1" by (auto simp: p_def Let_def)
  then have len: "length (hex_bytes p) \<le> k" using p(2) by (simp add: hex_bytes_length)
  have d: "toDerInteger v = (if hd (hex_bytes p) AND 0x80 \<noteq> 0 then 0 # hex_bytes p else hex_bytes p)"
    using False by (simp add: toDerInteger_def p_def Let_def)
  show ?thesis unfolding d using v ne len by simp
qed (simp add: toDerInteger_def)

lemma readInteger_mid:
  assumes "v < 256 ^ 32" "der = pre @ INTEGER_TAG # encodeLength (length (toDerInteger v)) @ toDerInteger v @ post"
  shows "readInteger der (length pre) =
    Inr (v, length pre + 1 + length (encodeLength (length (toDerInteger v))) + length (toDerInteger v))"
proof -
  note ok = toDerInteger_ok [OF assms(1), simplified]
  have "readLength ''DER'' ((pre @ [INTEGER_TAG]) @ encodeLength (length (toDerInteger v)) @ (toDerInteger v @ post))
      (length pre + 1) = Inr (length (toDerInteger v),
      length pre + 1 + length (encodeLength (length (toDerInteger v))))"
    using ok by (intro readLength_encodeLength) auto
  then have len: "readLength ''DER'' der (length pre + 1) = Inr (length (toDerInteger v),
      length pre + 1 + length (encodeLength (length (toDerInteger v))))"
    by (simp add: assms(2))
  have sl: "js_slice der (length pre + 1 + length (encodeLength (length (toDerInteger v))))
     (length pre + 1 + length (encodeLength (length (toDerInteger v))) + length (toDerInteger v)) = toDerInteger v"
    by (simp add: assms(2) js_slice_def)
  have tag: "byte_at der (length pre) = Some INTEGER_TAG" by (simp add: assms(2))
  show ?thesis
    unfolding readInteger_def len bindE_Inr prod.case sl Let_def bytes_value_eq
    using ok tag by simp
qed


section \<open>Signatures\<close>

lemma order_256: "n < SECP256K1_ORDER \<Longrightarrow> n < 256 ^ 32"
  by (simp add: SECP256K1_ORDER_def)

lemma assertScalar_Inr [simp]: "assertScalar v n = Inr u \<longleftrightarrow> u = v \<and> 0 < v \<and> v < SECP256K1_ORDER"
  by (auto simp: assertScalar_def)

lemma encodeLength_short: "n < 128 \<Longrightarrow> encodeLength n = [word_of_nat n]"
  by (simp add: encodeLength_def)

text \<open>C32. A signature with scalars in range encodes to DER bytes that parse back to the same scalars.\<close>

theorem der_roundtrip:
  assumes "0 < r" "r < SECP256K1_ORDER" "0 < s" "s < SECP256K1_ORDER"
  shows "\<exists>der. encodeSignatureDer r s = Inr der \<and> parseSignatureDer der = Inr (r, s)"
proof -
  let ?R = "toDerInteger r" and ?S = "toDerInteger s"
  define rB where "rB = INTEGER_TAG # encodeLength (length ?R) @ ?R"
  define sB where "sB = INTEGER_TAG # encodeLength (length ?S) @ ?S"
  define der where "der = SEQUENCE_TAG # encodeLength (length (rB @ sB)) @ rB @ sB"
  have R: "length ?R \<le> 33" "length ?S \<le> 33"
    using toDerInteger_ok [OF order_256 [OF assms(2)]] toDerInteger_ok [OF order_256 [OF assms(4)]] by auto
  then have short: "length (rB @ sB) < 128" by (simp add: rB_def sB_def encodeLength_short)
  have enc: "encodeSignatureDer r s = Inr der"
    using assms by (simp add: encodeSignatureDer_def der_def rB_def sB_def assertScalar_def Let_def add.assoc)
  have "readLength ''DER'' ([SEQUENCE_TAG] @ encodeLength (length (rB @ sB)) @ rB @ sB) 1 =
      Inr (length (rB @ sB), 1 + length (encodeLength (length (rB @ sB))))"
    using short by (intro readLength_encodeLength) auto
  then have len: "readLength ''DER'' der 1 = Inr (length (rB @ sB), 2)"
    using short by (simp add: der_def encodeLength_short)
  obtain h where e: "encodeLength (length (rB @ sB)) = [h]"
    using short by (auto simp: encodeLength_short)
  have der2: "der = [SEQUENCE_TAG, h] @ rB @ sB" by (simp add: der_def e del: length_append)
  have "readInteger der (length [SEQUENCE_TAG, h]) = Inr (r, length [SEQUENCE_TAG, h] + 1 +
      length (encodeLength (length ?R)) + length ?R)"
    by (rule readInteger_mid [OF order_256 [OF assms(2)], where post = sB]) (simp add: der2 rB_def)
  then have rI: "readInteger der 2 = Inr (r, 2 + length rB)" by (simp add: rB_def numeral_2_eq_2)
  have "readInteger der (length ([SEQUENCE_TAG, h] @ rB)) = Inr (s, length ([SEQUENCE_TAG, h] @ rB) + 1 +
      length (encodeLength (length ?S)) + length ?S)"
    by (rule readInteger_mid [OF order_256 [OF assms(4)], where post = "[]"]) (simp add: der2 sB_def)
  then have sI: "readInteger der (2 + length rB) = Inr (s, 2 + length rB + length sB)"
    by (simp add: sB_def numeral_2_eq_2)
  have "byte_at der 0 = Some SEQUENCE_TAG" "length der = 2 + length (rB @ sB)"
    using short by (simp_all add: der_def byte_at_def encodeLength_short)
  then have "parseSignatureDer der = Inr (r, s)"
    using assms by (simp add: parseSignatureDer_def len [unfolded One_nat_def] rI sI [simplified] assertScalar_def)
  then show ?thesis using enc by blast
qed

lemma der_roundtrip_witness:
  "\<exists>der. encodeSignatureDer 1 255 = Inr der \<and> parseSignatureDer der = Inr (1, 255)"
  by (rule der_roundtrip) (simp_all add: SECP256K1_ORDER_def)

text \<open>Whatever parses has its scalars in range.\<close>

lemma parseSignatureDer_range:
  "parseSignatureDer der = Inr (r, s) \<Longrightarrow> 0 < r \<and> r < SECP256K1_ORDER \<and> 0 < s \<and> s < SECP256K1_ORDER"
  by (auto simp: parseSignatureDer_def split: if_splits)

lemma normaliseS_range:
  "0 < s \<Longrightarrow> s < SECP256K1_ORDER \<Longrightarrow> 0 < normaliseS s \<and> \<not> isHighS (normaliseS s)"
  by (auto simp: normaliseS_def isHighS_def SECP256K1_HALF_ORDER_def SECP256K1_ORDER_def drop_bit_eq_div)

text \<open>Normalisation maps a scalar in range into the lower half of the order, leaves it there, and gives a
  signature and its mirror image the same scalar, so a signature has one normal form.\<close>

theorem normaliseS_low:
  assumes "0 < s" "s < SECP256K1_ORDER"
  shows "0 < normaliseS s \<and> \<not> isHighS (normaliseS s) \<and> normaliseS (normaliseS s) = normaliseS s \<and>
    normaliseS (SECP256K1_ORDER - s) = normaliseS s \<and>
    (normaliseS s = s \<or> normaliseS s = SECP256K1_ORDER - s)"
  using assms
  by (auto simp: normaliseS_def isHighS_def SECP256K1_HALF_ORDER_def SECP256K1_ORDER_def drop_bit_eq_div)

lemma normaliseS_low_witness: "0 < normaliseS 5 \<and> \<not> isHighS (normaliseS 5)"
  using normaliseS_low [of 5] by (simp add: SECP256K1_ORDER_def)

section \<open>Public keys\<close>

text \<open>The uncompressed point of a public key is read back from the SPKI bytes built for it.\<close>

theorem spki_roundtrip:
  assumes "length point = 65" "hd point = 4"
  shows "\<exists>spki. buildSpkiDer point = Inr spki \<and> extractUncompressedPoint spki = Inr point"
proof -
  define spki where "spki = [0x30, 0x56, 0x30, 0x10, 0x06, 0x07, 0x2a, 0x86, 0x48, 0xce, 0x3d, 0x02, 0x01,
    0x06, 0x05, 0x2b, 0x81, 0x04, 0x00, 0x0a, 0x03, 0x42, 0x00] @ point"
  have p0: "byte_at point 0 = Some 4" using assms by (cases point) (auto simp: byte_at_def)
  have ne: "point \<noteq> []" using assms by auto
  have "buildSpkiDer point = Inr spki"
    using assms p0 by (simp add: buildSpkiDer_def Let_def OID_EC_PUBLIC_KEY_def OID_SECP256K1_def
        encodeLength_short spki_def)
  moreover have "extractUncompressedPoint spki = Inr point"
    using assms p0 ne
    by (simp add: extractUncompressedPoint_def readLength_def byte_at_def spki_def SEQUENCE_TAG_def
        BIT_STRING_TAG_def js_slice_def Let_def word_less_nat_alt)
  ultimately show ?thesis by blast
qed


lemma spki_roundtrip_witness:
  "\<exists>spki. buildSpkiDer (4 # replicate 64 7) = Inr spki \<and> extractUncompressedPoint spki = Inr (4 # replicate 64 7)"
  by (rule spki_roundtrip) simp_all

end
