(* ===== verification/Reservation.thy ===== *)
theory Reservation
  imports Main
begin

text \<open>
  A contract that several services share: something is taken while it is free and held until it is
  released.  The ledger meets it for nonces, challenges, captures and request ids, the signer for
  signed request ids.
\<close>

text \<open>
  The contract: something can be taken only while it is
  free, and once taken it is held until a release is accepted.  A step returns whether it was
  accepted, and the new state.
\<close>

fun run_steps :: "('c \<Rightarrow> 's \<Rightarrow> bool \<times> 's) \<Rightarrow> 'c list \<Rightarrow> 's \<Rightarrow> 's" where
  "run_steps step [] s = s"
| "run_steps step (c # cs) s = run_steps step cs (snd (step c s))"

text \<open>Some step of the sequence satisfies the predicate and is accepted where it is run.\<close>

fun accepted_in :: "('c \<Rightarrow> 's \<Rightarrow> bool \<times> 's) \<Rightarrow> ('c \<Rightarrow> bool) \<Rightarrow> 'c list \<Rightarrow> 's \<Rightarrow> bool" where
  "accepted_in step P [] s \<longleftrightarrow> False"
| "accepted_in step P (c # cs) s \<longleftrightarrow>
     P c \<and> fst (step c s) \<or> accepted_in step P cs (snd (step c s))"

locale reservation =
  fixes step :: "'c \<Rightarrow> 's \<Rightarrow> bool \<times> 's"
    and held :: "'s \<Rightarrow> bool"
    and takes :: "'c \<Rightarrow> bool"
    and frees :: "'c \<Rightarrow> bool"
  assumes take_free: "takes c \<Longrightarrow> fst (step c s) \<Longrightarrow> \<not> held s \<and> held (snd (step c s))"
    and only_free: "held s \<Longrightarrow> \<not> held (snd (step c s)) \<Longrightarrow> frees c \<and> fst (step c s)"
begin

lemma held_run:
  "held s \<Longrightarrow> \<not> accepted_in step frees cs s \<Longrightarrow> held (run_steps step cs s)"
  by (induction cs arbitrary: s) (auto dest: only_free)

lemma take_refused: "held s \<Longrightarrow> takes c \<Longrightarrow> \<not> fst (step c s)"
  using take_free by blast

lemma freed_between:
  assumes "takes c" "fst (step c s)" "takes d" "fst (step d (run_steps step cs (snd (step c s))))"
  shows "accepted_in step frees cs (snd (step c s))"
  using assms held_run take_free take_refused by blast

end

locale permanent = reservation +
  assumes never_freed: "\<not> frees c"
begin

lemma not_accepted [simp]: "\<not> accepted_in step frees cs s"
  by (induction cs arbitrary: s) (auto simp: never_freed)

lemma held_forever: "held s \<Longrightarrow> held (run_steps step cs s)"
  by (rule held_run) simp_all

lemma at_most_once:
  assumes "takes c" "fst (step c s)" "takes d"
  shows "\<not> fst (step d (run_steps step cs (snd (step c s))))"
  using freed_between [OF assms(1,2,3)] by auto

end

end
