(* ===== verification/Ledger_Properties.thy ===== *)
theory Ledger_Properties
  imports Ledger_Invariants Reservation
begin

text \<open>
  The properties of the ledger.  First the invariant of the whole store and the append-only logs,
  then a contract for things that are held until they are released (the locale
  \<open>reservation\<close>), interpreted on nonces, challenges, captures and burned nonces, then the
  arithmetic of the rolling window.
\<close>

section \<open>Refused requests leave the store alone\<close>

text \<open>A request the ledger refuses, with whatever error, changes nothing: neither the intents nor
  the logs, policies, escalations or the event feed.\<close>

theorem refused_unchanged: "\<not> accepts h now c l \<Longrightarrow> ledger_next h now c l = l"
  by (cases c) (auto simp: intent_handler_defs other_handler_defs Let_def
      split: if_split_asm option.split option.split_asm)

lemma refused_unchanged_witness:
  "\<not> accepts (\<lambda>s. s) 0 (PostNonce ''r'' None) empty_ledger \<and>
   ledger_next (\<lambda>s. s) 0 (PostNonce ''r'' None) empty_ledger = empty_ledger"
  using refused_unchanged [of "\<lambda>s. s" 0 "PostNonce ''r'' None" empty_ledger]
  by (simp add: empty_ledger_def post_nonce_def intent_not_found_def)

section \<open>The store invariant\<close>

definition log_ok :: "ledger \<Rightarrow> bool" where
  "log_ok l \<longleftrightarrow> map de_sequence (l_decisionLog l) = [1..<length (l_decisionLog l) + 1] \<and>
     (\<forall>e \<in> set (l_decisionLog l). jget (l_intents l) (de_requestId e) \<noteq> None)"

definition feed_ok :: "ledger \<Rightarrow> bool" where
  "feed_ok l \<longleftrightarrow> map ev_seq (l_events l) = [1..<length (l_events l) + 1] \<and>
     l_seq l = length (l_events l)"

definition intents_ok :: "(string \<Rightarrow> hex) \<Rightarrow> ledger \<Rightarrow> bool" where
  "intents_ok h l \<longleftrightarrow> distinct (jkeys (l_intents l)) \<and>
     (\<forall>k i. jget (l_intents l) k = Some i \<longrightarrow> intent_ok h k i)"

lemma intents_ok_empty [simp]: "intents_ok h empty_ledger"
  by (simp add: intents_ok_def empty_ledger_def jkeys_def)

lemma log_ok_empty [simp]: "log_ok empty_ledger" "feed_ok empty_ledger"
  by (simp_all add: log_ok_def feed_ok_def empty_ledger_def)

lemma distinct_next:
  "distinct (jkeys (l_intents l)) \<Longrightarrow> distinct (jkeys (l_intents (ledger_next h now c l)))"
  by (cases c) (auto simp: intent_handler_defs Let_def jm.distinct_keys_put split: option.split)

lemma intents_ok_next: "intents_ok h l \<Longrightarrow> intents_ok h (ledger_next h now c l)"
  unfolding intents_ok_def
  using intent_change_ok [OF ledger_next_change] distinct_next by metis

text \<open>What each command appends to the decision log and to the feed.\<close>

lemma decision_log_next:
  "l_decisionLog (ledger_next h now c l) = l_decisionLog l \<or>
   (\<exists>e. l_decisionLog (ledger_next h now c l) = l_decisionLog l @ [e] \<and>
        de_sequence e = length (l_decisionLog l) + 1 \<and>
        jget (l_intents l) (de_requestId e) \<noteq> None)"
  by (cases c) (auto simp: intent_handler_defs other_handler_defs Let_def split: option.split)

lemma events_next:
  "ledger_next h now c l = l \<or>
   (\<exists>e. l_events (ledger_next h now c l) = l_events l @ [e] \<and> ev_seq e = l_seq l + 1 \<and>
        ev_at e = toISOString now \<and> l_seq (ledger_next h now c l) = l_seq l + 1)"
  by (cases c) (auto simp: intent_handler_defs other_handler_defs put_intent_def appendEvent_def
      Let_def split: option.split)

lemma intent_kept: "jget (l_intents l) k \<noteq> None \<Longrightarrow> jget (l_intents (ledger_next h now c l)) k \<noteq> None"
  using ledger_next_change [of h k l now c] intent_change_frozen by fastforce

lemma log_ok_next: "log_ok l \<Longrightarrow> log_ok (ledger_next h now c l)"
  using decision_log_next [of h now c l] intent_kept [of l _ h now c]
  unfolding log_ok_def by (elim disjE exE conjE) simp_all

lemma feed_ok_next: "feed_ok l \<Longrightarrow> feed_ok (ledger_next h now c l)"
  using events_next [of h now c l] by (auto simp: feed_ok_def)

lemmas store_ok_next = intents_ok_next log_ok_next feed_ok_next

lemma ledger_ok: "ledger_reachable h l \<Longrightarrow> intents_ok h l"
  by (induction rule: ledger_reachable.induct) (simp_all add: intents_ok_next)

text \<open>C25. In every store the ledger can reach, each intent is filed under its own request id, its hash is
  the hash of its instruction, its optional fields agree with each other and with its state, and
  no request id is filed twice.\<close>

theorem reachable_intents_ok: "ledger_reachable h l \<Longrightarrow> intents_ok h l"
  by (rule ledger_ok)

lemma reachable_intents_ok_witness:
  "\<exists>i. jget (l_intents (ledger_next (\<lambda>s. s) 0 (PostIntent (Some ''r'') (Some ''m'') (Some ''a'')
     (Some ''i'') (Some ''t'')) empty_ledger)) ''r'' = Some i \<and> intent_ok (\<lambda>s. s) ''r'' i"
proof -
  let ?l = "ledger_next (\<lambda>s. s) 0 (PostIntent (Some ''r'') (Some ''m'') (Some ''a'') (Some ''i'')
    (Some ''t'')) empty_ledger"
  have "intents_ok (\<lambda>s. s) ?l"
    by (rule reachable_intents_ok) (intro ledger_reachable.intros)
  moreover have "jget (l_intents ?l) ''r'' \<noteq> None"
    by (simp add: post_intent_def Let_def empty_ledger_def)
  ultimately show ?thesis unfolding intents_ok_def by blast
qed

text \<open>The decision log is numbered 1, 2, ... without gaps, and each entry belongs to a stored intent; the
  event feed is numbered the same way.\<close>

theorem reachable_logs_ok: "ledger_reachable h l \<Longrightarrow> log_ok l \<and> feed_ok l"
  by (induction rule: ledger_reachable.induct) (simp_all add: log_ok_next feed_ok_next)

lemma reachable_logs_ok_witness:
  "map ev_seq (l_events (ledger_next (\<lambda>s. s) 0 (PostIntent (Some ''r'') (Some ''m'') (Some ''a'')
     (Some ''i'') (Some ''t'')) empty_ledger)) = [1]"
proof -
  let ?l = "ledger_next (\<lambda>s. s) 0 (PostIntent (Some ''r'') (Some ''m'') (Some ''a'') (Some ''i'')
    (Some ''t'')) empty_ledger"
  have "log_ok ?l \<and> feed_ok ?l"
    by (rule reachable_logs_ok [where h = "\<lambda>s. s"]) (intro ledger_reachable.intros)
  moreover have "length (l_events ?l) = 1"
    by (simp add: post_intent_def put_intent_def appendEvent_def Let_def empty_ledger_def)
  ultimately show ?thesis by (simp add: feed_ok_def)
qed

text \<open>C28. Once stored, an intent keeps its request id, mandate, agent, instruction, hash and creation time
  through any sequence of requests; an attached challenge and a recorded capture are never
  replaced, and a settlement or decision never disappears.\<close>

theorem intent_immutable:
  "jget (l_intents l) k = Some i \<Longrightarrow>
   \<exists>j. jget (l_intents (ledger_run h cs l)) k = Some j \<and> intent_frozen i j"
  by (rule ledger_run_frozen)

lemma intent_immutable_witness:
  "\<exists>j. jget (l_intents (ledger_run (\<lambda>s. s)
      [(1, PostIntent (Some ''r'') (Some ''m2'') (Some ''a2'') (Some ''other'') (Some ''t2'')),
       (2, PostNonce ''r'' (Some ''n''))]
      (ledger_next (\<lambda>s. s) 0 (PostIntent (Some ''r'') (Some ''m'') (Some ''a'') (Some ''i'') (Some ''t''))
         empty_ledger))) ''r'' = Some j \<and> i_instruction j = ''i''"
proof -
  let ?l = "ledger_next (\<lambda>s. s) 0 (PostIntent (Some ''r'') (Some ''m'') (Some ''a'') (Some ''i'')
    (Some ''t'')) empty_ledger"
  obtain i where i: "jget (l_intents ?l) ''r'' = Some i" "i_instruction i = ''i''"
    by (simp add: post_intent_def Let_def empty_ledger_def)
  then show ?thesis using intent_immutable [OF i(1)] by (fastforce simp: intent_frozen_def)
qed

section \<open>The logs only grow\<close>

lemma prefix_step:
  "\<exists>d. l_decisionLog (ledger_next h now c l) = l_decisionLog l @ d"
  "\<exists>d. l_events (ledger_next h now c l) = l_events l @ d"
  using decision_log_next [of h now c l] events_next [of h now c l] by auto

text \<open>Both logs are append-only: after any sequence of requests, the earlier decision log and the
  earlier events are prefixes of the later ones.\<close>

theorem logs_append_only:
  "(\<exists>d. l_decisionLog (ledger_run h cs l) = l_decisionLog l @ d) \<and>
   (\<exists>d. l_events (ledger_run h cs l) = l_events l @ d)"
proof (induction h cs l rule: ledger_run.induct)
  case (2 h now c cs l)
  then show ?case using prefix_step [of h now c l] by fastforce
qed simp

section \<open>Held until released\<close>

abbreviation timed_step :: "(string \<Rightarrow> hex) \<Rightarrow> int \<times> ledger_cmd \<Rightarrow> ledger \<Rightarrow> bool \<times> ledger" where
  "timed_step h \<equiv> \<lambda>nc. ledger_apply h (fst nc) (snd nc)"

lemma run_steps_ledger [simp]: "run_steps (timed_step h) cs l = ledger_run h cs l"
  by (induction cs arbitrary: l) auto

text \<open>What the intent filed under \<open>k\<close>, if there is one, satisfies.\<close>

definition intent_sat :: "(intent \<Rightarrow> bool) \<Rightarrow> string \<Rightarrow> ledger \<Rightarrow> bool" where
  "intent_sat P k l \<longleftrightarrow> (case jget (l_intents l) k of None \<Rightarrow> False | Some i \<Rightarrow> P i)"

definition reserves :: "string \<Rightarrow> int \<times> ledger_cmd \<Rightarrow> bool" where
  "reserves k nc \<longleftrightarrow> (case snd nc of PostNonce r n \<Rightarrow> r = k | _ \<Rightarrow> False)"

definition releases :: "string \<Rightarrow> int \<times> ledger_cmd \<Rightarrow> bool" where
  "releases k nc \<longleftrightarrow> (case snd nc of ReleaseNonce r \<Rightarrow> r = k | _ \<Rightarrow> False)"

definition attaches :: "string \<Rightarrow> int \<times> ledger_cmd \<Rightarrow> bool" where
  "attaches k nc \<longleftrightarrow> (case snd nc of PostChallenge r c \<Rightarrow> r = k | _ \<Rightarrow> False)"

definition captures :: "string \<Rightarrow> int \<times> ledger_cmd \<Rightarrow> bool" where
  "captures k nc \<longleftrightarrow> (case snd nc of PostCapture r a b c d \<Rightarrow> r = k | _ \<Rightarrow> False)"

definition creates :: "string \<Rightarrow> int \<times> ledger_cmd \<Rightarrow> bool" where
  "creates k nc \<longleftrightarrow> (case snd nc of PostIntent r m a i c \<Rightarrow> r = Some k | _ \<Rightarrow> False)"

text \<open>A decision other than \<open>signed\<close> on the intent.\<close>

definition overwrites :: "string \<Rightarrow> int \<times> ledger_cmd \<Rightarrow> bool" where
  "overwrites k nc \<longleftrightarrow> (case snd nc of
       PostDecision b \<Rightarrow> db_requestId b = Some k \<and> db_decision b \<noteq> Some Signed | _ \<Rightarrow> False)"

definition burned :: "intent \<Rightarrow> bool" where
  "burned i \<longleftrightarrow> nonce_live i \<and> i_decision i = Some Signed"


lemmas command_kind_defs = reserves_def releases_def attaches_def captures_def creates_def
  overwrites_def

lemma intent_sat_next:
  assumes "intent_sat P k l" "\<not> intent_sat P k (ledger_next h now c l)"
  obtains i j where "jget (l_intents l) k = Some i" "P i" "\<not> P j"
    "jget (l_intents (ledger_next h now c l)) k = Some j" "intent_change h k (Some i) (Some j)"
  using assms ledger_next_change [of h k l now c] intent_change_frozen
  by (fastforce simp: intent_sat_def split: option.splits)

text \<open>Only an accepted release frees a nonce, only an accepted other decision unburns it.\<close>

lemma nonce_freed:
  assumes "intent_sat nonce_live k l" "\<not> intent_sat nonce_live k (ledger_next h now c l)"
  shows "c = ReleaseNonce k \<and> accepts h now c l"
  using assms
  by (cases c) (auto simp: intent_sat_def intent_handler_defs other_handler_defs Let_def jm.get_put
      nonce_live_def split: option.splits if_split_asm)

text \<open>Burned, with this nonce.\<close>

definition burned_as :: "string option \<Rightarrow> intent \<Rightarrow> bool" where
  "burned_as n i \<longleftrightarrow> burned i \<and> i_nonce i = n"

lemma unburned:
  assumes "intent_sat (burned_as n) k l" "\<not> intent_sat (burned_as n) k (ledger_next h now c l)"
  shows "overwrites k (now, c) \<and> accepts h now c l"
  using assms
  by (cases c) (auto simp: intent_sat_def intent_handler_defs other_handler_defs Let_def jm.get_put
      burned_as_def burned_def nonce_live_def overwrites_def split: option.splits if_split_asm)

lemma frozen_kept:
  assumes "\<And>i j. P i \<Longrightarrow> intent_frozen i j \<Longrightarrow> P j" "intent_sat P k l"
  shows "intent_sat P k (ledger_next h now c l)"
  using assms ledger_next_change [of h k l now c] intent_change_frozen
  by (fastforce simp: intent_sat_def split: option.splits)


interpretation nonce: reservation "timed_step h" "intent_sat nonce_live k" "reserves k" "releases k"
  for h k
proof
  show "\<not> intent_sat nonce_live k s \<and> intent_sat nonce_live k (snd (timed_step h c s))"
    if "reserves k c" "fst (timed_step h c s)" for c s
    using that by (cases "snd c") (auto simp: reserves_def intent_sat_def post_nonce_def
        intent_not_found_def nonce_live_def Let_def jm.get_put split: option.splits if_split_asm)
  show "releases k c \<and> fst (timed_step h c s)"
    if "intent_sat nonce_live k s" "\<not> intent_sat nonce_live k (snd (timed_step h c s))" for c s
    using nonce_freed [OF that] by (auto simp: releases_def)
qed

interpretation burn: reservation "timed_step h" "intent_sat (burned_as n) k" "\<lambda>c. False" "overwrites k"
  for h n k
  by unfold_locales (auto dest: unburned simp: overwrites_def)

interpretation challenge_slot: permanent "timed_step h" "intent_sat (\<lambda>i. i_challenge i \<noteq> None) k"
  "attaches k" "\<lambda>c. False" for h k
proof
  show "\<not> intent_sat (\<lambda>i. i_challenge i \<noteq> None) k s \<and>
        intent_sat (\<lambda>i. i_challenge i \<noteq> None) k (snd (timed_step h c s))"
    if "attaches k c" "fst (timed_step h c s)" for c s
    using that by (cases "snd c") (auto simp: attaches_def intent_sat_def post_challenge_def
        intent_not_found_def Let_def jm.get_put split: option.splits if_split_asm)
qed (auto dest: frozen_kept [rotated] simp: intent_frozen_def)

interpretation capture_slot: permanent "timed_step h" "intent_sat (\<lambda>i. i_capture i \<noteq> None) k"
  "captures k" "\<lambda>c. False" for h k
proof
  show "\<not> intent_sat (\<lambda>i. i_capture i \<noteq> None) k s \<and>
        intent_sat (\<lambda>i. i_capture i \<noteq> None) k (snd (timed_step h c s))"
    if "captures k c" "fst (timed_step h c s)" for c s
    using that by (cases "snd c") (auto simp: captures_def intent_sat_def post_capture_def
        intent_not_found_def Let_def jm.get_put split: option.splits if_split_asm)
qed (auto dest: frozen_kept [rotated] simp: intent_frozen_def)

interpretation intent_slot: permanent "timed_step h" "intent_sat (\<lambda>i. True) k" "creates k" "\<lambda>c. False"
  for h k
proof
  show "\<not> intent_sat (\<lambda>i. True) k s \<and> intent_sat (\<lambda>i. True) k (snd (timed_step h c s))"
    if "creates k c" "fst (timed_step h c s)" for c s
    using that by (cases "snd c") (auto simp: creates_def intent_sat_def post_intent_def
        Let_def jm.get_put split: option.splits if_split_asm)
qed (auto dest: frozen_kept [rotated])


text \<open>C7. The replay boundary: between two accepted nonce reservations for one request there is an
  accepted release of that request's nonce, whatever else happens in between.\<close>

theorem nonce_exclusive:
  assumes "reserves k c" "fst (timed_step h c l)" "reserves k d"
    "fst (timed_step h d (ledger_run h cs (snd (timed_step h c l))))"
  shows "accepted_in (timed_step h) (releases k) cs (snd (timed_step h c l))"
  using nonce.freed_between [OF assms(1-3), where cs = cs] assms(4) by simp

definition sample_ledger :: "intent_state \<Rightarrow> decision option \<Rightarrow> string option \<Rightarrow> ledger" where
  "sample_ledger st d n = empty_ledger\<lparr>l_intents := [(''r'', 
     \<lparr>i_requestId = ''r'', i_mandateId = ''m'', i_agentId = ''a'',
      i_instruction = ''buy'', i_instructionHash = ''buy'',
      i_createdAt = ''t'', i_challenge = Some \<lparr>c_scheme = ''exact'', c_network = ''n'', c_chainId = 43113,
        c_amount = ''700'', c_asset = ''x'', c_payTo = ''p'', c_maxTimeoutSeconds = 60,
        c_extra = \<lparr>x_assetTransferMethod = ''eip3009'', x_name = ''XSGD'', x_version = ''2''\<rparr>,
        c_x402Version = 1\<rparr>, i_challengeAttachedAt = Some ''t'',
      i_nonce = n, i_nonceReservedAt = n, i_nonceReleased = False,
      i_decision = d, i_decidedAt = (if d = None then None else Some ''1970-01-01T00:00:00.000Z''),
      i_policyHash = None, i_merchantDomain = None, i_validAfter = None, i_validBefore = None,
      i_settlement = None, i_spend = None, i_capture = None, i_state = st\<rparr>)]\<rparr>"

definition signed_body :: decision_body where
  "signed_body = \<lparr>db_requestId = Some ''r'', db_decision = Some Signed, db_check = None, db_detail = None,
     db_decidedAt = Some ''t'', db_policyHash = None, db_merchantDomain = None, db_validAfter = None,
     db_validBefore = None\<rparr>"

lemma nonce_exclusive_witness:
  "accepted_in (timed_step (\<lambda>s. s)) (releases ''r'') [(1, ReleaseNonce ''r'')]
     (snd (timed_step (\<lambda>s. s) (0, PostNonce ''r'' (Some ''n'')) (sample_ledger CHALLENGE_ATTACHED None None)))"
  by (rule nonce_exclusive [where d = "(2, PostNonce ''r'' (Some ''n''))"])
    (simp_all add: reserves_def sample_ledger_def post_nonce_def release_nonce_def nonce_live_def
      Let_def)

text \<open>C18. A decision that is recorded as signed while the request holds a reserved nonce burns that nonce:
  as long as no decision other than signed is then recorded for the request, it keeps this nonce and
  this decision, and every later release and every later reservation for it is refused.\<close>

theorem signed_nonce_terminal:
  assumes "jget (l_intents l) k = Some i" "i_nonce i = Some n" "n \<noteq> []" "\<not> i_nonceReleased i"
    and "db_requestId b = Some k" "db_decision b = Some Signed" "accepts h t (PostDecision b) l"
    and "\<not> accepted_in (timed_step h)
      (\<lambda>(t, c). \<exists>d. c = PostDecision d \<and> db_requestId d = Some k \<and> db_decision d \<noteq> Some Signed) cs
      (ledger_next h t (PostDecision b) l)"
  shows "let l' = ledger_run h cs (ledger_next h t (PostDecision b) l) in
    (\<exists>j. jget (l_intents l') k = Some j \<and> i_nonce j = Some n \<and> \<not> i_nonceReleased j \<and> i_decision j = Some Signed) \<and>
    \<not> accepts h now (ReleaseNonce k) l' \<and> \<not> accepts h now (PostNonce k n') l'"
proof -
  let ?l = "ledger_next h t (PostDecision b) l"
  have start: "intent_sat (burned_as (Some n)) k ?l"
    using assms(1-7)
    by (auto simp: intent_sat_def burned_as_def burned_def nonce_live_def post_decision_def Let_def jm.get_put
        split: option.splits if_split_asm)
  have "overwrites k = (\<lambda>(t, c). \<exists>d. c = PostDecision d \<and> db_requestId d = Some k \<and> db_decision d \<noteq> Some Signed)"
    by (auto simp: fun_eq_iff overwrites_def split: ledger_cmd.splits)
  with burn.held_run [OF start] assms(8) have "intent_sat (burned_as (Some n)) k (ledger_run h cs ?l)" by simp
  then show ?thesis
    by (auto simp: intent_sat_def burned_as_def burned_def nonce_live_def release_nonce_def post_nonce_def Let_def
        split: option.splits)
qed

lemma signed_nonce_terminal_witness:
  "\<not> accepts (\<lambda>s. s) 5 (PostNonce ''r'' (Some ''n2'')) (ledger_run (\<lambda>s. s) [(1, ReleaseNonce ''r'')]
      (ledger_next (\<lambda>s. s) 0 (PostDecision signed_body) (sample_ledger NONCE_RESERVED None (Some ''n''))))"
  using signed_nonce_terminal [where k = "''r''" and l = "sample_ledger NONCE_RESERVED None (Some ''n'')" and
      h = "\<lambda>s. s" and b = signed_body and t = 0 and cs = "[(1, ReleaseNonce ''r'')]" and now = 5 and n = "''n''"
      and n' = "Some ''n2''"]
  by (simp add: sample_ledger_def signed_body_def post_decision_def release_nonce_def Let_def)

text \<open>Without a reserved nonce there is nothing to burn: the signed decision is accepted and so is a
  reservation after it.\<close>

theorem signed_without_nonce_open:
  assumes "jget (l_intents l) k = Some i" "\<not> nonce_live i" "k \<noteq> []" "n \<noteq> []" "s \<noteq> []"
    "db_requestId b = Some k" "db_decision b = Some Signed" "db_decidedAt b = Some s"
  shows "accepts h t (PostDecision b) l \<and>
    accepts h now (PostNonce k (Some n)) (ledger_next h t (PostDecision b) l)"
  using assms
  by (auto simp: post_decision_def post_nonce_def nonce_live_def Let_def jm.get_put split: option.splits)

text \<open>A refusal recorded after the signature lifts the burn: the ledger then accepts the release and a second
  nonce for a request that is already signed.\<close>

theorem refusal_unburns:
  assumes "jget (l_intents l) k = Some i" "burned i" "k \<noteq> []" "t \<noteq> []" "n \<noteq> []"
    "db_requestId b = Some k" "db_decision b = Some Refused" "db_decidedAt b = Some t"
  shows "let l' = ledger_run h [(now, PostDecision b), (now, ReleaseNonce k)] l in
    accepts h now (ReleaseNonce k) (ledger_next h now (PostDecision b) l) \<and>
    accepts h now (PostNonce k (Some n)) l'"
  using assms
  by (auto simp: post_decision_def release_nonce_def post_nonce_def burned_def nonce_live_def Let_def
      jm.get_put split: option.splits)

lemma refusal_unburns_witness:
  "accepts (\<lambda>s. s) 9 (ReleaseNonce ''r'') (ledger_next (\<lambda>s. s) 9 (PostDecision
     \<lparr>db_requestId = Some ''r'', db_decision = Some Refused, db_check = None, db_detail = None,
      db_decidedAt = Some ''t'', db_policyHash = None, db_merchantDomain = None,
      db_validAfter = None, db_validBefore = None\<rparr>)
     (sample_ledger SIGNED (Some Signed) (Some ''n'')))"
  using refusal_unburns [where k = "''r''" and t = "''t''" and n = "''n2''" and h = "\<lambda>s. s" and now = 9
      and l = "sample_ledger SIGNED (Some Signed) (Some ''n'')" and
      b = "\<lparr>db_requestId = Some ''r'', db_decision = Some Refused, db_check = None, db_detail = None,
      db_decidedAt = Some ''t'', db_policyHash = None, db_merchantDomain = None,
      db_validAfter = None, db_validBefore = None\<rparr>"]
  by (simp add: sample_ledger_def burned_def nonce_live_def Let_def)

text \<open>Each request id is created at most once, a challenge is attached to it at most once and a
  capture recorded at most once, over any sequence of requests.\<close>

theorem once_only:
  assumes "kind \<in> {creates, attaches, captures}" "kind k c" "fst (timed_step h c l)" "kind k d"
  shows "\<not> fst (timed_step h d (ledger_run h cs (snd (timed_step h c l))))"
  using assms intent_slot.at_most_once [of k c h l d cs] challenge_slot.at_most_once [of k c h l d cs]
    capture_slot.at_most_once [of k c h l d cs] by auto

lemma once_only_witness:
  "\<not> fst (timed_step (\<lambda>s. s) (9, PostIntent (Some ''r'') (Some ''m2'') (Some ''a'') (Some ''i'') (Some ''t''))
     (ledger_run (\<lambda>s. s) [(2, PostNonce ''r'' (Some ''n''))]
       (snd (timed_step (\<lambda>s. s) (1, PostIntent (Some ''r'') (Some ''m'') (Some ''a'') (Some ''i'') (Some ''t''))
          empty_ledger))))"
  by (rule once_only [where kind = creates and k = "''r''"])
    (simp_all add: creates_def post_intent_def Let_def empty_ledger_def)

text \<open>A capture is accepted only after a settlement and records that settlement's transaction.\<close>

theorem capture_follows_settlement:
  assumes "post_capture now k oi ca tx bn l = (Reply st b, l')"
  shows "\<exists>i s j c. jget (l_intents l) k = Some i \<and> i_settlement i = Some s \<and> i_capture i = None \<and>
    jget (l_intents l') k = Some j \<and> i_settlement j = Some s \<and> i_capture j = Some c \<and>
    cp_settlementTx c = s_settlementTx s \<and> (falsy tx \<or> tx = Some (s_settlementTx s)) \<and>
    i_state j = CAPTURED"
  using assms
  by (cases tx) (auto simp: post_capture_def intent_not_found_def Let_def jm.get_put
      split: option.splits if_split_asm)

lemma capture_follows_settlement_witness:
  "\<exists>b l'. post_capture 5 ''r'' (Some ''o'') (Some ''t'') None None
     (ledger_next (\<lambda>s. s) 4 (PostSettlement ''r'' (Some ''0xab'') (Some 7) (Some ''card'') None)
        (sample_ledger SIGNED (Some Signed) (Some ''n''))) = (Reply 200 b, l') \<and>
     (\<exists>j c. jget (l_intents l') ''r'' = Some j \<and> i_capture j = Some c)"
proof -
  let ?l = "ledger_next (\<lambda>s. s) 4 (PostSettlement ''r'' (Some ''0xab'') (Some 7) (Some ''card'') None)
        (sample_ledger SIGNED (Some Signed) (Some ''n''))"
  obtain b l' where r: "post_capture 5 ''r'' (Some ''o'') (Some ''t'') None None ?l = (Reply 200 b, l')"
    by (simp add: post_capture_def post_settlement_def sample_ledger_def Let_def)
  from capture_follows_settlement [OF r] r show ?thesis by blast
qed

section \<open>The window sum\<close>

text \<open>The amount of an intent's challenge, and what the loop adds for it.\<close>

definition amount_of :: "intent \<Rightarrow> int option" where
  "amount_of i = Option.bind (i_challenge i) (\<lambda>c. js_bigint (c_amount c))"

definition share :: "(intent \<Rightarrow> bool) \<Rightarrow> intent \<Rightarrow> int" where
  "share counted i = (if counted i then the (amount_of i) else 0)"

lemma in_window_challenge: "in_window other m from i \<Longrightarrow> i_challenge i \<noteq> None"
  by (simp add: in_window_def)

lemma window_loop_eq:
  assumes "\<And>i. counted i \<Longrightarrow> i_challenge i \<noteq> None"
  shows "window_loop counted is s n = Inr r \<longleftrightarrow>
    (\<forall>i \<in> set is. counted i \<longrightarrow> amount_of i \<noteq> None) \<and>
    r = (s + sum_list (map (share counted) is), n + length (filter counted is))"
proof (induction "is" arbitrary: s n)
  case (Cons i "is")
  then show ?case
    using assms [of i] by (auto simp: share_def amount_of_def Let_def split: option.splits)
qed auto

text \<open>Replacing a value in an insertion-ordered map changes a sum by that value's share.\<close>

lemma sum_update:
  fixes f :: "'v \<Rightarrow> int"
  assumes "jget m k = Some w"
  shows "sum_list (map f (jvalues (jset k v m))) = sum_list (map f (jvalues m)) - f w + f v"
  using assms by (induction m) (auto simp: jvalues_def split: if_splits)

lemma all_update:
  "jget m k = Some w \<Longrightarrow> \<forall>x \<in> set (jvalues m). P x \<Longrightarrow> P v \<Longrightarrow> \<forall>x \<in> set (jvalues (jset k v m)). P x"
  by (induction m) (auto simp: jvalues_def split: if_splits)

lemma count_filter: "int (length (filter p xs)) = sum_list (map (\<lambda>x. if p x then 1 else 0) xs)"
  by (induction xs) auto

text \<open>C29. The window route counts an intent exactly when it belongs to the mandate, is decided as signed at
  a recorded time that is not before the start of the window, and has a challenge; a recorded time that
  is no date counts as inside.  It answers the sum of the amounts of those challenges, their number, and
  the remaining budget, never below zero.\<close>

theorem window_reply:
  assumes "get_window other now m (Some w) cap l = Reply 200 r"
  shows "\<exists>counted. counted = filter (\<lambda>i. i_mandateId i = m \<and> i_decision i = Some Signed \<and>
        (\<exists>at. i_decidedAt i = Some at \<and> at \<noteq> [] \<and>
          (case date_parse other at of None \<Rightarrow> True | Some t \<Rightarrow> now - w * 1000 \<le> t)) \<and>
        i_challenge i \<noteq> None) (jvalues (l_intents l)) \<and>
      (\<forall>i \<in> set counted. js_bigint (c_amount (the (i_challenge i))) \<noteq> None) \<and>
      (let spent = sum_list (map (\<lambda>i. the (js_bigint (c_amount (the (i_challenge i))))) counted)
       in w_spent r = dec_int spent \<and> w_cardCount r = length counted \<and>
          (case cap of None \<Rightarrow> w_remaining r = None
           | Some t \<Rightarrow> w_remaining r = (if t = [] then None
               else Some (dec_int (max 0 (the (js_bigint t) - spent))))))"
proof -
  let ?in = "in_window other m (Some (now - w * 1000))"
  have inside: "?in = (\<lambda>i. i_mandateId i = m \<and> i_decision i = Some Signed \<and>
        (\<exists>at. i_decidedAt i = Some at \<and> at \<noteq> [] \<and>
          (case date_parse other at of None \<Rightarrow> True | Some t \<Rightarrow> now - w * 1000 \<le> t)) \<and>
        i_challenge i \<noteq> None)"
    by (auto simp: in_window_def fun_eq_iff split: option.splits)
  have sums: "window_loop ?in is 0 0 = Inr (s, c) \<longleftrightarrow>
      (\<forall>i \<in> set (filter ?in is). js_bigint (c_amount (the (i_challenge i))) \<noteq> None) \<and>
      s = sum_list (map (\<lambda>i. the (js_bigint (c_amount (the (i_challenge i))))) (filter ?in is)) \<and>
      c = length (filter ?in is)" for s c "is"
  proof -
    have amount: "amount_of i = js_bigint (c_amount (the (i_challenge i)))" if "?in i" for i
      using in_window_challenge [OF that] by (auto simp: amount_of_def)
    then have "share ?in = (\<lambda>i. if ?in i then the (js_bigint (c_amount (the (i_challenge i)))) else 0)"
      by (auto simp: share_def fun_eq_iff)
    with amount show ?thesis
      by (auto simp: window_loop_eq [OF in_window_challenge] sum_list_map_filter' simp del: not_None_eq)
  qed
  show ?thesis
    using assms unfolding inside [symmetric]
    by (auto simp: get_window_def uncaught_def Let_def sums max_def split: sum.splits option.splits if_split_asm)
qed

lemma window_reply_witness:
  "\<exists>r. get_window (\<lambda>s. None) 1000 ''m'' (Some 1) (Some ''1000'')
     (sample_ledger SIGNED (Some Signed) (Some ''n'')) = Reply 200 r \<and> w_cardCount r = 1"
proof -
  let ?g = "get_window (\<lambda>s. None) 1000 ''m'' (Some 1) (Some ''1000'')
     (sample_ledger SIGNED (Some Signed) (Some ''n''))"
  let ?r = "\<lparr>w_mandateId = ''m'', w_windowSeconds = 1, w_windowStartedAt = ''1970-01-01T00:00:00.000Z'',
    w_spent = ''700'', w_cardCount = 1, w_remaining = Some ''300''\<rparr>"
  have "?g = Reply 200 ?r" by code_simp
  with window_reply [OF this] show ?thesis by (intro exI [of _ ?r]) simp
qed

text \<open>Recording a signed decision inside the window, for an intent that was not signed before, adds
  exactly its challenge amount to the window of its mandate and one card to the count.\<close>

theorem signed_adds_to_window:
  assumes "jget (l_intents l) k = Some i" "i_decision i \<noteq> Some Signed" "amount_of i = Some a" "k \<noteq> []"
    and "b = \<lparr>db_requestId = Some k, db_decision = Some Signed, db_check = None, db_detail = None,
      db_decidedAt = Some t, db_policyHash = ph, db_merchantDomain = d, db_validAfter = va,
      db_validBefore = vb\<rparr>" "t \<noteq> []"
    and "date_parse other t = Some ms" "start \<le> ms"
    and "window_loop (in_window other (i_mandateId i) (Some start)) (jvalues (l_intents l)) 0 0 = Inr (s, n)"
  shows "window_loop (in_window other (i_mandateId i) (Some start))
      (jvalues (l_intents (ledger_next h now (PostDecision b) l))) 0 0 = Inr (s + a, n + 1)"
proof -
  let ?c = "in_window other (i_mandateId i) (Some start)"
  let ?m = "l_intents l" let ?j = "decide b i"
  have l': "l_intents (snd (post_decision now b l)) = jset k ?j ?m"
    using assms by (simp add: post_decision_def Let_def)
  have old: "\<not> ?c i" and new: "?c ?j" "amount_of ?j = Some a"
    using assms by (auto simp: in_window_def amount_of_def split: bind_splits)
  have parts: "\<forall>x \<in> set (jvalues ?m). ?c x \<longrightarrow> amount_of x \<noteq> None"
      "s = sum_list (map (share ?c) (jvalues ?m))" "n = length (filter ?c (jvalues ?m))"
    using assms(9) by (auto simp: window_loop_eq [OF in_window_challenge])
  have "int (length (filter ?c (jvalues (jset k ?j ?m)))) = int n + 1"
    using old new parts(3) by (simp add: count_filter sum_update [OF assms(1)])
  then have n': "length (filter ?c (jvalues (jset k ?j ?m))) = n + 1" by linarith
  have "share ?c i = 0" "share ?c ?j = a"
    using old new by (simp_all add: share_def)
  then have s': "sum_list (map (share ?c) (jvalues (jset k ?j ?m))) = s + a"
    using parts(2) by (simp add: sum_update [OF assms(1)])
  have "\<forall>x \<in> set (jvalues (jset k ?j ?m)). ?c x \<longrightarrow> amount_of x \<noteq> None"
    using all_update [OF assms(1) parts(1), of ?j] new by simp
  then show ?thesis
    using s' n' by (simp add: window_loop_eq [OF in_window_challenge] l')
qed


lemma signed_adds_to_window_witness:
  "window_loop (in_window (\<lambda>s. None) ''m'' (Some 0)) (jvalues (l_intents (ledger_next (\<lambda>s. s) 9
     (PostDecision \<lparr>db_requestId = Some ''r'', db_decision = Some Signed, db_check = None,
       db_detail = None, db_decidedAt = Some ''1970-01-01T00:00:00.000Z'', db_policyHash = None,
       db_merchantDomain = None, db_validAfter = None, db_validBefore = None\<rparr>)
     (sample_ledger NONCE_RESERVED None (Some ''n''))))) 0 0 = Inr (700, 1)"
proof -
  let ?l = "sample_ledger NONCE_RESERVED None (Some ''n'')"
  obtain i where i: "jget (l_intents ?l) ''r'' = Some i" by (simp add: sample_ledger_def)
  then have f: "i_decision i = None" "i_mandateId i = ''m''" "amount_of i = js_bigint ''700''"
    by (auto simp: sample_ledger_def amount_of_def)
  have "js_bigint ''700'' = Some 700" "date_parse (\<lambda>s. None) ''1970-01-01T00:00:00.000Z'' = Some 0"
    "window_loop (in_window (\<lambda>s. None) ''m'' (Some 0)) (jvalues (l_intents ?l)) 0 0 = Inr (0, 0)"
    by (code_simp, code_simp, simp add: sample_ledger_def jvalues_def in_window_def)
  then show ?thesis
    using signed_adds_to_window [OF i, where a = 700 and t = "''1970-01-01T00:00:00.000Z''" and
      other = "\<lambda>s. None" and ms = 0 and start = 0 and s = 0 and n = 0 and h = "\<lambda>s. s" and now = 9 and
      b = "\<lparr>db_requestId = Some ''r'', db_decision = Some Signed, db_check = None, db_detail = None,
        db_decidedAt = Some ''1970-01-01T00:00:00.000Z'', db_policyHash = None, db_merchantDomain = None,
        db_validAfter = None, db_validBefore = None\<rparr>"] f
    by simp
qed

end
