(* ===== verification/Policy_Properties.thy ===== *)
theory Policy_Properties
  imports Policy_Service Policy_Check_Properties Ledger_Properties Contract_Properties
begin

text \<open>
  The policy service composed with the ledger.  The signer's state is an argument of the model, so
  that \<open>the signer is consulted\<close> is visible as a change of that state; the main theorems say
  that this happens only for a payment that the specification authorises, or for an escalation that the
  mandate's owner approved in time.
\<close>

section \<open>Reasoning about actions\<close>

definition keeps_signer :: "('s world, 'a) io \<Rightarrow> bool" where
  "keeps_signer m \<longleftrightarrow> (\<forall>w. wd_signer (snd (m w)) = wd_signer w)"

named_theorems keeps \<open>actions that do not consult the signer\<close>

lemma keeps_basic [keeps]:
  "keeps_signer (ret x)" "keeps_signer (lift r)" "keeps_signer (reading f)" "keeps_signer (writing n g)"
  "keeps_signer (reserveNonce now k v)" "keeps_signer (releaseNonce now k)"
  by (simp_all add: keeps_signer_def reading_def writing_def reserveNonce_def releaseNonce_def
      split: prod.splits)

lemma keeps_andThen [keeps]:
  "keeps_signer m \<Longrightarrow> (\<And>x. keeps_signer (f x)) \<Longrightarrow> keeps_signer (andThen m f)"
  unfolding keeps_signer_def andThen_def by (auto split: prod.split sum.split) (metis snd_conv)+

lemma keeps_client [keeps]:
  "keeps_signer (getIntent k)" "keeps_signer (getPolicy k)" "keeps_signer (getEscalation k)"
  "keeps_signer (getWindowUsage ot now k n t)" "keeps_signer (recordDecision now d)"
  "keeps_signer (createEscalation now k m rs u tt dm)"
  "keeps_signer (resolveEscalationStorage now k ed ap)"
  "keeps_signer (getStandingApproval now m dn)" "keeps_signer (setStandingApproval now m dn ex)"
  "keeps_signer (putPolicy now k pol)"
  by (simp_all add: getIntent_def getPolicy_def getEscalation_def getWindowUsage_def
      recordDecision_def createEscalation_def resolveEscalationStorage_def getStandingApproval_def
      setStandingApproval_def putPolicy_def keeps)

lemma keeps_refuse [keeps]: "keeps_signer (refuseAndRecord now k c d)"
  by (simp add: refuseAndRecord_def keeps)

lemma keeps_respondFailure [keeps]: "keeps_signer (respondFailure env now k m dn f)"
  by (cases f) (simp_all add: respondFailure_def escalateAndRespond_def Let_def keeps)

lemma keeps_close [keeps]: "keeps_signer (closeEscalation now k d a e)"
  by (simp add: closeEscalation_def keeps)

lemma keeps_run: "keeps_signer m \<Longrightarrow> wd_signer (snd (m w)) = wd_signer w"
  by (simp add: keeps_signer_def)

lemma respond_state [simp]: "snd (respond m w) = snd (m w)"
  by (simp add: respond_def split: prod.splits sum.splits)

lemma respond_ok: "fst (respond m w) = Reply st b \<longleftrightarrow> fst (m w) = Inr (Reply st b)"
  by (auto simp: respond_def uncaught_def split: prod.splits sum.splits)

lemma andThen_run: "m w = (Inr x, w1) \<Longrightarrow> andThen m f w = f x w1"
  by (simp add: andThen_def)

text \<open>Reading the ledger leaves the world alone.\<close>

lemma andThen_reading [simp]:
  "andThen (reading f) g w = (case f (wd_ledger w) of Inl e \<Rightarrow> (Inl e, w) | Inr x \<Rightarrow> g x w)"
  by (simp add: andThen_def reading_def split: sum.splits)

lemma andThen_lift [simp]: "andThen (lift r) g w = (case r of Inl e \<Rightarrow> (Inl e, w) | Inr x \<Rightarrow> g x w)"
  by (simp add: andThen_def split: sum.splits)

lemma client_reads:
  "found_or_null ''getIntent'' (get_intent k l) = Inr (jget (l_intents l) k)"
  "found_or_null ''getPolicy'' (get_policy k l) = Inr (jget (l_policies l) k)"
  "found_or_null ''getEscalation'' (get_escalation k l) = Inr (jget (l_escalations l) k)"
  by (auto simp: found_or_null_def expect_ok_def get_intent_def intent_not_found_def get_policy_def
      get_escalation_def escalation_not_found_def split: option.splits)

lemma expect_ok_Inr [simp]: "expect_ok n r = Inr b \<longleftrightarrow> (\<exists>st. r = Reply st b)"
  by (cases r) (auto simp: expect_ok_def)

section \<open>What authorises a payment\<close>

text \<open>
  The specification: the intent and the policy are on file, the window and the registry could be
  read, checks 1 to 8 allow the payment, and the merchant is either pre-approved or allowlisted
  with a matching item.
\<close>

definition gate_open :: "int \<Rightarrow> string \<Rightarrow> mandate \<Rightarrow> resolved_item \<Rightarrow> ledger \<Rightarrow> bool" where
  "gate_open now mandateId m item l \<longleftrightarrow>
     (\<exists>st x. get_standing_approval now (Some mandateId) (Some (r_merchantDomain item)) l = Reply st (True, x)) \<or>
     ((m_merchantAllowlist m = [] \<or>
       (\<exists>d \<in> set (m_merchantAllowlist m). to_lower d = to_lower (r_merchantDomain item))) \<and>
      heuristicIntentMatcher item (m_intentConstraint m) = Match)"

definition payment_authorised ::
    "'s policy_env \<Rightarrow> int \<Rightarrow> string \<Rightarrow> string \<Rightarrow> string \<Rightarrow> x402_requirements \<Rightarrow> resolved_item \<Rightarrow>
     intent \<Rightarrow> mandate \<Rightarrow> ledger \<Rightarrow> bool" where
  "payment_authorised env now requestId mandateId amount c item i m l \<longleftrightarrow>
     jget (l_intents l) requestId = Some i \<and>
     map_option pr_policy (jget (l_policies l) mandateId) = Some m \<and>
     js_trim (r_merchantDomain item) \<noteq> [] \<and>
     (\<exists>st u registry.
        get_window (pe_date_other env) now mandateId (Some (m_windowSeconds m)) (Some (m_maxPerWindow m)) l
          = Reply st u \<and>
        pe_registry env mandateId (m_chainId m) = Inr registry \<and>
        payment_allowed (pe_keccak_text env) (pe_date_other env)
          (payment_context env now m registry c amount (w_spent u, w_cardCount u) i)) \<and>
     gate_open now mandateId m item l"

definition all_checks :: "string list" where
  "all_checks = map fst (CHECKS (\<lambda>s. s) (\<lambda>s. None)) @ [''check9_intent_match'']"

lemma CHECKS_names: "map fst (CHECKS h other) @ [''check9_intent_match''] = all_checks"
  by (simp add: all_checks_def CHECKS_def)

lemma standing_read:
  "mandateId \<noteq> [] \<Longrightarrow> dn \<noteq> [] \<Longrightarrow>
   \<exists>b x. get_standing_approval now (Some mandateId) (Some dn) l = Reply 200 (b, x)"
  by (auto simp: get_standing_approval_def Let_def)

lemma check9_pass:
  "check9_intent_match matcher item con al st = None \<longleftrightarrow>
     st \<or> (al = [] \<or> (\<exists>d \<in> set al. to_lower d = to_lower (r_merchantDomain item))) \<and>
       matcher item con = Match"
  by (cases "matcher item con") (auto simp: check9_intent_match_def Let_def)

lemma js_trim_Nil [simp]: "js_trim [] = []"
  by (simp add: js_trim_def)


lemma andThen_Inr:
  "fst (andThen m f w) = Inr y \<longleftrightarrow> (\<exists>x w'. m w = (Inr x, w') \<and> fst (f x w') = Inr y)"
  by (auto simp: andThen_def split: prod.splits sum.splits)

lemma respondFailure_unsigned: "fst (respondFailure env now k m dn f w) \<noteq> Inr (Reply st (PSigned s))"
  by (cases f) (simp_all add: respondFailure_def escalateAndRespond_def refuseAndRecord_def Let_def
      andThen_Inr)

lemma refuseAndRecord_unsigned: "fst (refuseAndRecord now k c d w) \<noteq> Inr (Reply st (PSigned s))"
  by (simp add: refuseAndRecord_def andThen_Inr)

text \<open>A payment decision either ends in the signing tail with everything authorised, or neither
  consults the signer nor answers with a signature.\<close>

lemma decidePayment_cases:
  assumes "mandateId \<noteq> []" "js_trim (r_merchantDomain item) \<noteq> []"
    "jget (l_intents (wd_ledger w)) k = Some i"
    "map_option pr_policy (jget (l_policies (wd_ledger w)) mandateId) = Some m"
  shows "payment_authorised env now k mandateId amount c item i m (wd_ledger w) \<and>
      decidePayment env now k mandateId amount c item i m w =
        signAndRecord env now k mandateId amount m c i (r_merchantDomain item) all_checks w \<or>
    wd_signer (snd (decidePayment env now k mandateId amount c item i m w)) = wd_signer w \<and>
    (\<forall>st s. fst (decidePayment env now k mandateId amount c item i m w) \<noteq> Inr (Reply st (PSigned s)))"
    (is "?A \<or> ?B")
proof -
  let ?l = "wd_ledger w" let ?dn = "r_merchantDomain item"
  let ?win = "get_window (pe_date_other env) now mandateId (Some (m_windowSeconds m)) (Some (m_maxPerWindow m)) ?l"
  have dn: "?dn \<noteq> []" using assms(2) by auto
  show ?thesis
  proof (cases "\<exists>st u. ?win = Reply st u")
    case False
    then have "?B" by (cases ?win) (simp_all add: decidePayment_def Let_def getWindowUsage_def expect_ok_def)
    then show ?thesis ..
  next
    case True
    then obtain st u where win: "?win = Reply st u" by blast
    show ?thesis
    proof (cases "pe_registry env mandateId (m_chainId m)")
      case (Inl e)
      then have "?B" by (simp add: decidePayment_def Let_def getWindowUsage_def win expect_ok_def)
      then show ?thesis ..
    next
      case (Inr reg)
      define ctx where "ctx = payment_context env now m reg c amount (w_spent u, w_cardCount u) i"
      let ?run = "run_checks (CHECKS (pe_keccak_text env) (pe_date_other env)) ctx []"
      have step: "decidePayment env now k mandateId amount c item i m w =
        andThen (lift ?run) (\<lambda>r. case r of
          (_, Some f) \<Rightarrow> respondFailure env now k mandateId ?dn f
        | (checksPassed, None) \<Rightarrow>
            andThen (getStandingApproval now mandateId ?dn) (\<lambda>hasStandingApproval.
              case check9_intent_match heuristicIntentMatcher item (m_intentConstraint m)
                     (m_merchantAllowlist m) hasStandingApproval of
                Some f \<Rightarrow> respondFailure env now k mandateId ?dn f
              | None \<Rightarrow> signAndRecord env now k mandateId amount m c i
                  ?dn (checksPassed @ [''check9_intent_match'']))) w"
        by (simp add: decidePayment_def Let_def getWindowUsage_def win expect_ok_def Inr ctx_def)
      show ?thesis
      proof (cases "\<exists>ps. ?run = Inr (ps, None)")
        case False
        have "?B"
          unfolding step using False
          by (auto simp: respondFailure_unsigned keeps_run [OF keeps_respondFailure]
              split: sum.splits option.splits)
        then show ?thesis ..
      next
        case True
        then obtain ps where run: "?run = Inr (ps, None)" by blast
        from run have allowed: "payment_allowed (pe_keccak_text env) (pe_date_other env) ctx"
          and ps: "ps = map fst (CHECKS (pe_keccak_text env) (pe_date_other env))"
          by (simp_all add: run_checks_allowed)
        obtain b x where st: "get_standing_approval now (Some mandateId) (Some ?dn) ?l = Reply 200 (b, x)"
          using standing_read [OF assms(1) dn] by blast
        show ?thesis
        proof (cases "check9_intent_match heuristicIntentMatcher item (m_intentConstraint m)
                     (m_merchantAllowlist m) b")
          case None
          have "decidePayment env now k mandateId amount c item i m w =
              signAndRecord env now k mandateId amount m c i ?dn all_checks w"
            by (simp add: step run getStandingApproval_def st expect_ok_def None ps CHECKS_names)
          moreover have "gate_open now mandateId m item ?l"
            using None st by (auto simp: gate_open_def check9_pass)
          ultimately have ?A
            using assms win Inr allowed ctx_def unfolding payment_authorised_def by auto
          then show ?thesis ..
        next
          case (Some f)
          have "?B"
            by (simp add: step run getStandingApproval_def st expect_ok_def Some
                respondFailure_unsigned keeps_run [OF keeps_respondFailure])
          then show ?thesis ..
        qed
      qed
    qed
  qed
qed


section \<open>Payments\<close>

lemma payment_request_io:
  assumes "pb_requestId body = Some k" "pb_mandateId body = Some mid" "pb_requestedAmount body = Some amount"
    "pb_challenge body = Some c" "k \<noteq> []" "mid \<noteq> []" "amount \<noteq> []"
    "pb_resolvedItem body = Some item" "js_trim (r_merchantDomain item) \<noteq> []"
    "jget (l_intents (wd_ledger w)) k = Some i" "jget (l_policies (wd_ledger w)) mid = Some p"
  shows "payment_request env now body w =
    respond (decidePayment env now k mid amount c item i (pr_policy p)) w"
  using assms
  by (simp add: payment_request_def respond_def getIntent_def getPolicy_def client_reads
      precondition_intent_exists_def)

lemma payment_request_early:
  assumes "\<not> (\<exists>k mid amount c item i p. pb_requestId body = Some k \<and> pb_mandateId body = Some mid \<and>
    pb_requestedAmount body = Some amount \<and> pb_challenge body = Some c \<and> k \<noteq> [] \<and> mid \<noteq> [] \<and>
    amount \<noteq> [] \<and> pb_resolvedItem body = Some item \<and> js_trim (r_merchantDomain item) \<noteq> [] \<and>
    jget (l_intents (wd_ledger w)) k = Some i \<and> jget (l_policies (wd_ledger w)) mid = Some p)"
  shows "wd_signer (snd (payment_request env now body w)) = wd_signer w \<and>
    fst (payment_request env now body w) \<noteq> Reply st (PSigned s)"
  using assms
  by (auto simp: payment_request_def respond_ok getIntent_def getPolicy_def client_reads
      precondition_intent_exists_def refuseAndRecord_unsigned respondFailure_unsigned
      keeps_run [OF keeps_respondFailure] keeps_run [OF keeps_refuse] split: option.splits if_splits)

text \<open>C1. The policy service consults the signer, or answers that a payment is signed, only for a payment
  that is authorised: the intent and policy are on file, all eight checks allow it and the
  intent-match gate is open.\<close>

theorem signer_needs_authorisation:
  assumes "payment_request env now body w = (r, w')"
    and "wd_signer w' \<noteq> wd_signer w \<or> (\<exists>st s. r = Reply st (PSigned s))"
  shows "\<exists>k mid amount c item i m. pb_requestId body = Some k \<and> pb_mandateId body = Some mid \<and>
    pb_requestedAmount body = Some amount \<and> pb_challenge body = Some c \<and>
    pb_resolvedItem body = Some item \<and>
    payment_authorised env now k mid amount c item i m (wd_ledger w)"
proof -
  have r: "r = fst (payment_request env now body w)" "w' = snd (payment_request env now body w)"
    using assms(1) by simp_all
  obtain k mid amount c item i p where b: "pb_requestId body = Some k" "pb_mandateId body = Some mid"
      "pb_requestedAmount body = Some amount" "pb_challenge body = Some c" "k \<noteq> []" "mid \<noteq> []"
      "amount \<noteq> []" "pb_resolvedItem body = Some item" "js_trim (r_merchantDomain item) \<noteq> []"
      "jget (l_intents (wd_ledger w)) k = Some i" "jget (l_policies (wd_ledger w)) mid = Some p"
    using assms(2) payment_request_early [of body w env now] unfolding r by metis
  have eq: "payment_request env now body w =
      respond (decidePayment env now k mid amount c item i (pr_policy p)) w"
    by (rule payment_request_io [OF b])
  have "payment_authorised env now k mid amount c item i (pr_policy p) (wd_ledger w)"
    using assms(2) decidePayment_cases [OF b(6,9,10), of "pr_policy p" env now amount c] b(11)
    unfolding r eq by (auto simp: respond_ok)
  then show ?thesis using b by blast
qed

section \<open>The signing tail\<close>

text \<open>What the ledger and the signer do for an authorised payment.\<close>

lemma post_nonce_free:
  assumes "jget (l_intents l) k = Some i" "\<not> nonce_live i" "n \<noteq> []"
  shows "post_nonce now k (Some n) l = (Reply 200 (k, n, True, toISOString now),
    put_intent now (NonceReserved k (i_mandateId i)) k (i\<lparr>i_nonce := Some n,
      i_nonceReservedAt := Some (toISOString now), i_nonceReleased := False,
      i_state := NONCE_RESERVED\<rparr>) l)"
  using assms by (simp add: post_nonce_def Let_def)

lemma post_nonce_held:
  assumes "jget (l_intents l) k = Some i" "nonce_live i" "n \<noteq> []"
  shows "post_nonce now k (Some n) l = (sendError 409 ''NONCE_ALREADY_RESERVED''
    (''a nonce is already reserved for '' @ k) k False, l)"
  using assms by (simp add: post_nonce_def)

lemma writing_ok:
  "g (wd_ledger w) = (Reply st b, l) \<Longrightarrow> andThen (writing n g) f w = f b (w\<lparr>wd_ledger := l\<rparr>)"
  by (simp add: andThen_def writing_def expect_ok_def)

lemma writing_err:
  "g (wd_ledger w) = (ErrReply st e, l) \<Longrightarrow> andThen (writing n g) f w =
     (Inl (JsError (''ledger '' @ n @ '' '' @ dec st)), w\<lparr>wd_ledger := l\<rparr>)"
  by (simp add: andThen_def writing_def expect_ok_def)


definition commitment :: "'s policy_env \<Rightarrow> string \<Rightarrow> mandate \<Rightarrow> intent \<Rightarrow> string \<Rightarrow> js_error + hex" where
  "commitment env k m i dn = buildCommitmentNonce (pe_keccak_text env) (pe_keccak_hex env) k
     (hashPolicy (pe_keccak_text env) m) (i_instructionHash i) dn"

lemma performSigning_held:
  assumes "jget (l_intents (wd_ledger w)) k = Some i" "nonce_live i" "n \<noteq> []"
    "buildCommitmentNonce (pe_keccak_text env) (pe_keccak_hex env) k ph ih dn = Inr n"
  shows "performSigning env now k mid m c amount ns res ph ih dn w =
    (Inr (SigningFail 409 ''NONCE_ALREADY_RESERVED'' (''nonce reservation failed for '' @ k) False), w)"
  using assms(4)
  by (simp add: performSigning_def andThen_def reserveNonce_def post_nonce_held [OF assms(1-3)]
      sendError_def)

text \<open>The typed data that an authorised payment puts before the signer.\<close>

definition payment_typed_data ::
    "'s policy_env \<Rightarrow> int \<Rightarrow> mandate \<Rightarrow> x402_requirements \<Rightarrow> string \<Rightarrow> hex \<Rightarrow> typed_data" where
  "payment_typed_data env ns m c amount n = buildTypedData (pe_payingWallet env) m c amount (ns - 5)
     (ns - 5 + min (m_maxAuthValiditySeconds m) (c_maxTimeoutSeconds c)) n"

lemma performSigning_free:
  assumes "jget (l_intents (wd_ledger w)) k = Some i" "\<not> nonce_live i" "n \<noteq> []"
    "buildCommitmentNonce (pe_keccak_text env) (pe_keccak_hex env) k ph ih dn = Inr n"
    "pe_sign env k mid (payment_typed_data env ns m c amount n) (x402_accepted.truncate c) res
       (wd_signer w) = (Inr (SignOk header sa at), s')"
  shows "performSigning env now k mid m c amount ns res ph ih dn w =
    (Inr (SigningOk header n (ns - 5)
       (ns - 5 + min (m_maxAuthValiditySeconds m) (c_maxTimeoutSeconds c))),
     w\<lparr>wd_ledger := snd (post_nonce now k (Some n) (wd_ledger w)), wd_signer := s'\<rparr>)"
  using assms(4,5)
  by (simp add: performSigning_def andThen_def reserveNonce_def post_nonce_free [OF assms(1-3)]
      signWith_def payment_typed_data_def Let_def)

text \<open>The signer refuses: the nonce is given back.  It does not answer: the nonce stays.\<close>

lemma performSigning_refused:
  assumes "jget (l_intents (wd_ledger w)) k = Some i" "\<not> nonce_live i" "n \<noteq> []"
    "buildCommitmentNonce (pe_keccak_text env) (pe_keccak_hex env) k ph ih dn = Inr n"
    "pe_sign env k mid (payment_typed_data env ns m c amount n) (x402_accepted.truncate c) res
       (wd_signer w) = (Inr (SignFail st cd msg), s')"
  shows "performSigning env now k mid m c amount ns res ph ih dn w =
    (Inr (SigningFail st cd msg (st \<ge> 500)),
     w\<lparr>wd_ledger := snd (release_nonce now k (snd (post_nonce now k (Some n) (wd_ledger w)))), wd_signer := s'\<rparr>)"
  using assms(4,5)
  by (simp add: performSigning_def andThen_def reserveNonce_def post_nonce_free [OF assms(1-3)]
      signWith_def payment_typed_data_def releaseNonce_def Let_def)

lemma performSigning_unanswered:
  assumes "jget (l_intents (wd_ledger w)) k = Some i" "\<not> nonce_live i" "n \<noteq> []"
    "buildCommitmentNonce (pe_keccak_text env) (pe_keccak_hex env) k ph ih dn = Inr n"
    "pe_sign env k mid (payment_typed_data env ns m c amount n) (x402_accepted.truncate c) res
       (wd_signer w) = (Inl e, s')"
  shows "performSigning env now k mid m c amount ns res ph ih dn w =
    (Inl e, w\<lparr>wd_ledger := snd (post_nonce now k (Some n) (wd_ledger w)), wd_signer := s'\<rparr>)"
  using assms(4,5)
  by (simp add: performSigning_def andThen_def reserveNonce_def post_nonce_free [OF assms(1-3)]
      signWith_def payment_typed_data_def Let_def)

lemma post_decision_found:
  assumes "jget (l_intents l) k = Some i" "k \<noteq> []" "db_requestId b = Some k" "db_decision b \<noteq> None"
    "db_decidedAt b = Some t" "t \<noteq> []"
  shows "\<exists>x l'. post_decision now b l = (Reply 200 x, l') \<and>
    l_intents l' = jset k (decide b i) (l_intents l) \<and> l_escalations l' = l_escalations l \<and>
    l_standing l' = l_standing l \<and> l_policies l' = l_policies l"
  using assms by (auto simp: post_decision_def Let_def)

lemma toISOString_not_Nil [simp]: "toISOString now \<noteq> []"
  by (simp add: toISOString_def Let_def split: prod.splits)

lemma entry_simps [simp]:
  "db_requestId (refusal_entry now k d c t) = Some k" "db_decision (refusal_entry now k d c t) = Some d"
  "db_decidedAt (refusal_entry now k d c t) = Some (toISOString now)"
  "db_requestId (signed_entry now k ph dn va vb) = Some k"
  "db_decision (signed_entry now k ph dn va vb) = Some Signed"
  "db_decidedAt (signed_entry now k ph dn va vb) = Some (toISOString now)"
  by (simp_all add: refusal_entry_def signed_entry_def)

lemma recordDecision_found:
  assumes "jget (l_intents (wd_ledger w)) k = Some i" "k \<noteq> []" "db_requestId b = Some k"
    "db_decision b \<noteq> None" "db_decidedAt b = Some (toISOString now)"
  obtains x l' where "recordDecision now b w = (Inr x, w\<lparr>wd_ledger := l'\<rparr>)"
    "l_intents l' = jset k (decide b i) (l_intents (wd_ledger w))"
    "l_escalations l' = l_escalations (wd_ledger w)"
proof -
  obtain x l' where r: "post_decision now b (wd_ledger w) = (Reply 200 x, l')"
      "l_intents l' = jset k (decide b i) (l_intents (wd_ledger w))"
      "l_escalations l' = l_escalations (wd_ledger w)"
    using post_decision_found [OF assms(1-5), of now] by auto
  show ?thesis
    by (rule that [OF _ r(2,3)]) (simp add: recordDecision_def writing_def expect_ok_def r(1))
qed


definition body_of :: "string \<Rightarrow> string \<Rightarrow> string \<Rightarrow> x402_requirements \<Rightarrow> resolved_item \<Rightarrow> payment_body" where
  "body_of k mid amount c item = \<lparr>pb_requestId = Some k, pb_mandateId = Some mid,
     pb_requestedAmount = Some amount, pb_challenge = Some c, pb_resolvedItem = Some item\<rparr>"

text \<open>An authorised payment reaches the signing tail.\<close>

lemma decidePayment_authorised:
  assumes "payment_authorised env now k mid amount c item i m (wd_ledger w)" "mid \<noteq> []"
  shows "decidePayment env now k mid amount c item i m w =
    signAndRecord env now k mid amount m c i (r_merchantDomain item) all_checks w"
proof -
  let ?l = "wd_ledger w" let ?dn = "r_merchantDomain item"
  obtain st u reg where u: "get_window (pe_date_other env) now mid (Some (m_windowSeconds m))
        (Some (m_maxPerWindow m)) ?l = Reply st u" "pe_registry env mid (m_chainId m) = Inr reg"
      "payment_allowed (pe_keccak_text env) (pe_date_other env)
        (payment_context env now m reg c amount (w_spent u, w_cardCount u) i)"
    and g: "gate_open now mid m item ?l"
    using assms(1) unfolding payment_authorised_def by blast
  have dn: "?dn \<noteq> []" using assms(1) by (auto simp: payment_authorised_def)
  obtain b x where s: "get_standing_approval now (Some mid) (Some ?dn) ?l = Reply 200 (b, x)"
    using standing_read [OF assms(2) dn] by blast
  have "check9_intent_match heuristicIntentMatcher item (m_intentConstraint m) (m_merchantAllowlist m) b = None"
    using g s by (auto simp: gate_open_def check9_pass)
  moreover have "run_checks (CHECKS (pe_keccak_text env) (pe_date_other env))
      (payment_context env now m reg c amount (w_spent u, w_cardCount u) i) [] =
      Inr (map fst (CHECKS (pe_keccak_text env) (pe_date_other env)), None)"
    using u(3) by (simp add: run_checks_allowed)
  ultimately show ?thesis
    by (simp add: decidePayment_def Let_def getWindowUsage_def u expect_ok_def getStandingApproval_def
        s CHECKS_names)
qed

lemma payment_request_authorised:
  assumes "payment_authorised env now k mid amount c item i m (wd_ledger w)"
    "k \<noteq> []" "mid \<noteq> []" "amount \<noteq> []"
  shows "payment_request env now (body_of k mid amount c item) w =
    respond (signAndRecord env now k mid amount m c i (r_merchantDomain item) all_checks) w"
proof -
  have "js_trim (r_merchantDomain item) \<noteq> []" "jget (l_intents (wd_ledger w)) k = Some i"
    using assms(1) by (auto simp: payment_authorised_def)
  moreover obtain p where "jget (l_policies (wd_ledger w)) mid = Some p" "pr_policy p = m"
    using assms(1) by (auto simp: payment_authorised_def)
  ultimately have "payment_request env now (body_of k mid amount c item) w =
      respond (decidePayment env now k mid amount c item i m) w"
    using payment_request_io [of "body_of k mid amount c item" k mid amount c item w i p env now] assms(2-4)
    by (simp add: body_of_def)
  then show ?thesis
    by (simp add: respond_def decidePayment_authorised [OF assms(1,3)])
qed

text \<open>An authorised payment with a free nonce, from the reservation on.\<close>

definition reserved_intent :: "int \<Rightarrow> hex \<Rightarrow> intent \<Rightarrow> intent" where
  "reserved_intent now n i = i\<lparr>i_nonce := Some n, i_nonceReservedAt := Some (toISOString now),
     i_nonceReleased := False, i_state := NONCE_RESERVED\<rparr>"

lemma reserved_ledger:
  assumes "jget (l_intents l) k = Some i" "\<not> nonce_live i" "n \<noteq> []"
  shows "jget (l_intents (snd (post_nonce now k (Some n) l))) k = Some (reserved_intent now n i)"
  using assms by (simp add: post_nonce_free reserved_intent_def)

lemma released_ledger:
  assumes "jget (l_intents l) k = Some (reserved_intent now n i)" "n \<noteq> []"
  shows "\<exists>j. jget (l_intents (snd (release_nonce now k l))) k = Some j \<and>
    (nonce_live j \<longleftrightarrow> i_decision i = Some Signed)"
  using assms by (auto simp: release_nonce_def reserved_intent_def nonce_live_def Let_def)

lemma respond_step:
  "m w = (Inr x, w1) \<Longrightarrow> respond (andThen m f) w = respond (f x) w1"
  "m w = (Inl e, w1) \<Longrightarrow> respond (andThen m f) w = (uncaught e, w1)"
  by (simp_all add: respond_def andThen_def)

text \<open>C30. An authorised payment whose nonce is free is put before the signer, once and with exactly one
  authorization: from the paying wallet to the mandate's recipient, of the requested amount, valid from
  five seconds ago for the shorter of the mandate's and the challenge's time, on the asset and domain of the
  challenge, its nonce the hash over the request, the policy, the instruction and the merchant.  When the
  signer signs, the reply carries its header with this nonce and window, and the ledger holds the burned
  nonce and the signed decision.  When it refuses, the reply is its refusal, a refusal is recorded, and the
  nonce is free again unless the request was signed before.  When it does not answer, the reply is a server error
  and the nonce stays reserved.\<close>

theorem authorised_payment_signed:
  assumes "payment_authorised env now k mid amount c item i m (wd_ledger w)"
    "k \<noteq> []" "mid \<noteq> []" "amount \<noteq> []" "\<not> nonce_live i"
    "\<And>t. hash_text (pe_keccak_text env t)" "\<And>t. pe_keccak_hex env t \<noteq> []" "hash_text (i_instructionHash i)"
  shows "let n = pe_keccak_hex env (''0x'' @ drop 2 (pe_keccak_text env k) @
          drop 2 (hashPolicy (pe_keccak_text env) m) @ drop 2 (i_instructionHash i) @
          drop 2 (pe_keccak_text env (r_merchantDomain item)));
        after = nowSec now - 5;
        till = after + min (m_maxAuthValiditySeconds m) (c_maxTimeoutSeconds c);
        td = \<lparr>td_domain_of = \<lparr>d_name = x_name (c_extra c), d_version = x_version (c_extra c),
            d_chainId = c_chainId c, d_verifyingContract = c_asset c\<rparr>,
          td_primaryType = ''TransferWithAuthorization'',
          td_types = [(''from'', ''address''), (''to'', ''address''), (''value'', ''uint256''),
            (''validAfter'', ''uint256''), (''validBefore'', ''uint256''), (''nonce'', ''bytes32'')],
          td_message_of = \<lparr>t_from = pe_payingWallet env, t_to = m_settlementRecipient m, t_value = amount,
            t_validAfter = after, t_validBefore = till, t_nonce = n\<rparr>\<rparr>;
        (reply, w') = payment_request env now (body_of k mid amount c item) w;
        j = the (jget (l_intents (wd_ledger w')) k)
    in (case pe_sign env k mid td (x402_accepted.truncate c) CARDAPI_SANDBOX_ISSUE_CARD (wd_signer w) of
         (Inr (SignOk header sa at), s') \<Rightarrow> wd_signer w' = s' \<and>
           reply = Reply 200 (PSigned \<lparr>sg_requestId = k, sg_header = header, sg_nonce = n, sg_validAfter = after,
             sg_validBefore = till, sg_checksPassed = all_checks, sg_decidedAt = toISOString now\<rparr>) \<and>
           burned j \<and> i_nonce j = Some n
       | (Inr (SignFail st cd msg), s') \<Rightarrow> wd_signer w' = s' \<and> reply = sendError st cd msg k (st \<ge> 500) \<and>
           i_decision j = Some Refused \<and> (nonce_live j \<longleftrightarrow> i_decision i = Some Signed)
       | (Inl e, s') \<Rightarrow> wd_signer w' = s' \<and> reply = uncaught e \<and> nonce_live j \<and> i_nonce j = Some n)"
proof -
  let ?l = "wd_ledger w" let ?dn = "r_merchantDomain item" let ?ns = "nowSec now"
  let ?ph = "hashPolicy (pe_keccak_text env) m"
  let ?n = "pe_keccak_hex env (commitment_preimage (pe_keccak_text env) k ?ph (i_instructionHash i) ?dn)"
  let ?td = "payment_typed_data env ?ns m c amount ?n"
  let ?ps = "performSigning env now k mid m c amount ?ns CARDAPI_SANDBOX_ISSUE_CARD ?ph (i_instructionHash i) ?dn"
  have i: "jget (l_intents ?l) k = Some i" using assms(1) by (simp add: payment_authorised_def)
  have nonce: "buildCommitmentNonce (pe_keccak_text env) (pe_keccak_hex env) k ?ph (i_instructionHash i) ?dn = Inr ?n"
    by (rule commitment_nonce_eq) (use assms(6,8) in \<open>simp_all add: hashPolicy_def\<close>)
  note facts = i assms(5,7) nonce
  note request = payment_request_authorised [OF assms(1-4), unfolded signAndRecord_def Let_def]
  define l1 where "l1 = snd (post_nonce now k (Some ?n) ?l)"
  have l1: "jget (l_intents l1) k = Some (reserved_intent now ?n i)"
    unfolding l1_def by (rule reserved_ledger [OF i assms(5,7)])
  obtain answer s' where sign: "pe_sign env k mid ?td (x402_accepted.truncate c) CARDAPI_SANDBOX_ISSUE_CARD (wd_signer w) = (answer, s')"
    by (meson surj_pair)
  have td: "\<lparr>td_domain_of = \<lparr>d_name = x_name (c_extra c), d_version = x_version (c_extra c),
            d_chainId = c_chainId c, d_verifyingContract = c_asset c\<rparr>,
          td_primaryType = ''TransferWithAuthorization'',
          td_types = [(''from'', ''address''), (''to'', ''address''), (''value'', ''uint256''),
            (''validAfter'', ''uint256''), (''validBefore'', ''uint256''), (''nonce'', ''bytes32'')],
          td_message_of = \<lparr>t_from = pe_payingWallet env, t_to = m_settlementRecipient m, t_value = amount,
            t_validAfter = ?ns - 5, t_validBefore = ?ns - 5 + min (m_maxAuthValiditySeconds m) (c_maxTimeoutSeconds c),
            t_nonce = ?n\<rparr>\<rparr> = ?td"
    by (simp add: payment_typed_data_def buildTypedData_def TRANSFER_TYPES_def)
  show ?thesis
  proof (cases answer)
    case (Inl e)
    note run = performSigning_unanswered [OF facts sign [unfolded Inl], of now, folded l1_def]
    show ?thesis
      unfolding Let_def request respond_step(2) [where m = ?ps, OF run] prod.case
        commitment_preimage_def [symmetric] td sign Inl sum.case
      using l1 assms(7) by (simp add: reserved_intent_def nonce_live_def)
  next
    case (Inr x)
    show ?thesis
    proof (cases x)
      case (SignOk header sa at)
      note run = performSigning_free [OF facts sign [unfolded Inr SignOk], of now, folded l1_def]
      define b where "b = signed_entry now k ?ph ?dn (?ns - 5) (?ns - 5 + min (m_maxAuthValiditySeconds m) (c_maxTimeoutSeconds c))"
      define w1 where "w1 = w\<lparr>wd_ledger := l1, wd_signer := s'\<rparr>"
      have w1: "jget (l_intents (wd_ledger w1)) k = Some (reserved_intent now ?n i)" using l1 by (simp add: w1_def)
      obtain x l' where r: "recordDecision now b w1 = (Inr x, w1\<lparr>wd_ledger := l'\<rparr>)"
          "l_intents l' = jset k (decide b (reserved_intent now ?n i)) (l_intents (wd_ledger w1))"
        by (rule recordDecision_found [OF w1 assms(2), of b now]) (auto simp: b_def)
      show ?thesis
        unfolding Let_def request respond_step(1) [where m = ?ps, OF run [folded w1_def]] prod.case
          commitment_preimage_def [symmetric] td sign Inr SignOk sum.case sign_result.case signing_outcome.case
          respond_step(1) [where m = "recordDecision now b" for b, OF r(1) [unfolded b_def]]
        using assms(7) by (simp add: respond_def r(2) reserved_intent_def burned_def b_def nonce_live_def w1_def)
    next
      case (SignFail st cd msg)
      note run = performSigning_refused [OF facts sign [unfolded Inr SignFail], of now, folded l1_def]
      define l2 where "l2 = snd (release_nonce now k l1)"
      obtain j where j: "jget (l_intents l2) k = Some j" "nonce_live j \<longleftrightarrow> i_decision i = Some Signed"
        using released_ledger [OF l1 assms(7)] unfolding l2_def by blast
      define b where "b = refusal_entry now k Refused ''signer_refused'' msg"
      define w1 where "w1 = w\<lparr>wd_ledger := l2, wd_signer := s'\<rparr>"
      have w1: "jget (l_intents (wd_ledger w1)) k = Some j" using j(1) by (simp add: w1_def)
      obtain x l' where r: "recordDecision now b w1 = (Inr x, w1\<lparr>wd_ledger := l'\<rparr>)"
          "l_intents l' = jset k (decide b j) (l_intents (wd_ledger w1))"
        by (rule recordDecision_found [OF w1 assms(2), of b now]) (auto simp: b_def)
      show ?thesis
        unfolding Let_def request respond_step(1) [where m = ?ps, OF run [folded l2_def, folded w1_def]] prod.case
          commitment_preimage_def [symmetric] td sign Inr SignFail sum.case sign_result.case signing_outcome.case
          respond_step(1) [where m = "recordDecision now b" for b, OF r(1) [unfolded b_def]]
        using j(2) by (simp add: respond_def r(2) b_def nonce_live_def w1_def)
    qed
  qed
qed


text \<open>C36. Asking again for a payment that is already signed gets no second signature: the reservation is
  refused with 409 and the signer is not consulted.  But the refusal is recorded over the signed
  decision, so the payment leaves the rolling window although its authorisation is out.\<close>

theorem repeated_payment_unrecords:
  assumes "payment_authorised env now k mid amount c item i m (wd_ledger w)"
    "k \<noteq> []" "mid \<noteq> []" "amount \<noteq> []" "burned i"
    "commitment env k m i (r_merchantDomain item) = Inr n" "n \<noteq> []"
  shows "\<exists>e w' j. payment_request env now (body_of k mid amount c item) w = (ErrReply 409 e, w') \<and>
    env_code e = ''NONCE_ALREADY_RESERVED'' \<and> wd_signer w' = wd_signer w \<and>
    jget (l_intents (wd_ledger w')) k = Some j \<and> i_nonce j = i_nonce i \<and>
    i_decision j = Some Refused \<and> (\<forall>other q from. \<not> in_window other q from j)"
proof -
  let ?dn = "r_merchantDomain item"
  have i: "jget (l_intents (wd_ledger w)) k = Some i" using assms(1) by (simp add: payment_authorised_def)
  have sign: "performSigning env now k mid m c amount (nowSec now) CARDAPI_SANDBOX_ISSUE_CARD
      (hashPolicy (pe_keccak_text env) m) (i_instructionHash i) ?dn w =
      (Inr (SigningFail 409 ''NONCE_ALREADY_RESERVED'' (''nonce reservation failed for '' @ k) False), w)"
    by (rule performSigning_held [OF i _ assms(7)]) (use assms(5,6) in \<open>simp_all add: commitment_def burned_def\<close>)
  define b where "b = refusal_entry now k Refused ''signer_refused'' (''nonce reservation failed for '' @ k)"
  obtain x l' where r: "recordDecision now b w = (Inr x, w\<lparr>wd_ledger := l'\<rparr>)"
      "l_intents l' = jset k (decide b i) (l_intents (wd_ledger w))"
    by (rule recordDecision_found [OF i assms(2), of b now]) (auto simp: b_def)
  have "payment_request env now (body_of k mid amount c item) w =
    (sendError 409 ''NONCE_ALREADY_RESERVED'' (''nonce reservation failed for '' @ k) k False,
     w\<lparr>wd_ledger := l'\<rparr>)"
    unfolding payment_request_authorised [OF assms(1-4)] respond_def signAndRecord_def Let_def
      andThen_run [where m = "performSigning env now k mid m c amount (nowSec now) CARDAPI_SANDBOX_ISSUE_CARD
        (hashPolicy (pe_keccak_text env) m) (i_instructionHash i) ?dn", OF sign] signing_outcome.case
      andThen_run [where m = "recordDecision now b" for b, OF r(1) [unfolded b_def]]
    by simp
  then show ?thesis
    by (auto simp: sendError_def r(2) in_window_def b_def)
qed

text \<open>A payment request without an intent record is answered with a bare 500: the service tries to record
  the refusal, and the ledger refuses to record a decision for an unknown request.\<close>

theorem orphan_request_is_500:
  assumes "jget (l_intents (wd_ledger w)) k = None" "k \<noteq> []" "mid \<noteq> []" "amount \<noteq> []"
  shows "payment_request env now (body_of k mid amount c item) w =
    (ServerError ''ledger recordDecision 404'', w)"
proof -
  have "post_decision now (refusal_entry now k Refused ''precondition_intent_exists''
      ''no intent record exists for this requestId'') (wd_ledger w) = (intent_not_found k, wd_ledger w)"
    using assms by (simp add: post_decision_def Let_def)
  moreover have "dec 404 = ''404''" by code_simp
  ultimately have "refuseAndRecord now k ''precondition_intent_exists''
      ''no intent record exists for this requestId'' w = (Inl (JsError ''ledger recordDecision 404''), w)"
    by (simp add: refuseAndRecord_def recordDecision_def andThen_def writing_def expect_ok_def
        intent_not_found_def) (simp add: sendError_def)
  then show ?thesis
    using assms
    by (simp add: payment_request_def body_of_def respond_def getIntent_def client_reads
        precondition_intent_exists_def respondFailure_def uncaught_def)
qed


section \<open>Escalations\<close>

definition owner_signed ::
    "'s policy_env \<Rightarrow> string \<Rightarrow> escalation_decision \<Rightarrow> string option \<Rightarrow> string option \<Rightarrow> escalation \<Rightarrow>
     mandate \<Rightarrow> bool" where
  "owner_signed env k d approvedBy signature e m \<longleftrightarrow>
     (\<exists>a s. approvedBy = Some a \<and> a \<noteq> [] \<and> signature = Some s \<and> s \<noteq> [] \<and>
        to_lower a = to_lower (m_owner m) \<and> is_hex_string s \<and>
        pe_verify env (m_owner m) (buildEscalationMessage k (e_mandateId e) d) s = Inr True)"

lemma verify_None: "verifyEscalationSignature v k mid d s ow = None \<longleftrightarrow>
    is_hex_string s \<and> v ow (buildEscalationMessage k mid d) s = Inr True"
  by (auto simp: verifyEscalationSignature_def split: sum.splits)

text \<open>An unresolved, unexpired escalation with a policy on file.\<close>

definition pending :: "int \<Rightarrow> string \<Rightarrow> escalation \<Rightarrow> mandate \<Rightarrow> ledger \<Rightarrow> bool" where
  "pending now k e m l \<longleftrightarrow>
     jget (l_escalations l) k = Some e \<and> \<not> e_resolved e \<and> nowSec now \<le> e_expiresAt e \<and>
     map_option pr_policy (jget (l_policies l) (e_mandateId e)) = Some m"

lemma resolve_cases:
  "(\<exists>d e m. dcn = Some d \<and> pending now k e m (wd_ledger w) \<and> owner_signed env k d a sg e m \<and>
      resolve_escalation env now k dcn a sg st w =
        respond (if d = Deny
          then andThen (closeEscalation now k Deny a
                 (refusal_entry now k Refused ''escalation_denied'' ''human denied the escalated request''))
                 (\<lambda>_. ret (Reply 200 (RDenied k ''escalation_denied'' ''human denied the escalated request'')))
          else approveEscalation env now k (the a) st e m) w) \<or>
   (\<exists>e. dcn \<noteq> None \<and> jget (l_escalations (wd_ledger w)) k = Some e \<and> \<not> e_resolved e \<and>
      e_expiresAt e < nowSec now \<and>
      resolve_escalation env now k dcn a sg st w = respond (andThen (closeEscalation now k Deny None
         (refusal_entry now k Refused ''escalation_expired''
           (''escalation TTL of '' @ dec_int (e_ttlSeconds e) @ ''s elapsed with no response; auto-denied'')))
         (\<lambda>_. ret (sendError 410 ''ESCALATION_EXPIRED'' (''escalation '' @ k @ '' expired'') k False))) w) \<or>
   (\<exists>st' e. resolve_escalation env now k dcn a sg st w = (ErrReply st' e, w))"
proof (cases dcn)
  case None
  then show ?thesis by (simp add: resolve_escalation_def respond_def sendError_def)
next
  case (Some d)
  show ?thesis
  proof (cases "jget (l_escalations (wd_ledger w)) k")
    case None
    with Some show ?thesis
      by (simp add: resolve_escalation_def respond_def getEscalation_def client_reads sendError_def)
  next
    case e: (Some e)
    show ?thesis
    proof (cases "e_resolved e \<or> nowSec now > e_expiresAt e")
      case True
      with Some e show ?thesis
        by (auto simp: resolve_escalation_def respond_def getEscalation_def client_reads sendError_def)
    next
      case False
      show ?thesis
      proof (cases "jget (l_policies (wd_ledger w)) (e_mandateId e)")
        case None
        with Some e False show ?thesis
          by (simp add: resolve_escalation_def respond_def getEscalation_def getPolicy_def client_reads
              sendError_def)
      next
        case p: (Some p)
        show ?thesis
        proof (cases "owner_signed env k d a sg e (pr_policy p)")
          case True
          then obtain a' s where o: "a = Some a'" "a' \<noteq> []" "sg = Some s" "s \<noteq> []"
              "to_lower a' = to_lower (m_owner (pr_policy p))" and
              v: "verifyEscalationSignature (pe_verify env) k (e_mandateId e) d s
                (m_owner (pr_policy p)) = None"
            by (auto simp: owner_signed_def verify_None)
          have "resolve_escalation env now k dcn a sg st w =
            respond (if d = Deny
              then andThen (closeEscalation now k Deny a
                 (refusal_entry now k Refused ''escalation_denied'' ''human denied the escalated request''))
                 (\<lambda>_. ret (Reply 200 (RDenied k ''escalation_denied'' ''human denied the escalated request'')))
              else approveEscalation env now k (the a) st e (pr_policy p)) w"
            using Some e False p o v
            by (simp add: resolve_escalation_def respond_def getEscalation_def getPolicy_def client_reads
                Let_def)
          moreover have "pending now k e (pr_policy p) (wd_ledger w)"
            using e False p by (simp add: pending_def)
          ultimately show ?thesis using Some True by blast
        next
          case unsigned: False
          have "\<exists>st' e'. resolve_escalation env now k dcn a sg st w = (ErrReply st' e', w)"
            using Some e False p unsigned
            by (auto simp: resolve_escalation_def respond_def getEscalation_def getPolicy_def
                client_reads owner_signed_def verify_None Let_def sendError_def
                split: option.splits if_splits)
          then show ?thesis by blast
        qed
      qed
    qed
  qed
qed


text \<open>The resolve route changes the ledger or consults the signer only in two cases: the
  escalation is pending and the request carries the mandate owner's signature over exactly this
  request, mandate and decision, or the escalation has expired unanswered.\<close>

theorem resolution_needs_owner:
  assumes "resolve_escalation env now k dcn a sg st w = (r, w')" "w' \<noteq> w"
  shows "(\<exists>d e m. dcn = Some d \<and> pending now k e m (wd_ledger w) \<and> owner_signed env k d a sg e m) \<or>
    (\<exists>e. jget (l_escalations (wd_ledger w)) k = Some e \<and> \<not> e_resolved e \<and> e_expiresAt e < nowSec now)"
  using resolve_cases [of dcn now k w env a sg st] assms by auto

lemma andThen_ret_fst: "fst (andThen m (\<lambda>_. ret y) w) = Inr z \<Longrightarrow> z = y"
  by (auto simp: andThen_Inr)

lemma close_then:
  assumes "respond (andThen (closeEscalation now k d a en) (\<lambda>_. ret y)) w = (r, w')"
  shows "wd_signer w' = wd_signer w" "r = Reply n z \<Longrightarrow> y = Reply n z"
proof -
  have "keeps_signer (andThen (closeEscalation now k d a en) (\<lambda>_. ret y))" by (simp add: keeps)
  from keeps_run [OF this, of w] assms show "wd_signer w' = wd_signer w"
    by (metis respond_state snd_conv)
  show "y = Reply n z" if "r = Reply n z"
    using assms that respond_ok [of "andThen (closeEscalation now k d a en) (\<lambda>_. ret y)" w n z]
    by (auto dest: andThen_ret_fst)
qed

lemma approve_needs_challenge:
  assumes "wd_signer (snd (approveEscalation env now k a st e m w)) \<noteq> wd_signer w \<or>
    (\<exists>n x y. fst (approveEscalation env now k a st e m w) = Inr (Reply n (RSigned x y)))"
  shows "\<exists>i c. jget (l_intents (wd_ledger w)) k = Some i \<and> i_challenge i = Some c"
proof (rule ccontr)
  assume "\<not> ?thesis"
  then have "Option.bind (jget (l_intents (wd_ledger w)) k) i_challenge = None"
    by (auto split: bind_splits)
  then have "approveEscalation env now k a st e m w =
      (Inr (sendError 404 ''CHALLENGE_NOT_FOUND'' (''no challenge attached to intent '' @ k) k False), w)"
    by (simp add: approveEscalation_def getIntent_def client_reads)
  then show False using assms by simp
qed

text \<open>C15. An escalation leads to a signature only by an approval that the mandate's owner signed while the
  escalation was pending, for an intent with an attached challenge; in particular never after its
  time to live, and never by a denial.\<close>

theorem escalation_signs_only_approved:
  assumes "resolve_escalation env now k dcn a sg st w = (r, w')"
    and "wd_signer w' \<noteq> wd_signer w \<or> (\<exists>n x y. r = Reply n (RSigned x y))"
  shows "\<exists>e m i c. dcn = Some Approve \<and> pending now k e m (wd_ledger w) \<and>
    owner_signed env k Approve a sg e m \<and> jget (l_intents (wd_ledger w)) k = Some i \<and>
    i_challenge i = Some c"
  using resolve_cases [of dcn now k w env a sg st]
proof (elim disjE exE conjE)
  fix d e m
  assume d: "dcn = Some d" "pending now k e m (wd_ledger w)" "owner_signed env k d a sg e m"
    and eq: "resolve_escalation env now k dcn a sg st w =
        respond (if d = Deny
          then andThen (closeEscalation now k Deny a
                 (refusal_entry now k Refused ''escalation_denied'' ''human denied the escalated request''))
                 (\<lambda>_. ret (Reply 200 (RDenied k ''escalation_denied'' ''human denied the escalated request'')))
          else approveEscalation env now k (the a) st e m) w"
  have "d = Approve"
  proof (cases d)
    case Deny
    then have "respond (andThen (closeEscalation now k Deny a
                 (refusal_entry now k Refused ''escalation_denied'' ''human denied the escalated request''))
                 (\<lambda>_. ret (Reply 200 (RDenied k ''escalation_denied'' ''human denied the escalated request''))))
        w = (r, w')"
      using eq assms(1) by simp
    from close_then [OF this] show ?thesis using assms(2) by auto
  qed simp
  moreover have "\<exists>i c. jget (l_intents (wd_ledger w)) k = Some i \<and> i_challenge i = Some c"
    by (rule approve_needs_challenge [of env now k "the a" st e m])
      (use assms eq calculation in \<open>auto simp: respond_def uncaught_def split: prod.splits sum.splits\<close>)
  ultimately show ?thesis using d by blast
next
  fix e assume eq: "resolve_escalation env now k dcn a sg st w = respond (andThen (closeEscalation now k Deny None
         (refusal_entry now k Refused ''escalation_expired''
           (''escalation TTL of '' @ dec_int (e_ttlSeconds e) @ ''s elapsed with no response; auto-denied'')))
         (\<lambda>_. ret (sendError 410 ''ESCALATION_EXPIRED'' (''escalation '' @ k @ '' expired'') k False))) w"
  show ?thesis
    using close_then [OF eq [symmetric, unfolded assms(1)]] assms(2) by (auto simp: sendError_def)
qed (use assms in auto)

end
