(* ===== verification/Escalation_Properties.thy ===== *)
theory Escalation_Properties
  imports Policy_Properties
begin

text \<open>
  More on the policy service: the automatic denial of an expired escalation, the independence of an
  approval from the chain, and the hash-drift check of the policy routes.
\<close>

lemma resolveEscalation_found:
  assumes "jget (l_escalations (wd_ledger w)) k = Some e"
  shows "\<exists>x l'. resolveEscalationStorage now k d a w = (Inr x, w\<lparr>wd_ledger := l'\<rparr>) \<and>
    l_intents l' = l_intents (wd_ledger w) \<and> l_policies l' = l_policies (wd_ledger w) \<and>
    l_escalations l' = jset k (e\<lparr>e_resolved := True, e_decision := Some d, e_approvedBy := a,
      e_resolvedAt := Some (toISOString now)\<rparr>) (l_escalations (wd_ledger w))"
  using assms
  by (simp add: resolveEscalationStorage_def writing_def put_escalation_def Let_def expect_ok_def)
    (rule exI, rule conjI, rule refl, simp)

lemma closeEscalation_found:
  assumes "jget (l_escalations (wd_ledger w)) k = Some e" "jget (l_intents (wd_ledger w)) k = Some i"
    "k \<noteq> []" "db_requestId b = Some k" "db_decision b \<noteq> None" "db_decidedAt b = Some (toISOString now)"
  shows "\<exists>l'. closeEscalation now k d a b w = (Inr (), w\<lparr>wd_ledger := l'\<rparr>) \<and>
    jget (l_intents l') k = Some (decide b i) \<and>
    jget (l_escalations l') k = Some (e\<lparr>e_resolved := True, e_decision := Some d, e_approvedBy := a,
      e_resolvedAt := Some (toISOString now)\<rparr>)"
proof -
  obtain x l1 where r1: "resolveEscalationStorage now k d a w = (Inr x, w\<lparr>wd_ledger := l1\<rparr>)"
      "l_intents l1 = l_intents (wd_ledger w)"
      "l_escalations l1 = jset k (e\<lparr>e_resolved := True, e_decision := Some d, e_approvedBy := a,
        e_resolvedAt := Some (toISOString now)\<rparr>) (l_escalations (wd_ledger w))"
    using resolveEscalation_found [OF assms(1), of now d a] by blast
  have "jget (l_intents (wd_ledger (w\<lparr>wd_ledger := l1\<rparr>))) k = Some i" using assms(2) by (simp add: r1)
  from recordDecision_found [OF this assms(3-6)] obtain y l2 where r2:
      "recordDecision now b (w\<lparr>wd_ledger := l1\<rparr>) = (Inr y, w\<lparr>wd_ledger := l2\<rparr>)"
      "l_intents l2 = jset k (decide b i) (l_intents l1)" "l_escalations l2 = l_escalations l1"
    by auto
  show ?thesis
    by (intro exI [of _ l2]) (simp add: closeEscalation_def andThen_def r1 r2)
qed

lemma expired_resolution:
  assumes "jget (l_escalations (wd_ledger w)) k = Some e" "\<not> e_resolved e" "e_expiresAt e < nowSec now"
    "jget (l_intents (wd_ledger w)) k = Some i" "k \<noteq> []" "dcn \<noteq> None"
  obtains l' entry where "resolve_escalation env now k dcn a sg st w =
      (sendError 410 ''ESCALATION_EXPIRED'' (''escalation '' @ k @ '' expired'') k False, w\<lparr>wd_ledger := l'\<rparr>)"
    "db_decision entry = Some Refused" "jget (l_intents l') k = Some (decide entry i)"
    "jget (l_escalations l') k = Some (e\<lparr>e_resolved := True, e_decision := Some Deny,
        e_approvedBy := None, e_resolvedAt := Some (toISOString now)\<rparr>)"
proof -
  define b where "b = refusal_entry now k Refused ''escalation_expired''
    (''escalation TTL of '' @ dec_int (e_ttlSeconds e) @ ''s elapsed with no response; auto-denied'')"
  obtain l' where c: "closeEscalation now k Deny None b w = (Inr (), w\<lparr>wd_ledger := l'\<rparr>)"
      "jget (l_intents l') k = Some (decide b i)"
      "jget (l_escalations l') k = Some (e\<lparr>e_resolved := True, e_decision := Some Deny,
        e_approvedBy := None, e_resolvedAt := Some (toISOString now)\<rparr>)"
    using closeEscalation_found [OF assms(1,4,5), of b now Deny None] by (auto simp: b_def)
  have "resolve_escalation env now k dcn a sg st w =
      (sendError 410 ''ESCALATION_EXPIRED'' (''escalation '' @ k @ '' expired'') k False,
       w\<lparr>wd_ledger := l'\<rparr>)"
    using assms c(1)
    by (auto simp: resolve_escalation_def getEscalation_def client_reads respond_def b_def andThen_run)
  then show ?thesis using that [of l' b] c by (simp add: b_def)
qed

text \<open>An escalation that nobody answered in time is denied by whatever answer comes next, also by an
  approval with a valid signature: the reply is 410, the escalation is stored as resolved with a
  denial and the intent as refused, and the signer is not consulted.\<close>

theorem expired_escalation_denied:
  assumes "jget (l_escalations (wd_ledger w)) k = Some e" "\<not> e_resolved e" "e_expiresAt e < nowSec now"
    "jget (l_intents (wd_ledger w)) k = Some i" "k \<noteq> []" "dcn \<noteq> None"
  shows "\<exists>er w' e' j. resolve_escalation env now k dcn a sg st w = (ErrReply 410 er, w') \<and>
    env_code er = ''ESCALATION_EXPIRED'' \<and> wd_signer w' = wd_signer w \<and>
    jget (l_escalations (wd_ledger w')) k = Some e' \<and> e_resolved e' \<and> e_decision e' = Some Deny \<and>
    jget (l_intents (wd_ledger w')) k = Some j \<and> i_decision j = Some Refused"
proof -
  obtain l' entry where "resolve_escalation env now k dcn a sg st w =
      (sendError 410 ''ESCALATION_EXPIRED'' (''escalation '' @ k @ '' expired'') k False, w\<lparr>wd_ledger := l'\<rparr>)"
    "db_decision entry = Some Refused" "jget (l_intents l') k = Some (decide entry i)"
    "jget (l_escalations l') k = Some (e\<lparr>e_resolved := True, e_decision := Some Deny,
        e_approvedBy := None, e_resolvedAt := Some (toISOString now)\<rparr>)"
    by (rule expired_resolution [OF assms])
  then show ?thesis by (simp add: sendError_def decide_def)
qed

lemma env_kept:
  "pe_verify (env\<lparr>pe_registry := reg\<rparr>) = pe_verify env"
  "pe_keccak_text (env\<lparr>pe_registry := reg\<rparr>) = pe_keccak_text env"
  "pe_keccak_hex (env\<lparr>pe_registry := reg\<rparr>) = pe_keccak_hex env"
  "pe_payingWallet (env\<lparr>pe_registry := reg\<rparr>) = pe_payingWallet env"
  "pe_sign (env\<lparr>pe_registry := reg\<rparr>) = pe_sign env"
  by simp_all

lemma registry_unused:
  "signWith (env\<lparr>pe_registry := reg\<rparr>) = signWith env"
  "performSigning (env\<lparr>pe_registry := reg\<rparr>) = performSigning env"
  "approveEscalation (env\<lparr>pe_registry := reg\<rparr>) = approveEscalation env"
proof -
  show s: "signWith (env\<lparr>pe_registry := reg\<rparr>) = signWith env"
    by (simp add: signWith_def fun_eq_iff)
  show p: "performSigning (env\<lparr>pe_registry := reg\<rparr>) = performSigning env"
    unfolding performSigning_def fun_eq_iff s env_kept by simp
  show "approveEscalation (env\<lparr>pe_registry := reg\<rparr>) = approveEscalation env"
    unfolding approveEscalation_def fun_eq_iff p env_kept by simp
qed

text \<open>The resolution of an escalation never reads the chain: whatever the registry says of the mandate,
  revoked or expired in the meantime, the result is the same.\<close>

theorem resolution_ignores_registry:
  "resolve_escalation (env\<lparr>pe_registry := reg\<rparr>) now k dcn a sg st w =
   resolve_escalation env now k dcn a sg st w"
  unfolding resolve_escalation_def registry_unused env_kept by (rule refl)

section \<open>Policies\<close>

text \<open>A policy is stored only when its hash is the one on chain for that mandate, with the next version
  number; otherwise the ledger is unchanged.\<close>

theorem policy_put_needs_hash:
  assumes "policy_put env now mid pol w = (r, w')" "w' \<noteq> w"
  shows "\<exists>p reg. pol = Some p \<and> pe_registry env mid (m_chainId p) = Inr (Some reg) \<and>
    to_lower (hashPolicy (pe_keccak_text env) p) = to_lower (rm_policyHash reg) \<and>
    jget (l_policies (wd_ledger w')) mid = Some \<lparr>pr_policy = p, pr_policyVersion =
      coalesce (map_option pr_policyVersion (jget (l_policies (wd_ledger w)) mid)) 0 + 1\<rparr>"
  using assms
  by (auto simp: policy_put_def respond_def putPolicy_def andThen_def writing_def put_policy_def
      expect_ok_def Let_def split: option.splits sum.splits if_splits)

end
