(* ===== verification/Policy_Witnesses.thy ===== *)
theory Policy_Witnesses
  imports Escalation_Properties Samples
begin

text \<open>
  The properties of the policy service applied to the sample world: every hypothesis holds there.
\<close>

definition sample_intent :: intent where
  "sample_intent = the (jget (l_intents (wd_ledger sample_world)) ''r'')"

lemma sample_facts:
  "jget (l_intents (wd_ledger sample_world)) ''r'' = Some sample_intent"
  "map_option pr_policy (jget (l_policies (wd_ledger sample_world)) ''0xm'') = Some sample_mandate"
  "js_trim (r_merchantDomain sample_item) \<noteq> []"
  "\<not> nonce_live sample_intent"
  by (code_simp, code_simp, code_simp, code_simp)

lemma sample_authorised:
  "payment_authorised sample_env 1000000 ''r'' ''0xm'' ''7000000'' sample_challenge sample_item
     sample_intent sample_mandate (wd_ledger sample_world)"
proof -
  have "wd_signer (snd (decidePayment sample_env 1000000 ''r'' ''0xm'' ''7000000'' sample_challenge
      sample_item sample_intent sample_mandate sample_world)) \<noteq> wd_signer sample_world"
    by code_simp
  then show ?thesis
    using decidePayment_cases [OF _ sample_facts(3,1,2), of sample_env 1000000 "''7000000''" sample_challenge]
    by auto
qed

lemma signer_needs_authorisation_witness:
  "\<exists>k mid amount c item i m. pb_requestId sample_body = Some k \<and>
     payment_authorised sample_env 1000000 k mid amount c item i m (wd_ledger sample_world)"
proof -
  have "wd_signer (snd (payment_request sample_env 1000000 sample_body sample_world)) \<noteq> wd_signer sample_world"
    by code_simp
  then show ?thesis
    using signer_needs_authorisation [OF prod.collapse [symmetric],
        of sample_env 1000000 sample_body sample_world] by blast
qed

lemma authorised_payment_signed_witness:
  "\<exists>n j. fst (payment_request sample_env 1000000
       (body_of ''r'' ''0xm'' ''7000000'' sample_challenge sample_item) sample_world) =
     Reply 200 (PSigned \<lparr>sg_requestId = ''r'', sg_header = ''header'', sg_nonce = n, sg_validAfter = 995,
       sg_validBefore = 1055, sg_checksPassed = all_checks, sg_decidedAt = toISOString 1000000\<rparr>) \<and>
   burned j \<and> i_nonce j = Some n"
proof -
  have i: "hash_text (i_instructionHash sample_intent)" by code_simp
  have "hash_text (toy_hash [])" by code_simp
  moreover have "toy_hash t = toy_hash []" "toy_hash t \<noteq> []" for t by (simp_all add: toy_hash_def)
  ultimately have "hash_text (pe_keccak_text sample_env t)" "pe_keccak_hex sample_env t \<noteq> []" for t
    by (simp_all add: sample_env_def) metis
  note this i
  from authorised_payment_signed [OF sample_authorised _ _ _ sample_facts(4) this] show ?thesis
    unfolding Let_def
    by (auto simp: sample_env_def sample_world_def sample_mandate_def sample_challenge_def split: prod.splits)
qed

definition signed_intent :: intent where
  "signed_intent = sample_intent\<lparr>i_nonce := Some ''0xn'', i_nonceReservedAt := Some ''t'',
     i_decision := Some Signed, i_decidedAt := Some ''1970-01-01T00:00:00.000Z'', i_state := SIGNED\<rparr>"

definition signed_world :: "nat world" where
  "signed_world = sample_world\<lparr>wd_ledger := (wd_ledger sample_world)
     \<lparr>l_intents := [(''r'', signed_intent)]\<rparr>\<rparr>"

lemma signed_authorised:
  "payment_authorised sample_env 1000000 ''r'' ''0xm'' ''7000000'' sample_challenge sample_item
     signed_intent sample_mandate (wd_ledger signed_world)"
proof -
  let ?l = "wd_ledger signed_world" and ?u = "\<lparr>w_mandateId = ''0xm'', w_windowSeconds = 100, w_windowStartedAt = ''1970-01-01T00:15:00.000Z'',
      w_spent = ''0'', w_cardCount = 0, w_remaining = Some ''50000000''\<rparr>"
  have u: "get_window (pe_date_other sample_env) 1000000 ''0xm'' (Some (m_windowSeconds sample_mandate))
      (Some (m_maxPerWindow sample_mandate)) ?l = Reply 200 ?u"
    by code_simp
  have "run_checks (CHECKS (pe_keccak_text sample_env) (pe_date_other sample_env))
      (payment_context sample_env 1000000 sample_mandate (Some sample_registry) sample_challenge ''7000000''
        (w_spent ?u, w_cardCount ?u) signed_intent) [] =
      Inr (map fst (CHECKS (pe_keccak_text sample_env) (pe_date_other sample_env)), None)"
    by code_simp
  then have a: "payment_allowed (pe_keccak_text sample_env) (pe_date_other sample_env)
      (payment_context sample_env 1000000 sample_mandate (Some sample_registry) sample_challenge ''7000000''
        (w_spent ?u, w_cardCount ?u) signed_intent)"
    unfolding run_checks_allowed by blast
  have "heuristicIntentMatcher sample_item (m_intentConstraint sample_mandate) = Match" by code_simp
  then have "gate_open 1000000 ''0xm'' sample_mandate sample_item ?l"
    by (simp add: gate_open_def sample_mandate_def)
  moreover have "jget (l_intents ?l) ''r'' = Some signed_intent" by (simp add: signed_world_def)
  moreover have "map_option pr_policy (jget (l_policies ?l) ''0xm'') = Some sample_mandate"
    using sample_facts(2) by (simp add: signed_world_def)
  moreover have "pe_registry sample_env ''0xm'' (m_chainId sample_mandate) = Inr (Some sample_registry)"
    by (simp add: sample_env_def)
  ultimately show ?thesis
    unfolding payment_authorised_def using u a sample_facts(3) by blast
qed

lemma repeated_payment_unrecords_witness:
  "\<exists>e w' j. payment_request sample_env 1000000
     (body_of ''r'' ''0xm'' ''7000000'' sample_challenge sample_item) signed_world = (ErrReply 409 e, w') \<and>
   jget (l_intents (wd_ledger w')) ''r'' = Some j \<and> i_decision j = Some Refused"
proof -
  have "burned signed_intent" by (simp add: burned_def nonce_live_def signed_intent_def sample_intent_def) code_simp
  moreover have "commitment sample_env ''r'' sample_mandate signed_intent (r_merchantDomain sample_item)
      = Inr (toy_hash [])" by code_simp
  moreover have "toy_hash [] \<noteq> []" by (simp add: toy_hash_def)
  ultimately show ?thesis
    using repeated_payment_unrecords [OF signed_authorised] by fastforce
qed

lemma orphan_request_is_500_witness:
  "payment_request sample_env 5 (body_of ''q'' ''0xm'' ''7000000'' sample_challenge sample_item) sample_world =
    (ServerError ''ledger recordDecision 404'', sample_world)"
proof -
  have "jget (l_intents (wd_ledger sample_world)) ''q'' = None" by code_simp
  then show ?thesis by (rule orphan_request_is_500) simp_all
qed

lemma escalated_facts:
  "\<exists>e. jget (l_escalations (wd_ledger escalated_world)) ''r'' = Some e \<and> \<not> e_resolved e \<and> e_expiresAt e = 300"
  "jget (l_intents (wd_ledger escalated_world)) ''r'' = Some sample_intent"
proof -
  have "map_option e_resolved (jget (l_escalations (wd_ledger escalated_world)) ''r'') = Some False"
    "map_option e_expiresAt (jget (l_escalations (wd_ledger escalated_world)) ''r'') = Some 300"
    by (code_simp, code_simp)
  then show "\<exists>e. jget (l_escalations (wd_ledger escalated_world)) ''r'' = Some e \<and> \<not> e_resolved e \<and>
      e_expiresAt e = 300" by auto
  show "jget (l_intents (wd_ledger escalated_world)) ''r'' = Some sample_intent" by code_simp
qed

lemma resolution_needs_owner_witness:
  "\<exists>d e m. Some Approve = Some d \<and> pending 9000 ''r'' e m (wd_ledger escalated_world) \<and>
     owner_signed sample_env ''r'' d (Some ''0xa0'') (Some ''0x12'') e m"
proof -
  let ?r = "resolve_escalation sample_env 9000 ''r'' (Some Approve) (Some ''0xa0'') (Some ''0x12'') None escalated_world"
  have "wd_signer (snd ?r) \<noteq> wd_signer escalated_world" by code_simp
  then have "snd ?r \<noteq> escalated_world" by metis
  from resolution_needs_owner [OF prod.collapse [symmetric] this] escalated_facts(1)
  show ?thesis by auto
qed

lemma escalation_signs_only_approved_witness:
  "\<exists>e m. pending 9000 ''r'' e m (wd_ledger escalated_world) \<and>
     owner_signed sample_env ''r'' Approve (Some ''0xa0'') (Some ''0x12'') e m"
proof -
  have "wd_signer (snd (resolve_escalation sample_env 9000 ''r'' (Some Approve) (Some ''0xa0'')
      (Some ''0x12'') None escalated_world)) \<noteq> wd_signer escalated_world" by code_simp
  then show ?thesis
    using escalation_signs_only_approved [OF prod.collapse [symmetric],
        of sample_env 9000 "''r''" "Some Approve" "Some ''0xa0''" "Some ''0x12''" None escalated_world]
    by blast
qed

lemma expired_escalation_denied_witness:
  "\<exists>er w'. resolve_escalation sample_env 900000 ''r'' (Some Approve) (Some ''0xa0'') (Some ''0x12'') None
     escalated_world = (ErrReply 410 er, w') \<and> wd_signer w' = 0"
proof -
  obtain e where e: "jget (l_escalations (wd_ledger escalated_world)) ''r'' = Some e" "\<not> e_resolved e"
      "e_expiresAt e = 300"
    using escalated_facts(1) by blast
  have "wd_signer escalated_world = 0" by code_simp
  then show ?thesis
    using expired_escalation_denied [OF e(1,2) _ escalated_facts(2), of 900000 "Some Approve" sample_env
        "Some ''0xa0''" "Some ''0x12''" None] e(3) by auto
qed

lemma policy_put_needs_hash_witness:
  "to_lower (hashPolicy (pe_keccak_text sample_env) sample_mandate) = to_lower (rm_policyHash sample_registry)"
proof -
  let ?r = "policy_put sample_env 9 ''0xm'' (Some sample_mandate) sample_world"
  have "map_option pr_policyVersion (jget (l_policies (wd_ledger (snd ?r))) ''0xm'') \<noteq>
      map_option pr_policyVersion (jget (l_policies (wd_ledger sample_world)) ''0xm'')" by code_simp
  then have "snd ?r \<noteq> sample_world" by metis
  from policy_put_needs_hash [OF prod.collapse [symmetric] this]
  show ?thesis by (auto simp: sample_env_def)
qed

lemma first_failure_decides_witness:
  "CHECK_INDEX ''check1_mandate_live'' = Some 1"
proof -
  let ?ctx = "payment_context sample_env 1000000 sample_mandate None sample_challenge ''7000000''
        (''0'', 0) signed_intent"
  have "run_checks (CHECKS toy_hash (\<lambda>s. None)) ?ctx [] = Inr ([], Some (Refuse ''check1_mandate_live''
      ''mandate 0xm not found on-chain''))" by code_simp
  from first_failure_decides [OF this] show ?thesis by simp
qed

end
