(* ===== verification/Signer_Service.thy ===== *)
theory Signer_Service
  imports Signer_Rail Http_Plumbing Reservation
begin

text \<open>
  \<open>services/signer-service\<close>: the parsing of a sign request and the handler of \<open>POST /sign\<close>
  (\<open>routes/sign.ts\<close>), the signing of a digest (\<open>pipeline.ts\<close>), the health reply, the boot
  checks of \<open>main.ts\<close> and the wrapping of key-service errors.  The key source has a state of its own, so that every
  use of the key is visible.  The handler awaits the key source: \<open>sign_begin\<close> is the part before
  the call and \<open>sign_finish\<close> the part after it.
\<close>

section \<open>The sign request\<close>

definition requireString :: "json option \<Rightarrow> string \<Rightarrow> js_error + string" where
  "requireString v field =
     (case v of
        Some (JStr s) \<Rightarrow> if s = [] then Inl (badRequest (field @ '' must be a non-empty string'')) else Inr s
      | _ \<Rightarrow> Inl (badRequest (field @ '' must be a non-empty string'')))"

definition requireNumber :: "json option \<Rightarrow> string \<Rightarrow> js_error + int" where
  "requireNumber v field =
     (case v of Some (JNum n) \<Rightarrow> Inr n | _ \<Rightarrow> Inl (badRequest (field @ '' must be a finite number'')))"

record sign_request =
  sr_requestId :: string
  sr_mandateId :: hex
  sr_typedData :: typed_data_input
  sr_accepted :: x402_accepted
  sr_resource :: string
  sr_x402Version :: json

definition parse_typed_data :: "(string \<times> json) list \<Rightarrow> js_error + typed_data_input" where
  "parse_typed_data obj =
     bindE (requireObject (jmember obj ''typedData'') ''typedData'') (\<lambda>typedData.
     bindE (requireObject (jmember typedData ''domain'') ''typedData.domain'') (\<lambda>dm.
     bindE (requireObject (jmember typedData ''message'') ''typedData.message'') (\<lambda>message.
     bindE (parseAddress (jmember message ''from'') ''typedData.message.from'') (\<lambda>sender.
     bindE (parseAddress (jmember message ''to'') ''typedData.message.to'') (\<lambda>recipient.
     bindE (parseUint (jmember message ''value'') ''typedData.message.value'') (\<lambda>val.
     bindE (requireNumber (jmember message ''validAfter'') ''typedData.message.validAfter'') (\<lambda>va.
     bindE (requireNumber (jmember message ''validBefore'') ''typedData.message.validBefore'') (\<lambda>vb.
     bindE (parseBytes32 (jmember message ''nonce'') ''typedData.message.nonce'') (\<lambda>nonce.
     bindE (requireString (jmember dm ''name'') ''typedData.domain.name'') (\<lambda>nm.
     bindE (requireString (jmember dm ''version'') ''typedData.domain.version'') (\<lambda>version.
     bindE (parseChainId (jmember dm ''chainId'')) (\<lambda>chainId.
     bindE (parseAddress (jmember dm ''verifyingContract'') ''typedData.domain.verifyingContract'')
       (\<lambda>verifyingContract.
       Inr \<lparr>bt_from = sender, bt_to = recipient, bt_value = val, bt_validAfter = va, bt_validBefore = vb,
         bt_nonce = nonce, bt_domain = \<lparr>d_name = nm, d_version = version, d_chainId = chainId,
           d_verifyingContract = verifyingContract\<rparr>\<rparr>)))))))))))))"

text \<open>The fields of \<open>accepted\<close> that the returned object reads, in its order.\<close>

definition parse_accepted ::
    "(string \<times> json) list \<Rightarrow> (string \<times> json) list \<Rightarrow> uint \<Rightarrow> js_error + x402_accepted" where
  "parse_accepted accepted acceptedExtra amount =
     bindE (requireString (jmember accepted ''network'') ''accepted.network'') (\<lambda>network.
     bindE (parseChainId (jmember accepted ''chainId'')) (\<lambda>chainId.
     bindE (parseAddress (jmember accepted ''asset'') ''accepted.asset'') (\<lambda>asset.
     bindE (parseAddress (jmember accepted ''payTo'') ''accepted.payTo'') (\<lambda>payTo.
     bindE (requireNumber (jmember accepted ''maxTimeoutSeconds'') ''accepted.maxTimeoutSeconds'') (\<lambda>timeout.
     bindE (requireString (jmember acceptedExtra ''name'') ''accepted.extra.name'') (\<lambda>nm.
     bindE (requireString (jmember acceptedExtra ''version'') ''accepted.extra.version'') (\<lambda>version.
       Inr \<lparr>c_scheme = ''exact'', c_network = network, c_chainId = chainId, c_amount = amount,
         c_asset = asset, c_payTo = payTo, c_maxTimeoutSeconds = timeout,
         c_extra = \<lparr>x_assetTransferMethod = ''eip3009'', x_name = nm, x_version = version\<rparr>\<rparr>)))))))"

definition parseSignBody :: "json option \<Rightarrow> js_error + sign_request" where
  "parseSignBody body =
     bindE (requireObject body ''body'') (\<lambda>obj.
     case jmember obj ''requestId'' of
       Some (JStr requestId) \<Rightarrow>
         if requestId = [] then Inl (badRequest ''requestId is required'')
         else
         bindE (parseMandateId (jmember obj ''mandateId'')) (\<lambda>mandateId.
         bindE (parse_typed_data obj) (\<lambda>typedData.
         bindE (requireObject (jmember obj ''accepted'') ''accepted'') (\<lambda>accepted.
         bindE (parseUint (jmember accepted ''amount'') ''accepted.amount'') (\<lambda>amount.
         bindE (requireObject (jmember accepted ''extra'') ''accepted.extra'') (\<lambda>acceptedExtra.
         case jmember obj ''resource'' of
           Some (JStr resource) \<Rightarrow>
             if resource = [] then Inl (badRequest ''resource is required (the cardapi URL)'')
             else (case jmember obj ''x402Version'' of
                 None \<Rightarrow> bindE (parse_accepted accepted acceptedExtra amount) (\<lambda>acc.
                   Inr \<lparr>sr_requestId = requestId, sr_mandateId = mandateId, sr_typedData = typedData,
                     sr_accepted = acc, sr_resource = resource, sr_x402Version = JNum X402_VERSION\<rparr>)
               | Some v \<Rightarrow>
                   if js_typeof (Some v) \<noteq> ''number''
                   then Inl (badRequest ''x402Version must be a number when present'')
                   else bindE (parse_accepted accepted acceptedExtra amount) (\<lambda>acc.
                     Inr \<lparr>sr_requestId = requestId, sr_mandateId = mandateId, sr_typedData = typedData,
                       sr_accepted = acc, sr_resource = resource, sr_x402Version = v\<rparr>))
         | _ \<Rightarrow> Inl (badRequest ''resource is required (the cardapi URL)''))))))
     | _ \<Rightarrow> Inl (badRequest ''requestId is required''))"

section \<open>The handler\<close>

text \<open>
  The dependencies of the route.  \<open>sd_signDigest\<close> is the key source, on its own state;
  \<open>sd_hashTypedData\<close> is the library's EIP-712 digest as bytes.
\<close>

record 'k sign_deps =
  sd_signDigest :: "byte list \<Rightarrow> 'k \<Rightarrow> (js_error + byte list) \<times> 'k"
  sd_hashTypedData :: "typed_data \<Rightarrow> byte list"
  sd_recoverKey :: "byte list \<Rightarrow> byte list \<Rightarrow> byte list option"
  sd_keccakBytes :: "byte list \<Rightarrow> byte list"
  sd_getAddress :: "string \<Rightarrow> string"
  sd_signerAddress :: address
  sd_chainId :: int
  sd_expectedDomain :: expected_domain
  sd_pinned :: "pinned_mandate jsmap"

record sign_response =
  so_requestId :: string
  so_header :: string
  so_signature :: signature_parts
  so_signerAddress :: address
  so_signedAt :: string

text \<open>The replay set and the key source's state.\<close>

record 'k signer_state =
  ss_seen :: "string list"
  ss_key :: 'k

text \<open>\<open>signDigestWithKeySource\<close> after the key source has answered \<open>der\<close>.\<close>

definition finish_signature ::
    "'k sign_deps \<Rightarrow> byte list \<Rightarrow> x402_header_input \<Rightarrow> byte list \<Rightarrow>
     js_error + string \<times> signature_parts \<times> address" where
  "finish_signature deps digest headerInput der =
     bindE (parseAndNormalise der) (\<lambda>(r, s).
     bindE (recoverV (sd_recoverKey deps) (sd_keccakBytes deps) (sd_getAddress deps) r s digest
       (sd_signerAddress deps)) (\<lambda>v.
       let signature = \<lparr>g_v = v, g_r = toBigIntHex r, g_s = toBigIntHex s\<rparr>
       in bindE (buildX402Header headerInput signature) (\<lambda>header.
            Inr (header, signature, sd_getAddress deps (sd_signerAddress deps)))))"

text \<open>The part of the handler before the key is used: the request and its digest.\<close>

definition rail_of :: "'k sign_deps \<Rightarrow> string list \<Rightarrow> rail_config" where
  "rail_of deps seen = \<lparr>rl_pinned = sd_pinned deps, rl_signerAddress = to_lower (sd_signerAddress deps),
     rl_chainId = sd_chainId deps, rl_hasSeen = (\<lambda>i. i \<in> set seen)\<rparr>"

definition sign_begin :: "'k sign_deps \<Rightarrow> json option \<Rightarrow> string list \<Rightarrow> js_error + sign_request \<times> byte list" where
  "sign_begin deps body seen =
     bindE (parseSignBody body) (\<lambda>rq.
       let td = sr_typedData rq in
       bindE (bigint (bt_value td)) (\<lambda>val.
       bindE (checkRail \<lparr>ri_mandateId = sr_mandateId rq, ri_from = bt_from td, ri_to = bt_to td,
           ri_value = val, ri_validAfter = bt_validAfter td, ri_validBefore = bt_validBefore td,
           ri_chainId = d_chainId (bt_domain td)\<rparr> (sr_requestId rq) (rail_of deps seen)) (\<lambda>railResult.
       bindE (throwRailRefusal railResult) (\<lambda>_.
       bindE (assertDomainMatches (bt_domain td) (sd_expectedDomain deps)) (\<lambda>_.
         let digest = sd_hashTypedData deps (buildTransferWithAuthorizationTypedData td) in
         if length digest \<noteq> 32
         then Inl (JsError (''digest must be 32 bytes, got '' @ dec (length digest)))
         else Inr (rq, digest))))))"

definition header_input :: "sign_request \<Rightarrow> x402_header_input" where
  "header_input rq =
     (let td = sr_typedData rq in
      \<lparr>h_x402Version = sr_x402Version rq, h_resource = sr_resource rq, h_accepted = sr_accepted rq,
       h_authorization = \<lparr>au_from = bt_from td, au_to = bt_to td, au_value = bt_value td,
         au_validAfter = dec_int (bt_validAfter td), au_validBefore = dec_int (bt_validBefore td),
         au_nonce = bt_nonce td\<rparr>\<rparr>)"

text \<open>The part after the key source answered: the request id is marked as seen last.\<close>

definition sign_finish ::
    "'k sign_deps \<Rightarrow> int \<Rightarrow> sign_request \<Rightarrow> byte list \<Rightarrow> js_error + byte list \<Rightarrow> string list \<Rightarrow>
     (js_error + sign_response) \<times> string list" where
  "sign_finish deps now rq digest answer seen =
     (case bindE answer (finish_signature deps digest (header_input rq)) of
        Inl e \<Rightarrow> (Inl e, seen)
      | Inr (header, signature, signer) \<Rightarrow>
          (Inr \<lparr>so_requestId = sr_requestId rq, so_header = header, so_signature = signature,
             so_signerAddress = signer, so_signedAt = isoSeconds now\<rparr>,
           List.insert (sr_requestId rq) seen))"

text \<open>The whole handler when no other request is handled in between.\<close>

definition post_sign ::
    "'k sign_deps \<Rightarrow> int \<Rightarrow> json option \<Rightarrow> 'k signer_state \<Rightarrow> (js_error + sign_response) \<times> 'k signer_state" where
  "post_sign deps now body st =
     (case sign_begin deps body (ss_seen st) of
        Inl e \<Rightarrow> (Inl e, st)
      | Inr (rq, digest) \<Rightarrow>
          let (answer, k) = sd_signDigest deps digest (ss_key st);
              (result, seen) = sign_finish deps now rq digest answer (ss_seen st)
          in (result, st\<lparr>ss_seen := seen, ss_key := k\<rparr>))"

text \<open>The route behind the internal-token hook and the error handler.\<close>

definition sign_route ::
    "'k sign_deps \<Rightarrow> string option \<Rightarrow> int \<Rightarrow> request \<Rightarrow> 'k signer_state \<Rightarrow>
     sign_response reply \<times> 'k signer_state" where
  "sign_route deps token now = serve token (\<lambda>req st. post_sign deps now (rq_body req) st)"

definition unknown_sign_route :: "js_error + 'a" where
  "unknown_sign_route = Inl (mk_app_error 404 NOT_FOUND ''unknown signer route'' False)"

section \<open>Health and boot\<close>

text \<open>The ellipsis of the source's literal is written as three dots.\<close>

definition maskKmsKeyId :: "string option \<Rightarrow> string option" where
  "maskKmsKeyId keyId =
     (if falsy keyId then None
      else let k = the keyId in Some (''arn:aws:kms:...:key/****'' @ drop (length k - 4) k))"

text \<open>\<open>wrapKmsError\<close>: every maximal run of non-blanks after an ARN prefix is redacted.\<close>

function redact_arn :: "string \<Rightarrow> string" where
  "redact_arn s =
     (if s = [] then []
      else if take 12 s = ''arn:aws:kms:'' \<and> drop 12 s \<noteq> [] \<and> hd (drop 12 s) \<noteq> CHR '' ''
      then ''arn:aws:kms:...(redacted)'' @ redact_arn (dropWhile (\<lambda>c. c \<noteq> CHR '' '') (drop 12 s))
      else hd s # redact_arn (tl s))"
  by pat_completeness auto

termination
proof (relation "measure length")
  fix s :: string
  assume "s \<noteq> []" "take 12 s = ''arn:aws:kms:'' \<and> drop 12 s \<noteq> [] \<and> hd (drop 12 s) \<noteq> CHR '' ''"
  then show "(dropWhile (\<lambda>c. c \<noteq> CHR '' '') (drop 12 s), s) \<in> measure length"
    using length_dropWhile_le [of "\<lambda>c. c \<noteq> CHR '' ''" "drop 12 s"] by (simp, linarith)
qed auto

declare redact_arn.simps [simp del]

definition wrapKmsError :: "string option \<Rightarrow> js_error" where
  "wrapKmsError errorMessage =
     mk_app_error 502 SIGNER_KMS_FAILED
       (''KMS signing failed: '' @ redact_arn (coalesce errorMessage ''unknown KMS error'')) True"

text \<open>
  The boot of \<open>main.ts\<close>: which key source is selected, and the custody proof that the derived
  address is the expected one.  \<open>Inl\<close> refuses to start.
\<close>

datatype key_source_kind = LocalKey string | KmsKey string string

definition select_key_source :: "environment \<Rightarrow> js_error + key_source_kind" where
  "select_key_source env =
     (if coalesce (env ''SIGNER_KEY_SOURCE'') ''kms'' = ''local''
      then if env ''ALLOW_LOCAL_KEY_SOURCE'' \<noteq> Some ''true''
           then Inl (JsError ''SIGNER_KEY_SOURCE=local requires ALLOW_LOCAL_KEY_SOURCE=true (dev/test only). A raw private key undercuts the 'agent never holds the key' claim.'')
           else bindE (requireEnv env ''LOCAL_SIGNER_PRIVATE_KEY'') (\<lambda>k. Inr (LocalKey k))
      else if falsy (env ''KMS_KEY_ID'')
      then Inl (JsError ''KMS_KEY_ID is required when SIGNER_KEY_SOURCE=kms (the default)'')
      else Inr (KmsKey (the (env ''KMS_KEY_ID'')) (coalesce (env ''AWS_REGION'') ''ap-southeast-1'')))"

definition custody_proof ::
    "(byte list \<Rightarrow> byte list) \<Rightarrow> (string \<Rightarrow> string) \<Rightarrow> environment \<Rightarrow> byte list \<Rightarrow> js_error + address" where
  "custody_proof keccak_bytes getAddress env publicKeyDer =
     bindE (requireEnv env ''EXPECTED_SIGNER_ADDRESS'') (\<lambda>expected.
     bindE (deriveAddressFromSpki keccak_bytes getAddress publicKeyDer) (\<lambda>derived.
       if to_lower derived \<noteq> to_lower expected
       then Inl (JsError (''derived address '' @ derived @ '' does not match EXPECTED_SIGNER_ADDRESS '' @
         expected @ '' -- stop and tell the team; this account has no money and no signature will settle''))
       else Inr (getAddress derived)))"

definition boot_expected_domain :: "int \<Rightarrow> chain_constants \<Rightarrow> expected_domain" where
  "boot_expected_domain chainId chain =
     \<lparr>x_chainId = chainId, x_asset = to_lower (k_xsgd chain), x_domainName = k_eip712Name chain,
      x_domainVersion = coalesce (k_eip712Version chain) []\<rparr>"

end
