(* ===== verification/Signer_Properties.thy ===== *)
theory Signer_Properties
  imports Signer_Service Der_Properties
begin

text \<open>
  The signer's promises: the seven invariants of the rail and the domain guard before the key is
  used, a canonical signature that the header carries whole, and the replay boundary with its gap
  when requests overlap.
\<close>

section \<open>The rail\<close>

definition rail_passes :: "rail_input \<Rightarrow> string \<Rightarrow> rail_config \<Rightarrow> bool" where
  "rail_passes input requestId config \<longleftrightarrow>
     (\<exists>entry hardMax. jget (rl_pinned config) (ri_mandateId input) = Some entry \<and>
        ri_to input = p_settlementRecipient entry \<and>
        is_decimal (p_hardMaxTotal entry) \<and> js_bigint (p_hardMaxTotal entry) = Some hardMax \<and>
        ri_value input \<le> hardMax \<and> ri_from input = rl_signerAddress config \<and>
        ri_chainId input = rl_chainId config \<and>
        ri_validBefore input - ri_validAfter input \<le> 600 \<and> \<not> rl_hasSeen config requestId)"

lemma checkRail_ok: "checkRail input requestId config = Inr RailOk \<longleftrightarrow> rail_passes input requestId config"
proof (cases "jget (rl_pinned config) (ri_mandateId input)")
  case (Some entry)
  show ?thesis
  proof (cases "is_decimal (p_hardMaxTotal entry)")
    case True
    then obtain m where "js_bigint (p_hardMaxTotal entry) = Some m" by (simp add: bigint_decimal)
    then have "bigint (p_hardMaxTotal entry) = Inr m" by simp
    with Some True \<open>js_bigint (p_hardMaxTotal entry) = Some m\<close> show ?thesis
      by (auto simp: checkRail_def rail_passes_def parseUintAsBigInt_def MAX_AUTH_WINDOW_SECONDS_def
          split: if_splits)
  next
    case False
    with Some show ?thesis
      by (auto simp: checkRail_def rail_passes_def parseUintAsBigInt_def split: if_splits)
  qed
qed (simp add: checkRail_def rail_passes_def)

lemma throwRailRefusal_Inr [simp]: "throwRailRefusal r = Inr u \<longleftrightarrow> r = RailOk"
  by (cases r) (simp_all add: throwRailRefusal_def)

lemma throwRailRefusal_ok [simp]: "throwRailRefusal RailOk = Inr ()"
  by (simp add: throwRailRefusal_def)

text \<open>What the signer has established before it uses the key.\<close>

definition sign_allowed :: "'k sign_deps \<Rightarrow> sign_request \<Rightarrow> string list \<Rightarrow> bool" where
  "sign_allowed deps rq seen \<longleftrightarrow>
     (let td = sr_typedData rq in
      (\<exists>entry hardMax a. jget (sd_pinned deps) (sr_mandateId rq) = Some entry \<and>
         bt_to td = p_settlementRecipient entry \<and> is_decimal (p_hardMaxTotal entry) \<and>
         js_bigint (p_hardMaxTotal entry) = Some hardMax \<and> js_bigint (bt_value td) = Some a \<and>
         a \<le> hardMax) \<and>
      bt_from td = to_lower (sd_signerAddress deps) \<and>
      d_chainId (bt_domain td) = sd_chainId deps \<and>
      bt_validBefore td - bt_validAfter td \<le> 600 \<and> sr_requestId rq \<notin> set seen \<and>
      d_chainId (bt_domain td) = x_chainId (sd_expectedDomain deps) \<and>
      to_lower (d_verifyingContract (bt_domain td)) = to_lower (x_asset (sd_expectedDomain deps)) \<and>
      d_name (bt_domain td) = x_domainName (sd_expectedDomain deps) \<and>
      d_version (bt_domain td) = x_domainVersion (sd_expectedDomain deps))"

lemma assertDomainMatches_Inr: "assertDomainMatches d e = Inr u \<longleftrightarrow>
    d_chainId d = x_chainId e \<and> to_lower (d_verifyingContract d) = to_lower (x_asset e) \<and>
    d_name d = x_domainName e \<and> d_version d = x_domainVersion e"
  by (auto simp: assertDomainMatches_def Let_def)

lemma sign_begin_Inr:
  "sign_begin deps body seen = Inr (rq, digest) \<longleftrightarrow>
     parseSignBody body = Inr rq \<and> sign_allowed deps rq seen \<and>
     digest = sd_hashTypedData deps (buildTransferWithAuthorizationTypedData (sr_typedData rq)) \<and>
     length digest = 32"
proof -
  have "(\<exists>v. js_bigint (bt_value (sr_typedData rq)) = Some v \<and>
      (\<exists>x. checkRail \<lparr>ri_mandateId = sr_mandateId rq, ri_from = bt_from (sr_typedData rq),
           ri_to = bt_to (sr_typedData rq), ri_value = v, ri_validAfter = bt_validAfter (sr_typedData rq),
           ri_validBefore = bt_validBefore (sr_typedData rq),
           ri_chainId = d_chainId (bt_domain (sr_typedData rq))\<rparr> (sr_requestId rq) (rail_of deps seen) = Inr x \<and>
         throwRailRefusal x = Inr () \<and>
         assertDomainMatches (bt_domain (sr_typedData rq)) (sd_expectedDomain deps) = Inr ()))
    \<longleftrightarrow> sign_allowed deps rq seen"
    by (auto simp: checkRail_ok rail_passes_def sign_allowed_def rail_of_def assertDomainMatches_Inr Let_def)
  then show ?thesis
    by (auto simp: sign_begin_def Let_def split: if_splits)
qed

lemma post_sign_cases:
  "(\<exists>rq digest answer k. sign_begin deps body (ss_seen st) = Inr (rq, digest) \<and>
      sd_signDigest deps digest (ss_key st) = (answer, k) \<and>
      post_sign deps now body st = (fst (sign_finish deps now rq digest answer (ss_seen st)),
        st\<lparr>ss_seen := snd (sign_finish deps now rq digest answer (ss_seen st)), ss_key := k\<rparr>)) \<or>
   (\<exists>e. sign_begin deps body (ss_seen st) = Inl e \<and> post_sign deps now body st = (Inl e, st))"
  by (cases "sign_begin deps body (ss_seen st)")
    (auto simp: post_sign_def Let_def split: prod.splits)

text \<open>C2. The key is used only for a request that the rail and the domain guard allow: pinned mandate and
  recipient, value under the pinned ceiling, the configured wallet and chain, a window of at most
  600 seconds, a request id not signed before, and exactly the configured token domain.  A request
  that is not allowed changes no state.\<close>

theorem key_used_only_if_allowed:
  assumes "post_sign deps now body st = (r, st')" "st' \<noteq> st \<or> (\<exists>so. r = Inr so)"
  shows "\<exists>rq. parseSignBody body = Inr rq \<and> sign_allowed deps rq (ss_seen st)"
  using post_sign_cases [of deps body st now]
proof (elim disjE exE conjE)
  fix rq digest answer k assume "sign_begin deps body (ss_seen st) = Inr (rq, digest)"
  then show ?thesis unfolding sign_begin_Inr by blast
qed (use assms in auto)

text \<open>What a successful reply carries.\<close>

lemma finish_signature_Inr:
  "finish_signature deps digest hi der = Inr (header, sg, signer) \<longleftrightarrow>
     (\<exists>r s v. parseSignatureDer der = Inr (r, s) \<and>
        recoverV (sd_recoverKey deps) (sd_keccakBytes deps) (sd_getAddress deps) r (normaliseS s) digest
          (sd_signerAddress deps) = Inr v \<and>
        sg = \<lparr>g_v = v, g_r = toBigIntHex r, g_s = toBigIntHex (normaliseS s)\<rparr> \<and>
        buildX402Header hi sg = Inr header \<and> signer = sd_getAddress deps (sd_signerAddress deps))"
  by (auto simp: finish_signature_def parseAndNormalise_def Let_def split: prod.splits)

lemma sign_finish_Inr:
  "sign_finish deps now rq digest answer seen = (Inr so, seen') \<longleftrightarrow>
     (\<exists>der header sg signer. answer = Inr der \<and>
        finish_signature deps digest (header_input rq) der = Inr (header, sg, signer) \<and>
        so = \<lparr>so_requestId = sr_requestId rq, so_header = header, so_signature = sg,
          so_signerAddress = signer, so_signedAt = isoSeconds now\<rparr> \<and>
        seen' = List.insert (sr_requestId rq) seen)"
  by (cases answer) (auto simp: sign_finish_def split: sum.splits prod.splits)

lemma try_recovery_v:
  "try_recovery rp pa r s ex ids = Some v \<Longrightarrow> v = 27 \<or> v = 28"
  by (induction ids) (auto split: option.splits if_splits simp: and_one_eq)


section \<open>The signature\<close>

lemma hex_literal: "digits_below 16 h \<Longrightarrow> js_bigint (''0x'' @ h) = Some (int (of_base 16 h))"
proof -
  assume h: "digits_below 16 h"
  then have "list_all (\<lambda>c. \<not> is_space c) (''0x'' @ h)"
    by (auto simp: digits_below_def list_all_iff is_space_def is_hex_def is_digit_def)
  then have "js_trim (''0x'' @ h) = ''0x'' @ h" by (rule trim_no_space)
  with h show ?thesis
    by (simp add: js_bigint_def bigint_literal.simps to_lower_def lower_char_def)
qed

lemma to_base_digits_below: "digits_below 16 (to_base 16 v)" "digits_below 16 (CHR ''0'' # to_base 16 v)"
proof -
  have "is_hex (digit_char d) \<and> digit_val (digit_char d) < 16" if "d < 16" for d
  proof -
    have "d \<in> set [0..<16]" using that by simp
    moreover have "\<forall>d \<in> set [0..<16]. is_hex (digit_char d)" by code_simp
    ultimately show ?thesis using that by simp
  qed
  then have "list_all (\<lambda>c. is_hex c \<and> digit_val c < 16) (to_base 16 v)" by (intro to_base_all) auto
  moreover have "to_base 16 v \<noteq> []" by (simp add: to_base.simps [of 16 v])
  ultimately show "digits_below 16 (to_base 16 v)" "digits_below 16 (CHR ''0'' # to_base 16 v)"
    by (auto simp: digits_below_def is_hex_def is_digit_def digit_val_def)
qed

lemma bigint_toBigIntHex: "bigint (toBigIntHex v) = Inr (int v)"
  using hex_literal [OF to_base_digits_below(1), of v] hex_literal [OF to_base_digits_below(2), of v]
  by (auto simp: toBigIntHex_def Let_def of_to_base of_base_Cons digit_val_def)

lemma big_hex_int [simp]: "big_hex (int v) = to_base 16 v"
  by (simp add: big_hex_def)

definition signature65 :: "nat \<Rightarrow> nat \<Rightarrow> nat \<Rightarrow> hex" where
  "signature65 v r s = ''0x'' @ pad_start 64 CHR ''0'' (to_base 16 r) @
     pad_start 64 CHR ''0'' (to_base 16 s) @ pad_start 2 CHR ''0'' (to_base 16 v)"

lemma packSignature65_eq:
  "packSignature65 \<lparr>g_v = v, g_r = toBigIntHex r, g_s = toBigIntHex s\<rparr> = Inr (signature65 v r s)"
  by (simp add: packSignature65_def bigint_toBigIntHex signature65_def del: bigint_Inr)

text \<open>The packed signature is 65 bytes of hex: it has 132 characters, and r, s and v are read back from
  its three fields.\<close>

theorem packed_signature_roundtrip:
  assumes "r < 2 ^ 256" "s < 2 ^ 256" "v < 256"
    and "packSignature65 \<lparr>g_v = v, g_r = toBigIntHex r, g_s = toBigIntHex s\<rparr> = Inr sig"
  shows "length sig = 132 \<and> of_base 16 (take 64 (drop 2 sig)) = r \<and>
    of_base 16 (take 64 (drop 66 sig)) = s \<and> of_base 16 (drop 130 sig) = v"
proof -
  have "length (to_base 16 r) \<le> 64" "length (to_base 16 s) \<le> 64" "length (to_base 16 v) \<le> 2"
    using assms(1-3) by (auto intro!: to_base_length_le)
  moreover define R S V where "R = pad_start 64 CHR ''0'' (to_base 16 r)"
    and "S = pad_start 64 CHR ''0'' (to_base 16 s)" and "V = pad_start 2 CHR ''0'' (to_base 16 v)"
  ultimately have len: "length R = 64" "length S = 64" "length V = 2" by simp_all
  have "sig = ''0x'' @ R @ S @ V"
    using assms(4) by (simp add: packSignature65_eq signature65_def R_def S_def V_def)
  moreover have "of_base 16 R = r" "of_base 16 S = s" "of_base 16 V = v"
    by (simp_all add: R_def S_def V_def of_to_base)
  ultimately show ?thesis using len by simp
qed

lemma packed_signature_roundtrip_witness:
  "length (signature65 27 1 2) = 132"
  using packed_signature_roundtrip [OF _ _ _ packSignature65_eq, of 1 2 27] by simp


text \<open>The signature recovers, under some recovery id, to the configured wallet.\<close>

definition recovers :: "'k sign_deps \<Rightarrow> nat \<Rightarrow> nat \<Rightarrow> byte list \<Rightarrow> nat \<Rightarrow> bool" where
  "recovers deps r s digest v \<longleftrightarrow>
     (\<exists>recovery < 4. \<exists>point.
        sd_recoverKey deps (word_of_nat recovery # bigIntTo32Bytes r @ bigIntTo32Bytes s) digest = Some point \<and>
        addressFromUncompressedPoint (sd_keccakBytes deps) (sd_getAddress deps) point =
          sd_getAddress deps (sd_signerAddress deps) \<and> v = 27 + recovery mod 2)"

lemma try_recovery_Some:
  "try_recovery rp pa r s ex ids = Some v \<Longrightarrow>
   \<exists>i \<in> set ids. \<exists>point. rp (word_of_nat i # bigIntTo32Bytes r @ bigIntTo32Bytes s) = Some point \<and>
     pa point = ex \<and> v = 27 + i mod 2"
  by (induction ids) (auto split: option.splits if_splits simp: and_one_eq)

lemma recoverV_recovers:
  assumes "recoverV (sd_recoverKey deps) (sd_keccakBytes deps) (sd_getAddress deps) r s digest
    (sd_signerAddress deps) = Inr v"
  shows "recovers deps r s digest v" "v = 27 \<or> v = 28"
proof -
  have t: "try_recovery (\<lambda>sig. sd_recoverKey deps sig digest)
      (addressFromUncompressedPoint (sd_keccakBytes deps) (sd_getAddress deps)) r s
      (sd_getAddress deps (sd_signerAddress deps)) [0, 1, 2, 3] = Some v"
    using assms unfolding recoverV_def by (simp only: split: option.splits) simp_all
  obtain i point where "i \<in> set [0, 1, 2, 3 :: nat]"
    "sd_recoverKey deps (word_of_nat i # bigIntTo32Bytes r @ bigIntTo32Bytes s) digest = Some point"
    "addressFromUncompressedPoint (sd_keccakBytes deps) (sd_getAddress deps) point =
      sd_getAddress deps (sd_signerAddress deps)" "v = 27 + i mod 2"
    using try_recovery_Some [OF t] by blast
  moreover from this(1) have "i < 4" by auto
  ultimately show "recovers deps r s digest v" unfolding recovers_def by blast
  show "v = 27 \<or> v = 28" by (rule try_recovery_v [OF t])
qed

lemma payload_header:
  "buildX402Header hi \<lparr>g_v = v, g_r = toBigIntHex r, g_s = toBigIntHex s\<rparr> = Inr header \<longleftrightarrow>
     header = base64 (utf8 (json_stringify (x402_payload hi (signature65 v r s))))"
  by (auto simp: buildX402Header_def packSignature65_eq)

lemma post_sign_Inr:
  assumes "post_sign deps now body st = (Inr so, st')"
  obtains rq digest r s v header where "sign_begin deps body (ss_seen st) = Inr (rq, digest)"
    "0 < r" "r < SECP256K1_ORDER" "0 < s" "\<not> isHighS s" "v = 27 \<or> v = 28" "recovers deps r s digest v"
    "buildX402Header (header_input rq) \<lparr>g_v = v, g_r = toBigIntHex r, g_s = toBigIntHex s\<rparr> = Inr header"
    "so = \<lparr>so_requestId = sr_requestId rq, so_header = header,
       so_signature = \<lparr>g_v = v, g_r = toBigIntHex r, g_s = toBigIntHex s\<rparr>,
       so_signerAddress = sd_getAddress deps (sd_signerAddress deps), so_signedAt = isoSeconds now\<rparr>"
    "ss_seen st' = List.insert (sr_requestId rq) (ss_seen st)"
proof -
  obtain rq digest answer k where b: "sign_begin deps body (ss_seen st) = Inr (rq, digest)"
      "post_sign deps now body st = (fst (sign_finish deps now rq digest answer (ss_seen st)),
        st\<lparr>ss_seen := snd (sign_finish deps now rq digest answer (ss_seen st)), ss_key := k\<rparr>)"
    using post_sign_cases [of deps body st now] assms by auto
  have f: "sign_finish deps now rq digest answer (ss_seen st) = (Inr so, ss_seen st')"
    using assms b(2) by (cases "sign_finish deps now rq digest answer (ss_seen st)") auto
  obtain der header sg signer where fin: "finish_signature deps digest (header_input rq) der = Inr (header, sg, signer)"
      "so = \<lparr>so_requestId = sr_requestId rq, so_header = header, so_signature = sg,
          so_signerAddress = signer, so_signedAt = isoSeconds now\<rparr>"
      "ss_seen st' = List.insert (sr_requestId rq) (ss_seen st)"
    using f unfolding sign_finish_Inr by blast
  obtain r s v where g: "parseSignatureDer der = Inr (r, s)"
      "recoverV (sd_recoverKey deps) (sd_keccakBytes deps) (sd_getAddress deps) r (normaliseS s) digest
          (sd_signerAddress deps) = Inr v"
      "sg = \<lparr>g_v = v, g_r = toBigIntHex r, g_s = toBigIntHex (normaliseS s)\<rparr>"
      "buildX402Header (header_input rq) sg = Inr header" "signer = sd_getAddress deps (sd_signerAddress deps)"
    using fin(1) unfolding finish_signature_Inr by blast
  have range: "0 < r" "r < SECP256K1_ORDER" "0 < normaliseS s" "\<not> isHighS (normaliseS s)"
    using parseSignatureDer_range [OF g(1)] normaliseS_range [of s] by auto
  show thesis
    by (rule that [OF b(1) range recoverV_recovers(2) [OF g(2)] recoverV_recovers(1) [OF g(2)]
          g(4) [unfolded g(3)] _ fin(3)]) (simp add: fin(2) g(3,5))
qed

text \<open>C12. Every signature the signer returns is canonical and its own: r and s are scalars of the curve with s
  in the lower half, v is 27 or 28, the signature recovers to the configured wallet over the
  digest of exactly the parsed typed data, the header is the payload with the request's resource,
  accepted entry and authorization, and the request id is now seen.\<close>

theorem signature_canonical:
  assumes "post_sign deps now body st = (Inr so, st')"
  shows "\<exists>rq r s v. parseSignBody body = Inr rq \<and> 0 < r \<and> r < SECP256K1_ORDER \<and> 0 < s \<and> \<not> isHighS s \<and>
    (v = 27 \<or> v = 28) \<and>
    recovers deps r s
      (sd_hashTypedData deps (buildTransferWithAuthorizationTypedData (sr_typedData rq))) v \<and>
    so_signature so = \<lparr>g_v = v, g_r = toBigIntHex r, g_s = toBigIntHex s\<rparr> \<and>
    so_header so = base64 (utf8 (json_stringify (x402_payload (header_input rq) (signature65 v r s)))) \<and>
    so_requestId so = sr_requestId rq \<and> ss_seen st' = List.insert (sr_requestId rq) (ss_seen st)"
proof -
  obtain rq digest r s v header where p: "sign_begin deps body (ss_seen st) = Inr (rq, digest)"
      "0 < r" "r < SECP256K1_ORDER" "0 < s" "\<not> isHighS s" "v = 27 \<or> v = 28" "recovers deps r s digest v"
      "buildX402Header (header_input rq) \<lparr>g_v = v, g_r = toBigIntHex r, g_s = toBigIntHex s\<rparr> = Inr header"
      "so = \<lparr>so_requestId = sr_requestId rq, so_header = header,
         so_signature = \<lparr>g_v = v, g_r = toBigIntHex r, g_s = toBigIntHex s\<rparr>,
         so_signerAddress = sd_getAddress deps (sd_signerAddress deps), so_signedAt = isoSeconds now\<rparr>"
      "ss_seen st' = List.insert (sr_requestId rq) (ss_seen st)"
    by (rule post_sign_Inr [OF assms])
  then show ?thesis
    using p(1) [unfolded sign_begin_Inr] p(8) [unfolded payload_header] by auto
qed

section \<open>The replay boundary\<close>

definition accepts_sign :: "'k sign_deps \<Rightarrow> int \<times> json option \<Rightarrow> 'k signer_state \<Rightarrow> bool \<times> 'k signer_state" where
  "accepts_sign deps nb st = (case post_sign deps (fst nb) (snd nb) st of
      (Inr so, st') \<Rightarrow> (True, st') | (Inl e, st') \<Rightarrow> (False, st'))"

definition asks_for :: "string \<Rightarrow> int \<times> json option \<Rightarrow> bool" where
  "asks_for k nb \<longleftrightarrow> (case parseSignBody (snd nb) of Inr rq \<Rightarrow> sr_requestId rq = k | Inl e \<Rightarrow> False)"

lemma post_sign_seen:
  assumes "post_sign deps now body st = (r, st')"
  shows "case r of Inl e \<Rightarrow> ss_seen st' = ss_seen st
    | Inr so \<Rightarrow> \<exists>rq. parseSignBody body = Inr rq \<and> sr_requestId rq \<notin> set (ss_seen st) \<and>
        ss_seen st' = List.insert (sr_requestId rq) (ss_seen st)"
  using post_sign_cases [of deps body st now]
proof (elim disjE exE conjE)
  fix rq digest answer k
  assume b: "sign_begin deps body (ss_seen st) = Inr (rq, digest)"
    "post_sign deps now body st = (fst (sign_finish deps now rq digest answer (ss_seen st)),
        st\<lparr>ss_seen := snd (sign_finish deps now rq digest answer (ss_seen st)), ss_key := k\<rparr>)"
  have "parseSignBody body = Inr rq" "sr_requestId rq \<notin> set (ss_seen st)"
    using b(1) unfolding sign_begin_Inr by (auto simp: sign_allowed_def Let_def)
  then show ?thesis
    using assms b(2) by (auto simp: sign_finish_def split: sum.splits prod.splits)
qed (use assms in auto)

interpretation signed_id: permanent "accepts_sign deps" "\<lambda>st. k \<in> set (ss_seen st)" "asks_for k" "\<lambda>c. False"
  for deps k
proof
  show "k \<notin> set (ss_seen s) \<and> k \<in> set (ss_seen (snd (accepts_sign deps c s)))"
    if "asks_for k c" "fst (accepts_sign deps c s)" for c s
    using that post_sign_seen [of deps "fst c" "snd c" s]
    by (auto simp: accepts_sign_def asks_for_def split: prod.splits sum.splits)
  show "False \<and> fst (accepts_sign deps c s)"
    if "k \<in> set (ss_seen s)" "k \<notin> set (ss_seen (snd (accepts_sign deps c s)))" for c s
    using that post_sign_seen [of deps "fst c" "snd c" s]
    by (auto simp: accepts_sign_def split: prod.splits sum.splits)
qed simp

text \<open>When requests are handled one after another, no request id is signed twice, whatever is asked
  in between.\<close>

theorem no_second_signature:
  assumes "asks_for k c" "fst (accepts_sign deps c st)" "asks_for k d"
  shows "\<not> fst (accepts_sign deps d (run_steps (accepts_sign deps) cs (snd (accepts_sign deps c st))))"
  using assms by (rule signed_id.at_most_once)

text \<open>C37. But the request id is marked only after the key source has answered: two requests with one id whose
  handling overlaps both pass the rail and both get a signature.\<close>

theorem overlapping_requests_both_sign:
  assumes "sign_begin deps body1 seen = Inr (rq1, d1)" "sign_begin deps body2 seen = Inr (rq2, d2)"
    "sr_requestId rq1 = sr_requestId rq2"
    "sign_finish deps now rq1 d1 answer1 seen = (Inr so1, seen1)"
    "finish_signature deps d2 (header_input rq2) der2 = Inr x"
  shows "\<exists>so2. sign_finish deps now rq2 d2 (Inr der2) seen1 = (Inr so2, seen1) \<and>
    so_requestId so1 = so_requestId so2 \<and> seen1 = List.insert (sr_requestId rq1) seen"
proof -
  have s: "seen1 = List.insert (sr_requestId rq1) seen" "so_requestId so1 = sr_requestId rq1"
    using assms(4) unfolding sign_finish_Inr by auto
  then have "List.insert (sr_requestId rq2) seen1 = seen1"
    using assms(3) by simp
  then show ?thesis
    using assms(3,5) s by (cases x) (simp add: sign_finish_def)
qed

end
