(* ===== verification/Signer_Witnesses.thy ===== *)
theory Signer_Witnesses
  imports Signer_Properties
begin

text \<open>
  The properties of the signer applied to a concrete request, pinned mandate and key source.
\<close>

definition wallet :: string where
  "wallet = ''0x'' @ replicate 40 CHR ''a''"

definition payee :: string where
  "payee = ''0x'' @ replicate 40 CHR ''b''"

definition word32 :: string where
  "word32 = ''0x'' @ replicate 64 CHR ''1''"

definition sample_sign_body :: "string \<Rightarrow> json" where
  "sample_sign_body nonce = JObj
     [(''requestId'', JStr ''r''), (''mandateId'', JStr word32),
      (''typedData'', JObj
        [(''domain'', JObj [(''name'', JStr ''XSGD''), (''version'', JStr ''2''), (''chainId'', JNum 43113),
            (''verifyingContract'', JStr payee)]),
         (''message'', JObj [(''from'', JStr wallet), (''to'', JStr payee), (''value'', JStr ''7000000''),
            (''validAfter'', JNum 100), (''validBefore'', JNum 160), (''nonce'', JStr nonce)])]),
      (''accepted'', JObj [(''network'', JStr ''n''), (''chainId'', JNum 43113), (''amount'', JStr ''7000000''),
         (''asset'', JStr payee), (''payTo'', JStr payee), (''maxTimeoutSeconds'', JNum 60),
         (''extra'', JObj [(''name'', JStr ''XSGD''), (''version'', JStr ''2'')])]),
      (''resource'', JStr ''https://x'')]"

definition sample_der :: "byte list" where
  "sample_der = [0x30, 6, 2, 1, 1, 2, 1, 5]"

definition sample_deps :: "nat sign_deps" where
  "sample_deps = \<lparr>sd_signDigest = (\<lambda>d k. (Inr sample_der, k + 1)), sd_hashTypedData = (\<lambda>t. replicate 32 0),
     sd_recoverKey = (\<lambda>sg d. Some []), sd_keccakBytes = (\<lambda>b. []), sd_getAddress = (\<lambda>a. wallet),
     sd_signerAddress = wallet, sd_chainId = 43113,
     sd_expectedDomain = \<lparr>x_chainId = 43113, x_asset = payee, x_domainName = ''XSGD'', x_domainVersion = ''2''\<rparr>,
     sd_pinned = [(word32, \<lparr>p_settlementRecipient = payee, p_hardMaxTotal = ''30000000''\<rparr>)]\<rparr>"

abbreviation start_state :: "nat signer_state" where
  "start_state \<equiv> \<lparr>ss_seen = [], ss_key = 0\<rparr>"

lemma sample_signed:
  "case post_sign sample_deps 0 (Some (sample_sign_body word32)) start_state of
     (Inl e, st) \<Rightarrow> False | (Inr so, st) \<Rightarrow> so_requestId so = ''r'' \<and> st = \<lparr>ss_seen = [''r''], ss_key = 1\<rparr>"
  by code_simp

lemma sample_signedE:
  obtains so where "post_sign sample_deps 0 (Some (sample_sign_body word32)) start_state =
    (Inr so, \<lparr>ss_seen = [''r''], ss_key = 1\<rparr>)" "so_requestId so = ''r''"
  using sample_signed by (auto split: prod.splits sum.splits)

lemma key_used_only_if_allowed_witness:
  "\<exists>rq. parseSignBody (Some (sample_sign_body word32)) = Inr rq \<and> sign_allowed sample_deps rq []"
proof -
  obtain so where "post_sign sample_deps 0 (Some (sample_sign_body word32)) start_state =
    (Inr so, \<lparr>ss_seen = [''r''], ss_key = 1\<rparr>)" by (rule sample_signedE)
  from key_used_only_if_allowed [OF this] show ?thesis by simp
qed

lemma signature_canonical_witness:
  "\<exists>r s v. 0 < r \<and> \<not> isHighS s \<and> (v = 27 \<or> v = 28) \<and>
     recovers sample_deps r s (replicate 32 0) v"
proof -
  obtain so where "post_sign sample_deps 0 (Some (sample_sign_body word32)) start_state =
    (Inr so, \<lparr>ss_seen = [''r''], ss_key = 1\<rparr>)" by (rule sample_signedE)
  from signature_canonical [OF this] show ?thesis by (auto simp: sample_deps_def)
qed

lemma no_second_signature_witness:
  "\<not> fst (accepts_sign sample_deps (7, Some (sample_sign_body word32))
     (run_steps (accepts_sign sample_deps) []
        (snd (accepts_sign sample_deps (0, Some (sample_sign_body word32)) start_state))))"
proof -
  have "asks_for ''r'' (0, Some (sample_sign_body word32))" "asks_for ''r'' (7, Some (sample_sign_body word32))"
    "fst (accepts_sign sample_deps (0, Some (sample_sign_body word32)) start_state)"
    by (code_simp, code_simp, code_simp)
  then show ?thesis using no_second_signature by blast
qed

lemma overlapping_requests_both_sign_witness:
  "\<exists>rq1 rq2 d1 d2 so1 so2 seen1. sign_begin sample_deps (Some (sample_sign_body word32)) [] = Inr (rq1, d1) \<and>
     sign_begin sample_deps (Some (sample_sign_body (''0x'' @ replicate 64 CHR ''2''))) [] = Inr (rq2, d2) \<and>
     sign_finish sample_deps 0 rq1 d1 (Inr sample_der) [] = (Inr so1, seen1) \<and>
     sign_finish sample_deps 0 rq2 d2 (Inr sample_der) seen1 = (Inr so2, seen1) \<and>
     so_requestId so1 = so_requestId so2"
proof -
  let ?b2 = "Some (sample_sign_body (''0x'' @ replicate 64 CHR ''2''))"
  let ?p = "sign_begin sample_deps (Some (sample_sign_body word32)) []" and ?q = "sign_begin sample_deps ?b2 []"
  let ?f = "finish_signature sample_deps (snd (projr ?q)) (header_input (fst (projr ?q))) sample_der"
  let ?g = "sign_finish sample_deps 0 (fst (projr ?p)) (snd (projr ?p)) (Inr sample_der) []"
  have "\<not> isl ?p" "\<not> isl ?q" "sr_requestId (fst (projr ?p)) = sr_requestId (fst (projr ?q))"
    "\<not> isl (fst ?g)" "\<not> isl ?f"
    by (code_simp, code_simp, code_simp, code_simp, code_simp)
  then have f: "?p = Inr (fst (projr ?p), snd (projr ?p))" "?q = Inr (fst (projr ?q), snd (projr ?q))"
    "sr_requestId (fst (projr ?p)) = sr_requestId (fst (projr ?q))"
    "?g = (Inr (projr (fst ?g)), snd ?g)" "?f = Inr (projr ?f)"
    by (simp_all add: prod_eq_iff)
  from overlapping_requests_both_sign [OF this] f show ?thesis by blast
qed

end
