(* ===== verification/Chain_Rpc.thy ===== *)
theory Chain_Rpc
  imports Http_Plumbing
begin

text \<open>
  \<open>services/chain-gateway/src/chain.ts\<close>: the client cache, the mapping of RPC failures to
  errors of the service, the read of the token facts, and the assertion on the token's decimals
  that runs before the service listens.  The RPC client is the library viem's: a call is an action
  on a state of the chain that may reject with an error object.  \<open>Promise.all\<close> of two calls is
  their sequence, so that the first of two rejections is the left one.
\<close>

section \<open>RPC errors\<close>

text \<open>The fields of a rejected value that the service reads; \<open>rpc_message\<close> is \<open>Error.message\<close>.\<close>

datatype rpc_error = RpcError
  (rpc_name: "string option") (rpc_code: "string option") (rpc_message: string)
  (rpc_cause: "rpc_error option")

text \<open>What is thrown inside \<open>withRpc\<close>: an error of the service, or a failure of the client.\<close>

datatype rpc_thrown = Thrown_App app_error | Thrown_Rpc rpc_error

text \<open>\<open>needle\<close> occurs in the text.\<close>

fun contains_text :: "string \<Rightarrow> string \<Rightarrow> bool" where
  "contains_text needle [] \<longleftrightarrow> needle = []"
| "contains_text needle (c # s) \<longleftrightarrow> take (length needle) (c # s) = needle \<or> contains_text needle s"

fun isTimeout :: "rpc_error \<Rightarrow> bool" where
  "isTimeout (RpcError name c msg cause) \<longleftrightarrow>
     name \<in> {Some ''TimeoutError'', Some ''AbortError''} \<or>
     c \<in> {Some ''ETIMEDOUT'', Some ''ABORT_ERR''} \<or>
     contains_text ''timed out'' (to_lower msg) \<or> contains_text ''timeout'' (to_lower msg) \<or>
     (case cause of None \<Rightarrow> False | Some e \<Rightarrow> isTimeout e)"

text \<open>The ellipsis is written as three dots.\<close>

definition truncate_text :: "string \<Rightarrow> string" where
  "truncate_text s = (if length s \<le> 200 then s else take 200 s @ ''...'')"

text \<open>An action on the state of the chain.\<close>

type_synonym ('c, 'e, 'a) rpc_call = "'c \<Rightarrow> ('e + 'a) \<times> 'c"

definition rpc_failure :: "string \<Rightarrow> rpc_error \<Rightarrow> js_error" where
  "rpc_failure what err =
     (if isTimeout err then rpcTimeout (''RPC timed out while '' @ what)
      else rpcFailed (''RPC failed while '' @ what @ '': '' @ truncate_text (rpc_message err)))"

definition withRpc :: "string \<Rightarrow> ('c, rpc_thrown, 'a) rpc_call \<Rightarrow> ('c, js_error, 'a) rpc_call" where
  "withRpc what fn s =
     (case fn s of
        (Inr x, s') \<Rightarrow> (Inr x, s')
      | (Inl (Thrown_App e), s') \<Rightarrow> (Inl (AppError e), s')
      | (Inl (Thrown_Rpc err), s') \<Rightarrow> (Inl (rpc_failure what err), s'))"

text \<open>Sequencing, and a call of the client that nothing catches.\<close>

definition rpc_then :: "('c, 'e, 'a) rpc_call \<Rightarrow> ('a \<Rightarrow> ('c, 'e, 'b) rpc_call) \<Rightarrow> ('c, 'e, 'b) rpc_call" where
  "rpc_then m f s = (case m s of (Inl e, s') \<Rightarrow> (Inl e, s') | (Inr x, s') \<Rightarrow> f x s')"

definition rpc_return :: "'a \<Rightarrow> ('c, 'e, 'a) rpc_call" where
  "rpc_return x s = (Inr x, s)"

definition rpc_lift :: "js_error + 'a \<Rightarrow> ('c, js_error, 'a) rpc_call" where
  "rpc_lift r s = (r, s)"

definition plain_call :: "('c, rpc_error, 'a) rpc_call \<Rightarrow> ('c, rpc_thrown, 'a) rpc_call" where
  "plain_call fn s = (case fn s of (Inl e, s') \<Rightarrow> (Inl (Thrown_Rpc e), s') | (Inr x, s') \<Rightarrow> (Inr x, s'))"

lemma rpc_simps [simp]:
  "rpc_return x s = (Inr x, s)" "rpc_lift r s = (r, s)"
  by (simp_all add: rpc_return_def rpc_lift_def)

lemma rpc_then_Inr:
  "rpc_then m f s = (Inr y, s'') \<longleftrightarrow> (\<exists>x s'. m s = (Inr x, s') \<and> f x s' = (Inr y, s''))"
  by (auto simp: rpc_then_def split: prod.splits sum.splits)

lemma rpc_then_Inl:
  "rpc_then m f s = (Inl e, s'') \<longleftrightarrow>
     m s = (Inl e, s'') \<or> (\<exists>x s'. m s = (Inr x, s') \<and> f x s' = (Inl e, s''))"
  by (auto simp: rpc_then_def split: prod.splits sum.splits)

lemma withRpc_Inr: "withRpc what fn s = (Inr x, s') \<longleftrightarrow> fn s = (Inr x, s')"
  by (auto simp: withRpc_def split: prod.splits sum.splits rpc_thrown.splits)

lemma plain_call_Inr: "plain_call fn s = (Inr x, s') \<longleftrightarrow> fn s = (Inr x, s')"
  by (auto simp: plain_call_def split: prod.splits sum.splits)

lemmas rpc_Inr = rpc_then_Inr withRpc_Inr plain_call_Inr

text \<open>An error the service reports as retryable, with one of the two gateway statuses.\<close>

definition retryable_rpc :: "js_error \<Rightarrow> bool" where
  "retryable_rpc e \<longleftrightarrow> (\<exists>st c msg. e = mk_app_error st c msg True \<and>
     (st = 502 \<and> c = RPC_FAILED \<or> st = 504 \<and> c = RPC_TIMEOUT))"

lemma rpc_failure_retryable: "retryable_rpc (rpc_failure what err)"
  by (auto simp: retryable_rpc_def rpc_failure_def rpcTimeout_def rpcFailed_def)

section \<open>Clients\<close>

record public_client =
  pc_chainId :: int
  pc_url :: string

text \<open>\<open>getPublicClient\<close>: one client per chain, made at its first use.\<close>

definition getPublicClient ::
    "environment \<Rightarrow> int \<Rightarrow> (int \<rightharpoonup> public_client) \<Rightarrow> public_client \<times> (int \<rightharpoonup> public_client)" where
  "getPublicClient env chainId clients =
     (case clients chainId of
        Some existing \<Rightarrow> (existing, clients)
      | None \<Rightarrow>
          let client = \<lparr>pc_chainId = (if chainId = 43113 then 43113 else 43114),
                pc_url = coalesce (env (''RPC_URL_'' @ dec_int chainId)) (k_rpc (the (CHAINS chainId)))\<rparr>
          in (client, clients(chainId \<mapsto> client)))"

lemma getPublicClient_memo:
  "getPublicClient env c clients = (client, clients') \<Longrightarrow>
   clients' c = Some client \<and> getPublicClient env c clients' = (client, clients')"
  by (auto simp: getPublicClient_def Let_def split: option.splits)

section \<open>Token facts\<close>

record token_facts =
  tf_name :: string
  tf_decimals :: int

text \<open>
  A log of a receipt and the receipt, and the calls of the client by chain: the token's readers,
  the balances, the registry's \<open>get\<close> and the simulation of its \<open>revoke\<close>, the head block and
  a transaction receipt.
\<close>

record log_like =
  lg_address :: string
  lg_topics :: "string list"
  lg_data :: string
  lg_logIndex :: "nat option"

record tx_receipt =
  tr_success :: bool
  tr_blockNumber :: int
  tr_logs :: "log_like list"

record 'c rpc_client =
  cl_name :: "int \<Rightarrow> ('c, rpc_error, string) rpc_call"
  cl_decimals :: "int \<Rightarrow> ('c, rpc_error, int) rpc_call"
  cl_balanceOf :: "int \<Rightarrow> address \<Rightarrow> address \<Rightarrow> ('c, rpc_error, int) rpc_call"
  cl_getBalance :: "int \<Rightarrow> address \<Rightarrow> ('c, rpc_error, int) rpc_call"
  cl_registryGet :: "int \<Rightarrow> address \<Rightarrow> hex \<Rightarrow> ('c, rpc_error, string \<times> string \<times> int \<times> bool) rpc_call"
  cl_simulateRevoke :: "int \<Rightarrow> address \<Rightarrow> hex \<Rightarrow> address \<Rightarrow> ('c, rpc_error, unit) rpc_call"
  cl_getBlockNumber :: "int \<Rightarrow> ('c, rpc_error, int) rpc_call"
  cl_getTransactionReceipt :: "int \<Rightarrow> hex \<Rightarrow> ('c, rpc_error, tx_receipt) rpc_call"

definition readTokenFacts :: "'c rpc_client \<Rightarrow> int \<Rightarrow> ('c, js_error, token_facts) rpc_call" where
  "readTokenFacts client chainId =
     withRpc (''reading XSGD token facts on '' @ dec_int chainId)
       (rpc_then (plain_call (cl_name client chainId)) (\<lambda>nm.
        rpc_then (plain_call (cl_decimals client chainId)) (\<lambda>d.
          rpc_return \<lparr>tf_name = nm, tf_decimals = d\<rparr>)))"

definition DecimalsAssertionError :: "int \<Rightarrow> int \<Rightarrow> js_error" where
  "DecimalsAssertionError chainId actual =
     mk_app_error 500 TOKEN_DECIMALS_INVALID
       (''XSGD on chain '' @ dec_int chainId @ '' reports decimals='' @ dec_int actual @ '', expected '' @
        dec XSGD_DECIMALS @ ''. Refusing to serve: every amount would be mis-encoded by 10^'' @
        dec_int \<bar>actual - int XSGD_DECIMALS\<bar> @ '' and signatures would verify against the wrong value.'')
       False"

definition assertDecimals :: "int \<Rightarrow> int \<Rightarrow> js_error + unit" where
  "assertDecimals chainId actual =
     (if actual \<noteq> int XSGD_DECIMALS then Inl (DecimalsAssertionError chainId actual) else Inr ())"

lemma assertDecimals_Inr [simp]: "assertDecimals c d = Inr u \<longleftrightarrow> d = int XSGD_DECIMALS"
  by (simp add: assertDecimals_def)

section \<open>The boot assertion\<close>

definition configuredChainIds :: "environment \<Rightarrow> int list" where
  "configuredChainIds env =
     concat (map (\<lambda>s. case number_of_string (js_trim s) of
           NInt n \<Rightarrow> if isSupportedChainId n then [n] else [] | _ \<Rightarrow> [])
       (js_split (CHR '','') (coalesce (env ''CHAIN_IDS'') ''43113'')))"

text \<open>
  The inner loop: at most \<open>n\<close> further attempts; the result is the facts or the last error.
\<close>

fun read_attempts :: "'c rpc_client \<Rightarrow> int \<Rightarrow> nat \<Rightarrow> js_error option \<Rightarrow> 'c \<Rightarrow>
    (js_error option + token_facts) \<times> 'c" where
  "read_attempts client chainId 0 lastError s = (Inl lastError, s)"
| "read_attempts client chainId (Suc n) lastError s =
     (case readTokenFacts client chainId s of
        (Inr facts, s') \<Rightarrow> (Inr facts, s')
      | (Inl err, s') \<Rightarrow> read_attempts client chainId n (Some err) s')"

fun boot_chains :: "'c rpc_client \<Rightarrow> nat \<Rightarrow> int list \<Rightarrow> ('c, js_error, unit) rpc_call" where
  "boot_chains client attempts [] s = (Inr (), s)"
| "boot_chains client attempts (chainId # rest) s =
     (case read_attempts client chainId attempts None s of
        (Inl lastError, s') \<Rightarrow>
          (Inl (JsError (''boot: could not verify XSGD decimals on chain '' @ dec_int chainId @ '' after '' @
             dec attempts @ '' attempts -- refusing to start rather than serving an unverified chain. Last error: '' @
             (case lastError of None \<Rightarrow> ''undefined'' | Some e \<Rightarrow> error_text e))), s')
      | (Inr facts, s') \<Rightarrow>
          (case assertDecimals chainId (tf_decimals facts) of
             Inl e \<Rightarrow> (Inl e, s')
           | Inr _ \<Rightarrow> boot_chains client attempts rest s'))"

definition assertTokenDecimalsAtBoot ::
    "'c rpc_client \<Rightarrow> environment \<Rightarrow> nat \<Rightarrow> ('c, js_error, unit) rpc_call" where
  "assertTokenDecimalsAtBoot client env attempts = boot_chains client attempts (configuredChainIds env)"

end
