(* ===== verification/Chain_Gateway.thy ===== *)
theory Chain_Gateway
  imports Chain_Rpc
begin

text \<open>
  The routes of \<open>services/chain-gateway/src/routes\<close>: token constants with their cache, the read
  of a mandate, the confirmation of a settlement, balances, and the unsigned revocation.  A
  handler takes the fields of its path, query or body, and acts on the state of the chain.  The
  library viem's \<open>getAddress\<close>, \<open>decodeEventLog\<close> and \<open>encodeFunctionData\<close> are arguments.
\<close>

section \<open>Numbers in a body\<close>

text \<open>\<open>Number(raw)\<close> as text when it is no finite number.\<close>

fun non_finite_text :: "json option \<Rightarrow> string" where
  "non_finite_text (Some (JInfinity p)) = (if p then ''Infinity'' else ''-Infinity'')"
| "non_finite_text (Some (JStr s)) =
     (if js_trim s \<in> {''Infinity'', ''+Infinity''} then ''Infinity''
      else if js_trim s = ''-Infinity'' then ''-Infinity'' else ''NaN'')"
| "non_finite_text raw = ''NaN''"

text \<open>\<open>parseChainId(Number(raw))\<close>; a number that is no integer is named by its own text.\<close>

definition parseChainNumber :: "json option \<Rightarrow> js_error + int" where
  "parseChainNumber raw =
     (let bad = (\<lambda>t. Inl (badRequestCode (''unsupported chainId '' @ t @
            '' -- expected 43113 or 43114'') UNSUPPORTED_CHAIN))
      in case (case raw of None \<Rightarrow> NNotFinite | Some v \<Rightarrow> js_number v) of
           NInt n \<Rightarrow> parseChainId (Some (JNum n))
         | NFraction \<Rightarrow> bad (js_string_opt raw)
         | NNotFinite \<Rightarrow> bad (non_finite_text raw))"

section \<open>GET /token/constants\<close>

record token_constants =
  tk_chainId :: int
  tk_address :: address
  tk_name :: string
  tk_decimals :: int
  tk_version :: "string option"
  tk_versionSource :: string
  tk_readAt :: string

record cache_entry =
  ce_value :: token_constants
  ce_expiresAt :: int

type_synonym token_cache = "int \<rightharpoonup> cache_entry"

definition CACHE_TTL_MS :: int where
  "CACHE_TTL_MS = 15 * 60 * 1000"

definition clearTokenConstantsCache :: "token_cache \<Rightarrow> token_cache" where
  "clearTokenConstantsCache cache = Map.empty"

definition getTokenConstants ::
    "'c rpc_client \<Rightarrow> (string \<Rightarrow> address) \<Rightarrow> int \<Rightarrow> int \<Rightarrow> token_cache \<times> 'c \<Rightarrow>
     (js_error + token_constants) \<times> token_cache \<times> 'c" where
  "getTokenConstants client getAddress chainId now st =
     (let (cache, s) = st;
          cold = (case readTokenFacts client chainId s of
              (Inl e, s') \<Rightarrow> (Inl e, cache, s')
            | (Inr facts, s') \<Rightarrow>
                (case assertDecimals chainId (tf_decimals facts) of
                   Inl e \<Rightarrow> (Inl e, cache, s')
                 | Inr _ \<Rightarrow>
                     let v = \<lparr>tk_chainId = chainId, tk_address = getAddress (k_xsgd (the (CHAINS chainId))),
                           tk_name = tf_name facts, tk_decimals = tf_decimals facts, tk_version = None,
                           tk_versionSource = ''x402-challenge-only'', tk_readAt = isoSeconds now\<rparr>
                     in (Inr v, cache(chainId \<mapsto> \<lparr>ce_value = v, ce_expiresAt = now + CACHE_TTL_MS\<rparr>), s')))
      in case cache chainId of
           None \<Rightarrow> cold
         | Some hit \<Rightarrow> if ce_expiresAt hit > now then (Inr (ce_value hit), st) else cold)"

definition token_constants_route ::
    "'c rpc_client \<Rightarrow> (string \<Rightarrow> address) \<Rightarrow> int \<Rightarrow> json option \<Rightarrow> token_cache \<times> 'c \<Rightarrow>
     (js_error + token_constants) \<times> token_cache \<times> 'c" where
  "token_constants_route client getAddress now chainIdQuery st =
     (case parseChainId chainIdQuery of
        Inl e \<Rightarrow> (Inl e, st)
      | Inr chainId \<Rightarrow> getTokenConstants client getAddress chainId now st)"

section \<open>GET /mandate/:mandateId\<close>

definition ZERO_ADDRESS :: address where
  "ZERO_ADDRESS = ''0x0000000000000000000000000000000000000000''"

record mandate_read =
  mr_mandateId :: hex
  mr_owner :: address
  mr_policyHash :: hex
  mr_expiresAt :: int
  mr_revoked :: bool
  mr_readAtBlock :: int

definition mandate_route ::
    "'c rpc_client \<Rightarrow> (string \<Rightarrow> address) \<Rightarrow> (string \<times> string option) list \<Rightarrow> json option \<Rightarrow>
     json option \<Rightarrow> ('c, js_error, mandate_read) rpc_call" where
  "mandate_route client getAddress file mandateIdParam chainIdQuery =
     rpc_then (rpc_lift (parseChainId chainIdQuery)) (\<lambda>chainId.
     rpc_then (rpc_lift (parseMandateId mandateIdParam)) (\<lambda>mandateId.
     rpc_then (rpc_lift (requireRegistryAddress file chainId)) (\<lambda>registryAddress.
     rpc_then (withRpc (''reading mandate on chain '' @ dec_int chainId)
       (rpc_then (plain_call (cl_registryGet client chainId registryAddress mandateId)) (\<lambda>result.
        rpc_then (plain_call (cl_getBlockNumber client chainId)) (\<lambda>blockNumber.
          rpc_return (result, blockNumber)))))
       (\<lambda>((ow, policyHash, expiresAt, revoked), blockNumber).
     if to_lower ow = ZERO_ADDRESS
     then rpc_lift (Inl (notFound MANDATE_NOT_FOUND
            (''no mandate '' @ mandateId @ '' on chain '' @ dec_int chainId)))
     else rpc_return \<lparr>mr_mandateId = mandateId, mr_owner = getAddress ow,
            mr_policyHash = to_lower policyHash, mr_expiresAt = expiresAt, mr_revoked = revoked,
            mr_readAtBlock = blockNumber\<rparr>))))"

section \<open>POST /settlement/confirm\<close>

record settlement_request =
  sq_txHash :: hex
  sq_chainId :: "json option"
  sq_asset :: address
  sq_to :: address
  sq_amount :: uint

text \<open>\<open>parseBody\<close>; the field \<open>chainId\<close> is converted with \<open>Number\<close> and validated later.\<close>

definition parse_settlement_body :: "json option \<Rightarrow> js_error + settlement_request" where
  "parse_settlement_body body =
     bindE (requireObject body ''body'') (\<lambda>b.
     bindE (requireObject (jmember b ''expect'') ''expect'') (\<lambda>e.
     bindE (parseTxHash (jmember b ''txHash'')) (\<lambda>txHash.
     bindE (parseAddress (jmember e ''asset'') ''expect.asset'') (\<lambda>asset.
     bindE (parseAddress (jmember e ''to'') ''expect.to'') (\<lambda>recipient.
     bindE (parseUint (jmember e ''amount'') ''expect.amount'') (\<lambda>amount.
       Inr \<lparr>sq_txHash = txHash, sq_chainId = jmember b ''chainId'', sq_asset = asset,
         sq_to = recipient, sq_amount = amount\<rparr>))))))"

text \<open>
  \<open>decode\<close> is \<open>decodeEventLog\<close> with the ABI of \<open>Transfer\<close>: \<open>None\<close> when it throws, else the
  arguments \<open>to\<close> and \<open>value\<close>, each absent when it is not of the type the code tests for.
\<close>

type_synonym log_decoder = "string list \<Rightarrow> string \<Rightarrow> (string option \<times> int option) option"

fun find_transfer ::
    "log_decoder \<Rightarrow> string \<Rightarrow> string \<Rightarrow> int \<Rightarrow> log_like list \<Rightarrow> nat option" where
  "find_transfer decode wantAsset wantTo wantAmount [] = None"
| "find_transfer decode wantAsset wantTo wantAmount (lg # logs) =
     (if to_lower (lg_address lg) \<noteq> wantAsset then find_transfer decode wantAsset wantTo wantAmount logs
      else case decode (lg_topics lg) (lg_data lg) of
          Some (Some recipient, Some v) \<Rightarrow>
            if to_lower recipient \<noteq> wantTo then find_transfer decode wantAsset wantTo wantAmount logs
            else if v \<noteq> wantAmount then find_transfer decode wantAsset wantTo wantAmount logs
            else Some (coalesce (lg_logIndex lg) 0)
        | _ \<Rightarrow> find_transfer decode wantAsset wantTo wantAmount logs)"

definition findMatchingTransfer ::
    "log_decoder \<Rightarrow> log_like list \<Rightarrow> address \<Rightarrow> address \<Rightarrow> uint \<Rightarrow> js_error + nat option" where
  "findMatchingTransfer decode logs asset recipient amount =
     bindE (bigint amount) (\<lambda>wantAmount.
       Inr (find_transfer decode (to_lower asset) (to_lower recipient) wantAmount logs))"

record settlement_reply =
  st_ok :: bool
  st_blockNumber :: int
  st_confirmations :: int
  st_transferMatched :: bool
  st_logIndex :: "nat option"

text \<open>The receipt; an unknown hash is a 404 of the service and not a failure of the RPC.\<close>

definition fetch_receipt ::
    "'c rpc_client \<Rightarrow> int \<Rightarrow> hex \<Rightarrow> ('c, rpc_thrown, tx_receipt) rpc_call" where
  "fetch_receipt client chainId txHash s =
     (case cl_getTransactionReceipt client chainId txHash s of
        (Inr r, s') \<Rightarrow> (Inr r, s')
      | (Inl err, s') \<Rightarrow>
          (if rpc_name err = Some ''TransactionReceiptNotFoundError''
           then (Inl (Thrown_App \<lparr>ae_status = 404, ae_code = TX_NOT_FOUND,
                  ae_message = ''no receipt for '' @ txHash @ '' on chain '' @ dec_int chainId @
                    '' -- not mined, or wrong chain'', ae_retryable = False\<rparr>), s')
           else (Inl (Thrown_Rpc err), s')))"

definition settlement_route ::
    "'c rpc_client \<Rightarrow> log_decoder \<Rightarrow> json option \<Rightarrow> ('c, js_error, settlement_reply) rpc_call" where
  "settlement_route client decode rawBody =
     rpc_then (rpc_lift (parse_settlement_body rawBody)) (\<lambda>body.
     rpc_then (rpc_lift (parseChainNumber (sq_chainId body))) (\<lambda>chainId.
     rpc_then (withRpc (''fetching receipt on chain '' @ dec_int chainId)
       (fetch_receipt client chainId (sq_txHash body))) (\<lambda>receipt.
     rpc_then (withRpc ''reading head block'' (plain_call (cl_getBlockNumber client chainId)))
       (\<lambda>currentBlock.
     rpc_then (rpc_lift (findMatchingTransfer decode (tr_logs receipt) (sq_asset body) (sq_to body)
       (sq_amount body))) (\<lambda>m.
       rpc_return \<lparr>st_ok = (tr_success receipt \<and> m \<noteq> None), st_blockNumber = tr_blockNumber receipt,
         st_confirmations = max 0 (currentBlock - tr_blockNumber receipt + 1),
         st_transferMatched = (m \<noteq> None), st_logIndex = m\<rparr>)))))"

section \<open>GET /balance\<close>

definition formatUnits :: "int \<Rightarrow> nat \<Rightarrow> string" where
  "formatUnits base decimals =
     (let negative = base < 0;
          digits = pad_start (decimals + 1) CHR ''0'' (dec (nat \<bar>base\<bar>));
          whole = take (length digits - decimals) digits;
          fraction = drop (length digits - decimals) digits;
          body = (if decimals = 0 then whole else whole @ ''.'' @ fraction)
      in if negative then CHR ''-'' # body else body)"

record balance_reply =
  bl_address :: address
  bl_xsgd :: uint
  bl_xsgdFormatted :: string
  bl_avaxWei :: uint

definition balance_route ::
    "'c rpc_client \<Rightarrow> (string \<Rightarrow> address) \<Rightarrow> json option \<Rightarrow> json option \<Rightarrow>
     ('c, js_error, balance_reply) rpc_call" where
  "balance_route client getAddress addressQuery chainIdQuery =
     rpc_then (rpc_lift (parseChainId chainIdQuery)) (\<lambda>chainId.
     rpc_then (rpc_lift (parseAddress addressQuery ''address'')) (\<lambda>addr.
     rpc_then (withRpc (''reading balances on chain '' @ dec_int chainId)
       (rpc_then (plain_call (cl_balanceOf client chainId (k_xsgd (the (CHAINS chainId))) addr)) (\<lambda>xsgd.
        rpc_then (plain_call (cl_getBalance client chainId addr)) (\<lambda>avaxWei.
          rpc_return (xsgd, avaxWei))))) (\<lambda>(xsgd, avaxWei).
       rpc_return \<lparr>bl_address = getAddress addr, bl_xsgd = dec_int xsgd,
         bl_xsgdFormatted = formatUnits xsgd XSGD_DECIMALS, bl_avaxWei = dec_int avaxWei\<rparr>)))"

section \<open>POST /tx/build-revoke\<close>

definition REVOKE_GAS_LIMIT :: string where
  "REVOKE_GAS_LIMIT = ''80000''"

record unsigned_tx =
  ux_to :: address
  ux_data :: hex
  ux_value :: uint
  ux_chainId :: int
  ux_gasLimit :: uint

record revoke_request =
  rv_mandateId :: hex
  rv_chainId :: "json option"
  rv_from :: address

definition parse_revoke_body :: "json option \<Rightarrow> js_error + revoke_request" where
  "parse_revoke_body body =
     bindE (requireObject body ''body'') (\<lambda>b.
     bindE (parseMandateId (jmember b ''mandateId'')) (\<lambda>mandateId.
     bindE (parseAddress (jmember b ''from'') ''from'') (\<lambda>sender.
       Inr \<lparr>rv_mandateId = mandateId, rv_chainId = jmember b ''chainId'', rv_from = sender\<rparr>)))"

text \<open>The simulation as the caller; the two reverts of the registry get their own answers.\<close>

definition simulate_revoke ::
    "'c rpc_client \<Rightarrow> (string \<Rightarrow> address) \<Rightarrow> int \<Rightarrow> address \<Rightarrow> hex \<Rightarrow> address \<Rightarrow>
     ('c, rpc_thrown, unit) rpc_call" where
  "simulate_revoke client getAddress chainId registryAddress mandateId sender s =
     (case cl_simulateRevoke client chainId registryAddress mandateId sender s of
        (Inr u, s') \<Rightarrow> (Inr (), s')
      | (Inl err, s') \<Rightarrow>
          if contains_text ''NotOwner'' (rpc_message err)
          then (Inl (Thrown_App \<lparr>ae_status = 403, ae_code = FORBIDDEN,
                 ae_message = getAddress sender @ '' does not own mandate '' @ mandateId @ '' on chain '' @
                   dec_int chainId @ '' -- only the owner can revoke'', ae_retryable = False\<rparr>), s')
          else if contains_text ''AlreadyRevoked'' (rpc_message err)
          then (Inl (Thrown_App \<lparr>ae_status = 400, ae_code = BAD_REQUEST,
                 ae_message = ''mandate '' @ mandateId @ '' is already revoked on chain '' @ dec_int chainId,
                 ae_retryable = False\<rparr>), s')
          else (Inl (Thrown_Rpc err), s'))"

text \<open>\<open>encode_revoke\<close> is \<open>encodeFunctionData\<close> of the registry's \<open>revoke\<close>.\<close>

definition build_revoke_route ::
    "'c rpc_client \<Rightarrow> (string \<Rightarrow> address) \<Rightarrow> (hex \<Rightarrow> hex) \<Rightarrow> (string \<times> string option) list \<Rightarrow>
     json option \<Rightarrow> ('c, js_error, unsigned_tx) rpc_call" where
  "build_revoke_route client getAddress encode_revoke file rawBody =
     rpc_then (rpc_lift (parse_revoke_body rawBody)) (\<lambda>body.
     rpc_then (rpc_lift (parseChainNumber (rv_chainId body))) (\<lambda>chainId.
     rpc_then (rpc_lift (parseMandateId (Some (JStr (rv_mandateId body))))) (\<lambda>mandateId.
     rpc_then (rpc_lift (requireRegistryAddress file chainId)) (\<lambda>registryAddress.
     rpc_then (withRpc (''simulating revoke on chain '' @ dec_int chainId)
       (simulate_revoke client getAddress chainId registryAddress mandateId (rv_from body))) (\<lambda>_.
       rpc_return \<lparr>ux_to = getAddress registryAddress, ux_data = encode_revoke mandateId, ux_value = ''0'',
         ux_chainId = chainId, ux_gasLimit = REVOKE_GAS_LIMIT\<rparr>)))))"

section \<open>The service\<close>

text \<open>
  \<open>buildApp\<close>: the routes behind the shared hook and the shared error handler.  A call is the
  route the framework matched, with the fields it extracted.
\<close>

datatype gateway_call =
    GetHealth
  | GetTokenConstants "json option"
  | GetMandate "json option" "json option"
  | PostSettlementConfirm "json option"
  | GetBalance "json option" "json option"
  | PostBuildRevoke "json option"

datatype gateway_reply =
    HealthReply
  | TokenConstantsReply token_constants
  | MandateReply mandate_read
  | SettlementReply settlement_reply
  | BalanceReply balance_reply
  | RevokeReply unsigned_tx

record 'c gateway_deps =
  gd_client :: "'c rpc_client"
  gd_getAddress :: "string \<Rightarrow> address"
  gd_decode :: log_decoder
  gd_encode_revoke :: "hex \<Rightarrow> hex"
  gd_registry :: "(string \<times> string option) list"

text \<open>An action on the chain alone, as an action on the cache and the chain.\<close>

definition on_chain ::
    "('a \<Rightarrow> gateway_reply) \<Rightarrow> ('c, js_error, 'a) rpc_call \<Rightarrow>
     token_cache \<times> 'c \<Rightarrow> (js_error + gateway_reply) \<times> token_cache \<times> 'c" where
  "on_chain wrap m st = (case m (snd st) of (r, s') \<Rightarrow> (map_sum id wrap r, fst st, s'))"

definition gateway_handle ::
    "'c gateway_deps \<Rightarrow> int \<Rightarrow> gateway_call \<Rightarrow> token_cache \<times> 'c \<Rightarrow>
     (js_error + gateway_reply) \<times> token_cache \<times> 'c" where
  "gateway_handle deps now call st =
     (case call of
        GetHealth \<Rightarrow> (Inr HealthReply, st)
      | GetTokenConstants c \<Rightarrow>
          (case token_constants_route (gd_client deps) (gd_getAddress deps) now c st of
             (r, st') \<Rightarrow> (map_sum id TokenConstantsReply r, st'))
      | GetMandate m c \<Rightarrow> on_chain MandateReply
          (mandate_route (gd_client deps) (gd_getAddress deps) (gd_registry deps) m c) st
      | PostSettlementConfirm b \<Rightarrow> on_chain SettlementReply
          (settlement_route (gd_client deps) (gd_decode deps) b) st
      | GetBalance a c \<Rightarrow> on_chain BalanceReply
          (balance_route (gd_client deps) (gd_getAddress deps) a c) st
      | PostBuildRevoke b \<Rightarrow> on_chain RevokeReply
          (build_revoke_route (gd_client deps) (gd_getAddress deps) (gd_encode_revoke deps)
            (gd_registry deps) b) st)"

definition gateway_app ::
    "'c gateway_deps \<Rightarrow> string option \<Rightarrow> int \<Rightarrow> gateway_call option \<Rightarrow> request \<Rightarrow> token_cache \<times> 'c \<Rightarrow>
     gateway_reply reply \<times> token_cache \<times> 'c" where
  "gateway_app deps token now call req st =
     (case call of
        Some c \<Rightarrow> serve token (\<lambda>_. gateway_handle deps now c) req st
      | None \<Rightarrow> (case internalAuth token req of
            Inl e \<Rightarrow> (errorHandler e req, st) | Inr _ \<Rightarrow> (notFoundHandler req, st)))"

end
