(* ===== verification/Chain_Properties.thy ===== *)
theory Chain_Properties
  imports Chain_Gateway
begin

text \<open>
  The properties of chain-gateway: what a confirmed settlement proves, that a failure of the RPC is
  never reported as anything else, how old the token constants can be and that their decimals were
  verified, that the boot verified every configured chain, and that the formatted balance reads
  back.
\<close>

section \<open>Settlements\<close>

definition transfer_matches :: "log_decoder \<Rightarrow> string \<Rightarrow> string \<Rightarrow> int \<Rightarrow> log_like \<Rightarrow> bool" where
  "transfer_matches decode asset recipient amount lg \<longleftrightarrow>
     to_lower (lg_address lg) = asset \<and>
     (\<exists>t. decode (lg_topics lg) (lg_data lg) = Some (Some t, Some amount) \<and> to_lower t = recipient)"

lemma find_transfer_eq:
  "find_transfer decode asset recipient amount logs =
     (case filter (transfer_matches decode asset recipient amount) logs of
        [] \<Rightarrow> None | lg # _ \<Rightarrow> Some (coalesce (lg_logIndex lg) 0))"
  by (induction logs) (auto simp: transfer_matches_def split: option.split prod.split)

lemma find_transfer_None:
  "find_transfer decode asset recipient amount logs = None \<longleftrightarrow>
     (\<forall>lg \<in> set logs. \<not> transfer_matches decode asset recipient amount lg)"
  by (simp add: find_transfer_eq filter_empty_conv split: list.split)
     (metis filter_empty_conv list.distinct(1))

lemma parse_settlement_Inr:
  "parse_settlement_body body = Inr q \<Longrightarrow>
     to_lower (sq_asset q) = sq_asset q \<and> to_lower (sq_to q) = sq_to q \<and>
     js_bigint (sq_amount q) = Some (int (of_base 10 (sq_amount q)))"
  by (auto simp: parse_settlement_body_def parse_Inr bigint_decimal)

lemma fetch_receipt_Inr:
  "fetch_receipt client c h s = (Inr r, s') \<longleftrightarrow> cl_getTransactionReceipt client c h s = (Inr r, s')"
  by (auto simp: fetch_receipt_def split: prod.splits sum.splits)

lemma settlement_route_Inr:
  assumes "settlement_route client decode body s = (Inr r, s')"
  obtains q c receipt s1 head where "parse_settlement_body body = Inr q"
    "parseChainNumber (sq_chainId q) = Inr c"
    "cl_getTransactionReceipt client c (sq_txHash q) s = (Inr receipt, s1)"
    "cl_getBlockNumber client c s1 = (Inr head, s')"
    "st_ok r \<longleftrightarrow> tr_success receipt \<and> st_transferMatched r"
    "st_transferMatched r \<longleftrightarrow>
      filter (transfer_matches decode (sq_asset q) (sq_to q) (int (of_base 10 (sq_amount q)))) (tr_logs receipt) \<noteq> []"
    "st_logIndex r =
      find_transfer decode (sq_asset q) (sq_to q) (int (of_base 10 (sq_amount q))) (tr_logs receipt)"
    "0 \<le> st_confirmations r"
proof -
  obtain q c receipt s1 head m where b: "parse_settlement_body body = Inr q"
      "parseChainNumber (sq_chainId q) = Inr c"
      "cl_getTransactionReceipt client c (sq_txHash q) s = (Inr receipt, s1)"
      "cl_getBlockNumber client c s1 = (Inr head, s')"
      "findMatchingTransfer decode (tr_logs receipt) (sq_asset q) (sq_to q) (sq_amount q) = Inr m"
      "r = \<lparr>st_ok = (tr_success receipt \<and> m \<noteq> None), st_blockNumber = tr_blockNumber receipt,
         st_confirmations = max 0 (head - tr_blockNumber receipt + 1),
         st_transferMatched = (m \<noteq> None), st_logIndex = m\<rparr>"
    using assms unfolding settlement_route_def
    by (auto simp: rpc_Inr fetch_receipt_Inr)
  have "m = find_transfer decode (sq_asset q) (sq_to q) (int (of_base 10 (sq_amount q))) (tr_logs receipt)"
    using b(5) parse_settlement_Inr [OF b(1)] by (auto simp: findMatchingTransfer_def)
  then show ?thesis
    using b(6) by (intro that [OF b(1-4)]) (auto simp: find_transfer_eq split: list.splits)
qed

text \<open>C10. A settlement is confirmed exactly when the receipt of the transaction is a success and one single
  log of it is a transfer of the expected amount of the expected asset to the expected recipient;
  the reported log is the first such log and the confirmations are never negative.\<close>

theorem settlement_confirmed_iff:
  assumes "settlement_route client decode body s = (Inr r, s')"
  shows "\<exists>q c receipt s1 head. parse_settlement_body body = Inr q \<and>
    parseChainNumber (sq_chainId q) = Inr c \<and>
    cl_getTransactionReceipt client c (sq_txHash q) s = (Inr receipt, s1) \<and>
    cl_getBlockNumber client c s1 = (Inr head, s') \<and>
    (let hits = filter (transfer_matches decode (sq_asset q) (sq_to q) (int (of_base 10 (sq_amount q))))
        (tr_logs receipt)
     in (st_ok r \<longleftrightarrow> tr_success receipt \<and> hits \<noteq> []) \<and> (st_transferMatched r \<longleftrightarrow> hits \<noteq> []) \<and>
        st_logIndex r = (case hits of [] \<Rightarrow> None | lg # _ \<Rightarrow> Some (coalesce (lg_logIndex lg) 0)) \<and>
        0 \<le> st_confirmations r)"
proof -
  from assms obtain q c receipt s1 head where b: "parse_settlement_body body = Inr q"
      "parseChainNumber (sq_chainId q) = Inr c"
      "cl_getTransactionReceipt client c (sq_txHash q) s = (Inr receipt, s1)"
      "cl_getBlockNumber client c s1 = (Inr head, s')"
      "st_ok r \<longleftrightarrow> tr_success receipt \<and> st_transferMatched r"
      "st_transferMatched r \<longleftrightarrow>
        filter (transfer_matches decode (sq_asset q) (sq_to q) (int (of_base 10 (sq_amount q)))) (tr_logs receipt) \<noteq> []"
      "st_logIndex r = find_transfer decode (sq_asset q) (sq_to q) (int (of_base 10 (sq_amount q))) (tr_logs receipt)"
      "0 \<le> st_confirmations r"
    by (rule settlement_route_Inr)
  then show ?thesis by (intro exI conjI) (auto simp: find_transfer_eq Let_def split: list.split)
qed

section \<open>Failures of the RPC\<close>

lemma withRpc_plain_Inl:
  "withRpc what (plain_call f) s = (Inl e, s') \<Longrightarrow> retryable_rpc e"
  by (auto simp: withRpc_def plain_call_def rpc_failure_retryable split: prod.splits sum.splits)

lemma withRpc_two_Inl:
  "withRpc what (rpc_then (plain_call f) (\<lambda>x. rpc_then (plain_call g) (\<lambda>y. rpc_return (k x y)))) s
     = (Inl e, s') \<Longrightarrow> retryable_rpc e"
  by (auto simp: withRpc_def plain_call_def rpc_then_def rpc_failure_retryable
      split: prod.splits sum.splits)

lemma parseMandateId_Inl: "parseMandateId raw = Inl e \<Longrightarrow> thrown_status e = Some 400"
  by (auto simp: parseMandateId_def dest: parseBytes32_Inl)

lemma requireRegistryAddress_Inl: "requireRegistryAddress f c = Inl e \<Longrightarrow> thrown_status e = Some 400"
  by (auto simp: requireRegistryAddress_def split: option.splits)

text \<open>The read of a mandate fails in three ways that cannot be confused: a bad request is a 400, a failure of the
  RPC is a retryable 502 or 504, and a 404 is only given when the registry itself answered that the
  mandate has no owner; so an outage never looks like a missing mandate.\<close>

theorem mandate_read_failures:
  assumes "mandate_route client getAddress file m c s = (Inl e, s')"
  shows "thrown_status e = Some 400 \<or> retryable_rpc e \<or>
    (thrown_status e = Some 404 \<and> thrown_code e = Some MANDATE_NOT_FOUND \<and>
     (\<exists>chain mid addr ow h t v s1. parseChainId c = Inr chain \<and> parseMandateId m = Inr mid \<and>
        requireRegistryAddress file chain = Inr addr \<and>
        cl_registryGet client chain addr mid s = (Inr (ow, h, t, v), s1) \<and> to_lower ow = ZERO_ADDRESS))"
  using assms unfolding mandate_route_def
  by (auto simp: rpc_then_Inl rpc_Inr notFound_def split: if_splits prod.splits
      dest!: parseChainId_Inl parseMandateId_Inl requireRegistryAddress_Inl withRpc_two_Inl)

section \<open>Token constants\<close>

text \<open>The answer that the calls \<open>name()\<close> and \<open>decimals()\<close> give on a chain, at an instant.\<close>

definition chain_says ::
    "'c rpc_client \<Rightarrow> (string \<Rightarrow> address) \<Rightarrow> int \<Rightarrow> int \<Rightarrow> 'c \<Rightarrow> token_constants \<Rightarrow> bool" where
  "chain_says client ga t c x v \<longleftrightarrow> (\<exists>nm x1 x2. cl_name client c x = (Inr nm, x1) \<and>
     cl_decimals client c x1 = (Inr 6, x2) \<and>
     v = \<lparr>tk_chainId = c, tk_address = ga (k_xsgd (the (CHAINS c))), tk_name = nm, tk_decimals = 6,
       tk_version = None, tk_versionSource = ''x402-challenge-only'', tk_readAt = isoSeconds t\<rparr>)"

text \<open>A request: its instant, its chain, and the state the chain is in.  The cache holds answers to requests.\<close>

definition cache_ok ::
    "'c rpc_client \<Rightarrow> (string \<Rightarrow> address) \<Rightarrow> (int \<times> int \<times> 'c) set \<Rightarrow> int \<Rightarrow> token_cache \<Rightarrow> bool" where
  "cache_ok client ga seen now cache \<longleftrightarrow> (\<forall>c e. cache c = Some e \<longrightarrow>
     (\<exists>t x. (t, c, x) \<in> seen \<and> t \<le> now \<and> ce_expiresAt e = t + CACHE_TTL_MS \<and>
        chain_says client ga t c x (ce_value e)))"

lemma cache_ok_later:
  "cache_ok client ga seen now cache \<Longrightarrow> now \<le> now' \<Longrightarrow> seen \<subseteq> seen' \<Longrightarrow> cache_ok client ga seen' now' cache"
  unfolding cache_ok_def by (meson order_trans subsetD)

lemma cold_read:
  assumes "getTokenConstants client ga c now (cache, x) = (r, cache', x')"
    "cache c = None \<or> (\<exists>e. cache c = Some e \<and> ce_expiresAt e \<le> now)"
  shows "(\<exists>e. r = Inl e \<and> cache' = cache) \<or>
    (\<exists>v. r = Inr v \<and> chain_says client ga now c x v \<and>
       cache' = cache(c \<mapsto> \<lparr>ce_value = v, ce_expiresAt = now + CACHE_TTL_MS\<rparr>))"
proof (cases "readTokenFacts client c x")
  case (Pair facts x1)
  show ?thesis
  proof (cases facts)
    case (Inl e)
    then show ?thesis using assms Pair by (auto simp: getTokenConstants_def Let_def split: option.splits)
  next
    case (Inr f)
    then have reads: "\<exists>x0. cl_name client c x = (Inr (tf_name f), x0) \<and> cl_decimals client c x0 = (Inr (tf_decimals f), x1)"
      using Pair by (auto simp: readTokenFacts_def rpc_Inr)
    show ?thesis
    proof (cases "tf_decimals f = 6")
      case True
      with reads assms Pair Inr show ?thesis
        by (auto simp: getTokenConstants_def Let_def chain_says_def assertDecimals_def XSGD_DECIMALS_def
            split: option.splits)
    next
      case False
      with assms Pair Inr show ?thesis
        by (auto simp: getTokenConstants_def Let_def assertDecimals_def XSGD_DECIMALS_def split: option.splits)
    qed
  qed
qed

lemma warm_read:
  assumes "cache c = Some e" "now < ce_expiresAt e"
  shows "getTokenConstants client ga c now (cache, x) = (Inr (ce_value e), cache, x)"
  using assms by (simp add: getTokenConstants_def Let_def)

lemma getTokenConstants_ok:
  assumes "cache_ok client ga seen now cache" "getTokenConstants client ga c now (cache, x) = (r, cache', x')"
  shows "cache_ok client ga (insert (now, c, x) seen) now cache' \<and> (\<forall>v. r = Inr v \<longrightarrow>
    (\<exists>t y. (t, c, y) \<in> insert (now, c, x) seen \<and> now - CACHE_TTL_MS < t \<and> t \<le> now \<and> chain_says client ga t c y v))"
proof (cases "cache c = None \<or> (\<exists>e. cache c = Some e \<and> ce_expiresAt e \<le> now)")
  case True
  from cold_read [OF assms(2) this] show ?thesis
  proof (elim disjE exE conjE)
    fix v assume v: "r = Inr v" "chain_says client ga now c x v"
      "cache' = cache(c \<mapsto> \<lparr>ce_value = v, ce_expiresAt = now + CACHE_TTL_MS\<rparr>)"
    then have "cache_ok client ga (insert (now, c, x) seen) now cache'"
      using assms(1) unfolding cache_ok_def by auto
    moreover have "now - CACHE_TTL_MS < now" by (simp add: CACHE_TTL_MS_def)
    ultimately show ?thesis using v by blast
  qed (use assms(1) cache_ok_later [of client ga seen now cache now] in auto)
next
  case False
  then obtain e where e: "cache c = Some e" "now < ce_expiresAt e" by (cases "cache c") (auto simp: not_le)
  from e(1) assms(1) obtain t y where
    "(t, c, y) \<in> seen" "t \<le> now" "ce_expiresAt e = t + CACHE_TTL_MS" "chain_says client ga t c y (ce_value e)"
    unfolding cache_ok_def by blast
  then show ?thesis
    using e(2) assms warm_read [of cache c e now client ga x, OF e] cache_ok_later [OF assms(1) order.refl]
    by (auto intro!: exI [of _ t])
qed

text \<open>
  A sequence of requests, each at its instant, for its chain and with the chain in some state: the
  service keeps its cache, the chain moves on by itself.
\<close>

fun token_run ::
    "'c rpc_client \<Rightarrow> (string \<Rightarrow> address) \<Rightarrow> (int \<times> int \<times> 'c) list \<Rightarrow> token_cache \<Rightarrow>
     (js_error + token_constants) list" where
  "token_run client ga [] cache = []"
| "token_run client ga ((now, c, x) # qs) cache =
     (case getTokenConstants client ga c now (cache, x) of (r, cache', _) \<Rightarrow> r # token_run client ga qs cache')"

lemma token_run_ok:
  assumes "cache_ok client ga (set before_qs) start cache" "sorted (start # map fst qs)"
    "i < length qs" "qs ! i = (now, c, x)" "token_run client ga qs cache ! i = Inr v"
  shows "\<exists>t y. (t, c, y) \<in> set (before_qs @ take (Suc i) qs) \<and> now - CACHE_TTL_MS < t \<and> t \<le> now \<and>
    chain_says client ga t c y v"
  using assms
proof (induction qs arbitrary: before_qs start cache i)
  case (Cons q qs)
  obtain n c1 x1 where q: "q = (n, c1, x1)" by (cases q)
  obtain r cache' x' where g: "getTokenConstants client ga c1 n (cache, x1) = (r, cache', x')"
    by (metis prod_cases3)
  have "cache_ok client ga (set before_qs) n cache"
    using Cons.prems(1,2) cache_ok_later q by fastforce
  note ok = getTokenConstants_ok [OF this g]
  show ?case
  proof (cases i)
    case 0
    then show ?thesis using ok Cons.prems(4,5) q g by auto
  next
    case (Suc k)
    have "cache_ok client ga (set (before_qs @ [q])) n cache'" using ok q by simp
    from Cons.IH [OF this, of k] show ?thesis
      using Cons.prems(2-5) Suc q g by (auto simp: sorted_wrt.simps)
  qed
qed simp

text \<open>C27. Every answer about the token of a chain, over any sequence of requests from an empty cache in the order
  of time, is what the chain itself said at the time of one of these requests, at most fifteen minutes
  earlier and for the same chain: its name is what \<open>name()\<close> then returned, \<open>decimals()\<close> then returned
  six, and it carries that time, the chain's token address and no version.\<close>

theorem token_constants_fresh:
  assumes "sorted (map fst qs)" "i < length qs" "qs ! i = (now, c, x)"
    "token_run client ga qs Map.empty ! i = Inr v"
  shows "\<exists>j \<le> i. \<exists>t y nm y1 y2. qs ! j = (t, c, y) \<and> now - 15 * 60 * 1000 < t \<and> t \<le> now \<and>
    cl_name client c y = (Inr nm, y1) \<and> cl_decimals client c y1 = (Inr 6, y2) \<and>
    v = \<lparr>tk_chainId = c, tk_address = ga (k_xsgd (the (CHAINS c))), tk_name = nm, tk_decimals = 6,
      tk_version = None, tk_versionSource = ''x402-challenge-only'', tk_readAt = isoSeconds t\<rparr>"
proof -
  obtain q qs' where qs: "qs = q # qs'" using assms(2) by (cases qs) auto
  have "\<exists>t y. (t, c, y) \<in> set ([] @ take (Suc i) qs) \<and> now - CACHE_TTL_MS < t \<and> t \<le> now \<and> chain_says client ga t c y v"
    by (rule token_run_ok [where start = "fst q", OF _ _ assms(2-4)])
      (use assms(1) qs in \<open>simp_all add: cache_ok_def\<close>)
  then obtain t y where ty: "(t, c, y) \<in> set (take (Suc i) qs)" "now - CACHE_TTL_MS < t" "t \<le> now"
    "chain_says client ga t c y v"
    by auto
  from ty(1) obtain j where "j \<le> i" "qs ! j = (t, c, y)" by (auto simp: in_set_conv_nth less_Suc_eq_le)
  with ty(2-4) show ?thesis unfolding chain_says_def CACHE_TTL_MS_def by auto
qed

section \<open>The boot\<close>

lemma read_attempts_Inr:
  "read_attempts client c n le s = (Inr f, s') \<Longrightarrow> \<exists>s1 s2. readTokenFacts client c s1 = (Inr f, s2)"
  by (induction client c n le s rule: read_attempts.induct) (auto split: prod.splits sum.splits)

lemma boot_chains_ok:
  "boot_chains client n cs s = (Inr u, s') \<Longrightarrow> c \<in> set cs \<Longrightarrow>
   \<exists>f s1 s2. readTokenFacts client c s1 = (Inr f, s2) \<and> tf_decimals f = int XSGD_DECIMALS"
proof (induction client n cs s rule: boot_chains.induct)
  case (2 client n c1 rest s)
  obtain f s1 where f: "read_attempts client c1 n None s = (Inr f, s1)"
      "tf_decimals f = int XSGD_DECIMALS" "boot_chains client n rest s1 = (Inr u, s')"
    using "2.prems"(1) by (auto split: prod.splits sum.splits)
  show ?case
  proof (cases "c = c1")
    case True
    with read_attempts_Inr [OF f(1)] f(2) show ?thesis by auto
  next
    case False
    with "2.prems"(2) show ?thesis
      using "2.IH" [OF f(1) [symmetric] refl, of "()"] f by auto
  qed
qed simp

text \<open>The service listens only after every configured chain answered, within its attempts, with six decimals;
  a wrong number stops the boot with an error that is not retryable.\<close>

theorem boot_verifies_decimals:
  assumes "assertTokenDecimalsAtBoot client env attempts s = (Inr (), s')" "c \<in> set (configuredChainIds env)"
  shows "isSupportedChainId c \<and>
    (\<exists>f s1 s2. readTokenFacts client c s1 = (Inr f, s2) \<and> tf_decimals f = 6)"
proof -
  have "isSupportedChainId c"
    using assms(2) by (auto simp: configuredChainIds_def split: jnum.splits if_splits)
  then show ?thesis
    using boot_chains_ok [OF assms(1) [unfolded assertTokenDecimalsAtBoot_def] assms(2)]
    by (auto simp: XSGD_DECIMALS_def)
qed

section \<open>Formatted amounts\<close>

text \<open>A formatted amount has exactly the token's number of places behind one point and reads back as the base
  units: sign, whole part and fraction determine the number.\<close>

theorem formatUnits_reads_back:
  assumes "0 < d"
  shows "\<exists>w f. formatUnits b d = (if b < 0 then ''-'' else []) @ w @ ''.'' @ f \<and> length f = d \<and> w \<noteq> [] \<and>
    list_all is_digit w \<and> list_all is_digit f \<and>
    int (of_base 10 w) * 10 ^ d + int (of_base 10 f) = \<bar>b\<bar>"
proof -
  define g where "g = pad_start (d + 1) CHR ''0'' (dec (nat \<bar>b\<bar>))"
  define w where "w = take (length g - d) g"
  define f where "f = drop (length g - d) g"
  have len: "d < length g" by (simp add: g_def)
  have digits: "list_all is_digit g"
    unfolding g_def by (rule pad_start_all) (simp_all add: is_digit_def)
  have "of_base 10 (w @ f) = nat \<bar>b\<bar>" by (simp add: w_def f_def g_def)
  moreover have lf: "length f = d" using len by (simp add: f_def)
  ultimately have "of_base 10 w * 10 ^ d + of_base 10 f = nat \<bar>b\<bar>" by (simp add: of_base_append)
  then have "int (of_base 10 w) * 10 ^ d + int (of_base 10 f) = \<bar>b\<bar>"
    by (metis abs_ge_zero nat_eq_iff of_nat_add of_nat_mult of_nat_numeral of_nat_power)
  moreover have "list_all is_digit w" "list_all is_digit f"
    using digits by (auto simp: w_def f_def list_all_iff dest: in_set_takeD in_set_dropD)
  moreover have "w \<noteq> []" using len by (auto simp: w_def)
  moreover have "formatUnits b d = (if b < 0 then ''-'' else []) @ w @ ''.'' @ f"
    using assms by (simp add: formatUnits_def Let_def w_def f_def g_def)
  ultimately show ?thesis using lf by blast
qed

end
