(* ===== verification/Chain_Witnesses.thy ===== *)
theory Chain_Witnesses
  imports Chain_Properties
begin

text \<open>
  The theorems about chain-gateway applied to a chain whose state counts the calls, with one
  transaction in its history.
\<close>

definition toy_log :: log_like where
  "toy_log = \<lparr>lg_address = ''0xAA'', lg_topics = [''t''], lg_data = ''d'', lg_logIndex = Some 3\<rparr>"

definition toy_client :: "nat rpc_client" where
  "toy_client = \<lparr>cl_name = (\<lambda>c s. (Inr ''XSGD'', s + 1)), cl_decimals = (\<lambda>c s. (Inr 6, s + 1)),
     cl_balanceOf = (\<lambda>c t a s. (Inr 30000000, s + 1)), cl_getBalance = (\<lambda>c a s. (Inr 7, s + 1)),
     cl_registryGet = (\<lambda>c r m s. (Inr (ZERO_ADDRESS, [], 0, False), s + 1)),
     cl_simulateRevoke = (\<lambda>c r m f s. (Inr (), s + 1)), cl_getBlockNumber = (\<lambda>c s. (Inr 12, s + 1)),
     cl_getTransactionReceipt = (\<lambda>c h s. (Inr \<lparr>tr_success = True, tr_blockNumber = 10,
        tr_logs = [toy_log]\<rparr>, s + 1))\<rparr>"

definition hex_text :: "nat \<Rightarrow> char \<Rightarrow> string" where
  "hex_text n c = ''0x'' @ replicate n c"

definition toy_settlement :: json where
  "toy_settlement = JObj [(''txHash'', JStr (hex_text 64 CHR ''1'')), (''chainId'', JNum 43113),
     (''expect'', JObj [(''asset'', JStr (hex_text 40 CHR ''a'')), (''to'', JStr (hex_text 40 CHR ''b'')),
       (''amount'', JStr ''5000000'')])]"

definition toy_decode :: log_decoder where
  "toy_decode topics d = Some (Some ''0xbb'', Some 5000000)"

lemma settlement_confirmed_iff_witness:
  "\<exists>r s'. settlement_route toy_client toy_decode (Some toy_settlement) 0 = (Inr r, s') \<and>
     0 \<le> st_confirmations r \<and> \<not> st_ok r"
proof -
  let ?r = "\<lparr>st_ok = False, st_blockNumber = 10, st_confirmations = 3, st_transferMatched = False,
    st_logIndex = None\<rparr>"
  have "settlement_route toy_client toy_decode (Some toy_settlement) 0 = (Inr ?r, 2)" by code_simp
  from settlement_confirmed_iff [OF this] this show ?thesis by auto
qed

lemma mandate_read_failures_witness:
  "\<exists>e s'. mandate_route toy_client (\<lambda>s. s) registry_addresses (Some (JStr (hex_text 64 CHR ''1'')))
     (Some (JStr ''43113'')) 0 = (Inl e, s') \<and> thrown_status e = Some 404"
proof -
  have m: "map_prod (map_sum thrown_status (\<lambda>_. ())) id
      (mandate_route toy_client (\<lambda>s. s) registry_addresses (Some (JStr (hex_text 64 CHR ''1'')))
        (Some (JStr ''43113'')) 0) = (Inl (Some 404), 2)"
    by code_simp
  obtain r s' where r: "mandate_route toy_client (\<lambda>s. s) registry_addresses
      (Some (JStr (hex_text 64 CHR ''1''))) (Some (JStr ''43113'')) 0 = (r, s')"
    by (meson surj_pair)
  with m obtain e where e: "r = Inl e" "thrown_status e = Some 404"
    by (cases r) auto
  from mandate_read_failures [OF r [unfolded e(1)]] r e show ?thesis by blast
qed

lemma token_constants_fresh_witness:
  "\<exists>v. token_run toy_client (\<lambda>s. s) [(0, 43113, 0), (5, 43113, 7)] Map.empty = [Inr v, Inr v] \<and>
     tk_name v = ''XSGD''"
proof -
  let ?v = "\<lparr>tk_chainId = 43113, tk_address = k_xsgd FUJI, tk_name = ''XSGD'', tk_decimals = 6,
    tk_version = None, tk_versionSource = ''x402-challenge-only'', tk_readAt = isoSeconds 0\<rparr>"
  let ?qs = "[(0, 43113, 0), (5, 43113, 7)]"
  have r: "token_run toy_client (\<lambda>s. s) ?qs Map.empty = [Inr ?v, Inr ?v]"
    by (simp add: getTokenConstants_def readTokenFacts_def withRpc_def rpc_then_def plain_call_def
        toy_client_def assertDecimals_def XSGD_DECIMALS_def CACHE_TTL_MS_def CHAINS_def Let_def)
  have "\<exists>nm. tk_name ?v = nm \<and> (\<exists>y y1. cl_name toy_client 43113 y = (Inr nm, y1))"
    using token_constants_fresh [where client = toy_client and ga = "\<lambda>s. s" and qs = ?qs and i = 1
        and now = 5 and c = 43113 and x = 7 and v = ?v] r by auto
  then show ?thesis using r by (auto simp: toy_client_def)
qed

lemma boot_verifies_decimals_witness:
  "\<exists>f s1 s2. readTokenFacts toy_client 43113 s1 = (Inr f, s2) \<and> tf_decimals f = 6"
proof -
  have "assertTokenDecimalsAtBoot toy_client (\<lambda>_. None) 3 0 = (Inr (), 2)"
    "configuredChainIds (\<lambda>_. None) = [43113]" by (code_simp, code_simp)
  then show ?thesis using boot_verifies_decimals [of toy_client "\<lambda>_. None" 3 0 2 43113] by simp
qed

lemma formatUnits_reads_back_witness:
  "formatUnits 30000000 6 = ''30.000000'' \<and> (\<exists>w f. formatUnits 30000000 6 = w @ ''.'' @ f \<and> length f = 6)"
proof -
  have "formatUnits 30000000 6 = ''30.000000''" by code_simp
  then show ?thesis using formatUnits_reads_back [of 6 30000000] by auto
qed

end
