(* ===== verification/Service_Wiring.thy ===== *)
theory Service_Wiring
  imports Policy_Service Signer_Service Chain_Gateway
begin

text \<open>
  The two clients of the policy service that \<open>Policy_Clients\<close> leaves open, on the models of the
  services they call: \<open>clients/chainGatewayClient.ts\<close> on chain-gateway and
  \<open>clients/signerClient.ts\<close> on the signer.  A request carries the internal token of its sender;
  a JSON body arrives as the value that was sent.
\<close>

definition client_request :: "string \<Rightarrow> string \<Rightarrow> string \<Rightarrow> json option \<Rightarrow> string \<Rightarrow> request" where
  "client_request method url token body rid =
     \<lparr>rq_method = method, rq_url = url,
      rq_headers = (\<lambda>h. if h = ''x-internal-token'' then Some token else None),
      rq_body = body, rq_id = rid\<rparr>"

section \<open>The mandate read\<close>

text \<open>The chain is looked at in one state; the read does not use the cache.\<close>

definition getMandate ::
    "'c gateway_deps \<Rightarrow> string option \<Rightarrow> string \<Rightarrow> string \<Rightarrow> 'c \<Rightarrow> hex \<Rightarrow> int \<Rightarrow>
     js_error + registry_mandate option" where
  "getMandate gd gatewayToken token rid chain mandateId chainId =
     (let url = ''/mandate/'' @ mandateId @ ''?chainId='' @ dec_int chainId;
          res = fst (gateway_app gd gatewayToken 0
            (Some (GetMandate (Some (JStr mandateId)) (Some (JStr (dec_int chainId)))))
            (client_request ''GET'' url token None rid) (Map.empty, chain))
      in if reply_status res = 404 then Inr None
         else case res of
             Reply st (MandateReply b) \<Rightarrow> Inr (Some \<lparr>rm_owner = mr_owner b, rm_policyHash = mr_policyHash b,
               rm_expiresAt = mr_expiresAt b, rm_revoked = mr_revoked b\<rparr>)
           | _ \<Rightarrow> Inl (JsError (''chain-gateway getMandate '' @ dec (reply_status res))))"

section \<open>The signature\<close>

definition typed_data_json :: "typed_data \<Rightarrow> json" where
  "typed_data_json td = (let d = td_domain_of td; m = td_message_of td in JObj
     [(''domain'', JObj [(''name'', JStr (d_name d)), (''version'', JStr (d_version d)),
        (''chainId'', JNum (d_chainId d)), (''verifyingContract'', JStr (d_verifyingContract d))]),
      (''primaryType'', JStr (td_primaryType td)),
      (''types'', JObj [(''TransferWithAuthorization'',
         JArr (map (\<lambda>(n, t). JObj [(''name'', JStr n), (''type'', JStr t)]) (td_types td)))]),
      (''message'', JObj [(''from'', JStr (t_from m)), (''to'', JStr (t_to m)), (''value'', JStr (t_value m)),
         (''validAfter'', JNum (t_validAfter m)), (''validBefore'', JNum (t_validBefore m)),
         (''nonce'', JStr (t_nonce m))])])"

definition sign_body_json ::
    "string \<Rightarrow> hex \<Rightarrow> typed_data \<Rightarrow> x402_accepted \<Rightarrow> string \<Rightarrow> json" where
  "sign_body_json requestId mandateId td accepted resource = JObj
     [(''requestId'', JStr requestId), (''mandateId'', JStr mandateId),
      (''typedData'', typed_data_json td), (''accepted'', accepted_json accepted),
      (''resource'', JStr resource)]"

definition sign_client ::
    "'k sign_deps \<Rightarrow> string option \<Rightarrow> string \<Rightarrow> string \<Rightarrow> int \<Rightarrow> string \<Rightarrow> hex \<Rightarrow> typed_data \<Rightarrow>
     x402_accepted \<Rightarrow> string \<Rightarrow> 'k signer_state \<Rightarrow> (js_error + sign_result) \<times> 'k signer_state" where
  "sign_client sd signerToken token rid now requestId mandateId td accepted resource st =
     (case sign_route sd signerToken now
         (client_request ''POST'' ''/sign'' token
            (Some (sign_body_json requestId mandateId td accepted resource)) rid) st of
        (res, st') \<Rightarrow>
          (Inr (case res of
               Reply n b \<Rightarrow> SignOk (so_header b) (so_signerAddress b) (so_signedAt b)
             | ErrReply n e \<Rightarrow> SignFail n (env_code e) (env_message e)
             | ServerError msg \<Rightarrow> SignFail 500 ''SIGNER_ERROR''
                 (''signer-service returned '' @ dec 500)), st'))"

text \<open>The policy service with both clients in place.\<close>

definition wired ::
    "'k signer_state policy_env \<Rightarrow> 'k sign_deps \<Rightarrow> string option \<Rightarrow> 'c gateway_deps \<Rightarrow> string option \<Rightarrow>
     string \<Rightarrow> string \<Rightarrow> int \<Rightarrow> 'c \<Rightarrow> 'k signer_state policy_env" where
  "wired env sd signerToken gd gatewayToken token rid now chain = env\<lparr>
     pe_registry := getMandate gd gatewayToken token rid chain,
     pe_sign := sign_client sd signerToken token rid now\<rparr>"

end
