(* ===== verification/Wiring_Properties.thy ===== *)
theory Wiring_Properties
  imports Service_Wiring Policy_Properties Signer_Properties Chain_Properties
begin

text \<open>
  The three services together: what a signature means once the policy service talks to the signer
  and to chain-gateway, and what an outage of the chain does.
\<close>

section \<open>From a payment to the signer\<close>

text \<open>A payment request that consults the signer does so in the signing tail, once.\<close>

lemma signAndRecord_signer:
  fixes w :: "'s world"
  assumes "wd_signer (snd (signAndRecord env now k mid amount m c i dn cs w)) \<noteq> wd_signer w"
  obtains n where "commitment env k m i dn = Inr n"
    "wd_signer (snd (signAndRecord env now k mid amount m c i dn cs w)) =
     snd (pe_sign env k mid (payment_typed_data env (nowSec now) m c amount n) (x402_accepted.truncate c)
       CARDAPI_SANDBOX_ISSUE_CARD (wd_signer w))"
proof -
  let ?ph = "hashPolicy (pe_keccak_text env) m"
  let ?ps = "performSigning env now k mid m c amount (nowSec now) CARDAPI_SANDBOX_ISSUE_CARD ?ph
      (i_instructionHash i) dn"
  define rest :: "signing_outcome \<Rightarrow> ('s world, payment_reply reply) io" where "rest = (\<lambda>signing. case signing of
      SigningFail st cd msg retry \<Rightarrow>
        andThen (recordDecision now (refusal_entry now k Refused ''signer_refused'' msg))
          (\<lambda>_. ret (sendError st cd msg k retry))
    | SigningOk header nonce va vb \<Rightarrow>
        andThen (recordDecision now (signed_entry now k ?ph dn va vb)) (\<lambda>_.
          ret (Reply 200 (PSigned \<lparr>sg_requestId = k, sg_header = header, sg_nonce = nonce,
            sg_validAfter = va, sg_validBefore = vb, sg_checksPassed = cs,
            sg_decidedAt = toISOString now\<rparr>))))"
  have whole: "signAndRecord env now k mid amount m c i dn cs = andThen ?ps rest"
    by (simp add: signAndRecord_def rest_def Let_def)
  have keep: "wd_signer (snd (rest x v)) = wd_signer v" for x v
    by (rule keeps_run) (cases x; simp add: rest_def keeps)
  have ps: "wd_signer (snd (andThen ?ps rest w)) = wd_signer (snd (?ps w))"
    using keep by (auto simp: andThen_def split: prod.splits sum.splits)
  have "wd_signer (snd (?ps w)) \<noteq> wd_signer w" using assms unfolding whole ps .
  then have "\<exists>n. commitment env k m i dn = Inr n \<and> wd_signer (snd (?ps w)) =
      snd (pe_sign env k mid (payment_typed_data env (nowSec now) m c amount n) (x402_accepted.truncate c)
        CARDAPI_SANDBOX_ISSUE_CARD (wd_signer w))"
    by (auto simp: performSigning_def commitment_def payment_typed_data_def andThen_def reserveNonce_def
        signWith_def releaseNonce_def Let_def split: prod.splits sum.splits option.splits sign_result.splits)
  then show ?thesis using that ps whole by metis
qed

lemma payment_consults:
  assumes "wd_signer (snd (payment_request env now body w)) \<noteq> wd_signer w"
  obtains k mid amount c item i m n where "pb_requestId body = Some k" "pb_mandateId body = Some mid"
    "pb_requestedAmount body = Some amount" "pb_challenge body = Some c" "pb_resolvedItem body = Some item"
    "payment_authorised env now k mid amount c item i m (wd_ledger w)"
    "commitment env k m i (r_merchantDomain item) = Inr n"
    "wd_signer (snd (payment_request env now body w)) =
     snd (pe_sign env k mid (payment_typed_data env (nowSec now) m c amount n) (x402_accepted.truncate c)
       CARDAPI_SANDBOX_ISSUE_CARD (wd_signer w))"
proof -
  obtain k mid amount c item i p where b: "pb_requestId body = Some k" "pb_mandateId body = Some mid"
      "pb_requestedAmount body = Some amount" "pb_challenge body = Some c" "k \<noteq> []" "mid \<noteq> []"
      "amount \<noteq> []" "pb_resolvedItem body = Some item" "js_trim (r_merchantDomain item) \<noteq> []"
      "jget (l_intents (wd_ledger w)) k = Some i" "jget (l_policies (wd_ledger w)) mid = Some p"
    using assms payment_request_early [of body w env now] by metis
  note io = payment_request_io [OF b(1-4) b(5-11), of env now]
  have m: "map_option pr_policy (jget (l_policies (wd_ledger w)) mid) = Some (pr_policy p)"
    using b(11) by simp
  have "wd_signer (snd (decidePayment env now k mid amount c item i (pr_policy p) w)) \<noteq> wd_signer w"
    using assms unfolding io by simp
  then have a: "payment_authorised env now k mid amount c item i (pr_policy p) (wd_ledger w)"
      "decidePayment env now k mid amount c item i (pr_policy p) w =
       signAndRecord env now k mid amount (pr_policy p) c i (r_merchantDomain item) all_checks w"
    using decidePayment_cases [OF b(6,9,10) m, of env now amount c] by auto
  have s: "wd_signer (snd (payment_request env now body w)) =
      wd_signer (snd (signAndRecord env now k mid amount (pr_policy p) c i (r_merchantDomain item) all_checks w))"
    unfolding io by (simp add: a(2))
  with assms obtain n where "commitment env k (pr_policy p) i (r_merchantDomain item) = Inr n"
      "wd_signer (snd (payment_request env now body w)) =
       snd (pe_sign env k mid (payment_typed_data env (nowSec now) (pr_policy p) c amount n)
         (x402_accepted.truncate c) CARDAPI_SANDBOX_ISSUE_CARD (wd_signer w))"
    using signAndRecord_signer [of env now k mid amount "pr_policy p" c i "r_merchantDomain item" all_checks w]
    by metis
  with b a(1) show ?thesis by (intro that) auto
qed

section \<open>From the client to the key\<close>

text \<open>What the signer parses out of the body the policy service sends.\<close>

lemma parse_sign_body_json:
  assumes "parseSignBody (Some (sign_body_json k mid td ac res)) = Inr rq"
  shows "sr_requestId rq = k \<and> sr_mandateId rq = to_lower mid \<and>
    bt_from (sr_typedData rq) = to_lower (t_from (td_message_of td)) \<and>
    bt_to (sr_typedData rq) = to_lower (t_to (td_message_of td)) \<and>
    bt_value (sr_typedData rq) = t_value (td_message_of td) \<and>
    bt_validAfter (sr_typedData rq) = t_validAfter (td_message_of td) \<and>
    bt_validBefore (sr_typedData rq) = t_validBefore (td_message_of td) \<and>
    bt_nonce (sr_typedData rq) = to_lower (t_nonce (td_message_of td)) \<and>
    bt_domain (sr_typedData rq) =
      (td_domain_of td)\<lparr>d_verifyingContract := to_lower (d_verifyingContract (td_domain_of td))\<rparr>"
  using assms
  by (auto simp: parseSignBody_def sign_body_json_def jmember_def parse_Inr parse_typed_data_def
      typed_data_json_def accepted_json_def requireString_def requireNumber_def Let_def
      split: if_splits)

text \<open>What the key is asked to sign for a request parsed from that body.\<close>

lemma sign_client_allowed:
  assumes "snd (sign_client sd stok tok rid now k mid td ac res st) \<noteq> st"
  obtains rq where "parseSignBody (Some (sign_body_json k mid td ac res)) = Inr rq"
    "sign_allowed sd rq (ss_seen st)"
    "ss_key (snd (sign_client sd stok tok rid now k mid td ac res st)) = snd (sd_signDigest sd
       (sd_hashTypedData sd (buildTransferWithAuthorizationTypedData (sr_typedData rq))) (ss_key st))"
proof -
  define req where "req = client_request ''POST'' ''/sign'' tok (Some (sign_body_json k mid td ac res)) rid"
  have body: "rq_body req = Some (sign_body_json k mid td ac res)"
    by (simp add: req_def client_request_def)
  have client: "snd (sign_client sd stok tok rid now k mid td ac res st) = snd (sign_route sd stok now req st)"
    by (simp add: sign_client_def req_def split: prod.splits)
  have post: "snd (sign_route sd stok now req st) = snd (post_sign sd now (rq_body req) st)"
    using assms unfolding client by (auto simp: sign_route_def serve_def split: sum.splits prod.splits)
  then have "snd (post_sign sd now (rq_body req) st) \<noteq> st" using assms unfolding client by simp
  then obtain rq digest answer key where "sign_begin sd (rq_body req) (ss_seen st) = Inr (rq, digest)"
      "sd_signDigest sd digest (ss_key st) = (answer, key)"
      "post_sign sd now (rq_body req) st = (fst (sign_finish sd now rq digest answer (ss_seen st)),
        st\<lparr>ss_seen := snd (sign_finish sd now rq digest answer (ss_seen st)), ss_key := key\<rparr>)"
    using post_sign_cases [of sd "rq_body req" st now] by auto
  then show ?thesis using that unfolding sign_begin_Inr body client post by auto
qed

section \<open>End to end\<close>

lemma typed_data_fields:
  "t_from (td_message_of (payment_typed_data env ns m c amount n)) = pe_payingWallet env"
  "t_to (td_message_of (payment_typed_data env ns m c amount n)) = m_settlementRecipient m"
  "t_value (td_message_of (payment_typed_data env ns m c amount n)) = amount"
  "t_validAfter (td_message_of (payment_typed_data env ns m c amount n)) = ns - 5"
  "t_validBefore (td_message_of (payment_typed_data env ns m c amount n)) =
     ns - 5 + min (m_maxAuthValiditySeconds m) (c_maxTimeoutSeconds c)"
  "t_nonce (td_message_of (payment_typed_data env ns m c amount n)) = n"
  "d_verifyingContract (td_domain_of (payment_typed_data env ns m c amount n)) = c_asset c"
  by (simp_all add: payment_typed_data_def buildTypedData_def)

text \<open>The digits of a 32-byte value, in lower case and without their prefix.\<close>

definition bare_hex :: "hex \<Rightarrow> string" where
  "bare_hex h = (let l = to_lower h in if take 2 l = ''0x'' then drop 2 l else l)"

lemma commitment_text:
  assumes "commitment env k m i dn = Inr n"
  shows "n = pe_keccak_hex env (''0x'' @ bare_hex (pe_keccak_text env k) @
    bare_hex (hashPolicy (pe_keccak_text env) m) @ bare_hex (i_instructionHash i) @ bare_hex (pe_keccak_text env dn))"
  using assms by (auto simp: commitment_def buildCommitmentNonce_def strip_def bare_hex_def Let_def split: if_splits)

lemma authorised_amount:
  assumes "payment_authorised env now k mid amount c item i m l"
  obtains a p where "js_bigint amount = Some a" "js_bigint (m_maxPerCard m) = Some p" "a \<le> p"
    "5000000 \<le> a" "a \<le> 30000000"
  using assms unfolding payment_authorised_def payment_allowed_def payment_context_def by auto

text \<open>The only transfer a payment may have signed: every field of the EIP-712 message, on the token and the
  domain of the challenge.\<close>

definition signed_transfer ::
    "x402_requirements \<Rightarrow> address \<Rightarrow> address \<Rightarrow> string \<Rightarrow> int \<Rightarrow> int \<Rightarrow> hex \<Rightarrow> typed_data" where
  "signed_transfer c payer payee amount after till n =
     \<lparr>td_domain_of = \<lparr>d_name = x_name (c_extra c), d_version = x_version (c_extra c),
        d_chainId = c_chainId c, d_verifyingContract = to_lower (c_asset c)\<rparr>,
      td_primaryType = ''TransferWithAuthorization'',
      td_types = [(''from'', ''address''), (''to'', ''address''), (''value'', ''uint256''),
        (''validAfter'', ''uint256''), (''validBefore'', ''uint256''), (''nonce'', ''bytes32'')],
      td_message_of = \<lparr>t_from = to_lower payer, t_to = to_lower payee, t_value = amount,
        t_validAfter = after, t_validBefore = till, t_nonce = to_lower n\<rparr>\<rparr>"

text \<open>C3. End to end: when a payment request changes the signer's state at all, the payment was authorised by the
  policy service against the ledger and the registry, the signer itself allowed the very same transfer, and
  the key was asked, once, to sign exactly that transfer: from the paying wallet to the mandate's recipient, of the
  requested amount, valid from five seconds ago for the shorter of the mandate's and the challenge's time,
  on the token and domain of the challenge, its nonce the hash over the request id, the policy hash, the
  instruction hash and the merchant.  The recipient is the pinned one, the amount is within the mandate, the hard
  cap and the pinned ceiling, and the validity window is at most 600 seconds.\<close>

theorem signature_end_to_end:
  assumes "payment_request (wired env sd stok gd gtok tok rid snow chain) now body w = (r, w')"
    and "wd_signer w' \<noteq> wd_signer w"
  shows "\<exists>k mid amount c item i m n a entry hardMax.
    pb_requestId body = Some k \<and> pb_mandateId body = Some mid \<and> pb_requestedAmount body = Some amount \<and>
    payment_authorised (wired env sd stok gd gtok tok rid snow chain) now k mid amount c item i m (wd_ledger w) \<and>
    commitment (wired env sd stok gd gtok tok rid snow chain) k m i (r_merchantDomain item) = Inr n \<and>
    k \<notin> set (ss_seen (wd_signer w)) \<and>
    jget (sd_pinned sd) (to_lower mid) = Some entry \<and>
    to_lower (m_settlementRecipient m) = p_settlementRecipient entry \<and>
    js_bigint amount = Some a \<and> js_bigint (p_hardMaxTotal entry) = Some hardMax \<and>
    5000000 \<le> a \<and> a \<le> min 30000000 hardMax \<and> a \<le> the (js_bigint (m_maxPerCard m)) \<and>
    min (m_maxAuthValiditySeconds m) (c_maxTimeoutSeconds c) \<le> 600 \<and>
    pb_challenge body = Some c \<and> pb_resolvedItem body = Some item \<and>
    n = pe_keccak_hex env (''0x'' @ bare_hex (pe_keccak_text env k) @
      bare_hex (hashPolicy (pe_keccak_text env) m) @ bare_hex (i_instructionHash i) @
      bare_hex (pe_keccak_text env (r_merchantDomain item))) \<and>
    ss_key (wd_signer w') = snd (sd_signDigest sd (sd_hashTypedData sd
      (signed_transfer c (pe_payingWallet env) (m_settlementRecipient m) amount (nowSec now - 5)
        (nowSec now - 5 + min (m_maxAuthValiditySeconds m) (c_maxTimeoutSeconds c)) n)) (ss_key (wd_signer w)))"
proof -
  let ?e = "wired env sd stok gd gtok tok rid snow chain"
  have sign: "pe_sign ?e = sign_client sd stok tok rid snow"
      "pe_payingWallet ?e = pe_payingWallet env" "pe_keccak_text ?e = pe_keccak_text env"
      "pe_keccak_hex ?e = pe_keccak_hex env" by (simp_all add: wired_def)
  have change: "wd_signer (snd (payment_request ?e now body w)) \<noteq> wd_signer w" using assms by simp
  obtain k mid amount c item i m n where b: "pb_requestId body = Some k" "pb_mandateId body = Some mid"
      "pb_requestedAmount body = Some amount" "pb_challenge body = Some c" "pb_resolvedItem body = Some item"
      "payment_authorised ?e now k mid amount c item i m (wd_ledger w)"
      "commitment ?e k m i (r_merchantDomain item) = Inr n"
      "wd_signer (snd (payment_request ?e now body w)) =
       snd (pe_sign ?e k mid (payment_typed_data ?e (nowSec now) m c amount n) (x402_accepted.truncate c)
         CARDAPI_SANDBOX_ISSUE_CARD (wd_signer w))"
    by (rule payment_consults [OF change])
  let ?td = "payment_typed_data ?e (nowSec now) m c amount n"
  have used: "snd (sign_client sd stok tok rid snow k mid ?td
         (x402_accepted.truncate c) CARDAPI_SANDBOX_ISSUE_CARD (wd_signer w)) \<noteq> wd_signer w"
    using change unfolding b(8) sign .
  obtain rq where rq: "parseSignBody (Some (sign_body_json k mid ?td
        (x402_accepted.truncate c) CARDAPI_SANDBOX_ISSUE_CARD)) = Inr rq"
      "sign_allowed sd rq (ss_seen (wd_signer w))"
    and key: "ss_key (snd (sign_client sd stok tok rid snow k mid ?td
        (x402_accepted.truncate c) CARDAPI_SANDBOX_ISSUE_CARD (wd_signer w))) = snd (sd_signDigest sd
       (sd_hashTypedData sd (buildTransferWithAuthorizationTypedData (sr_typedData rq))) (ss_key (wd_signer w)))"
    using sign_client_allowed [OF used] .
  note f = parse_sign_body_json [OF rq(1), unfolded typed_data_fields sign]
  have named: "buildTransferWithAuthorizationTypedData (sr_typedData rq) = signed_transfer c
      (pe_payingWallet env) (m_settlementRecipient m) amount (nowSec now - 5)
      (nowSec now - 5 + min (m_maxAuthValiditySeconds m) (c_maxTimeoutSeconds c)) n"
    using f by (simp add: buildTransferWithAuthorizationTypedData_def signed_transfer_def
      payment_typed_data_def buildTypedData_def)
  obtain a p where a: "js_bigint amount = Some a" "js_bigint (m_maxPerCard m) = Some p" "a \<le> p"
      "5000000 \<le> a" "a \<le> 30000000"
    using authorised_amount [OF b(6)] .
  obtain entry hardMax where "jget (sd_pinned sd) (to_lower mid) = Some entry"
      "to_lower (m_settlementRecipient m) = p_settlementRecipient entry"
      "js_bigint (p_hardMaxTotal entry) = Some hardMax" "a \<le> hardMax"
    using rq(2) f a(1) unfolding sign_allowed_def Let_def by auto
  moreover have "k \<notin> set (ss_seen (wd_signer w))"
      "min (m_maxAuthValiditySeconds m) (c_maxTimeoutSeconds c) \<le> 600"
    using rq(2) f unfolding sign_allowed_def Let_def by auto
  moreover note commitment_text [OF b(7), unfolded sign]
  moreover have "wd_signer w' = snd (sign_client sd stok tok rid snow k mid ?td
        (x402_accepted.truncate c) CARDAPI_SANDBOX_ISSUE_CARD (wd_signer w))"
    using assms(1) b(8) sign(1) by simp
  moreover note key [unfolded named]
  ultimately show ?thesis using b a
    by (intro exI [of _ k] exI [of _ mid] exI [of _ amount] exI [of _ c] exI [of _ item] exI [of _ i]
        exI [of _ m] exI [of _ n] exI [of _ a] exI [of _ entry] exI [of _ hardMax]) simp
qed

section \<open>The registry\<close>

lemma gateway_mandate_reply:
  assumes "fst (gateway_app gd gtok now (Some (GetMandate m c)) req st) = Reply n (MandateReply b)"
  shows "\<exists>s'. mandate_route (gd_client gd) (gd_getAddress gd) (gd_registry gd) m c (snd st) = (Inr b, s')"
proof -
  obtain r s' where r: "mandate_route (gd_client gd) (gd_getAddress gd) (gd_registry gd) m c (snd st) = (r, s')"
    by (meson surj_pair)
  then show ?thesis using assms
    by (cases r) (auto simp: gateway_app_def serve_def gateway_handle_def on_chain_def errorHandler_def
        split: sum.splits js_error.splits if_splits)
qed

lemma getMandate_Some:
  assumes "getMandate gd gtok tok rid chain mid c = Inr (Some reg)"
  shows "\<exists>addr ow h. requireRegistryAddress (gd_registry gd) c = Inr addr \<and>
    fst (cl_registryGet (gd_client gd) c addr (to_lower mid) chain) =
      Inr (ow, h, rm_expiresAt reg, rm_revoked reg) \<and> to_lower ow \<noteq> ZERO_ADDRESS \<and>
    rm_policyHash reg = to_lower h"
proof -
  obtain n b where g: "fst (gateway_app gd gtok 0 (Some (GetMandate (Some (JStr mid)) (Some (JStr (dec_int c)))))
      (client_request ''GET'' (''/mandate/'' @ mid @ ''?chainId='' @ dec_int c) tok None rid)
      (Map.empty, chain)) = Reply n (MandateReply b)" and
    reg: "reg = \<lparr>rm_owner = mr_owner b, rm_policyHash = mr_policyHash b, rm_expiresAt = mr_expiresAt b,
      rm_revoked = mr_revoked b\<rparr>"
    using assms by (auto simp: getMandate_def Let_def split: if_splits reply.splits gateway_reply.splits)
  obtain s' where "mandate_route (gd_client gd) (gd_getAddress gd) (gd_registry gd) (Some (JStr mid))
      (Some (JStr (dec_int c))) chain = (Inr b, s')"
    using gateway_mandate_reply [OF g] by auto
  then show ?thesis unfolding mandate_route_def reg
    by (auto simp: rpc_Inr parse_Inr split: if_splits)
qed

text \<open>What the registry answered in the read of a payment that consults the signer.\<close>

lemma consulted_mandate_live:
  assumes "payment_request (wired env sd stok gd gtok tok rid snow chain) now body w = (r, w')"
    and "wd_signer w' \<noteq> wd_signer w"
  shows "\<exists>mid m addr ow h t. pb_mandateId body = Some mid \<and>
    map_option pr_policy (jget (l_policies (wd_ledger w)) mid) = Some m \<and>
    requireRegistryAddress (gd_registry gd) (m_chainId m) = Inr addr \<and>
    fst (cl_registryGet (gd_client gd) (m_chainId m) addr (to_lower mid) chain) = Inr (ow, h, t, False) \<and>
    to_lower ow \<noteq> ZERO_ADDRESS \<and> nowSec now < t \<and>
    to_lower h = to_lower (hashPolicy (pe_keccak_text env) m)"
proof -
  let ?e = "wired env sd stok gd gtok tok rid snow chain"
  have change: "wd_signer (snd (payment_request ?e now body w)) \<noteq> wd_signer w" using assms by simp
  obtain k mid amount c item i m where b: "pb_mandateId body = Some mid"
      "payment_authorised ?e now k mid amount c item i m (wd_ledger w)"
    by (rule payment_consults [OF change])
  from b(2) obtain reg where reg: "pe_registry ?e mid (m_chainId m) = Inr (Some reg)" "\<not> rm_revoked reg"
      "nowSec now < rm_expiresAt reg" "to_lower (hashPolicy (pe_keccak_text ?e) m) = to_lower (rm_policyHash reg)"
    and m: "map_option pr_policy (jget (l_policies (wd_ledger w)) mid) = Some m"
    unfolding payment_authorised_def payment_allowed_def payment_context_def by auto
  have "getMandate gd gtok tok rid chain mid (m_chainId m) = Inr (Some reg)"
    using reg(1) by (simp add: wired_def)
  from getMandate_Some [OF this] reg(2-4) b(1) m show ?thesis
    by (auto simp: wired_def)
qed

text \<open>C20. The signer is consulted only for a mandate that the registry contract itself reported, in the read for this
  request, as owned, not revoked, not expired and committed to the hash of the stored policy.\<close>

theorem signed_mandate_live_on_chain:
  assumes "payment_request (wired env sd stok gd gtok tok rid snow chain) now body w = (r, w')"
    and "wd_signer w' \<noteq> wd_signer w"
  shows "\<exists>mid m addr ow h t. pb_mandateId body = Some mid \<and>
    map_option pr_policy (jget (l_policies (wd_ledger w)) mid) = Some m \<and>
    requireRegistryAddress (gd_registry gd) (m_chainId m) = Inr addr \<and>
    fst (cl_registryGet (gd_client gd) (m_chainId m) addr (to_lower mid) chain) = Inr (ow, h, t, False) \<and>
    to_lower ow \<noteq> ZERO_ADDRESS \<and> nowSec now < t \<and>
    to_lower h = to_lower (hashPolicy (pe_keccak_text env) m)"
  by (rule consulted_mandate_live [OF assms])

section \<open>An outage of the chain\<close>

lemma mandate_route_outage:
  assumes "is_hex_of_length 64 mid" "isSupportedChainId c" "requireRegistryAddress file c = Inr addr"
    "cl_registryGet client c addr (to_lower mid) s = (Inl err, s')"
  shows "mandate_route client ga file (Some (JStr mid)) (Some (JStr (dec_int c))) s =
    (Inl (rpc_failure (''reading mandate on chain '' @ dec_int c) err), s')"
proof -
  have ne: "dec_int c \<noteq> []" by (simp add: dec_int_def)
  have "parseChainId (Some (JStr (dec_int c))) = Inr c" "parseMandateId (Some (JStr mid)) = Inr (to_lower mid)"
    using assms(1,2) ne by (simp_all add: parse_Inr)
  then show ?thesis using assms(3,4)
    by (simp add: mandate_route_def rpc_then_def withRpc_def plain_call_def)
qed

lemma getMandate_outage:
  assumes "is_hex_of_length 64 mid" "isSupportedChainId c" "requireRegistryAddress (gd_registry gd) c = Inr addr"
    "cl_registryGet (gd_client gd) c addr (to_lower mid) chain = (Inl err, s')"
  shows "\<exists>e. getMandate gd gtok tok rid chain mid c = Inl e"
proof -
  define req where "req = client_request ''GET'' (''/mandate/'' @ mid @ ''?chainId='' @ dec_int c) tok None rid"
  have "\<exists>n e. fst (gateway_app gd gtok 0 (Some (GetMandate (Some (JStr mid)) (Some (JStr (dec_int c)))))
      req (Map.empty, chain)) = ErrReply n e \<and> n \<noteq> 404"
  proof (cases "internalAuth gtok req")
    case (Inl e)
    then have "thrown_status e = Some 401" by (rule internalAuth_refuses)
    with Inl show ?thesis by (cases e) (auto simp: gateway_app_def serve_def errorHandler_def)
  next
    case (Inr u)
    then show ?thesis
      using mandate_route_outage [OF assms]
      by (auto simp: gateway_app_def serve_def gateway_handle_def on_chain_def
          rpc_failure_def rpcTimeout_def rpcFailed_def mk_app_error_def errorHandler_def)
  qed
  then show ?thesis by (auto simp: getMandate_def req_def Let_def)
qed

lemma registry_error:
  assumes "pe_registry env mid (m_chainId m) = Inl e"
  shows "\<exists>e'. decidePayment env now k mid amount c item i m w = (Inl e', w)"
  using assms
  by (cases "get_window (pe_date_other env) now mid (Some (m_windowSeconds m)) (Some (m_maxPerWindow m))
        (wd_ledger w)")
    (simp_all add: decidePayment_def Let_def getWindowUsage_def expect_ok_def)

text \<open>C22. An outage of the chain is never a refusal: when the RPC fails, the payment request ends in a server error and
  changes nothing, so no decision against the payment is recorded and the signer is not consulted.\<close>

theorem rpc_outage_is_no_refusal:
  assumes "pb_requestId body = Some k" "pb_mandateId body = Some mid" "pb_requestedAmount body = Some amount"
    "pb_challenge body = Some c" "k \<noteq> []" "amount \<noteq> []"
    "pb_resolvedItem body = Some item" "js_trim (r_merchantDomain item) \<noteq> []"
    "jget (l_intents (wd_ledger w)) k = Some i" "jget (l_policies (wd_ledger w)) mid = Some p"
    and "is_hex_of_length 64 mid" "isSupportedChainId (m_chainId (pr_policy p))"
    "requireRegistryAddress (gd_registry gd) (m_chainId (pr_policy p)) = Inr addr"
    "fst (cl_registryGet (gd_client gd) (m_chainId (pr_policy p)) addr (to_lower mid) chain) = Inl err"
  shows "\<exists>msg. payment_request (wired env sd stok gd gtok tok rid snow chain) now body w = (ServerError msg, w)"
proof -
  let ?e = "wired env sd stok gd gtok tok rid snow chain" let ?m = "pr_policy p"
  have "mid \<noteq> []" using assms(11) by (auto simp: is_hex_of_length_def)
  note io = payment_request_io [OF assms(1-4) assms(5) this assms(6-10), of ?e now]
  obtain s' where "cl_registryGet (gd_client gd) (m_chainId ?m) addr (to_lower mid) chain = (Inl err, s')"
    using assms(14) by (metis prod.collapse)
  then obtain e where "getMandate gd gtok tok rid chain mid (m_chainId ?m) = Inl e"
    using getMandate_outage [OF assms(11-13)] by blast
  then have "pe_registry ?e mid (m_chainId ?m) = Inl e" by (simp add: wired_def)
  from registry_error [OF this, of now k amount c item i w] show ?thesis
    unfolding io by (auto simp: respond_def uncaught_def)
qed

end
