(* ===== verification/Wiring_Witnesses.thy ===== *)
theory Wiring_Witnesses
  imports Wiring_Properties Samples Signer_Witnesses Chain_Witnesses
begin

text \<open>
  One payment through the three services: the ledger holds its intent, challenge and policy, the
  registry reports the mandate, and the signer has it pinned.
\<close>

definition wired_mandate :: mandate where
  "wired_mandate = sample_mandate\<lparr>m_mandateId := word32, m_owner := wallet, m_asset := payee,
     m_settlementRecipient := payee\<rparr>"

definition wired_challenge :: x402_requirements where
  "wired_challenge = sample_challenge\<lparr>c_asset := payee, c_payTo := payee\<rparr>"

definition wired_item :: resolved_item where
  "wired_item = sample_item"

definition wired_body :: payment_body where
  "wired_body = \<lparr>pb_requestId = Some ''r'', pb_mandateId = Some word32,
     pb_requestedAmount = Some ''7000000'', pb_challenge = Some wired_challenge,
     pb_resolvedItem = Some wired_item\<rparr>"

definition wired_world :: "nat signer_state world" where
  "wired_world = \<lparr>wd_ledger = ledger_run toy_hash
     [(0, PostIntent (Some ''r'') (Some word32) (Some ''agent'') (Some ''buy red shoes'')
        (Some ''1970-01-01T00:00:00.000Z'')),
      (5, PostChallenge ''r'' (Some wired_challenge)),
      (6, PutPolicy word32 (Some wired_mandate))] empty_ledger, wd_signer = start_state\<rparr>"

definition base_env :: "nat signer_state policy_env" where
  "base_env = \<lparr>pe_keccak_text = toy_hash, pe_keccak_hex = toy_hash, pe_date_other = (\<lambda>s. None),
     pe_verify = (\<lambda>a m s. Inr True), pe_registry = (\<lambda>m c. Inr None),
     pe_sign = (\<lambda>k m td ac re s. (Inl (JsError []), s)),
     pe_payingWallet = wallet, pe_maxSaneValiditySeconds = 300, pe_escalationTtlSeconds = 300,
     pe_dashboardUrl = ''http://d''\<rparr>"

text \<open>The registry answers with the constant hash, or fails when its state is 9.\<close>

definition registry_deps :: "nat gateway_deps" where
  "registry_deps = \<lparr>gd_client = toy_client\<lparr>cl_registryGet := (\<lambda>c r m s.
       if s = 9 then (Inl (RpcError None None ''down'' None), s)
       else (Inr (wallet, toy_hash [], 2000, False), s + 1))\<rparr>,
     gd_getAddress = (\<lambda>s. s), gd_decode = toy_decode, gd_encode_revoke = (\<lambda>s. s),
     gd_registry = registry_addresses\<rparr>"

abbreviation wired_env :: "nat \<Rightarrow> nat signer_state policy_env" where
  "wired_env chain \<equiv> wired base_env sample_deps (Some ''tok'') registry_deps (Some ''tok'') ''tok'' ''id'' 0 chain"

lemma wired_signed:
  "ss_key (wd_signer (snd (payment_request (wired_env 0) 1000000 wired_body wired_world))) = 1"
  by code_simp

lemma wired_changed:
  "wd_signer (snd (payment_request (wired_env 0) 1000000 wired_body wired_world)) \<noteq> wd_signer wired_world"
proof
  assume "wd_signer (snd (payment_request (wired_env 0) 1000000 wired_body wired_world)) = wd_signer wired_world"
  with wired_signed show False by (simp add: wired_world_def)
qed

lemma signature_end_to_end_witness:
  "\<exists>entry a hardMax. jget (sd_pinned sample_deps) (to_lower word32) = Some entry \<and>
     js_bigint (p_hardMaxTotal entry) = Some hardMax \<and> js_bigint ''7000000'' = Some a \<and> a \<le> hardMax"
  using signature_end_to_end [OF prod.collapse [symmetric] wired_changed]
  by (auto simp: wired_body_def)

lemma signed_mandate_live_on_chain_witness:
  "\<exists>ow h t. to_lower h = to_lower (toy_hash (serialise wired_mandate)) \<and> 1000 < (t :: int) \<and>
     to_lower ow \<noteq> ZERO_ADDRESS"
  using signed_mandate_live_on_chain [OF prod.collapse [symmetric] wired_changed]
  by (auto simp: base_env_def hashPolicy_def toy_hash_def)

lemma rpc_outage_is_no_refusal_witness:
  "\<exists>msg. payment_request (wired_env 9) 1000000 wired_body wired_world = (ServerError msg, wired_world)"
proof -
  have i: "\<not> Option.is_none (jget (l_intents (wd_ledger wired_world)) ''r'')"
    "map_option pr_policy (jget (l_policies (wd_ledger wired_world)) word32) = Some wired_mandate"
    by (code_simp, code_simp)
  then obtain i p where p: "jget (l_intents (wd_ledger wired_world)) ''r'' = Some i"
      "jget (l_policies (wd_ledger wired_world)) word32 = Some p" "pr_policy p = wired_mandate"
    by (auto simp: Option.is_none_def)
  have c: "m_chainId wired_mandate = 43113" "is_hex_of_length 64 word32"
    "js_trim (r_merchantDomain wired_item) \<noteq> []" by (code_simp, code_simp, code_simp)
  have r: "requireRegistryAddress (gd_registry registry_deps) 43113 =
      Inr ''0x47b9b484944d95bc04888e40ad585462a06e7c6d''"
    by code_simp
  show ?thesis
    by (rule rpc_outage_is_no_refusal [where amount = "''7000000''", OF _ _ _ _ _ _ _ c(3) p(1,2) c(2) _ r [folded c(1), folded p(3)]])
      (simp_all add: wired_body_def c(1) p(3) isSupportedChainId_def registry_deps_def)
qed

end
