(* ===== verification/Run_Store.thy ===== *)
theory Run_Store
  imports Contract_Types Js_Date "HOL-Library.Multiset"
begin

text \<open>
  \<open>services/agent-orchestrator/src/run/store.ts\<close>: the in-memory record of a run, its state, its
  numbered events and the subscribers of its event stream.  A subscriber is the callback that
  \<open>GET /run/:requestId/events\<close> registers (\<open>routes/run.ts\<close>), named by its connection: what it
  writes and whether it ended the response is the stream of that connection.
\<close>

section \<open>Types\<close>

datatype run_stage =
    Stage_INTENT_CREATED | Stage_DISCOVERY_DONE | Stage_CHECKOUT_ACQUIRED
  | Stage_CHALLENGE_RECEIVED | Stage_POLICY_DECISION | Stage_CARD_ISSUED
  | Stage_CHECKOUT_ASSERTED | Stage_SPEND_RECORDED | Stage_SETTLEMENT_FINALIZED

datatype event_status = Ev_ok | Ev_refused | Ev_escalated

record run_event =
  rev_seq :: nat
  rev_stage :: run_stage
  rev_status :: "event_status option"
  rev_check :: "string option"
  rev_at :: string

datatype run_state =
    Run_RUNNING | Run_ESCALATED | Run_AWAITING_CHECKOUT | Run_DONE | Run_REFUSED | Run_FAILED

definition isTerminalRunState :: "run_state \<Rightarrow> bool" where
  "isTerminalRunState state \<longleftrightarrow> state = Run_DONE \<or> state = Run_REFUSED \<or> state = Run_FAILED"

text \<open>The fields of each outcome, in the order of the source.\<close>

datatype run_outcome =
    Out_refused string "int option" string string
  | Out_escalated string string int int
  | Out_checkout_pending string string
  | Out_signed string string
  | Out_failed string bool

record shopify_checkout =
  sc_storeDomain :: string
  sc_checkoutSessionId :: string
  sc_title :: string
  sc_sku :: string
  sc_totalBaseUnits :: string
  sc_currency :: string
  sc_checkoutJwt :: "string option"

datatype run_source =
    Source_fixture string
  | Source_merchant string
  | Source_shopify shopify_checkout

record run_meta =
  me_instruction :: string
  me_mandateId :: string
  me_agentId :: string
  me_source :: run_source
  me_fixture :: "string option"
  me_checkoutSessionId :: "string option"
  me_productUrl :: string

record run_record =
  ru_requestId :: string
  ru_meta :: run_meta
  ru_createdAt :: string
  ru_state :: run_state
  ru_events :: "run_event list"
  ru_resolvedItem :: "resolved_item option"
  ru_outcome :: "run_outcome option"
  ru_subscribers :: "nat list"

text \<open>\<open>Omit<RunRecord, "events" | "subscribers">\<close>.\<close>

record run_summary =
  rs_requestId :: string
  rs_meta :: run_meta
  rs_createdAt :: string
  rs_state :: run_state
  rs_resolvedItem :: "resolved_item option"
  rs_outcome :: "run_outcome option"

text \<open>An event stream: the events written to the response, and whether the response was ended.\<close>

record event_stream =
  es_written :: "run_event list"
  es_ended :: bool

record run_store =
  st_runs :: "run_record jsmap"
  st_streams :: "nat \<Rightarrow> event_stream option"

section \<open>Operations\<close>

definition createRun :: "int \<Rightarrow> string \<Rightarrow> run_meta \<Rightarrow> run_store \<Rightarrow> run_store" where
  "createRun now requestId meta s = s\<lparr>st_runs := jset requestId
     \<lparr>ru_requestId = requestId, ru_meta = meta, ru_createdAt = toISOString now,
      ru_state = Run_RUNNING, ru_events = [], ru_resolvedItem = None, ru_outcome = None,
      ru_subscribers = []\<rparr> (st_runs s)\<rparr>"

definition getRun :: "string \<Rightarrow> run_store \<Rightarrow> run_record option" where
  "getRun requestId s = jget (st_runs s) requestId"

definition summary_of :: "run_record \<Rightarrow> run_summary" where
  "summary_of r = \<lparr>rs_requestId = ru_requestId r, rs_meta = ru_meta r, rs_createdAt = ru_createdAt r,
     rs_state = ru_state r, rs_resolvedItem = ru_resolvedItem r, rs_outcome = ru_outcome r\<rparr>"

text \<open>
  A stable insertion sort, newest first; \<open>later a b\<close> is \<open>b.createdAt.localeCompare(a.createdAt) < 0\<close>,
  the host's collation.
\<close>

fun insert_newest :: "(string \<Rightarrow> string \<Rightarrow> bool) \<Rightarrow> run_summary \<Rightarrow> run_summary list \<Rightarrow> run_summary list" where
  "insert_newest later x [] = [x]"
| "insert_newest later x (y # ys) =
     (if later (rs_createdAt y) (rs_createdAt x) then y # insert_newest later x ys else x # y # ys)"

definition listRuns :: "(string \<Rightarrow> string \<Rightarrow> bool) \<Rightarrow> run_store \<Rightarrow> run_summary list" where
  "listRuns later s = foldr (insert_newest later) (map summary_of (jvalues (st_runs s))) []"

text \<open>The setters do nothing when the run is unknown.\<close>

definition update_run :: "string \<Rightarrow> (run_record \<Rightarrow> run_record) \<Rightarrow> run_store \<Rightarrow> run_store" where
  "update_run requestId f s = (case getRun requestId s of
      None \<Rightarrow> s
    | Some run \<Rightarrow> s\<lparr>st_runs := jset requestId (f run) (st_runs s)\<rparr>)"

definition setRunState :: "string \<Rightarrow> run_state \<Rightarrow> run_store \<Rightarrow> run_store" where
  "setRunState requestId state = update_run requestId (\<lambda>run. run\<lparr>ru_state := state\<rparr>)"

definition setDiscoveredItem :: "string \<Rightarrow> resolved_item \<Rightarrow> run_store \<Rightarrow> run_store" where
  "setDiscoveredItem requestId item = update_run requestId (\<lambda>run. run\<lparr>ru_resolvedItem := Some item\<rparr>)"

definition setOutcome :: "string \<Rightarrow> run_outcome \<Rightarrow> run_store \<Rightarrow> run_store" where
  "setOutcome requestId out = update_run requestId (\<lambda>run. run\<lparr>ru_outcome := Some out\<rparr>)"

text \<open>
  The callback of a stream: it writes the event and ends the response when the run is in a
  terminal state at that moment.  A write to an ended response is lost.
\<close>

definition on_event :: "run_state \<Rightarrow> run_event \<Rightarrow> event_stream \<Rightarrow> event_stream" where
  "on_event state event str =
     (if es_ended str then str
      else str\<lparr>es_written := es_written str @ [event], es_ended := isTerminalRunState state\<rparr>)"

fun notify :: "run_state \<Rightarrow> run_event \<Rightarrow> nat list \<Rightarrow> (nat \<Rightarrow> event_stream option) \<Rightarrow>
    (nat \<Rightarrow> event_stream option)" where
  "notify state event [] streams = streams"
| "notify state event (c # cs) streams =
     notify state event cs (streams(c := map_option (on_event state event) (streams c)))"

definition emitEvent ::
    "int \<Rightarrow> string \<Rightarrow> run_stage \<Rightarrow> event_status option \<Rightarrow> string option \<Rightarrow> run_store \<Rightarrow>
     (js_error + run_event) \<times> run_store" where
  "emitEvent now requestId stage status check s = (case getRun requestId s of
      None \<Rightarrow> (Inl (JsError (''no run for '' @ requestId)), s)
    | Some run \<Rightarrow>
        let full = \<lparr>rev_seq = length (ru_events run) + 1, rev_stage = stage, rev_status = status,
              rev_check = check, rev_at = toISOString now\<rparr>
        in (Inr full, s\<lparr>st_runs := jset requestId (run\<lparr>ru_events := ru_events run @ [full]\<rparr>) (st_runs s),
             st_streams := notify (ru_state run) full (ru_subscribers run) (st_streams s)\<rparr>))"

text \<open>A set of callbacks keeps the order in which they were added.\<close>

definition subscribe :: "string \<Rightarrow> nat \<Rightarrow> run_store \<Rightarrow> (js_error + unit) \<times> run_store" where
  "subscribe requestId conn s = (case getRun requestId s of
      None \<Rightarrow> (Inl (JsError (''no run for '' @ requestId)), s)
    | Some run \<Rightarrow> (Inr (), update_run requestId
        (\<lambda>r. r\<lparr>ru_subscribers := (if conn \<in> set (ru_subscribers r) then ru_subscribers r
                                  else ru_subscribers r @ [conn])\<rparr>) s))"

definition unsubscribe :: "string \<Rightarrow> nat \<Rightarrow> run_store \<Rightarrow> run_store" where
  "unsubscribe requestId conn =
     update_run requestId (\<lambda>r. r\<lparr>ru_subscribers := remove1 conn (ru_subscribers r)\<rparr>)"

section \<open>Lemmas\<close>

lemma getRun_update [simp]:
  "getRun k (update_run r f s) = (if k = r then map_option f (getRun r s) else getRun k s)"
  by (auto simp: update_run_def getRun_def update_conv' split: option.splits)

lemma getRun_set [simp]: "getRun k (s\<lparr>st_runs := jset r x (st_runs s)\<rparr>) = (if k = r then Some x else getRun k s)"
  "getRun k (s\<lparr>st_streams := f\<rparr>) = getRun k s"
  by (auto simp: getRun_def update_conv')

lemma getRun_create [simp]: "getRun k (createRun now r m s) =
    (if k = r then Some \<lparr>ru_requestId = r, ru_meta = m, ru_createdAt = toISOString now,
      ru_state = Run_RUNNING, ru_events = [], ru_resolvedItem = None, ru_outcome = None,
      ru_subscribers = []\<rparr> else getRun k s)"
  by (simp add: createRun_def)

lemma streams_update [simp]: "st_streams (update_run r f s) = st_streams s"
  "st_streams (createRun now r m s) = st_streams s"
  by (auto simp: update_run_def createRun_def split: option.splits)

lemma insert_newest_set: "mset (insert_newest later x xs) = add_mset x (mset xs)"
  by (induction xs) auto

lemma listRuns_mset: "mset (listRuns later s) = mset (map summary_of (jvalues (st_runs s)))"
proof -
  have "mset (foldr (insert_newest later) xs []) = mset xs" for xs
    by (induction xs) (auto simp: insert_newest_set)
  then show ?thesis by (simp add: listRuns_def)
qed

lemma notify_other: "c \<notin> set cs \<Longrightarrow> notify st e cs f c = f c"
  by (induction st e cs f rule: notify.induct) auto

lemma notify_ended:
  assumes "notify st e cs f c = Some str" "es_ended str" "\<not> isTerminalRunState st"
  shows "\<exists>str'. f c = Some str' \<and> es_ended str'"
  using assms
proof (induction st e cs f rule: notify.induct)
  case (2 state event d ds streams)
  then show ?case by (auto simp: on_event_def fun_upd_def split: if_splits)
qed simp

end
