(* ===== verification/Discovery.thy ===== *)
theory Discovery
  imports Run_Store
begin

text \<open>
  \<open>services/agent-orchestrator/src/discovery\<close>, \<open>checkout/merchant-profiles.ts\<close> and
  \<open>post-issuance/assert-checkout-domain.ts\<close>: what a run buys, resolved from a page or from a
  signed checkout snapshot, the price in base units, and the assertion that the browser is on the
  discovered checkout page.  The browser, the host's \<open>URL\<close> class and its \<open>RegExp\<close> engine on a
  configured pattern are arguments.
\<close>

section \<open>The host\<close>

text \<open>
  The components of a parsed URL that the code reads.  \<open>parse s base\<close> is \<open>new URL(s, base)\<close>;
  \<open>None\<close> is the \<open>TypeError\<close> it throws.
\<close>

record url =
  u_protocol :: string
  u_origin :: string
  u_hostname :: string
  u_pathname :: string
  u_search :: string
  u_searchParams :: "(string \<times> string) list"
  u_hash :: string
  u_username :: string
  u_password :: string
  u_href :: string

type_synonym url_parser = "string \<Rightarrow> string option \<Rightarrow> url option"

definition new_URL :: "url_parser \<Rightarrow> string \<Rightarrow> string option \<Rightarrow> js_error + url" where
  "new_URL parse s base = (case parse s base of
      None \<Rightarrow> Inl (JsError ''Invalid URL'') | Some u \<Rightarrow> Inr u)"

text \<open>
  A loaded page: its address, the attribute or the text of the first element of a selector (an
  error when the browser finds none in time, \<open>None\<close> for \<open>null\<close>), and the number of elements.
\<close>

record page =
  pg_url :: string
  pg_query :: "string \<Rightarrow> string option \<Rightarrow> js_error + string option"
  pg_count :: "string \<Rightarrow> nat"

section \<open>Merchant profiles\<close>

record extraction =
  ex_title :: string
  ex_sku :: string
  ex_price :: string
  ex_checkoutLink :: string

record card_selectors =
  cs_number :: string
  cs_expiry :: string
  cs_cvc :: string

record confirmation_selectors =
  cf_merchantDomain :: "string option"
  cf_orderTotal :: string
  cf_itemSku :: string
  cf_orderId :: string
  cf_timestamp :: "string option"

record merchant_profile =
  mp_profileId :: string
  mp_productUrl :: string
  mp_allowedHosts :: "string list"
  mp_checkoutUrlPattern :: string
  mp_extraction :: extraction
  mp_cardIframe :: card_selectors
  mp_cardFields :: card_selectors
  mp_submit :: string
  mp_confirmation :: confirmation_selectors

text \<open>The backslash and the characters of \<open>/[.*+?^${}()|[\]\\]/\<close>.\<close>

definition backslash :: char where
  "backslash = char_of (92 :: nat)"

definition regexp_escape :: "string \<Rightarrow> string" where
  "regexp_escape s = concat (map (\<lambda>c.
     if c \<in> set ''.*+?^${}()|[]'' \<or> c = backslash then [backslash, c] else [c]) s)"

text \<open>The checked-in profiles; \<open>fixtureBaseUrl\<close> is a URL, \<open>host\<close> its host name.\<close>

definition MERCHANT_PROFILES :: "string \<Rightarrow> string \<Rightarrow> (string \<times> merchant_profile) list" where
  "MERCHANT_PROFILES fixtureBaseUrl host =
     [(''local-fixture'',
       \<lparr>mp_profileId = ''local-fixture'',
        mp_productUrl = fixtureBaseUrl @ ''/fixtures/clean'',
        mp_allowedHosts = [host],
        mp_checkoutUrlPattern = ''^'' @ regexp_escape fixtureBaseUrl @ ''/checkout/xyz$'',
        mp_extraction = \<lparr>ex_title = ''[data-product]@data-title'', ex_sku = ''[data-product]@data-sku'',
          ex_price = ''[data-product]@data-price'', ex_checkoutLink = ''[data-checkout-url]@href''\<rparr>,
        mp_cardIframe = \<lparr>cs_number = ''[data-card-number]'', cs_expiry = ''[data-card-expiry]'',
          cs_cvc = ''[data-card-cvc]''\<rparr>,
        mp_cardFields = \<lparr>cs_number = ''[name=cardNumber]'', cs_expiry = ''[name=cardExpiry]'',
          cs_cvc = ''[name=cardCvc]''\<rparr>,
        mp_submit = ''[data-submit-order]'',
        mp_confirmation = \<lparr>cf_merchantDomain = Some ''[data-merchant-domain]'',
          cf_orderTotal = ''[data-order-total]'', cf_itemSku = ''[data-order-sku]'',
          cf_orderId = ''[data-order-id]'', cf_timestamp = Some ''[data-order-timestamp]''\<rparr>\<rparr>)]"

text \<open>
  The table is a plain object, so indexing it also finds what it inherits.  \<open>merchant_entry\<close> is
  \<open>MERCHANT_PROFILES[profileId]\<close>: undefined, an inherited value, which is truthy and has none of the
  fields of a profile, or a profile.
\<close>

definition OBJECT_PROTOTYPE :: "string list" where
  "OBJECT_PROTOTYPE = [''constructor'', ''__defineGetter__'', ''__defineSetter__'', ''hasOwnProperty'',
     ''__lookupGetter__'', ''__lookupSetter__'', ''isPrototypeOf'', ''propertyIsEnumerable'', ''toString'',
     ''valueOf'', ''__proto__'', ''toLocaleString'']"

datatype merchant_entry = Undefined_entry | Inherited_entry | Own_entry merchant_profile

definition merchant_entry_of :: "(string \<times> merchant_profile) list \<Rightarrow> string \<Rightarrow> merchant_entry" where
  "merchant_entry_of profiles profileId = (case map_of profiles profileId of
      Some p \<Rightarrow> Own_entry p
    | None \<Rightarrow> if profileId \<in> set OBJECT_PROTOTYPE then Inherited_entry else Undefined_entry)"

text \<open>\<open>None\<close> is an inherited value.\<close>

definition getMerchantProfile ::
    "(string \<times> merchant_profile) list \<Rightarrow> string \<Rightarrow> js_error + merchant_profile option" where
  "getMerchantProfile profiles profileId = (case merchant_entry_of profiles profileId of
      Undefined_entry \<Rightarrow> Inl (JsError (''unknown merchant profile '' @ profileId))
    | Inherited_entry \<Rightarrow> Inr None
    | Own_entry p \<Rightarrow> Inr (Some p))"

text \<open>The first use of a profile's product address: \<open>new URL(undefined)\<close> throws.\<close>

definition readable_profile :: "merchant_profile option \<Rightarrow> js_error + merchant_profile" where
  "readable_profile entry = (case entry of None \<Rightarrow> Inl (JsError ''Invalid URL'') | Some p \<Rightarrow> Inr p)"

section \<open>Prices\<close>

text \<open>\<open>/^(0|[1-9]\d*)(\.\d{1,6})?$/\<close>, as the parts before and behind the point.\<close>

definition price_parts :: "string \<Rightarrow> (string \<times> string) option" where
  "price_parts s =
     (let whole = takeWhile is_digit s; rest = dropWhile is_digit s
      in if whole = [] \<or> (hd whole = CHR ''0'' \<and> whole \<noteq> ''0'') then None
         else if rest = [] then Some (whole, [])
         else if hd rest = CHR ''.'' \<and> is_decimal (tl rest) \<and> length (tl rest) \<le> 6
           then Some (whole, tl rest)
         else None)"

definition dollarsToBaseUnits6 :: "string \<Rightarrow> js_error + string" where
  "dollarsToBaseUnits6 priceDollars = (case price_parts priceDollars of
      None \<Rightarrow> Inl (JsError ''price must be a positive decimal with at most six places'')
    | Some (whole, frac) \<Rightarrow>
        let paddedFrac = take 6 (frac @ ''000000'')
        in Inr (dec (of_base 10 whole * 1000000 + of_base 10 paddedFrac)))"

section \<open>Discovery\<close>

record simulated_compromise =
  sc_payToOverride :: "string option"
  sc_amountOverride :: "string option"

record discovery_result =
  dr_resolvedItem :: resolved_item
  dr_simulatedCompromise :: "simulated_compromise option"

definition checkoutUrlOf :: "shopify_checkout \<Rightarrow> string" where
  "checkoutUrlOf c = ''https://'' @ sc_storeDomain c @ ''/checkout-sessions/'' @
     sc_checkoutSessionId c @ ''/complete''"

definition is_lower_alnum :: "char \<Rightarrow> bool" where
  "is_lower_alnum c \<longleftrightarrow> is_digit c \<or> 97 \<le> code c \<and> code c \<le> 122"

text \<open>One label \<open>[a-z0-9]([a-z0-9-]*[a-z0-9])?\<close>, and labels joined by points.\<close>

definition is_host_label :: "string \<Rightarrow> bool" where
  "is_host_label w \<longleftrightarrow> w \<noteq> [] \<and> is_lower_alnum (hd w) \<and> is_lower_alnum (last w) \<and>
     list_all (\<lambda>c. is_lower_alnum c \<or> c = CHR ''-'') w"

definition is_hostname :: "string \<Rightarrow> bool" where
  "is_hostname s \<longleftrightarrow> list_all is_host_label (js_split (CHR ''.'') s)"

text \<open>\<open>/^[A-Za-z0-9_-]{8,}$/\<close>.\<close>

definition is_session_id :: "string \<Rightarrow> bool" where
  "is_session_id s \<longleftrightarrow> 8 \<le> length s \<and>
     list_all (\<lambda>c. is_lower_alnum (lower_char c) \<and> code c < 128 \<or> c = CHR ''_'' \<or> c = CHR ''-'') s"

definition discoverShopifyCheckout :: "shopify_checkout \<Rightarrow> js_error + discovery_result" where
  "discoverShopifyCheckout c =
     (let domain = to_lower (sc_storeDomain c); price = sc_totalBaseUnits c
      in if \<not> is_hostname domain
           then Inl (JsError ''shopify source storeDomain is not a valid hostname'')
         else if \<not> is_session_id (sc_checkoutSessionId c)
           then Inl (JsError ''shopify source checkoutSessionId is invalid'')
         else if sc_currency c \<noteq> ''SGD''
           then Inl (JsError ''shopify source checkout must be denominated in SGD'')
         else if \<not> is_decimal price
           then Inl (JsError ''shopify source totalBaseUnits must be a base-unit decimal string'')
         else if js_trim (sc_title c) = [] \<or> js_trim (sc_sku c) = []
           then Inl (JsError ''shopify source checkout must carry line-item title and sku'')
         else Inr \<lparr>dr_resolvedItem = \<lparr>r_title = js_trim (sc_title c), r_sku = js_trim (sc_sku c),
                r_price = price, r_merchantDomain = domain, r_checkoutUrl = checkoutUrlOf c\<rparr>,
              dr_simulatedCompromise = None\<rparr>)"

text \<open>
  \<open>discoverProduct\<close> once the page has loaded.  \<open>payToOverride || amountOverride\<close> is false of an
  empty string.
\<close>

definition read_compromise :: "page \<Rightarrow> js_error + simulated_compromise option" where
  "read_compromise pg =
     (if pg_count pg ''[data-injection]'' > 0
      then bindE (pg_query pg ''[data-injection]'' (Some ''data-injected-payto'')) (\<lambda>p.
           bindE (pg_query pg ''[data-injection]'' (Some ''data-injected-amount'')) (\<lambda>a.
             Inr (if \<not> falsy p \<or> \<not> falsy a
                  then Some \<lparr>sc_payToOverride = p, sc_amountOverride = a\<rparr> else None)))
      else Inr None)"

definition discoverProduct :: "url_parser \<Rightarrow> string \<Rightarrow> page \<Rightarrow> js_error + discovery_result" where
  "discoverProduct parse productUrl pg =
     bindE (pg_query pg ''[data-product]'' (Some ''data-title'')) (\<lambda>title.
     bindE (pg_query pg ''[data-product]'' (Some ''data-sku'')) (\<lambda>sku.
     bindE (pg_query pg ''[data-product]'' (Some ''data-price'')) (\<lambda>priceDollars.
     bindE (pg_query pg ''[data-checkout-url]'' (Some ''href'')) (\<lambda>href.
     bindE (dollarsToBaseUnits6 (coalesce priceDollars ''0'')) (\<lambda>price.
     bindE (new_URL parse productUrl None) (\<lambda>product.
     bindE (new_URL parse (coalesce href []) (Some productUrl)) (\<lambda>checkout.
     bindE (read_compromise pg) (\<lambda>compromise.
       Inr \<lparr>dr_resolvedItem = \<lparr>r_title = coalesce title [], r_sku = coalesce sku [], r_price = price,
           r_merchantDomain = u_hostname product, r_checkoutUrl = u_href checkout\<rparr>,
         dr_simulatedCompromise = compromise\<rparr>))))))))"

text \<open>\<open>spec.lastIndexOf("@")\<close>; a marker at the front is no marker.\<close>

definition splitSelector :: "string \<Rightarrow> string \<times> string option" where
  "splitSelector spec =
     (let attribute = rev (takeWhile (\<lambda>c. c \<noteq> CHR ''@'') (rev spec));
          front = length spec - length attribute - 1
      in if CHR ''@'' \<in> set spec \<and> front > 0 then (take front spec, Some attribute) else (spec, None))"

text \<open>An empty attribute name is falsy: the text is read.\<close>

definition extract_text :: "page \<Rightarrow> string \<Rightarrow> js_error + string" where
  "extract_text pg spec =
     (let (selector, attribute) = splitSelector spec
      in bindE (pg_query pg selector (if falsy attribute then None else attribute))
           (\<lambda>v. Inr (js_trim (coalesce v []))))"

text \<open>
  \<open>discoverMerchantProduct\<close>: the part before the browser is launched gives the address to open,
  the part behind it reads the loaded page.
\<close>

definition merchant_product_url :: "url_parser \<Rightarrow> merchant_profile \<Rightarrow> js_error + string" where
  "merchant_product_url parse profile =
     bindE (new_URL parse (mp_productUrl profile) None) (\<lambda>product.
       if u_hostname product \<notin> set (mp_allowedHosts profile)
       then Inl (JsError ''merchant product URL host is not allowlisted'')
       else Inr (u_href product))"

definition discoverMerchantProduct ::
    "url_parser \<Rightarrow> (string \<Rightarrow> string \<Rightarrow> bool) \<Rightarrow> merchant_profile \<Rightarrow> page \<Rightarrow> js_error + discovery_result" where
  "discoverMerchantProduct parse regexp_test profile pg =
     bindE (new_URL parse (pg_url pg) None) (\<lambda>live.
     bindE (throwIf (u_hostname live \<notin> set (mp_allowedHosts profile))
       (JsError ''merchant product navigation left the host allowlist'')) (\<lambda>_.
     bindE (extract_text pg (ex_checkoutLink (mp_extraction profile))) (\<lambda>link.
     bindE (new_URL parse link (Some (u_href live))) (\<lambda>resolved.
     let checkoutUrl = u_href resolved in
     bindE (new_URL parse checkoutUrl None) (\<lambda>checkout.
     bindE (throwIf (u_hostname checkout \<notin> set (mp_allowedHosts profile) \<or>
         \<not> regexp_test (mp_checkoutUrlPattern profile) checkoutUrl)
       (JsError ''discovered checkout URL did not match the merchant profile'')) (\<lambda>_.
     bindE (extract_text pg (ex_title (mp_extraction profile))) (\<lambda>title.
     bindE (extract_text pg (ex_sku (mp_extraction profile))) (\<lambda>sku.
     bindE (extract_text pg (ex_price (mp_extraction profile))) (\<lambda>dollars.
     bindE (dollarsToBaseUnits6 dollars) (\<lambda>price.
       Inr \<lparr>dr_resolvedItem = \<lparr>r_title = title, r_sku = sku, r_price = price,
           r_merchantDomain = u_hostname checkout, r_checkoutUrl = checkoutUrl\<rparr>,
         dr_simulatedCompromise = None\<rparr>))))))))))"

section \<open>The checkout assertion\<close>

record checkout_assertion_input =
  ca_currentUrl :: string
  ca_matchedCheckoutUrl :: string
  ca_matchedDomain :: string
  ca_allowedHosts :: "string list option"
  ca_checkoutUrlPattern :: "string option"

record checkout_assertion =
  cr_allowed :: bool
  cr_merchantDomain :: string
  cr_matchedAgainst :: string

definition assertCheckoutDomain ::
    "url_parser \<Rightarrow> (string \<Rightarrow> string \<Rightarrow> bool) \<Rightarrow> checkout_assertion_input \<Rightarrow> js_error + checkout_assertion" where
  "assertCheckoutDomain parse regexp_test input =
     bindE (new_URL parse (ca_currentUrl input) None) (\<lambda>current.
     bindE (new_URL parse (ca_matchedCheckoutUrl input) None) (\<lambda>matched.
     let currentDomain = u_hostname current;
         hostAllowed = currentDomain \<in> set (coalesce (ca_allowedHosts input) [ca_matchedDomain input]);
         profileAllowed = (if falsy (ca_checkoutUrlPattern input) then True
            else regexp_test (the (ca_checkoutUrlPattern input)) (ca_currentUrl input))
     in Inr \<lparr>cr_allowed = (u_protocol current = u_protocol matched \<and>
           currentDomain = ca_matchedDomain input \<and>
           ca_currentUrl input = ca_matchedCheckoutUrl input \<and> hostAllowed \<and> profileAllowed),
         cr_merchantDomain = ca_matchedDomain input,
         cr_matchedAgainst = ca_matchedCheckoutUrl input\<rparr>))"

section \<open>The fixture server\<close>

definition FIXTURE_FILES :: "(string \<times> string) list" where
  "FIXTURE_FILES =
     [(''clean'', ''clean.html''), (''poisoned-recipient'', ''poisoned-recipient.html''),
      (''poisoned-amount'', ''poisoned-amount.html''), (''wrong-item'', ''wrong-item.html'')]"

end
