(* ===== verification/Card_Gateway.thy ===== *)
theory Card_Gateway
  imports Discovery X402 Actions
begin

text \<open>
  \<open>services/agent-orchestrator/src/card-gateway\<close>: the filter of the untrusted tool result, the
  request of a card challenge, the payment with the signed header, and the one-time card view.
  The MCP session (\<open>initialize\<close>, then \<open>tools/call\<close>), the HTTP exchange with the card service, the
  host's \<open>JSON.parse\<close> and \<open>URL\<close> and viem's \<open>keccak256\<close> are fields of a record.  An amount
  in SGD is the double nearest to a whole number of millionths, and is that whole number here.
\<close>

section \<open>The outside\<close>

text \<open>An HTTP response: its status, and its JSON body (\<open>None\<close> when \<open>res.json()\<close> throws).\<close>

type_synonym http_response = "nat \<times> json option"

definition response_json :: "http_response \<Rightarrow> js_error + json" where
  "response_json res = (case snd res of
      None \<Rightarrow> Inl (JsError ''Unexpected end of JSON input'') | Some v \<Rightarrow> Inr v)"

abbreviation response_ok :: "nat \<Rightarrow> bool" where
  "response_ok st \<equiv> 200 \<le> st \<and> st \<le> 299"

record get_card_params =
  gp_walletAddress :: address
  gp_cardholderName :: string
  gp_amountSgd :: nat

record view_card_params =
  vp_cardOpaqueId :: string
  vp_settlementTx :: string
  vp_walletAddress :: address

datatype tool_call = Get_card_sandbox get_card_params | View_card_sandbox view_card_params

text \<open>
  \<open>gx_post url signature name amount\<close> posts the order to the card service, with the
  \<open>PAYMENT-SIGNATURE\<close> header when there is one.
\<close>

record 'x card_externals =
  gx_callTool :: "tool_call \<Rightarrow> ('x, json) io"
  gx_post :: "string \<Rightarrow> string option \<Rightarrow> string \<Rightarrow> nat \<Rightarrow> ('x, http_response) io"
  gx_json_parse :: "string \<Rightarrow> json option"
  gx_keccak :: "string \<Rightarrow> hex"
  gx_url :: url_parser

section \<open>The filter of the tool result\<close>

definition mcp_malformed :: "string \<Rightarrow> js_error" where
  "mcp_malformed msg = mk_app_error 502 MCP_RESULT_MALFORMED msg False"

definition DEFAULT_CARDAPI_URLS :: "string list" where
  "DEFAULT_CARDAPI_URLS =
     [''https://card.straitsx.ai/sandbox/cardapi/issue_card'',
      ''https://card.straitsx.ai/production/cardapi/issue_card'']"

definition validateCardapiUrl :: "url_parser \<Rightarrow> string \<Rightarrow> string list \<Rightarrow> js_error + string" where
  "validateCardapiUrl parse v allowlist = (case parse v None of
      None \<Rightarrow> Inl (mcp_malformed ''mcp tool result: url is invalid'')
    | Some u \<Rightarrow>
        if u_protocol u \<noteq> ''https:'' \<or> u_username u \<noteq> [] \<or> u_password u \<noteq> [] \<or> u_search u \<noteq> [] \<or> u_hash u \<noteq> []
        then Inl (mcp_malformed ''mcp tool result: cardapi URL is not allowed'')
        else if u_href u \<notin> set allowlist
        then Inl (mcp_malformed ''mcp tool result: cardapi origin/path is not allowed'')
        else Inr (u_href u))"

definition str :: "json option \<Rightarrow> string \<Rightarrow> js_error + string" where
  "str v field = (case v of
      Some (JStr s) \<Rightarrow> if s = []
        then Inl (mcp_malformed (''mcp tool result: '' @ field @ '' must be a non-empty string'')) else Inr s
    | _ \<Rightarrow> Inl (mcp_malformed (''mcp tool result: '' @ field @ '' must be a non-empty string'')))"

text \<open>The object with the one key \<open>cardapiUrl\<close>.\<close>

definition filterMcpCardResult :: "url_parser \<Rightarrow> json \<Rightarrow> js_error + string" where
  "filterMcpCardResult parse raw =
     (if \<not> is_object (Some raw) then Inl (mcp_malformed ''mcp tool result is not an object'')
      else bindE (str (jprop raw ''url'') ''url'') (\<lambda>v. validateCardapiUrl parse v DEFAULT_CARDAPI_URLS))"

section \<open>Requesting a card\<close>

record get_card_result =
  gc_cardapiUrl :: string
  gc_challenge :: x402_requirements
  gc_rawToolResultHash :: hex

text \<open>The shortest text of the double nearest to \<open>n\<close> millionths.\<close>

definition sgd_text :: "nat \<Rightarrow> string" where
  "sgd_text n = dec (n div 1000000) @
     (let frac = rev (dropWhile (\<lambda>c. c = CHR ''0'') (rev (pad_start 6 CHR ''0'' (dec (n mod 1000000)))))
      in if frac = [] then [] else ''.'' @ frac)"

definition validateParams :: "get_card_params \<Rightarrow> js_error + unit" where
  "validateParams params =
     (let len = length (gp_cardholderName params); amount = gp_amountSgd params
      in if len < 2 \<or> len > 26
           then Inl (badRequest (''cardholderName must be 2-26 characters, got '' @ dec len))
         else if amount < 5000000 \<or> amount > 30000000
           then Inl (badRequest (''amountSgd must be 5-30, got '' @ sgd_text amount))
         else Inr ())"

text \<open>\<open>content.find(c => c.type === "text" && typeof c.text === "string")\<close>; a \<open>null\<close> element throws.\<close>

fun find_text_block :: "json list \<Rightarrow> js_error + string option" where
  "find_text_block [] = Inr None"
| "find_text_block (c # cs) =
     (if c = JNull then Inl (JsError ''Cannot read properties of null (reading 'type')'')
      else case (jprop c ''type'', jprop c ''text'') of
          (Some (JStr t), Some (JStr s)) \<Rightarrow> if t = ''text'' then Inr (Some s) else find_text_block cs
        | _ \<Rightarrow> find_text_block cs)"

definition text_block :: "json \<Rightarrow> string \<Rightarrow> js_error + string" where
  "text_block toolResult missing =
     bindE (case jprop toolResult ''content'' of
         None \<Rightarrow> Inr None
       | Some JNull \<Rightarrow> Inr None
       | Some (JArr cs) \<Rightarrow> find_text_block cs
       | Some _ \<Rightarrow> Inl (JsError ''content.find is not a function''))
     (\<lambda>block. if falsy block then Inl (mcp_malformed missing) else Inr (the block))"

definition extractToolResultText :: "json \<Rightarrow> js_error + string" where
  "extractToolResultText toolResult = text_block toolResult ''mcp tool result has no text content block''"

text \<open>The part on the tool result: the card service's address and the hash of the raw text.\<close>

definition read_tool_result :: "'x card_externals \<Rightarrow> json \<Rightarrow> js_error + string \<times> hex" where
  "read_tool_result gx toolResult =
     bindE (extractToolResultText toolResult) (\<lambda>rawText.
     bindE (case gx_json_parse gx rawText of
         None \<Rightarrow> Inl (mcp_malformed ''mcp tool result text is not valid JSON'') | Some v \<Rightarrow> Inr v) (\<lambda>parsed.
     bindE (filterMcpCardResult (gx_url gx) parsed) (\<lambda>cardapiUrl.
       Inr (cardapiUrl, gx_keccak gx rawText))))"

definition getCard :: "'x card_externals \<Rightarrow> get_card_params \<Rightarrow> ('x, get_card_result) io" where
  "getCard gx params =
     andThen (lift (validateParams params)) (\<lambda>_.
     andThen (gx_callTool gx (Get_card_sandbox params)) (\<lambda>toolResult.
     andThen (lift (read_tool_result gx toolResult)) (\<lambda>(cardapiUrl, rawHash).
     andThen (gx_post gx cardapiUrl None (gp_cardholderName params) (gp_amountSgd params)) (\<lambda>res.
       if fst res \<noteq> 402
       then lift (Inl (mk_app_error 502 CARDAPI_FAILED
              (''expected 402 from cardapi priming request, got '' @ dec (fst res)) False))
       else andThen (lift (bindE (response_json res) (\<lambda>body. parseX402Challenge (Some body)))) (\<lambda>challenge.
         ret \<lparr>gc_cardapiUrl = cardapiUrl, gc_challenge = challenge, gc_rawToolResultHash = rawHash\<rparr>)))))"

section \<open>Paying\<close>

record pay_params =
  pp_cardapiUrl :: string
  pp_header :: string
  pp_amountSgd :: nat
  pp_cardholderName :: string

datatype pay_result =
    Pay_issued (issued_cardOpaqueId: string) (issued_settlementTx: string) (issued_at: string)
  | Pay_rejected x402_requirements

text \<open>\<open>issued_at ?? new Date().toISOString()\<close>; the type of \<open>issued_at\<close> is trusted.\<close>

definition issued_at_text :: "int \<Rightarrow> json option \<Rightarrow> string" where
  "issued_at_text now v = (case v of
      None \<Rightarrow> toISOString now | Some JNull \<Rightarrow> toISOString now | Some j \<Rightarrow> js_string j)"

definition read_issued :: "int \<Rightarrow> json \<Rightarrow> js_error + pay_result" where
  "read_issued now body =
     (if body = JNull then Inl (JsError ''Cannot read properties of null (reading 'card_opaque_id')'')
      else case (jprop body ''card_opaque_id'', jprop body ''settlement_tx'') of
          (Some (JStr cardId), Some (JStr tx)) \<Rightarrow>
            Inr (Pay_issued cardId tx (issued_at_text now (jprop body ''issued_at'')))
        | _ \<Rightarrow> Inl (mk_app_error 502 CARDAPI_FAILED ''cardapi success response was malformed'' False))"

definition payAndIssue :: "'x card_externals \<Rightarrow> int \<Rightarrow> pay_params \<Rightarrow> ('x, pay_result) io" where
  "payAndIssue gx now params =
     andThen (gx_post gx (pp_cardapiUrl params) (Some (pp_header params)) (pp_cardholderName params)
       (pp_amountSgd params)) (\<lambda>res.
       if fst res = 402
       then lift (bindE (response_json res) (\<lambda>body.
              bindE (parseX402Challenge (Some body)) (\<lambda>c. Inr (Pay_rejected c))))
       else if \<not> response_ok (fst res)
       then lift (Inl (mk_app_error 502 CARDAPI_FAILED
              (''cardapi payAndIssue failed: '' @ dec (fst res)) True))
       else lift (bindE (response_json res) (read_issued now)))"

section \<open>Viewing the card\<close>

record view_card_result =
  vr_iframeUrl :: string
  vr_expiresInSeconds :: json
  vr_singleUse :: bool

text \<open>\<open>/^\/(sandbox|production)\/view\//\<close>.\<close>

definition is_view_path :: "string \<Rightarrow> bool" where
  "is_view_path p \<longleftrightarrow> take 14 p = ''/sandbox/view/'' \<or> take 17 p = ''/production/view/''"

definition read_view :: "'x card_externals \<Rightarrow> json \<Rightarrow> js_error + view_card_result" where
  "read_view gx toolResult =
     bindE (text_block toolResult ''view_card_sandbox result has no text content block'') (\<lambda>rawText.
     bindE (case gx_json_parse gx rawText of
         None \<Rightarrow> Inl (mcp_malformed ''view_card_sandbox result text is not valid JSON'')
       | Some v \<Rightarrow> Inr v) (\<lambda>parsed.
     bindE (case (if parsed = JNull then None
                  else gx_url gx (js_string_opt (jprop parsed ''iframe_url'')) None) of
         None \<Rightarrow> Inl (mcp_malformed ''view_card_sandbox returned an invalid iframe URL'')
       | Some u \<Rightarrow> Inr u) (\<lambda>iframe.
       if u_protocol iframe \<noteq> ''https:'' \<or> u_hostname iframe \<noteq> ''card.straitsx.ai'' \<or>
          \<not> is_view_path (u_pathname iframe) \<or> u_username iframe \<noteq> [] \<or> u_password iframe \<noteq> []
       then Inl (mcp_malformed ''view_card_sandbox returned a disallowed iframe URL'')
       else Inr \<lparr>vr_iframeUrl = u_href iframe,
              vr_expiresInSeconds = (case jprop parsed ''expires_in_seconds'' of
                 None \<Rightarrow> JNum 60 | Some JNull \<Rightarrow> JNum 60 | Some v \<Rightarrow> v),
              vr_singleUse = True\<rparr>)))"

definition viewCard :: "'x card_externals \<Rightarrow> view_card_params \<Rightarrow> ('x, view_card_result) io" where
  "viewCard gx params =
     andThen (gx_callTool gx (View_card_sandbox params)) (\<lambda>toolResult. lift (read_view gx toolResult))"

end
