(* ===== verification/Mcp_Client.thy ===== *)
theory Mcp_Client
  imports Card_Gateway
begin

text \<open>
  \<open>services/agent-orchestrator/src/card-gateway/mcp-client.ts\<close>: the client of the card service's
  event stream as a state machine.  Its inputs are what happens to it: a failed connection, the
  endpoint's timer, a call, a failed post, a timeout, a chunk of the stream, the end or an error of
  the stream, and \<open>close\<close>.  A promise is
  settled by an entry in \<open>mc_settled\<close>; the theorems show that no call is settled twice, that only
  the response with its id resolves it, and how the cutting of the stream into chunks matters.
\<close>

section \<open>Events on the wire\<close>

definition CR :: char where
  "CR = char_of (13 :: nat)"

definition LF :: char where
  "LF = char_of (10 :: nat)"

text \<open>\<open>.replace(/\r\n/g, "\n")\<close>.\<close>

fun normalise_newlines :: "string \<Rightarrow> string" where
  "normalise_newlines (a # b # s) =
     (if a = CR \<and> b = LF then LF # normalise_newlines s else a # normalise_newlines (b # s))"
| "normalise_newlines s = s"

text \<open>\<open>buffer.indexOf("\n\n")\<close>: the text before the separator and the text behind it.\<close>

fun find_separator :: "string \<Rightarrow> (string \<times> string) option" where
  "find_separator (a # b # s) =
     (if a = LF \<and> b = LF then Some ([], s)
      else map_option (\<lambda>(x, y). (a # x, y)) (find_separator (b # s)))"
| "find_separator s = None"

lemma find_separator_split: "find_separator s = Some (x, y) \<Longrightarrow> s = x @ [LF, LF] @ y"
  by (induction s arbitrary: x y rule: find_separator.induct) (auto split: if_splits)

text \<open>The lines of an event: its name and its data.\<close>

definition starts_with :: "string \<Rightarrow> string \<Rightarrow> bool" where
  "starts_with p s \<longleftrightarrow> take (length p) s = p"

fun event_lines :: "string list \<Rightarrow> string \<Rightarrow> string list \<Rightarrow> string \<times> string list" where
  "event_lines [] name data = (name, data)"
| "event_lines (line # rest) name data =
     (if starts_with ''event:'' line then event_lines rest (js_trim (drop 6 line)) data
      else if starts_with ''data:'' line then event_lines rest name (data @ [dropWhile is_space (drop 5 line)])
      else event_lines rest name data)"

definition read_event :: "string \<Rightarrow> string \<times> string" where
  "read_event rawEvent = (case event_lines (js_split LF rawEvent) ''message'' [] of
      (name, data) \<Rightarrow> (name, js_join [LF] data))"

section \<open>The messages endpoint\<close>

definition transportError :: "string \<Rightarrow> js_error" where
  "transportError msg = mk_app_error 502 MCP_UNREACHABLE msg True"

text \<open>\<open>source.pathname.replace(/\/sse$/, "/messages")\<close>.\<close>

definition messages_path :: "string \<Rightarrow> string" where
  "messages_path p =
     (if drop (length p - 4) p = ''/sse'' then take (length p - 4) p @ ''/messages'' else p)"

text \<open>
  \<open>/^[0-9a-f]{8}-[0-9a-f]{4}-[1-8][0-9a-f]{3}-[89ab][0-9a-f]{3}-[0-9a-f]{12}$/i\<close>.
\<close>

definition is_session_uuid :: "string \<Rightarrow> bool" where
  "is_session_uuid s0 =
     (let s = to_lower s0; at = (\<lambda>i. s ! i)
      in length s = 36 \<and>
         list_all (\<lambda>i. if i \<in> {8, 13, 18, 23} then at i = CHR ''-'' else is_hex (at i)) [0..<36] \<and>
         49 \<le> code (at 14) \<and> code (at 14) \<le> 56 \<and>
         (at 19 = CHR ''8'' \<or> at 19 = CHR ''9'' \<or> at 19 = CHR ''a'' \<or> at 19 = CHR ''b''))"

definition parseMessagesEndpoint :: "url_parser \<Rightarrow> string \<Rightarrow> string \<Rightarrow> js_error + url" where
  "parseMessagesEndpoint parse v sseUrl =
     bindE (new_URL parse sseUrl None) (\<lambda>source.
     bindE (new_URL parse v (Some (u_href source))) (\<lambda>endpoint.
     let sessionIds = map snd (filter (\<lambda>p. fst p = ''sessionId'') (u_searchParams endpoint));
         keys = map fst (u_searchParams endpoint)
     in if u_protocol source \<noteq> ''https:'' \<or> u_protocol endpoint \<noteq> ''https:'' \<or>
           u_origin endpoint \<noteq> u_origin source \<or> u_username endpoint \<noteq> [] \<or> u_password endpoint \<noteq> [] \<or>
           u_hash endpoint \<noteq> [] \<or> u_pathname endpoint \<noteq> messages_path (u_pathname source) \<or>
           length keys \<noteq> 1 \<or> hd keys \<noteq> ''sessionId'' \<or> length sessionIds \<noteq> 1 \<or>
           \<not> is_session_uuid (hd sessionIds)
        then Inl (transportError ''mcp endpoint event was outside the expected HTTPS messages route'')
        else Inr endpoint))"

section \<open>The client\<close>

text \<open>
  \<open>mc_pending\<close> holds the ids of the open calls with their methods; \<open>mc_ready\<close> is the promise
  \<open>#ready\<close>; \<open>mc_reading\<close> says that the read loop runs.
\<close>

record mcp_client =
  mc_sseUrl :: string
  mc_messagesUrl :: "url option"
  mc_nextId :: int
  mc_pending :: "(int \<times> string) list"
  mc_settled :: "(int \<times> (js_error + json)) list"
  mc_ready :: "(js_error + unit) option"
  mc_closed :: bool
  mc_reading :: bool
  mc_buffer :: string

definition new_client :: "string \<Rightarrow> mcp_client" where
  "new_client sseUrl = \<lparr>mc_sseUrl = sseUrl, mc_messagesUrl = None, mc_nextId = 1, mc_pending = [],
     mc_settled = [], mc_ready = None, mc_closed = False, mc_reading = True, mc_buffer = []\<rparr>"

text \<open>\<open>pending.delete(id)\<close> and the settling of its promise; nothing when the call is not open.\<close>

definition settle :: "int \<Rightarrow> js_error + json \<Rightarrow> mcp_client \<Rightarrow> mcp_client" where
  "settle callId r c = (case map_of (mc_pending c) callId of
      None \<Rightarrow> c
    | Some method \<Rightarrow> c\<lparr>mc_pending := filter (\<lambda>p. fst p \<noteq> callId) (mc_pending c),
        mc_settled := mc_settled c @ [(callId, r)]\<rparr>)"

definition rejectAll :: "js_error \<Rightarrow> mcp_client \<Rightarrow> mcp_client" where
  "rejectAll err c = c\<lparr>mc_settled := mc_settled c @ map (\<lambda>p. (fst p, Inl err)) (mc_pending c),
     mc_pending := []\<rparr>"

text \<open>
  The read loop throws: unless the client is closed, every open call is rejected, and so is
  \<open>#ready\<close> when it is open.
\<close>

definition fail_reading :: "js_error \<Rightarrow> mcp_client \<Rightarrow> mcp_client" where
  "fail_reading err c =
     (if mc_closed c then c\<lparr>mc_reading := False\<rparr>
      else (rejectAll err c)\<lparr>mc_reading := False,
        mc_ready := (case mc_ready c of None \<Rightarrow> Some (Inl err) | r \<Rightarrow> r)\<rparr>)"

text \<open>A truthy JSON value.\<close>

fun truthy :: "json option \<Rightarrow> bool" where
  "truthy None = False"
| "truthy (Some JNull) = False"
| "truthy (Some (JBool b)) = b"
| "truthy (Some (JNum n)) = (n \<noteq> 0)"
| "truthy (Some (JStr s)) = (s \<noteq> [])"
| "truthy (Some v) = True"

text \<open>The result a response message settles its call with.\<close>

definition response_result :: "json \<Rightarrow> js_error + json" where
  "response_result message =
     (if truthy (jprop message ''error'')
      then Inl (transportError (''mcp call failed: '' @
             (case Option.bind (jprop message ''error'') (\<lambda>e. jprop e ''message'') of
                None \<Rightarrow> ''unknown error'' | Some JNull \<Rightarrow> ''unknown error'' | Some m \<Rightarrow> js_string m)))
      else case jprop message ''result'' of
          None \<Rightarrow> Inl (transportError ''mcp response omitted result'')
        | Some r \<Rightarrow> Inr r)"

text \<open>
  The error of the loop's \<open>catch\<close>: an \<open>AppError\<close> stays, anything else is a failed stream.  The only
  error of the runtime that gets there is a \<open>TypeError\<close>, whose name \<open>String(err)\<close> shows.
\<close>

definition stream_failure :: "js_error \<Rightarrow> js_error" where
  "stream_failure err = (case err of AppError e \<Rightarrow> err
     | JsError m \<Rightarrow> transportError (''mcp sse stream failed: TypeError: '' @ m)
     | FrameworkError n m \<Rightarrow> transportError (''mcp sse stream failed: '' @ m))"

definition dispatchEvent ::
    "url_parser \<Rightarrow> (string \<Rightarrow> json option) \<Rightarrow> string \<Rightarrow> mcp_client \<Rightarrow> js_error + mcp_client" where
  "dispatchEvent parse json_parse rawEvent c =
     (case read_event rawEvent of (eventName, data) \<Rightarrow>
        if eventName = ''endpoint''
        then (case parseMessagesEndpoint parse data (mc_sseUrl c) of
                Inl (AppError e) \<Rightarrow> Inl (AppError e)
              | Inl _ \<Rightarrow> Inl (transportError ''mcp endpoint event contained an invalid URL'')
              | Inr u \<Rightarrow> Inr (c\<lparr>mc_messagesUrl := Some u,
                  mc_ready := (case mc_ready c of None \<Rightarrow> Some (Inr ()) | r \<Rightarrow> r)\<rparr>))
        else if eventName \<noteq> ''message'' \<or> data = [] then Inr c
        else (case json_parse data of
                None \<Rightarrow> Inr c
              | Some JNull \<Rightarrow> Inl (JsError ''Cannot read properties of null (reading 'id')'')
              | Some message \<Rightarrow>
                  (case jprop message ''id'' of
                     Some (JNum callId) \<Rightarrow> Inr (settle callId (response_result message) c)
                   | _ \<Rightarrow> Inr c)))"

text \<open>The inner loop: every complete event of the buffer is dispatched, in order.\<close>

function drain ::
    "url_parser \<Rightarrow> (string \<Rightarrow> json option) \<Rightarrow> mcp_client \<Rightarrow> mcp_client" where
  "drain parse json_parse c =
     (case find_separator (mc_buffer c) of
        None \<Rightarrow> c
      | Some (rawEvent, rest) \<Rightarrow>
          (case dispatchEvent parse json_parse rawEvent (c\<lparr>mc_buffer := rest\<rparr>) of
             Inl e \<Rightarrow> fail_reading (stream_failure e) (c\<lparr>mc_buffer := rest\<rparr>)
           | Inr c' \<Rightarrow> drain parse json_parse (c'\<lparr>mc_buffer := rest\<rparr>)))"
  by pat_completeness auto
termination
  by (relation "measure (\<lambda>(parse, json_parse, c). length (mc_buffer c))")
    (auto dest: find_separator_split)

declare drain.simps [simp del]

section \<open>What happens to the client\<close>

text \<open>
  \<open>Connect_failed\<close> carries the text of the failed fetch or handshake; a stream that is aborted by
  the endpoint's timer goes on with the \<open>Stream_error\<close> of the abort.
\<close>

datatype mcp_input =
    Connect_failed string
  | Endpoint_timed_out
  | Call string
  | Post_failed int js_error
  | Timed_out int
  | Chunk string
  | Stream_ended
  | Stream_error string
  | Close_client

definition endpoint_timeout :: "mcp_client \<Rightarrow> mcp_client" where
  "endpoint_timeout c = (case mc_ready c of
      None \<Rightarrow> c\<lparr>mc_ready := Some (Inl (transportError ''mcp endpoint event timed out''))\<rparr>
    | Some _ \<Rightarrow> c)"

text \<open>\<open>#call\<close>: the id, the timer's entry in the open calls.\<close>

definition begin_call :: "string \<Rightarrow> mcp_client \<Rightarrow> mcp_client" where
  "begin_call method c =
     c\<lparr>mc_nextId := mc_nextId c + 1, mc_pending := mc_pending c @ [(mc_nextId c, method)]\<rparr>"

definition call_timeout :: "int \<Rightarrow> mcp_client \<Rightarrow> mcp_client" where
  "call_timeout callId c = settle callId (Inl (transportError (''mcp '' @
     coalesce (map_of (mc_pending c) callId) [] @ '' response timed out''))) c"

text \<open>One turn of the read loop on a chunk.\<close>

definition receive ::
    "url_parser \<Rightarrow> (string \<Rightarrow> json option) \<Rightarrow> string \<Rightarrow> mcp_client \<Rightarrow> mcp_client" where
  "receive parse json_parse text c =
     drain parse json_parse (c\<lparr>mc_buffer := mc_buffer c @ normalise_newlines text\<rparr>)"

definition close_client :: "mcp_client \<Rightarrow> mcp_client" where
  "close_client c =
     (if mc_closed c then c
      else (rejectAll (transportError ''mcp client closed'') c)\<lparr>mc_closed := True, mc_reading := False\<rparr>)"

definition mcp_step ::
    "url_parser \<Rightarrow> (string \<Rightarrow> json option) \<Rightarrow> mcp_input \<Rightarrow> mcp_client \<Rightarrow> mcp_client" where
  "mcp_step parse json_parse input c =
     (case input of
        Connect_failed msg \<Rightarrow> c\<lparr>mc_ready := Some (Inl (transportError msg)), mc_reading := False\<rparr>
      | Endpoint_timed_out \<Rightarrow> endpoint_timeout c
      | Call method \<Rightarrow> begin_call method c
      | Post_failed callId err \<Rightarrow> settle callId (Inl err) c
      | Timed_out callId \<Rightarrow> call_timeout callId c
      | Chunk text \<Rightarrow> if mc_reading c then receive parse json_parse text c else c
      | Stream_ended \<Rightarrow>
          if mc_reading c then fail_reading (transportError ''mcp sse stream closed unexpectedly'') c else c
      | Stream_error msg \<Rightarrow>
          if mc_reading c then fail_reading (transportError (''mcp sse stream failed: '' @ msg)) c else c
      | Close_client \<Rightarrow> close_client c)"

lemmas mcp_step_defs = mcp_step_def endpoint_timeout_def begin_call_def call_timeout_def receive_def
  close_client_def

text \<open>\<open>#post\<close> before its fetch: the ready promise is awaited first.\<close>

definition post_target :: "mcp_client \<Rightarrow> js_error + url" where
  "post_target c = (case mc_ready c of
      Some (Inl e) \<Rightarrow> Inl e
    | _ \<Rightarrow> (case mc_messagesUrl c of
        None \<Rightarrow> Inl (transportError ''mcp client is not connected'')
      | Some u \<Rightarrow> if mc_closed c then Inl (transportError ''mcp client is not connected'') else Inr u))"

definition post_response :: "nat \<Rightarrow> js_error + unit" where
  "post_response st =
     throwIf (st \<noteq> 202) (transportError (''mcp POST expected 202, got '' @ dec st))"

fun mcp_run ::
    "url_parser \<Rightarrow> (string \<Rightarrow> json option) \<Rightarrow> mcp_input list \<Rightarrow> mcp_client \<Rightarrow> mcp_client" where
  "mcp_run parse json_parse [] c = c"
| "mcp_run parse json_parse (x # xs) c = mcp_run parse json_parse xs (mcp_step parse json_parse x c)"

end
