(* ===== verification/Orchestrator_Clients.thy ===== *)
theory Orchestrator_Clients
  imports Service_Wiring Mcp_Client
begin

text \<open>
  \<open>services/agent-orchestrator/src/clients\<close> and \<open>dependency-readiness.ts\<close>: the clients of the
  orchestrator on the models of the services they call.  The policy client reads JSON, so the
  replies of the policy service are written out as the objects it sends.  The internal tokens of
  the ledger and of the policy service are taken to match.
\<close>

section \<open>Responses\<close>

definition envelope_json :: "envelope \<Rightarrow> json" where
  "envelope_json e = JObj [(''error'', JObj [(''code'', JStr (env_code e)),
     (''message'', JStr (env_message e)), (''requestId'', JStr (env_requestId e)),
     (''retryable'', JBool (env_retryable e))])]"

text \<open>What a client receives; an exception that nothing catches becomes the framework's own body.\<close>

definition response_of :: "('b \<Rightarrow> json) \<Rightarrow> 'b reply \<Rightarrow> nat \<times> json" where
  "response_of to_json r = (case r of
      Reply st b \<Rightarrow> (st, to_json b)
    | ErrReply st e \<Rightarrow> (st, envelope_json e)
    | ServerError msg \<Rightarrow> (500, JObj [(''statusCode'', JNum 500),
        (''error'', JStr ''Internal Server Error''), (''message'', JStr msg)]))"

section \<open>The ledger client\<close>

definition on_ledger :: "(ledger \<Rightarrow> 'b reply \<times> ledger) \<Rightarrow> ('s world, 'b reply) io" where
  "on_ledger f w = (case f (wd_ledger w) of (r, l) \<Rightarrow> (Inr r, w\<lparr>wd_ledger := l\<rparr>))"

text \<open>\<open>if (!res.ok) throw new Error(`ledger name status`)\<close>.\<close>

definition require_ok :: "string \<Rightarrow> 'b reply \<Rightarrow> js_error + unit" where
  "require_ok name r = throwIf (\<not> response_ok (reply_status r))
     (JsError (''ledger '' @ name @ '' '' @ dec (reply_status r)))"

definition createIntent ::
    "(string \<Rightarrow> hex) \<Rightarrow> int \<Rightarrow> string \<Rightarrow> string \<Rightarrow> string \<Rightarrow> string \<Rightarrow> string \<Rightarrow> ('s world, unit) io" where
  "createIntent hash now requestId mandateId agentId instruction createdAt =
     andThen (on_ledger (post_intent hash now (Some requestId) (Some mandateId) (Some agentId)
       (Some instruction) (Some createdAt))) (\<lambda>r.
       if \<not> response_ok (reply_status r) \<and> reply_status r \<noteq> 409
       then lift (Inl (JsError (''ledger createIntent '' @ dec (reply_status r)))) else ret ())"

definition attachChallenge :: "int \<Rightarrow> string \<Rightarrow> x402_requirements \<Rightarrow> ('s world, unit) io" where
  "attachChallenge now requestId challenge =
     andThen (on_ledger (post_challenge now requestId (Some challenge))) (\<lambda>r.
       lift (require_ok ''attachChallenge'' r))"

definition recordSettlement ::
    "int \<Rightarrow> string \<Rightarrow> string \<Rightarrow> int \<Rightarrow> string \<Rightarrow> hex option \<Rightarrow> ('s world, unit) io" where
  "recordSettlement now requestId settlementTx blockNumber cardOpaqueId rawToolResultHash =
     andThen (on_ledger (post_settlement now requestId (Some settlementTx) (Some blockNumber)
       (Some cardOpaqueId) rawToolResultHash)) (\<lambda>r. lift (require_ok ''recordSettlement'' r))"

record spend_leg =
  sl_requestId :: string
  sl_merchantDomain :: string
  sl_orderTotal :: string
  sl_itemSku :: string
  sl_orderId :: string
  sl_observedAt :: string
  sl_proof :: string

text \<open>The route of the ledger does not read \<open>proof\<close>.\<close>

definition recordSpend :: "int \<Rightarrow> spend_leg \<Rightarrow> ('s world, unit) io" where
  "recordSpend now entry =
     andThen (on_ledger (post_spend now (sl_requestId entry) (Some (sl_merchantDomain entry))
       (Some (sl_orderTotal entry)) (Some (sl_itemSku entry)) (Some (sl_orderId entry))
       (Some (sl_observedAt entry)))) (\<lambda>r. lift (require_ok ''recordSpend'' r))"

definition recordCapture ::
    "int \<Rightarrow> string \<Rightarrow> string \<Rightarrow> string \<Rightarrow> string \<Rightarrow> int \<Rightarrow> ('s world, unit) io" where
  "recordCapture now requestId orderId capturedAt settlementTx blockNumber =
     andThen (on_ledger (post_capture now requestId (Some orderId) (Some capturedAt)
       (Some settlementTx) (Some blockNumber))) (\<lambda>r. lift (require_ok ''recordCapture'' r))"

section \<open>The policy client\<close>

fun reason_name :: "escalation_reason \<Rightarrow> string" where
  "reason_name WINDOW_BUDGET_EXCEEDED = ''WINDOW_BUDGET_EXCEEDED''"
| "reason_name INTENT_MISMATCH = ''INTENT_MISMATCH''"

text \<open>The bodies that the policy service sends.\<close>

fun payment_json :: "payment_reply \<Rightarrow> json" where
  "payment_json (PRefused b) = JObj [(''status'', JStr ''refused''), (''requestId'', JStr (rf_requestId b)),
     (''check'', JStr (rf_check b)),
     (''checkIndex'', case rf_checkIndex b of None \<Rightarrow> JNull | Some i \<Rightarrow> JNum (int i)),
     (''detail'', JStr (rf_detail b)), (''humanExplanation'', JStr (rf_humanExplanation b)),
     (''decidedAt'', JStr (rf_decidedAt b))]"
| "payment_json (PEscalated b) = JObj [(''status'', JStr ''escalated''), (''requestId'', JStr (es_requestId b)),
     (''reason'', JStr (reason_name (es_reason b))), (''approvalUrl'', JStr (es_approvalUrl b)),
     (''expiresAt'', JNum (es_expiresAt b)), (''ttlSeconds'', JNum (es_ttlSeconds b)),
     (''onTimeout'', JStr ''DENY'')]"
| "payment_json (PSigned b) = JObj [(''status'', JStr ''signed''), (''requestId'', JStr (sg_requestId b)),
     (''header'', JStr (sg_header b)), (''nonce'', JStr (sg_nonce b)),
     (''validAfter'', JNum (sg_validAfter b)), (''validBefore'', JNum (sg_validBefore b)),
     (''checksPassed'', JArr (map JStr (sg_checksPassed b))), (''decidedAt'', JStr (sg_decidedAt b))]"

fun resolve_json :: "resolve_reply \<Rightarrow> json" where
  "resolve_json (RDenied requestId check detail) = JObj [(''status'', JStr ''refused''),
     (''requestId'', JStr requestId), (''check'', JStr check), (''detail'', JStr detail)]"
| "resolve_json (RSigned header nonce) = JObj [(''status'', JStr ''signed''), (''header'', JStr header),
     (''nonce'', JStr nonce)]"

datatype policy_decision =
    PD_signed string string int int "json list"
  | PD_refused string "int option" string string
  | PD_escalated string string int int

datatype escalation_answer =
    EA_signed string string
  | EA_refused string "int option" string string

definition malformed :: "string \<Rightarrow> js_error" where
  "malformed msg = mk_app_error 502 INTERNAL (''policy-service response malformed: '' @ msg) False"

definition parse_signed :: "json \<Rightarrow> js_error + policy_decision" where
  "parse_signed body =
     (case (jprop body ''header'', jprop body ''nonce'', jprop body ''validAfter'', jprop body ''validBefore'',
        jprop body ''checksPassed'') of
        (Some (JStr header), Some (JStr nonce), Some (JNum after), Some (JNum till), Some (JArr checks)) \<Rightarrow>
          if header = [] then Inl (malformed ''invalid signed result'')
          else Inr (PD_signed header nonce after till checks)
      | _ \<Rightarrow> Inl (malformed ''invalid signed result''))"

definition parse_refused :: "json \<Rightarrow> js_error + policy_decision" where
  "parse_refused body =
     (case (jprop body ''check'', jprop body ''checkIndex'', jprop body ''detail'', jprop body ''humanExplanation'') of
        (Some (JStr check), Some JNull, Some (JStr detail), Some (JStr human)) \<Rightarrow>
          Inr (PD_refused check None detail human)
      | (Some (JStr check), Some (JNum i), Some (JStr detail), Some (JStr human)) \<Rightarrow>
          Inr (PD_refused check (Some i) detail human)
      | _ \<Rightarrow> Inl (malformed ''invalid refused result''))"

definition parse_escalated :: "json \<Rightarrow> js_error + policy_decision" where
  "parse_escalated body =
     (case (jprop body ''reason'', jprop body ''approvalUrl'', jprop body ''expiresAt'', jprop body ''ttlSeconds'') of
        (Some (JStr reason), Some (JStr approvalUrl), Some (JNum expiresAt), Some (JNum ttl)) \<Rightarrow>
          if jprop body ''onTimeout'' \<noteq> Some (JStr ''DENY'') then Inl (malformed ''invalid escalated result'')
          else Inr (PD_escalated reason approvalUrl expiresAt ttl)
      | _ \<Rightarrow> Inl (malformed ''invalid escalated result''))"

definition parsePolicyDecision :: "json \<Rightarrow> js_error + policy_decision" where
  "parsePolicyDecision v =
     (if \<not> is_object (Some v) then Inl (malformed ''expected an object'')
      else if jprop v ''status'' = Some (JStr ''signed'') then parse_signed v
      else if jprop v ''status'' = Some (JStr ''refused'') then parse_refused v
      else if jprop v ''status'' = Some (JStr ''escalated'') then parse_escalated v
      else Inl (malformed ''unknown status''))"

text \<open>\<open>envelope?.error?.message\<close> and \<open>envelope?.error?.retryable\<close>.\<close>

definition error_field :: "json \<Rightarrow> string \<Rightarrow> json option" where
  "error_field payload name = Option.bind (jprop payload ''error'') (\<lambda>e. jprop e name)"

definition policy_error :: "nat \<Rightarrow> json \<Rightarrow> js_error" where
  "policy_error st payload = mk_app_error st INTERNAL
     (case error_field payload ''message'' of
        None \<Rightarrow> ''policy-service '' @ dec st | Some JNull \<Rightarrow> ''policy-service '' @ dec st
      | Some m \<Rightarrow> js_string m)
     (error_field payload ''retryable'' = Some (JBool True))"

definition read_decision :: "nat \<times> json \<Rightarrow> js_error + policy_decision" where
  "read_decision res =
     (if \<not> response_ok (fst res) then Inl (policy_error (fst res) (snd res))
      else parsePolicyDecision (snd res))"

definition read_resolution :: "nat \<times> json \<Rightarrow> js_error + escalation_answer" where
  "read_resolution res =
     (let payload = snd res
      in if \<not> response_ok (fst res) then Inl (policy_error (fst res) payload)
         else if \<not> is_object (Some payload) then Inl (malformed ''invalid escalation result'')
         else case (jprop payload ''status'', jprop payload ''header'', jprop payload ''nonce'',
                    jprop payload ''check'', jprop payload ''detail'') of
             (Some (JStr st), h, n, c, d) \<Rightarrow>
               (case (st = ''signed'', h, n) of
                  (True, Some (JStr header), Some (JStr nonce)) \<Rightarrow>
                    if header \<noteq> [] then Inr (EA_signed header nonce)
                    else Inl (malformed ''invalid escalation result'')
                | _ \<Rightarrow>
                    (case (st = ''refused'', c, d) of
                       (True, Some (JStr check), Some (JStr detail)) \<Rightarrow> Inr (EA_refused check
                         (case jprop payload ''checkIndex'' of Some (JNum i) \<Rightarrow> Some i | _ \<Rightarrow> None) detail
                         (case jprop payload ''humanExplanation'' of Some (JStr t) \<Rightarrow> t
                          | _ \<Rightarrow> ''The escalation was denied. Nothing was signed and no money moved.''))
                     | _ \<Rightarrow> Inl (malformed ''invalid escalation result'')))
           | _ \<Rightarrow> Inl (malformed ''invalid escalation result''))"

definition requestPayment ::
    "'s policy_env \<Rightarrow> int \<Rightarrow> string \<Rightarrow> string \<Rightarrow> string \<Rightarrow> x402_requirements \<Rightarrow> resolved_item \<Rightarrow>
     ('s world, policy_decision) io" where
  "requestPayment env now requestId mandateId requestedAmount challenge item w =
     (case payment_request env now \<lparr>pb_requestId = Some requestId, pb_mandateId = Some mandateId,
         pb_requestedAmount = Some requestedAmount, pb_challenge = Some challenge,
         pb_resolvedItem = Some item\<rparr> w of
        (r, w') \<Rightarrow> (read_decision (response_of payment_json r), w'))"

record resolve_body =
  rb_decision :: escalation_decision
  rb_approvedBy :: "string option"
  rb_signature :: "string option"
  rb_standing :: "standing_scope option"

definition resolveEscalation ::
    "'s policy_env \<Rightarrow> int \<Rightarrow> string \<Rightarrow> resolve_body \<Rightarrow> ('s world, escalation_answer) io" where
  "resolveEscalation env now requestId body w =
     (case resolve_escalation env now requestId (Some (rb_decision body)) (rb_approvedBy body)
         (rb_signature body) (rb_standing body) w of
        (r, w') \<Rightarrow> (read_resolution (response_of resolve_json r), w'))"

section \<open>The chain-gateway client\<close>

definition confirm_body :: "string \<Rightarrow> int \<Rightarrow> address \<Rightarrow> address \<Rightarrow> uint \<Rightarrow> json" where
  "confirm_body txHash chainId asset recipient amount = JObj [(''txHash'', JStr txHash),
     (''chainId'', JNum chainId), (''expect'', JObj [(''asset'', JStr asset), (''to'', JStr recipient),
       (''amount'', JStr amount)])]"

definition confirmSettlement ::
    "'c gateway_deps \<Rightarrow> string option \<Rightarrow> string \<Rightarrow> string \<Rightarrow> int \<Rightarrow> string \<Rightarrow> int \<Rightarrow> address \<Rightarrow> address \<Rightarrow> uint \<Rightarrow>
     (token_cache \<times> 'c, settlement_reply) io" where
  "confirmSettlement gd gatewayToken token rid now txHash chainId asset recipient amount st =
     (let body = confirm_body txHash chainId asset recipient amount
      in case gateway_app gd gatewayToken now (Some (PostSettlementConfirm (Some body)))
           (client_request ''POST'' ''/settlement/confirm'' token (Some body) rid) st of
          (Reply _ (SettlementReply r), st') \<Rightarrow> (Inr r, st')
        | (res, st') \<Rightarrow> (Inl (JsError (''chain-gateway confirmSettlement '' @ dec (reply_status res))), st'))"

section \<open>Readiness of the dependencies\<close>

datatype dependency = Dep_ledger | Dep_policy | Dep_chainGateway

definition DEPENDENCY_NAMES :: "dependency list" where
  "DEPENDENCY_NAMES = [Dep_ledger, Dep_policy, Dep_chainGateway]"

record readiness =
  rd_ready :: bool
  rd_dependencies :: "(dependency \<times> bool) list"

definition unavailableReadiness :: readiness where
  "unavailableReadiness = \<lparr>rd_ready = False, rd_dependencies = map (\<lambda>d. (d, False)) DEPENDENCY_NAMES\<rparr>"

text \<open>The probe of one dependency; \<open>None\<close> is a fetch or a body that throws.\<close>

definition probe :: "(nat \<times> json option) option \<Rightarrow> bool" where
  "probe res = (case res of
      Some (st, Some body) \<Rightarrow> response_ok st \<and> is_object (Some body) \<and> jprop body ''ok'' = Some (JBool True)
    | _ \<Rightarrow> False)"

definition dependency_readiness :: "(dependency \<Rightarrow> (nat \<times> json option) option) \<Rightarrow> readiness" where
  "dependency_readiness fetched =
     (let dependencies = map (\<lambda>d. (d, probe (fetched d))) DEPENDENCY_NAMES
      in \<lparr>rd_ready = list_all (\<lambda>d. map_of dependencies d = Some True) DEPENDENCY_NAMES,
          rd_dependencies = dependencies\<rparr>)"

end
