(* ===== verification/Run_Pipeline.thy ===== *)
theory Run_Pipeline
  imports Orchestrator_Clients
begin

text \<open>
  \<open>services/agent-orchestrator/src/run/pipeline.ts\<close>, \<open>checkout/checkout-worker.ts\<close> and
  \<open>checkout/ucp-checkout.ts\<close>: a run from the intent to the captured settlement.  The world holds the
  ledger and the signer, chain-gateway with its chain, the run store, the pending escalations and
  their timers, and the state of the outside (card service, browser, storefront).  A clock gives the
  instant of each stage's calls.  The two handlers that resolve an escalation are split at the call
  of the policy service, so that the handlers of one run can be interleaved.
\<close>

section \<open>The world\<close>

record run_input =
  in_instruction :: string
  in_mandateId :: string
  in_agentId :: string
  in_source :: run_source
  in_cardholderName :: "string option"

record pending_context =
  px_input :: run_input
  px_resolvedItem :: resolved_item
  px_cardResult :: get_card_result
  px_amountSgd :: nat
  px_profile :: merchant_profile

text \<open>\<open>oc_timers\<close> gives the instant at which an armed expiry timer fires.\<close>

record ('s, 'c, 'x) orch =
  oc_world :: "'s world"
  oc_gateway :: "token_cache \<times> 'c"
  oc_store :: run_store
  oc_pending :: "pending_context jsmap"
  oc_timers :: "int jsmap"
  oc_ext :: 'x

text \<open>
  The environment: the policy service, chain-gateway and its token, the card service, and the
  browser: \<open>ov_open\<close> launches it and loads an address, \<open>ov_pay\<close> shows the one-time card view in
  the page, copies the card into the form, and submits.  \<open>ov_ucp\<close> posts to the storefront.
\<close>

record ('s, 'c, 'x) orch_env =
  ov_policy :: "'s policy_env"
  ov_gateway :: "'c gateway_deps"
  ov_gatewayToken :: "string option"
  ov_token :: string
  ov_rid :: string
  ov_card :: "'x card_externals"
  ov_regexp :: "string \<Rightarrow> string \<Rightarrow> bool"
  ov_open :: "string \<Rightarrow> ('x, page) io"
  ov_pay :: "page \<Rightarrow> string \<Rightarrow> merchant_profile \<Rightarrow> ('x, page) io"
  ov_ucp :: "url \<Rightarrow> (string \<times> string) list \<Rightarrow> json \<Rightarrow> ('x, http_response) io"
  ov_payingWallet :: address
  ov_fixtureBaseUrl :: string
  ov_fixtureHost :: string
  ov_ucpApiUrl :: string
  ov_ucpPlatformProfileUrl :: string
  ov_ucpRelayHosts :: string

abbreviation ov_parse :: "('s, 'c, 'x) orch_env \<Rightarrow> url_parser" where
  "ov_parse env \<equiv> gx_url (ov_card env)"

definition ov_profiles :: "('s, 'c, 'x) orch_env \<Rightarrow> (string \<times> merchant_profile) list" where
  "ov_profiles env = MERCHANT_PROFILES (ov_fixtureBaseUrl env) (ov_fixtureHost env)"

type_synonym clock = "run_stage \<Rightarrow> int"

definition services :: "('s world, 'a) io \<Rightarrow> (('s, 'c, 'x) orch, 'a) io" where
  "services = within oc_world (\<lambda>v w. w\<lparr>oc_world := v\<rparr>)"

definition gateway :: "(token_cache \<times> 'c, 'a) io \<Rightarrow> (('s, 'c, 'x) orch, 'a) io" where
  "gateway = within oc_gateway (\<lambda>v w. w\<lparr>oc_gateway := v\<rparr>)"

definition outside :: "('x, 'a) io \<Rightarrow> (('s, 'c, 'x) orch, 'a) io" where
  "outside = within oc_ext (\<lambda>v w. w\<lparr>oc_ext := v\<rparr>)"

definition store :: "(run_store \<Rightarrow> run_store) \<Rightarrow> (('s, 'c, 'x) orch, unit) io" where
  "store f w = (Inr (), w\<lparr>oc_store := f (oc_store w)\<rparr>)"

definition emit ::
    "clock \<Rightarrow> string \<Rightarrow> run_stage \<Rightarrow> event_status \<Rightarrow> string option \<Rightarrow> (('s, 'c, 'x) orch, unit) io" where
  "emit clk requestId stage status check w =
     (case emitEvent (clk stage) requestId stage (Some status) check (oc_store w) of
        (r, s) \<Rightarrow> (map_sum id (\<lambda>_. ()) r, w\<lparr>oc_store := s\<rparr>))"

section \<open>Amounts and addresses\<close>

definition MIN_BASE_UNITS :: nat where
  "MIN_BASE_UNITS = 5000000"

definition MAX_BASE_UNITS :: nat where
  "MAX_BASE_UNITS = 30000000"

text \<open>The number that \<open>Number(`${whole}.${fraction}`)\<close> is, in millionths.\<close>

definition exactAmountSgd :: "string \<Rightarrow> js_error + nat" where
  "exactAmountSgd priceBaseUnits =
     (if \<not> is_decimal priceBaseUnits then Inl (JsError ''price must be a base-unit decimal string'')
      else let units = of_base 10 priceBaseUnits
        in if units < MIN_BASE_UNITS \<or> units > MAX_BASE_UNITS
           then Inl (JsError ''price must be between 5 and 30 SGD'')
           else let whole = dec (units div 1000000);
                    fraction = pad_start 6 CHR ''0'' (dec (units mod 1000000))
             in Inr (of_base 10 whole * 1000000 + of_base 10 fraction))"

definition fixtureProductUrl :: "('s, 'c, 'x) orch_env \<Rightarrow> string \<Rightarrow> string" where
  "fixtureProductUrl env name = ov_fixtureBaseUrl env @ ''/fixtures/'' @ name"

definition productUrl :: "('s, 'c, 'x) orch_env \<Rightarrow> run_source \<Rightarrow> js_error + string" where
  "productUrl env source = (case source of
      Source_fixture name \<Rightarrow> Inr (fixtureProductUrl env name)
    | Source_merchant profileId \<Rightarrow>
        map_sum id (\<lambda>p. case p of None \<Rightarrow> ''undefined'' | Some q \<Rightarrow> mp_productUrl q)
          (getMerchantProfile (ov_profiles env) profileId)
    | Source_shopify c \<Rightarrow>
        Inr (''https://'' @ sc_storeDomain c @ ''/checkout-sessions/'' @ sc_checkoutSessionId c))"

definition safeFailure :: "string \<Rightarrow> string \<Rightarrow> bool \<Rightarrow> (('s, 'c, 'x) orch, unit) io" where
  "safeFailure requestId message fresh = store (\<lambda>s.
     setRunState requestId Run_FAILED (setOutcome requestId (Out_failed message fresh) s))"

section \<open>Checkout in the browser\<close>

text \<open>\<open>text(page, selector)\<close>: \<open>data-value\<close>, else the text.\<close>

definition page_text :: "page \<Rightarrow> string \<Rightarrow> js_error + string" where
  "page_text pg selector =
     bindE (pg_query pg selector (Some ''data-value'')) (\<lambda>v. case v of
        Some t \<Rightarrow> Inr (js_trim t)
      | None \<Rightarrow> bindE (pg_query pg selector None) (\<lambda>t. Inr (js_trim (coalesce t []))))"

definition read_confirmation ::
    "('s, 'c, 'x) orch_env \<Rightarrow> int \<Rightarrow> string \<Rightarrow> merchant_profile \<Rightarrow> page \<Rightarrow> js_error + spend_leg" where
  "read_confirmation env now requestId profile pg =
     (let cf = mp_confirmation profile in
      bindE (new_URL (ov_parse env) (pg_url pg) None) (\<lambda>confirmed.
      bindE (throwIf (u_hostname confirmed \<notin> set (mp_allowedHosts profile))
        (JsError ''confirmation page left the merchant host allowlist'')) (\<lambda>_.
      bindE (page_text pg (cf_orderTotal cf)) (\<lambda>orderTotal.
      bindE (page_text pg (cf_itemSku cf)) (\<lambda>itemSku.
      bindE (page_text pg (cf_orderId cf)) (\<lambda>orderId.
      bindE (if falsy (cf_timestamp cf) then Inr (toISOString now)
             else page_text pg (the (cf_timestamp cf))) (\<lambda>observedAt.
        if orderTotal = [] \<or> itemSku = [] \<or> orderId = [] \<or> observedAt = []
        then Inl (JsError ''confirmation page omitted required evidence'')
        else Inr \<lparr>sl_requestId = requestId, sl_merchantDomain = u_hostname confirmed,
          sl_orderTotal = orderTotal, sl_itemSku = itemSku, sl_orderId = orderId,
          sl_observedAt = observedAt, sl_proof = ''none''\<rparr>)))))))"

definition runCheckout ::
    "('s, 'c, 'x) orch_env \<Rightarrow> clock \<Rightarrow> string \<Rightarrow> merchant_profile \<Rightarrow> resolved_item \<Rightarrow> string \<Rightarrow> string \<Rightarrow>
     (('s, 'c, 'x) orch, spend_leg) io" where
  "runCheckout env clk requestId profile item cardOpaqueId settlementTx =
     andThen (outside (ov_open env (r_checkoutUrl item))) (\<lambda>pg.
     andThen (lift (assertCheckoutDomain (ov_parse env) (ov_regexp env)
       \<lparr>ca_currentUrl = pg_url pg, ca_matchedCheckoutUrl = r_checkoutUrl item,
        ca_matchedDomain = r_merchantDomain item, ca_allowedHosts = Some (mp_allowedHosts profile),
        ca_checkoutUrlPattern = Some (mp_checkoutUrlPattern profile)\<rparr>)) (\<lambda>assertion.
     andThen (lift (throwIf (\<not> cr_allowed assertion)
       (JsError ''checkout URL/domain did not match the selected merchant profile''))) (\<lambda>_.
     andThen (emit clk requestId Stage_CHECKOUT_ASSERTED Ev_ok None) (\<lambda>_.
     andThen (outside (viewCard (ov_card env) \<lparr>vp_cardOpaqueId = cardOpaqueId,
       vp_settlementTx = settlementTx, vp_walletAddress = ov_payingWallet env\<rparr>)) (\<lambda>cardView.
     andThen (outside (ov_pay env pg (vr_iframeUrl cardView) profile)) (\<lambda>confirmed.
       lift (read_confirmation env (clk Stage_SPEND_RECORDED) requestId profile confirmed)))))))"

section \<open>Checkout at a storefront\<close>

text \<open>\<open>.split(",").map(trim and lower case).filter(Boolean)\<close>, and \<open>.replace(/\/$/, "")\<close>.\<close>

definition UCP_CHECKOUT_RELAY_HOSTS :: "string \<Rightarrow> string list" where
  "UCP_CHECKOUT_RELAY_HOSTS raw =
     filter (\<lambda>h. h \<noteq> []) (map (\<lambda>h. to_lower (js_trim h)) (js_split (CHR '','') raw))"

definition strip_slash :: "string \<Rightarrow> string" where
  "strip_slash s = (if s \<noteq> [] \<and> last s = CHR ''/'' then butlast s else s)"

definition ucp_endpoint ::
    "('s, 'c, 'x) orch_env \<Rightarrow> shopify_checkout \<Rightarrow> js_error + url" where
  "ucp_endpoint env checkout =
     (let api = strip_slash (ov_ucpApiUrl env) in
      bindE (new_URL (ov_parse env)
        (''checkout-sessions/'' @ sc_checkoutSessionId checkout @ ''/complete'')
        (Some (if api = [] then ''https://'' @ sc_storeDomain checkout else api))) (\<lambda>endpoint.
      let host = to_lower (u_hostname endpoint)
      in if host = to_lower (sc_storeDomain checkout) \<or>
            host \<in> set (UCP_CHECKOUT_RELAY_HOSTS (ov_ucpRelayHosts env))
         then Inr endpoint
         else Inl (JsError ''UCP checkout endpoint host is not the committed store domain nor an allowlisted relay'')))"

definition ucp_payment :: "string \<Rightarrow> string \<Rightarrow> string \<Rightarrow> json" where
  "ucp_payment requestId cardOpaqueId settlementTx = JObj [(''payment_data'', JObj
     [(''id'', JStr (''instr_straitsx_'' @ requestId)), (''handler_id'', JStr ''straitsx_card''),
      (''type'', JStr ''straitsx_card''), (''selected'', JBool True),
      (''credential'', JObj [(''type'', JStr ''card_network_token''),
        (''token'', JStr (''tok_straitsx_'' @ cardOpaqueId)), (''settlementTx'', JStr settlementTx)])])]"

text \<open>\<open>completed.order?.id\<close>; the type of the id is trusted.\<close>

definition ucp_order_id :: "json \<Rightarrow> js_error + string" where
  "ucp_order_id completed =
     (if completed = JNull then Inl (JsError ''Cannot read properties of null (reading 'order')'')
      else let orderId = Option.bind (jprop completed ''order'') (\<lambda>p. jprop p ''id'')
        in if truthy orderId then Inr (js_string_opt orderId)
           else Inl (JsError ''UCP checkout completion did not return an order id''))"

definition completeUcpCheckout ::
    "('s, 'c, 'x) orch_env \<Rightarrow> clock \<Rightarrow> string \<Rightarrow> shopify_checkout \<Rightarrow> string \<Rightarrow> string \<Rightarrow>
     (('s, 'c, 'x) orch, spend_leg) io" where
  "completeUcpCheckout env clk requestId checkout cardOpaqueId settlementTx =
     andThen (lift (ucp_endpoint env checkout)) (\<lambda>endpoint.
     andThen (emit clk requestId Stage_CHECKOUT_ASSERTED Ev_ok None) (\<lambda>_.
     andThen (outside (ov_ucp env endpoint
       ([(''content-type'', ''application/json''), (''accept'', ''application/json'')] @
        (if ov_ucpPlatformProfileUrl env = [] then []
         else [(''ucp-platform'', ''profile=\"'' @ ov_ucpPlatformProfileUrl env @ ''\"'')]))
       (ucp_payment requestId cardOpaqueId settlementTx))) (\<lambda>res.
     andThen (lift (throwIf (\<not> response_ok (fst res))
       (JsError (''UCP checkout completion returned '' @ dec (fst res))))) (\<lambda>_.
     andThen (lift (bindE (response_json res) ucp_order_id)) (\<lambda>orderId.
       ret \<lparr>sl_requestId = requestId, sl_merchantDomain = sc_storeDomain checkout,
         sl_orderTotal = sc_totalBaseUnits checkout, sl_itemSku = sc_sku checkout,
         sl_orderId = orderId, sl_observedAt = toISOString (clk Stage_SPEND_RECORDED),
         sl_proof = ''ucp''\<rparr>)))))"

section \<open>After the signature\<close>

definition DEFAULT_CARDHOLDER_NAME :: string where
  "DEFAULT_CARDHOLDER_NAME = ''StraitsX Shopper''"

definition checkout_leg ::
    "('s, 'c, 'x) orch_env \<Rightarrow> clock \<Rightarrow> string \<Rightarrow> pending_context \<Rightarrow> string \<Rightarrow> string \<Rightarrow>
     (('s, 'c, 'x) orch, spend_leg) io" where
  "checkout_leg env clk requestId context cardOpaqueId settlementTx =
     (case in_source (px_input context) of
        Source_shopify checkout \<Rightarrow> completeUcpCheckout env clk requestId checkout cardOpaqueId settlementTx
      | _ \<Rightarrow> runCheckout env clk requestId (px_profile context) (px_resolvedItem context) cardOpaqueId
               settlementTx)"

text \<open>The settlement is confirmed on chain against the challenge, and recorded with the capture.\<close>

definition finalize_settlement ::
    "('s, 'c, 'x) orch_env \<Rightarrow> clock \<Rightarrow> string \<Rightarrow> pending_context \<Rightarrow> string \<Rightarrow> string \<Rightarrow> spend_leg \<Rightarrow>
     (('s, 'c, 'x) orch, unit) io" where
  "finalize_settlement env clk requestId context cardOpaqueId settlementTx spend =
     (let challenge = gc_challenge (px_cardResult context); now = clk Stage_SETTLEMENT_FINALIZED in
      andThen (gateway (confirmSettlement (ov_gateway env) (ov_gatewayToken env) (ov_token env) (ov_rid env)
        now settlementTx (c_chainId challenge) (c_asset challenge) (c_payTo challenge) (c_amount challenge)))
        (\<lambda>confirmation.
        if \<not> st_ok confirmation \<or> \<not> st_transferMatched confirmation
        then andThen (emit clk requestId Stage_SETTLEMENT_FINALIZED Ev_refused (Some ''TRANSFER_MISMATCH''))
          (\<lambda>_. safeFailure requestId
             ''capture-time settlement verification failed; the transfer did not match the signed authorization''
             True)
        else
          andThen (services (recordSettlement now requestId settlementTx (st_blockNumber confirmation)
            cardOpaqueId (Some (gc_rawToolResultHash (px_cardResult context))))) (\<lambda>_.
          andThen (services (recordCapture now requestId (sl_orderId spend) (sl_observedAt spend)
            settlementTx (st_blockNumber confirmation))) (\<lambda>_.
          andThen (emit clk requestId Stage_SETTLEMENT_FINALIZED Ev_ok None) (\<lambda>_.
            store (\<lambda>s. setRunState requestId Run_DONE
              (setOutcome requestId (Out_signed settlementTx cardOpaqueId) s)))))))"

definition signed_run ::
    "('s, 'c, 'x) orch_env \<Rightarrow> clock \<Rightarrow> string \<Rightarrow> pending_context \<Rightarrow> string \<Rightarrow>
     (('s, 'c, 'x) orch, unit) io" where
  "signed_run env clk requestId context header =
     andThen (outside (payAndIssue (ov_card env) (clk Stage_CARD_ISSUED)
       \<lparr>pp_cardapiUrl = gc_cardapiUrl (px_cardResult context), pp_header = header,
        pp_amountSgd = px_amountSgd context,
        pp_cardholderName = coalesce (in_cardholderName (px_input context)) DEFAULT_CARDHOLDER_NAME\<rparr>))
       (\<lambda>issued. case issued of
          Pay_rejected c \<Rightarrow> safeFailure requestId
            ''cardapi rejected the signed authorization; start a fresh request'' True
        | Pay_issued cardOpaqueId settlementTx at \<Rightarrow>
            andThen (emit clk requestId Stage_CARD_ISSUED Ev_ok None) (\<lambda>_.
            andThen (store (\<lambda>s. setOutcome requestId (Out_checkout_pending settlementTx cardOpaqueId)
              (setRunState requestId Run_AWAITING_CHECKOUT s))) (\<lambda>_.
            andThen (checkout_leg env clk requestId context cardOpaqueId settlementTx) (\<lambda>spend.
            andThen (services (recordSpend (clk Stage_SPEND_RECORDED) spend)) (\<lambda>_.
            andThen (emit clk requestId Stage_SPEND_RECORDED Ev_ok None) (\<lambda>_.
              finalize_settlement env clk requestId context cardOpaqueId settlementTx spend))))))"

definition continueSignedRun ::
    "('s, 'c, 'x) orch_env \<Rightarrow> clock \<Rightarrow> string \<Rightarrow> pending_context \<Rightarrow> string \<Rightarrow>
     (('s, 'c, 'x) orch, unit) io" where
  "continueSignedRun env clk requestId context header =
     catching (signed_run env clk requestId context header)
       (\<lambda>_. safeFailure requestId ''post-signature processing failed; start a fresh request'' True)"

section \<open>The run\<close>

definition scheduleExpiry :: "int \<Rightarrow> string \<Rightarrow> int \<Rightarrow> (('s, 'c, 'x) orch, unit) io" where
  "scheduleExpiry now requestId expiresAt w =
     (let delay = max 0 (expiresAt * 1000 - now + 250)
      in (Inr (), w\<lparr>oc_timers := jset requestId (now + delay) (oc_timers w)\<rparr>))"

definition handleDecision ::
    "('s, 'c, 'x) orch_env \<Rightarrow> clock \<Rightarrow> string \<Rightarrow> pending_context \<Rightarrow> policy_decision \<Rightarrow>
     (('s, 'c, 'x) orch, unit) io" where
  "handleDecision env clk requestId context decision =
     (case decision of
        PD_refused check checkIndex detail human \<Rightarrow>
          andThen (emit clk requestId Stage_POLICY_DECISION Ev_refused (Some check)) (\<lambda>_.
            store (\<lambda>s. setRunState requestId Run_REFUSED
              (setOutcome requestId (Out_refused check checkIndex detail human) s)))
      | PD_escalated reason approvalUrl expiresAt ttl \<Rightarrow>
          andThen (emit clk requestId Stage_POLICY_DECISION Ev_escalated (Some reason)) (\<lambda>_.
          andThen (store (\<lambda>s. setRunState requestId Run_ESCALATED
            (setOutcome requestId (Out_escalated reason approvalUrl expiresAt ttl) s))) (\<lambda>_.
          andThen (\<lambda>w. (Inr (), w\<lparr>oc_pending := jset requestId context (oc_pending w)\<rparr>)) (\<lambda>_.
            scheduleExpiry (clk Stage_POLICY_DECISION) requestId expiresAt)))
      | PD_signed header nonce after till checks \<Rightarrow>
          andThen (emit clk requestId Stage_POLICY_DECISION Ev_ok None) (\<lambda>_.
            continueSignedRun env clk requestId context header))"

definition requestedChallenge ::
    "x402_requirements \<Rightarrow> simulated_compromise option \<Rightarrow> x402_requirements" where
  "requestedChallenge challenge compromise =
     (case Option.bind compromise sc_payToOverride of
        None \<Rightarrow> challenge
      | Some p \<Rightarrow> if p = [] then challenge else challenge\<lparr>c_payTo := p\<rparr>)"

definition discover ::
    "('s, 'c, 'x) orch_env \<Rightarrow> clock \<Rightarrow> string \<Rightarrow> run_input \<Rightarrow> merchant_profile \<Rightarrow>
     (('s, 'c, 'x) orch, discovery_result) io" where
  "discover env clk requestId input profile =
     (case in_source input of
        Source_fixture name \<Rightarrow>
          andThen (outside (ov_open env (fixtureProductUrl env name))) (\<lambda>pg.
          andThen (lift (discoverProduct (ov_parse env) (fixtureProductUrl env name) pg)) (\<lambda>d.
          andThen (emit clk requestId Stage_DISCOVERY_DONE Ev_ok None) (\<lambda>_. ret d)))
      | Source_merchant profileId \<Rightarrow>
          andThen (lift (merchant_product_url (ov_parse env) profile)) (\<lambda>address.
          andThen (outside (ov_open env address)) (\<lambda>pg.
          andThen (lift (discoverMerchantProduct (ov_parse env) (ov_regexp env) profile pg)) (\<lambda>d.
          andThen (emit clk requestId Stage_DISCOVERY_DONE Ev_ok None) (\<lambda>_. ret d))))
      | Source_shopify checkout \<Rightarrow>
          andThen (lift (discoverShopifyCheckout checkout)) (\<lambda>d.
          andThen (emit clk requestId Stage_CHECKOUT_ACQUIRED Ev_ok None) (\<lambda>_. ret d)))"

text \<open>From the discovered item to the decision of the policy service.\<close>

definition acquire_decision ::
    "('s, 'c, 'x) orch_env \<Rightarrow> clock \<Rightarrow> string \<Rightarrow> run_input \<Rightarrow> merchant_profile \<Rightarrow> discovery_result \<Rightarrow>
     (('s, 'c, 'x) orch, pending_context \<times> policy_decision) io" where
  "acquire_decision env clk requestId input profile discovery =
     (let item = dr_resolvedItem discovery; compromise = dr_simulatedCompromise discovery in
      andThen (lift (exactAmountSgd (r_price item))) (\<lambda>amountSgd.
      andThen (outside (getCard (ov_card env) \<lparr>gp_walletAddress = ov_payingWallet env,
        gp_cardholderName = coalesce (in_cardholderName input) DEFAULT_CARDHOLDER_NAME,
        gp_amountSgd = amountSgd\<rparr>)) (\<lambda>cardResult.
      andThen (emit clk requestId Stage_CHALLENGE_RECEIVED Ev_ok None) (\<lambda>_.
      let challenge = gc_challenge cardResult in
      andThen (services (attachChallenge (clk Stage_CHALLENGE_RECEIVED) requestId challenge)) (\<lambda>_.
      andThen (services (requestPayment (ov_policy env) (clk Stage_POLICY_DECISION) requestId
        (in_mandateId input) (coalesce (Option.bind compromise sc_amountOverride) (c_amount challenge))
        (requestedChallenge challenge compromise) item)) (\<lambda>decision.
        ret (\<lparr>px_input = input, px_resolvedItem = item, px_cardResult = cardResult,
          px_amountSgd = amountSgd, px_profile = profile\<rparr>, decision)))))))"

definition run_body ::
    "('s, 'c, 'x) orch_env \<Rightarrow> clock \<Rightarrow> string \<Rightarrow> run_input \<Rightarrow> (('s, 'c, 'x) orch, unit) io" where
  "run_body env clk requestId input =
     (let now = clk Stage_INTENT_CREATED in
      andThen (services (createIntent (pe_keccak_text (ov_policy env)) now requestId (in_mandateId input)
        (in_agentId input) (in_instruction input) (toISOString now))) (\<lambda>_.
      andThen (emit clk requestId Stage_INTENT_CREATED Ev_ok None) (\<lambda>_.
      andThen (lift (bindE (getMerchantProfile (ov_profiles env)
        (case in_source input of Source_merchant p \<Rightarrow> p | _ \<Rightarrow> ''local-fixture'')) readable_profile)) (\<lambda>profile.
      andThen (discover env clk requestId input profile) (\<lambda>discovery.
      andThen (store (setDiscoveredItem requestId (dr_resolvedItem discovery))) (\<lambda>_.
      andThen (acquire_decision env clk requestId input profile discovery) (\<lambda>(context, decision).
        handleDecision env clk requestId context decision)))))))"

text \<open>\<open>executeRun\<close> with the \<open>catch\<close> of its caller.\<close>

definition executeRun ::
    "('s, 'c, 'x) orch_env \<Rightarrow> clock \<Rightarrow> string \<Rightarrow> run_input \<Rightarrow> (('s, 'c, 'x) orch, unit) io" where
  "executeRun env clk requestId input =
     catching (run_body env clk requestId input)
       (\<lambda>_. safeFailure requestId ''run failed closed before completion'' False)"

text \<open>The synchronous part of \<open>startRun\<close>; \<open>requestId\<close> is the new \<open>randomUUID()\<close>.\<close>

definition startRun ::
    "('s, 'c, 'x) orch_env \<Rightarrow> int \<Rightarrow> string \<Rightarrow> run_input \<Rightarrow> (('s, 'c, 'x) orch, string) io" where
  "startRun env now requestId input =
     andThen (lift (productUrl env (in_source input))) (\<lambda>address.
     andThen (store (createRun now requestId
       \<lparr>me_instruction = in_instruction input, me_mandateId = in_mandateId input,
        me_agentId = in_agentId input, me_source = in_source input,
        me_fixture = (case in_source input of Source_fixture n \<Rightarrow> Some n | _ \<Rightarrow> None),
        me_checkoutSessionId = (case in_source input of
            Source_shopify c \<Rightarrow> Some (sc_checkoutSessionId c) | _ \<Rightarrow> None),
        me_productUrl = address\<rparr>)) (\<lambda>_.
       ret (''/run/'' @ requestId @ ''/events'')))"

section \<open>The end of an escalation\<close>

definition drop_pending :: "string \<Rightarrow> ('s, 'c, 'x) orch \<Rightarrow> ('s, 'c, 'x) orch" where
  "drop_pending requestId w = w\<lparr>oc_pending := AList.delete requestId (oc_pending w),
     oc_timers := AList.delete requestId (oc_timers w)\<rparr>"

definition run_state_of :: "string \<Rightarrow> ('s, 'c, 'x) orch \<Rightarrow> run_state option" where
  "run_state_of requestId w = map_option ru_state (getRun requestId (oc_store w))"

definition finalizeExpiredEscalation :: "string \<Rightarrow> (('s, 'c, 'x) orch, unit) io" where
  "finalizeExpiredEscalation requestId w =
     store (\<lambda>s. setRunState requestId Run_REFUSED (setOutcome requestId
       (Out_refused ''escalation_expired'' None
          ''approval deadline elapsed; policy-service auto-denied the escalation''
          ''The approval request expired. Nothing was signed and no money moved.'') s))
       (drop_pending requestId w)"

text \<open>
  \<open>expireEscalation\<close>: the timer has fired (and is gone); the answer of the policy service, or
  \<open>None\<close> when the run is no longer escalated.
\<close>

definition expire_begin ::
    "('s, 'c, 'x) orch_env \<Rightarrow> int \<Rightarrow> string \<Rightarrow> ('s, 'c, 'x) orch \<Rightarrow>
     (js_error + escalation_answer) option \<times> ('s, 'c, 'x) orch" where
  "expire_begin env now requestId w0 =
     (let w = w0\<lparr>oc_timers := AList.delete requestId (oc_timers w0)\<rparr>
      in if run_state_of requestId w \<noteq> Some Run_ESCALATED then (None, w)
         else case services (resolveEscalation (ov_policy env) now requestId
             \<lparr>rb_decision = Deny, rb_approvedBy = None, rb_signature = None, rb_standing = None\<rparr>) w of
           (r, w') \<Rightarrow> (Some r, w'))"

definition expire_finish ::
    "string \<Rightarrow> js_error + escalation_answer \<Rightarrow> (('s, 'c, 'x) orch, unit) io" where
  "expire_finish requestId answer w =
     (case answer of
        Inl e \<Rightarrow>
          if thrown_status e \<noteq> Some 410
          then safeFailure requestId
                 ''policy-service could not record escalation expiry; run failed closed'' False
                 (drop_pending requestId w)
          else finalizeExpiredEscalation requestId w
      | Inr _ \<Rightarrow> finalizeExpiredEscalation requestId w)"

definition expireEscalation ::
    "('s, 'c, 'x) orch_env \<Rightarrow> int \<Rightarrow> string \<Rightarrow> ('s, 'c, 'x) orch \<Rightarrow> ('s, 'c, 'x) orch" where
  "expireEscalation env now requestId w =
     (case expire_begin env now requestId w of
        (None, w') \<Rightarrow> w'
      | (Some r, w') \<Rightarrow> snd (expire_finish requestId r w'))"

text \<open>\<open>resolveRunEscalation\<close> up to the answer of the policy service, and behind it.\<close>

definition resolve_begin ::
    "('s, 'c, 'x) orch_env \<Rightarrow> int \<Rightarrow> string \<Rightarrow> resolve_body \<Rightarrow>
     (('s, 'c, 'x) orch, pending_context \<times> (js_error + escalation_answer)) io" where
  "resolve_begin env now requestId body w =
     (case jget (oc_pending w) requestId of
        None \<Rightarrow> (Inl (JsError ''run has no pending escalation''), w)
      | Some context \<Rightarrow>
          if run_state_of requestId w \<noteq> Some Run_ESCALATED
          then (Inl (JsError ''run has no pending escalation''), w)
          else case services (resolveEscalation (ov_policy env) now requestId body) w of
            (r, w') \<Rightarrow> (Inr (context, r), w'))"

definition resolve_finish ::
    "('s, 'c, 'x) orch_env \<Rightarrow> clock \<Rightarrow> string \<Rightarrow> pending_context \<Rightarrow> js_error + escalation_answer \<Rightarrow>
     (('s, 'c, 'x) orch, run_state) io" where
  "resolve_finish env clk requestId context answer w =
     (case answer of
        Inl e \<Rightarrow>
          if thrown_status e = Some 410
          then andThen (finalizeExpiredEscalation requestId) (\<lambda>_. ret Run_REFUSED) w
          else (Inl e, w)
      | Inr decision \<Rightarrow>
          andThen (\<lambda>w. (Inr (), drop_pending requestId w)) (\<lambda>_.
          andThen (case decision of
             EA_signed header nonce \<Rightarrow>
               andThen (store (\<lambda>s. setOutcome requestId (Out_checkout_pending ''pending'' ''pending'')
                 (setRunState requestId Run_RUNNING s))) (\<lambda>_.
                 continueSignedRun env clk requestId context header)
           | EA_refused check checkIndex detail human \<Rightarrow>
               store (\<lambda>s. setRunState requestId Run_REFUSED
                 (setOutcome requestId (Out_refused check checkIndex detail human) s))) (\<lambda>_.
            \<lambda>w. (Inr (coalesce (run_state_of requestId w) Run_FAILED), w))) w)"

definition resolveRunEscalation ::
    "('s, 'c, 'x) orch_env \<Rightarrow> clock \<Rightarrow> string \<Rightarrow> resolve_body \<Rightarrow>
     (('s, 'c, 'x) orch, run_state) io" where
  "resolveRunEscalation env clk requestId body =
     andThen (resolve_begin env (clk Stage_POLICY_DECISION) requestId body) (\<lambda>(context, answer).
       resolve_finish env clk requestId context answer)"

end
