(* ===== verification/Orchestrator_App.thy ===== *)
theory Orchestrator_App
  imports Run_Pipeline
begin

text \<open>
  The routes of \<open>services/agent-orchestrator/src/routes\<close> and \<open>app.ts\<close>, and the fixture server.  A
  handler takes the fields of its path and body (of their declared types) and the world; the run
  that \<open>POST /run\<close> starts goes on as \<open>executeRun\<close> behind the reply.
\<close>

section \<open>POST /run\<close>

definition RUN_FIXTURES :: "string list" where
  "RUN_FIXTURES = [''clean'', ''poisoned-recipient'', ''poisoned-amount'', ''wrong-item'']"

record source_body =
  sb_kind :: "string option"
  sb_name :: "string option"
  sb_profileId :: "string option"

record run_request_body =
  rr_instruction :: "string option"
  rr_mandateId :: "string option"
  rr_agentId :: "string option"
  rr_fixture :: "string option"
  rr_source :: "source_body option"
  rr_cardholderName :: "string option"

definition parseSource :: "run_request_body \<Rightarrow> js_error + run_source" where
  "parseSource body =
     (let no_source = Inl (badRequest (''source must be {kind:'' @ [CHR 39] @ ''fixture'' @ [CHR 39] @
            '',name} or {kind:'' @ [CHR 39] @ ''merchant'' @ [CHR 39] @
            '',profileId}; fixture remains supported during migration''))
      in case rr_source body of
           None \<Rightarrow> if falsy (rr_fixture body) then no_source else Inr (Source_fixture (the (rr_fixture body)))
         | Some s \<Rightarrow>
             if sb_kind s = Some ''fixture'' \<and> \<not> falsy (sb_name s) then Inr (Source_fixture (the (sb_name s)))
             else if sb_kind s = Some ''merchant'' \<and> \<not> falsy (sb_profileId s)
               then Inr (Source_merchant (the (sb_profileId s)))
             else no_source)"

definition check_source :: "(string \<times> merchant_profile) list \<Rightarrow> run_source \<Rightarrow> js_error + unit" where
  "check_source profiles source = (case source of
      Source_fixture name \<Rightarrow> throwIf (name \<notin> set RUN_FIXTURES)
        (badRequest (''fixture must be one of '' @ js_join '', '' RUN_FIXTURES))
    | Source_merchant p \<Rightarrow> throwIf (merchant_entry_of profiles p = Undefined_entry) (badRequest ''unknown merchant profileId'')
    | Source_shopify c \<Rightarrow> Inr ())"

text \<open>
  The checks of \<open>POST /run\<close> and the input they lead to; \<open>ready\<close> is the result of the readiness
  check, \<open>None\<close> when it throws.
\<close>

definition run_request ::
    "(string \<times> merchant_profile) list \<Rightarrow> readiness option \<Rightarrow> run_request_body \<Rightarrow> js_error + run_input" where
  "run_request profiles ready body =
     (if falsy (rr_instruction body) \<or> falsy (rr_mandateId body) \<or> falsy (rr_agentId body)
      then Inl (badRequest ''instruction, mandateId and agentId are required'')
      else bindE (parseSource body) (\<lambda>source.
        bindE (check_source profiles source) (\<lambda>_.
        bindE (throwIf (\<not> (case ready of None \<Rightarrow> False | Some r \<Rightarrow> rd_ready r))
          (mk_app_error 503 DEPENDENCY_UNAVAILABLE ''payment dependencies are not ready'' True)) (\<lambda>_.
          Inr \<lparr>in_instruction = the (rr_instruction body), in_mandateId = the (rr_mandateId body),
            in_agentId = the (rr_agentId body), in_source = source,
            in_cardholderName = (if falsy (rr_cardholderName body) then None else rr_cardholderName body)\<rparr>))))"

definition post_run ::
    "('s, 'c, 'x) orch_env \<Rightarrow> int \<Rightarrow> string \<Rightarrow> readiness option \<Rightarrow> run_request_body \<Rightarrow>
     (('s, 'c, 'x) orch, run_input \<times> string) io" where
  "post_run env now requestId ready body =
     andThen (lift (run_request (ov_profiles env) ready body)) (\<lambda>input.
     andThen (startRun env now requestId input) (\<lambda>streamUrl. ret (input, streamUrl)))"

section \<open>The other routes of a run\<close>

definition run_not_found :: "string \<Rightarrow> js_error" where
  "run_not_found requestId = notFound RUN_NOT_FOUND (''no run for '' @ requestId)"

text \<open>\<open>POST /run/:requestId/escalation\<close>; a decision that is neither approve nor deny is \<open>None\<close>.\<close>

definition post_run_escalation ::
    "('s, 'c, 'x) orch_env \<Rightarrow> clock \<Rightarrow> string \<Rightarrow> escalation_decision option \<Rightarrow> string option \<Rightarrow>
     string option \<Rightarrow> standing_scope option \<Rightarrow> (('s, 'c, 'x) orch, run_state) io" where
  "post_run_escalation env clk requestId decision approvedBy signature standing w =
     (if getRun requestId (oc_store w) = None then (Inl (run_not_found requestId), w)
      else case decision of
          None \<Rightarrow> (Inl (badRequest ''decision must be approve or deny''), w)
        | Some d \<Rightarrow>
            if falsy signature \<or> falsy approvedBy
            then (Inl (badRequest ''approvedBy and signature are required''), w)
            else resolveRunEscalation env clk requestId \<lparr>rb_decision = d, rb_approvedBy = approvedBy,
                   rb_signature = signature, rb_standing = standing\<rparr> w)"

definition get_runs :: "(string \<Rightarrow> string \<Rightarrow> bool) \<Rightarrow> ('s, 'c, 'x) orch \<Rightarrow> run_summary list" where
  "get_runs later w = listRuns later (oc_store w)"

definition get_run :: "string \<Rightarrow> ('s, 'c, 'x) orch \<Rightarrow> js_error + run_summary \<times> run_event list" where
  "get_run requestId w = (case getRun requestId (oc_store w) of
      None \<Rightarrow> Inl (run_not_found requestId)
    | Some run \<Rightarrow> Inr (summary_of run, ru_events run))"

text \<open>
  \<open>GET /run/:requestId/events\<close> on a new connection: the past events are written; a finished run
  ends the response, any other run subscribes the connection.
\<close>

definition open_stream :: "nat \<Rightarrow> string \<Rightarrow> (run_store, unit) io" where
  "open_stream conn requestId s = (case getRun requestId s of
      None \<Rightarrow> (Inl (run_not_found requestId), s)
    | Some run \<Rightarrow>
        let s' = s\<lparr>st_streams := (st_streams s)(conn \<mapsto>
              \<lparr>es_written = ru_events run, es_ended = isTerminalRunState (ru_state run)\<rparr>)\<rparr>
        in if isTerminalRunState (ru_state run) then (Inr (), s')
           else subscribe requestId conn s')"

definition close_stream :: "nat \<Rightarrow> string \<Rightarrow> run_store \<Rightarrow> run_store" where
  "close_stream conn requestId s = unsubscribe requestId conn s"

section \<open>Checkout, health and fixtures\<close>

definition post_checkout_assert ::
    "('s, 'c, 'x) orch_env \<Rightarrow> string option \<Rightarrow> string option \<Rightarrow> ('s, 'c, 'x) orch \<Rightarrow>
     js_error + string \<times> string" where
  "post_checkout_assert env requestId currentUrl w =
     (if falsy requestId \<or> falsy currentUrl
      then Inl (badRequest ''requestId and currentUrl are required'')
      else case Option.bind (getRun (the requestId) (oc_store w)) ru_resolvedItem of
          None \<Rightarrow> Inl (notFound RUN_NOT_FOUND (''no discovered item for run '' @ the requestId))
        | Some item \<Rightarrow>
            bindE (assertCheckoutDomain (ov_parse env) (ov_regexp env)
              \<lparr>ca_currentUrl = the currentUrl, ca_matchedCheckoutUrl = r_checkoutUrl item,
               ca_matchedDomain = r_merchantDomain item, ca_allowedHosts = None,
               ca_checkoutUrlPattern = None\<rparr>) (\<lambda>result.
              if \<not> cr_allowed result
              then Inl (mk_app_error 403 DOMAIN_MISMATCH
                     ''current page does not match the discovered checkout URL'' False)
              else Inr (cr_merchantDomain result, cr_matchedAgainst result)))"

definition get_ready :: "readiness option \<Rightarrow> nat \<times> readiness" where
  "get_ready ready = (case ready of
      None \<Rightarrow> (503, unavailableReadiness)
    | Some r \<Rightarrow> (if rd_ready r then 200 else 503, r))"

definition get_fixture :: "string \<Rightarrow> nat \<times> string" where
  "get_fixture name = (case map_of FIXTURE_FILES name of
      None \<Rightarrow> (404, ''unknown fixture'') | Some file \<Rightarrow> (200, file))"

text \<open>
  The fixture server (\<open>discovery/fixture-server.ts\<close>): the status and the body.  \<open>read_file\<close> reads a file
  of its directory; \<open>now\<close> is the instant of the request.
\<close>

definition checkout_page :: string where
  "checkout_page = ''<!doctype html><html><body><h1>Checkout</h1>'' @
     ''<form action=\"/confirmation/xyz\" method=\"get\">'' @
     ''<input name=\"cardNumber\" autocomplete=\"cc-number\"><input name=\"cardExpiry\" autocomplete=\"cc-exp\">'' @
     ''<input name=\"cardCvc\" autocomplete=\"cc-csc\"><button data-submit-order>Place order</button></form></body></html>''"

definition confirmation_page :: "int \<Rightarrow> string" where
  "confirmation_page now = ''<!doctype html><html><body><h1>Order confirmed</h1>'' @
     ''<span data-merchant-domain>localhost</span><span data-order-total>15000000</span>'' @
     ''<span data-order-sku>BTL-500-SS</span><span data-order-id>SO-99213</span>'' @
     ''<time data-order-timestamp>'' @ toISOString now @ ''</time></body></html>''"

datatype fixture_call = Fixture_health | Fixture_page string | Fixture_checkout | Fixture_confirmation

definition buildFixtureServer :: "(string \<Rightarrow> js_error + string) \<Rightarrow> int \<Rightarrow> fixture_call \<Rightarrow> js_error + nat \<times> string" where
  "buildFixtureServer read_file now call =
     (case call of
        Fixture_health \<Rightarrow> Inr (200, ''{\"ok\":true}'')
      | Fixture_page name \<Rightarrow>
          (case get_fixture name of (status, text) \<Rightarrow>
             if status = 200 then bindE (read_file text) (\<lambda>html. Inr (200, html)) else Inr (status, text))
      | Fixture_checkout \<Rightarrow> Inr (200, checkout_page)
      | Fixture_confirmation \<Rightarrow> Inr (200, confirmation_page now))"

text \<open>
  \<open>post-issuance/spend-attestation.ts\<close>, which no route calls: it opens the checkout address of the
  discovered item, reads the order id there and copies the rest from the item.
\<close>

definition captureSpendAttestation ::
    "('s, 'c, 'x) orch_env \<Rightarrow> int \<Rightarrow> string \<Rightarrow> resolved_item \<Rightarrow> (('s, 'c, 'x) orch, spend_leg) io" where
  "captureSpendAttestation env now requestId item =
     andThen (outside (ov_open env (r_checkoutUrl item))) (\<lambda>pg.
     andThen (lift (pg_query pg ''[data-order-id]'' (Some ''data-order-id''))) (\<lambda>found.
       ret \<lparr>sl_requestId = requestId, sl_merchantDomain = r_merchantDomain item,
         sl_orderTotal = r_price item, sl_itemSku = r_sku item,
         sl_orderId = coalesce found (''SO-'' @ take 8 requestId),
         sl_observedAt = toISOString now, sl_proof = ''none''\<rparr>))"

section \<open>The service\<close>

text \<open>\<open>buildApp\<close>: the routes behind the shared hook and the shared error handler.\<close>

datatype orch_call =
    Health
  | Ready
  | Run run_request_body
  | Escalation string "escalation_decision option" "string option" "string option" "standing_scope option"
  | Runs
  | Get_run string
  | Events nat string
  | Checkout_assert "string option" "string option"

datatype orch_reply =
    R_health
  | R_ready nat readiness
  | R_run run_input string
  | R_state run_state
  | R_runs "run_summary list"
  | R_record run_summary "run_event list"
  | R_stream
  | R_allowed string string

text \<open>A reply of the service, \<open>later\<close> being the host's collation.\<close>

definition orch_handle ::
    "('s, 'c, 'x) orch_env \<Rightarrow> clock \<Rightarrow> string \<Rightarrow> readiness option \<Rightarrow> (string \<Rightarrow> string \<Rightarrow> bool) \<Rightarrow> orch_call \<Rightarrow>
     (('s, 'c, 'x) orch, orch_reply) io" where
  "orch_handle env clk fresh ready later call =
     (case call of
        Health \<Rightarrow> ret R_health
      | Ready \<Rightarrow> ret (case get_ready ready of (st, r) \<Rightarrow> R_ready st r)
      | Run body \<Rightarrow> andThen (post_run env (clk Stage_INTENT_CREATED) fresh ready body)
          (\<lambda>(input, url). ret (R_run input url))
      | Escalation requestId d approvedBy signature standing \<Rightarrow>
          andThen (post_run_escalation env clk requestId d approvedBy signature standing)
            (\<lambda>state. ret (R_state state))
      | Runs \<Rightarrow> (\<lambda>w. (Inr (R_runs (get_runs later w)), w))
      | Get_run requestId \<Rightarrow> (\<lambda>w. (map_sum id (\<lambda>(r, es). R_record r es) (get_run requestId w), w))
      | Events conn requestId \<Rightarrow>
          andThen (within oc_store (\<lambda>v w. w\<lparr>oc_store := v\<rparr>) (open_stream conn requestId)) (\<lambda>_. ret R_stream)
      | Checkout_assert requestId currentUrl \<Rightarrow>
          (\<lambda>w. (map_sum id (\<lambda>(d, u). R_allowed d u) (post_checkout_assert env requestId currentUrl w), w)))"

definition orch_status :: "orch_reply \<Rightarrow> nat" where
  "orch_status r = (case r of R_ready st x \<Rightarrow> st | R_run i u \<Rightarrow> 202 | _ \<Rightarrow> 200)"

definition orch_app ::
    "('s, 'c, 'x) orch_env \<Rightarrow> string option \<Rightarrow> clock \<Rightarrow> string \<Rightarrow> readiness option \<Rightarrow>
     (string \<Rightarrow> string \<Rightarrow> bool) \<Rightarrow> orch_call option \<Rightarrow> request \<Rightarrow> ('s, 'c, 'x) orch \<Rightarrow>
     orch_reply reply \<times> ('s, 'c, 'x) orch" where
  "orch_app env token clk fresh ready later call req w =
     (case call of
        None \<Rightarrow> (case internalAuth token req of
            Inl e \<Rightarrow> (errorHandler e req, w) | Inr _ \<Rightarrow> (notFoundHandler req, w))
      | Some c \<Rightarrow>
          (case serve token (\<lambda>_. orch_handle env clk fresh ready later c) req w of
             (Reply _ r, w') \<Rightarrow> (Reply (orch_status r) r, w')
           | (r, w') \<Rightarrow> (r, w')))"

end
