(* ===== verification/Ledger_Evolution.thy ===== *)
theory Ledger_Evolution
  imports Orchestrator_Clients Policy_Properties
begin

text \<open>
  Whatever the services do to the ledger, they do through its commands: every client action and
  every route of the policy service takes the ledger to one that a sequence of commands reaches.
  What no command takes away, such as a capture, is therefore kept by all of them.
\<close>

definition evolves :: "(string \<Rightarrow> hex) \<Rightarrow> ledger \<Rightarrow> ledger \<Rightarrow> bool" where
  "evolves h l l' \<longleftrightarrow> (\<exists>cs. l' = ledger_run h cs l)"

lemma evolves_refl [simp]: "evolves h l l"
  unfolding evolves_def by (rule exI [of _ "[]"]) simp

lemma evolves_trans: "evolves h l l' \<Longrightarrow> evolves h l' l'' \<Longrightarrow> evolves h l l''"
  unfolding evolves_def by (metis ledger_run_append)

lemma evolves_next: "evolves h l (ledger_next h now c l)"
  unfolding evolves_def by (rule exI [of _ "[(now, c)]"]) simp

text \<open>The ledger of the world has evolved from a given one.\<close>

abbreviation evolved :: "(string \<Rightarrow> hex) \<Rightarrow> ledger \<Rightarrow> 's world \<Rightarrow> bool" where
  "evolved h l \<equiv> \<lambda>w. evolves h l (wd_ledger w)"

text \<open>Each handler is the step of its command.\<close>

lemma handler_evolves:
  "evolves h l (snd (post_intent h now r m a i c l))"
  "evolves h l (snd (post_challenge now k ch l))"
  "evolves h l (snd (post_nonce now k n l))"
  "evolves h l (snd (release_nonce now k l))"
  "evolves h l (snd (put_policy now mm p l))"
  "evolves h l (snd (post_escalation now r m e u t d l))"
  "evolves h l (snd (put_escalation now k ed b l))"
  "evolves h l (snd (post_standing_approval now m d2 ex l))"
  "evolves h l (snd (post_decision now db l))"
  "evolves h l (snd (post_settlement now k tx bn ci w l))"
  "evolves h l (snd (post_capture now k oi ca tx bn l))"
  "evolves h l (snd (post_spend now k md ot sk oi ob l))"
  using evolves_next [of h l now "PostIntent r m a i c"] evolves_next [of h l now "PostChallenge k ch"]
    evolves_next [of h l now "PostNonce k n"] evolves_next [of h l now "ReleaseNonce k"]
    evolves_next [of h l now "PutPolicy mm p"] evolves_next [of h l now "PostEscalation r m e u t d"]
    evolves_next [of h l now "PutEscalation k ed b"] evolves_next [of h l now "PostStanding m d2 ex"]
    evolves_next [of h l now "PostDecision db"] evolves_next [of h l now "PostSettlement k tx bn ci w"]
    evolves_next [of h l now "PostCapture k oi ca tx bn"]
    evolves_next [of h l now "PostSpend k md ot sk oi ob"]
  by simp_all

lemma preserves_reading [preserved]: "preserves I (reading f)"
  by (simp add: preserves_def reading_def)

lemma preserves_writing:
  "(\<And>l. evolves h l (snd (g l))) \<Longrightarrow> preserves (evolved h l0) (writing n g)"
  unfolding preserves_def writing_def by (auto split: prod.split) (metis evolves_trans snd_conv)

lemma preserves_on_ledger:
  "(\<And>l. evolves h l (snd (g l))) \<Longrightarrow> preserves (evolved h l0) (on_ledger g)"
  unfolding preserves_def on_ledger_def by (auto split: prod.split) (metis evolves_trans snd_conv)

lemma policy_clients_evolve [preserved]:
  "preserves I (getIntent k)" "preserves I (getPolicy k)" "preserves I (getEscalation k)"
  "preserves I (getWindowUsage ot now k n t)" "preserves I (getStandingApproval now m dn)"
  "preserves (evolved h l0) (recordDecision now d)"
  "preserves (evolved h l0) (createEscalation now k m rs u tt dm)"
  "preserves (evolved h l0) (resolveEscalationStorage now k ed ap)"
  "preserves (evolved h l0) (setStandingApproval now m dn ex)"
  by (simp_all add: getIntent_def getPolicy_def getEscalation_def getWindowUsage_def
      getStandingApproval_def recordDecision_def createEscalation_def resolveEscalationStorage_def
      setStandingApproval_def preserved preserves_writing handler_evolves)

lemma nonce_clients_evolve [preserved]:
  "preserves (evolved h l0) (reserveNonce now k n)" "preserves (evolved h l0) (releaseNonce now k)"
  "preserves (evolved h l0) (signWith env k mid td ac res)"
proof -
  show "preserves (evolved h l0) (reserveNonce now k n)"
    unfolding preserves_def reserveNonce_def
    by (auto split: prod.split) (metis evolves_trans handler_evolves(3) snd_conv)
  show "preserves (evolved h l0) (releaseNonce now k)"
    unfolding preserves_def releaseNonce_def by (auto intro: evolves_trans handler_evolves)
  show "preserves (evolved h l0) (signWith env k mid td ac res)"
    by (auto simp: preserves_def signWith_def split: prod.split)
qed

section \<open>The routes of the policy service\<close>

lemma performSigning_evolves [preserved]:
  "preserves (evolved h l0) (performSigning env now k mid m c amount ns res ph ih dn)"
  unfolding performSigning_def Let_def
  by (intro preserves_andThen preserved) (auto intro!: preserved split: option.split sign_result.split)

lemma policy_parts_evolve [preserved]:
  "preserves (evolved h l0) (refuseAndRecord now k c d)"
  "preserves (evolved h l0) (escalateAndRespond env now k m c r d dn)"
  "preserves (evolved h l0) (closeEscalation now k ed a e)"
  by (auto simp: refuseAndRecord_def escalateAndRespond_def closeEscalation_def Let_def intro!: preserved)

lemma respondFailure_evolves [preserved]: "preserves (evolved h l0) (respondFailure env now k m dn f)"
  by (cases f) (simp_all add: respondFailure_def preserved)

lemma signAndRecord_evolves [preserved]:
  "preserves (evolved h l0) (signAndRecord env now k mid amount m c i dn cs)"
  unfolding signAndRecord_def Let_def
  by (intro preserves_andThen preserved) (auto intro!: preserved split: signing_outcome.split)

lemma decidePayment_evolves [preserved]:
  "preserves (evolved h l0) (decidePayment env now k mid amount c item i m)"
  unfolding decidePayment_def Let_def by (intro preserved)

lemma respond_evolves: "preserves I m \<Longrightarrow> I w \<Longrightarrow> I (snd (respond m w))"
  by (simp add: preserves_def)

lemma payment_request_evolves:
  "evolved h l0 w \<Longrightarrow> evolved h l0 (snd (payment_request env now body w))"
  unfolding payment_request_def Let_def by (erule respond_evolves [rotated]) (intro preserved)

lemma approveEscalation_evolves [preserved]:
  "preserves (evolved h l0) (approveEscalation env now k a st e m)"
  unfolding approveEscalation_def Let_def
  by (intro preserved) (auto intro!: preserved split: signing_outcome.split)

lemma resolve_escalation_evolves:
  "evolved h l0 w \<Longrightarrow> evolved h l0 (snd (resolve_escalation env now k d a sg st w))"
  unfolding resolve_escalation_def Let_def by (erule respond_evolves [rotated]) (intro preserved)

section \<open>The clients of the orchestrator\<close>

lemma orchestrator_clients_evolve [preserved]:
  "preserves (evolved h l0) (createIntent h now k m a i c)"
  "preserves (evolved h l0) (attachChallenge now k ch)"
  "preserves (evolved h l0) (recordSettlement now k tx bn ci raw)"
  "preserves (evolved h l0) (recordSpend now sp)"
  "preserves (evolved h l0) (recordCapture now k oi ca tx bn)"
  by (auto simp: createIntent_def attachChallenge_def recordSettlement_def recordSpend_def
      recordCapture_def intro!: preserved preserves_on_ledger handler_evolves)

lemma policy_calls_evolve [preserved]:
  "preserves (evolved h l0) (requestPayment env now k mid amount c item)"
  "preserves (evolved h l0) (resolveEscalation env now k body)"
proof -
  show "preserves (evolved h l0) (requestPayment env now k mid amount c item)"
    unfolding preserves_def requestPayment_def
    by (auto split: prod.split) (metis payment_request_evolves snd_conv)
  show "preserves (evolved h l0) (resolveEscalation env now k body)"
    unfolding preserves_def resolveEscalation_def
    by (auto split: prod.split) (metis resolve_escalation_evolves snd_conv)
qed

section \<open>Captures\<close>

definition captured :: "string \<Rightarrow> string \<Rightarrow> ledger \<Rightarrow> bool" where
  "captured k tx l \<longleftrightarrow> (\<exists>i cap. jget (l_intents l) k = Some i \<and> i_capture i = Some cap \<and>
     cp_settlementTx cap = tx)"

lemma captured_next: "captured k tx l \<Longrightarrow> captured k tx (ledger_next h now c l)"
proof -
  assume "captured k tx l"
  then obtain i cap where i: "jget (l_intents l) k = Some i" "i_capture i = Some cap" "cp_settlementTx cap = tx"
    by (auto simp: captured_def)
  have "intent_change h k (Some i) (jget (l_intents (ledger_next h now c l)) k)"
    using ledger_next_change [of h k l now c] i(1) by simp
  then show ?thesis
    by (rule intent_change_from_Some) (use i in \<open>auto simp: captured_def decide_def Let_def\<close>)
qed

lemma captured_evolves: "captured k tx l \<Longrightarrow> evolves h l l' \<Longrightarrow> captured k tx l'"
proof -
  have "captured k tx l \<Longrightarrow> captured k tx (ledger_run h cs l)" for cs
    by (induction h cs l rule: ledger_run.induct) (simp_all add: captured_next)
  then show "captured k tx l \<Longrightarrow> evolves h l l' \<Longrightarrow> captured k tx l'" by (auto simp: evolves_def)
qed

end
