(* ===== verification/Run_Invariants.thy ===== *)
theory Run_Invariants
  imports Orchestrator_App Ledger_Evolution
begin

text \<open>
  What every handler of the orchestrator preserves, as an interface: a property that survives the
  elementary writes of a run survives whole runs, resolutions and expiries.  It is interpreted on
  the well-formedness of the run records, which ties a finished run to the capture in the ledger.
\<close>

section \<open>Elementary facts\<close>

lemma update_run_twice [simp]: "update_run r f (update_run r g s) = update_run r (f \<circ> g) s"
  by (auto simp: update_run_def getRun_def update_conv' update_last split: option.splits)

lemma set_both: "setOutcome r out (setRunState r st s) = setRunState r st (setOutcome r out s)"
proof -
  have "(\<lambda>run. run\<lparr>ru_outcome := Some out\<rparr>) \<circ> (\<lambda>run. run\<lparr>ru_state := st\<rparr>) =
      (\<lambda>run. run\<lparr>ru_state := st\<rparr>) \<circ> (\<lambda>run :: run_record. run\<lparr>ru_outcome := Some out\<rparr>)"
    by (simp add: fun_eq_iff)
  then show ?thesis by (simp add: setOutcome_def setRunState_def)
qed

lemma within_snd: "snd (within get put m w) = put (snd (m (get w))) w"
  by (simp add: within_def split: prod.splits)

lemma emit_snd: "snd (emit clk r stg st ck w) =
    w\<lparr>oc_store := snd (emitEvent (clk stg) r stg (Some st) ck (oc_store w))\<rparr>"
  by (simp add: emit_def split: prod.splits)

lemma recordSettlement_nonempty:
  "recordSettlement now k tx bn ci raw w = (Inr u, w') \<Longrightarrow> tx \<noteq> []"
  by (cases tx) (auto simp: recordSettlement_def on_ledger_def andThen_def require_ok_def post_settlement_def
      intent_not_found_def split: prod.splits option.splits if_splits)

lemma recordCapture_captured:
  assumes "recordCapture now k oi ca tx bn w = (Inr u, w')" "tx \<noteq> []"
  shows "captured k tx (wd_ledger w')"
  using assms
  by (auto simp: recordCapture_def on_ledger_def andThen_def require_ok_def post_capture_def
      intent_not_found_def captured_def jm.get_put Let_def split: prod.splits option.splits if_splits)

section \<open>The interface\<close>

fun outcome_fits :: "run_state \<Rightarrow> run_outcome option \<Rightarrow> bool" where
  "outcome_fits Run_RUNNING out \<longleftrightarrow> out = None \<or> (\<exists>tx ci. out = Some (Out_checkout_pending tx ci))"
| "outcome_fits Run_ESCALATED out \<longleftrightarrow> (\<exists>r u e t. out = Some (Out_escalated r u e t))"
| "outcome_fits Run_AWAITING_CHECKOUT out \<longleftrightarrow> (\<exists>tx ci. out = Some (Out_checkout_pending tx ci))"
| "outcome_fits Run_DONE out \<longleftrightarrow> (\<exists>tx ci. out = Some (Out_signed tx ci))"
| "outcome_fits Run_REFUSED out \<longleftrightarrow> (\<exists>c i d e. out = Some (Out_refused c i d e))"
| "outcome_fits Run_FAILED out \<longleftrightarrow> (\<exists>m f. out = Some (Out_failed m f))"

locale pipeline_invariant =
  fixes I :: "('s, 'c, 'x) orch \<Rightarrow> bool" and h :: "string \<Rightarrow> hex"
  assumes world: "I w \<Longrightarrow> evolves h (wd_ledger (oc_world w)) (wd_ledger v) \<Longrightarrow> I (w\<lparr>oc_world := v\<rparr>)"
    and around: "I w \<Longrightarrow> I (w\<lparr>oc_gateway := g\<rparr>)" "I w \<Longrightarrow> I (w\<lparr>oc_ext := x\<rparr>)"
      "I w \<Longrightarrow> I (w\<lparr>oc_pending := p\<rparr>)" "I w \<Longrightarrow> I (w\<lparr>oc_timers := t\<rparr>)"
    and event: "I w \<Longrightarrow> I (w\<lparr>oc_store := snd (emitEvent n r stg st ck (oc_store w))\<rparr>)"
    and item: "I w \<Longrightarrow> I (w\<lparr>oc_store := setDiscoveredItem r it (oc_store w)\<rparr>)"
    and decided: "I w \<Longrightarrow> outcome_fits state (Some out) \<Longrightarrow> state \<noteq> Run_DONE \<Longrightarrow>
      I (w\<lparr>oc_store := setRunState r state (setOutcome r out (oc_store w))\<rparr>)"
    and finished: "I w \<Longrightarrow> captured r tx (wd_ledger (oc_world w)) \<Longrightarrow>
      I (w\<lparr>oc_store := setRunState r Run_DONE (setOutcome r (Out_signed tx ci) (oc_store w))\<rparr>)"
    and created: "I w \<Longrightarrow> getRun r (oc_store w) = None \<Longrightarrow>
      I (w\<lparr>oc_store := createRun now r meta (oc_store w)\<rparr>)"
begin

lemma services_pres:
  assumes "\<And>l. preserves (evolved h l) m"
  shows "preserves I (services m)"
  unfolding preserves_def services_def within_snd
  using assms world unfolding preserves_def by (metis evolves_refl)

lemma outside_pres: "preserves I (gateway m)" "preserves I (outside m')"
  by (simp_all add: preserves_def gateway_def outside_def within_snd around)

lemma emit_pres: "preserves I (emit clk r stg st ck)"
  by (simp add: preserves_def emit_snd event)

lemma decide_pres:
  "outcome_fits state (Some out) \<Longrightarrow> state \<noteq> Run_DONE \<Longrightarrow>
   preserves I (store (\<lambda>s. setRunState r state (setOutcome r out s)))"
  "outcome_fits state (Some out) \<Longrightarrow> state \<noteq> Run_DONE \<Longrightarrow>
   preserves I (store (\<lambda>s. setOutcome r out (setRunState r state s)))"
  by (simp_all add: preserves_def store_def set_both decided)

lemma safeFailure_pres: "preserves I (safeFailure r msg f)"
  unfolding safeFailure_def by (rule decide_pres) simp_all

lemmas parts_pres = services_pres outside_pres emit_pres safeFailure_pres

lemma checkout_pres: "preserves I (checkout_leg env clk r context ci tx)"
  by (cases "in_source (px_input context)")
    (auto simp: checkout_leg_def runCheckout_def completeUcpCheckout_def intro!: preserved parts_pres)

text \<open>The run is done only behind a successful capture.\<close>

lemma finish_pres:
  fixes env :: "('s, 'c, 'x) orch_env"
  shows "preserves I (andThen (services (recordSettlement now r tx bn ci raw)) (\<lambda>_.
    andThen (services (recordCapture now r oi ca tx bn)) (\<lambda>_.
    andThen (emit clk r stg st ck) (\<lambda>_.
      store (\<lambda>s. setRunState r Run_DONE (setOutcome r (Out_signed tx ci) s))))))"
    (is "preserves I (andThen ?settle (\<lambda>_. andThen ?capture ?rest))")
  unfolding preserves_def
proof (intro allI impI)
  fix w assume w: "I w"
  obtain a w1 where s: "?settle w = (a, w1)" by (cases "?settle w")
  have p: "preserves I ?settle" "preserves I ?capture" by (intro parts_pres preserved)+
  have w1: "I w1" using preservesD [OF p(1) w s] .
  show "I (snd (andThen ?settle (\<lambda>_. andThen ?capture ?rest) w))"
  proof (cases a)
    case (Inr u)
    obtain b w2 where c: "?capture w1 = (b, w2)" by (cases "?capture w1")
    have w2: "I w2" using preservesD [OF p(2) w1 c] .
    show ?thesis
    proof (cases b)
      case (Inr v)
      have "tx \<noteq> []"
        using s \<open>a = Inr u\<close> by (auto simp: services_def io_within dest: recordSettlement_nonempty)
      then have cap: "captured r tx (wd_ledger (oc_world w2))"
        using c Inr by (auto simp: services_def io_within intro: recordCapture_captured)
      obtain d w3 where e: "emit clk r stg st ck w2 = (d, w3)" by (cases "emit clk r stg st ck w2")
      have "I w3" by (rule preservesD [OF emit_pres w2 e])
      moreover have "captured r tx (wd_ledger (oc_world w3))"
        using cap e emit_snd [of clk r stg st ck w2] by simp
      ultimately show ?thesis
        using s c e \<open>a = Inr u\<close> Inr
        by (cases d) (simp_all add: andThen_def store_def finished)
    qed (use s c w2 \<open>a = Inr u\<close> in \<open>simp add: andThen_def\<close>)
  qed (use s w1 in \<open>simp add: andThen_def\<close>)
qed

lemma finalize_pres: "preserves I (finalize_settlement env clk r context ci tx sp)"
  unfolding finalize_settlement_def Let_def
  by (intro preserves_andThen preserves_if finish_pres parts_pres)

lemma continue_pres: "preserves I (continueSignedRun env clk r context header)"
  unfolding continueSignedRun_def signed_run_def
  by (intro preserved parts_pres, split pay_result.split)
    (auto intro!: preserved parts_pres decide_pres checkout_pres finalize_pres)

lemma pending_pres:
  "preserves I (\<lambda>w. (Inr (), w\<lparr>oc_pending := f w\<rparr>))"
  "preserves I (scheduleExpiry now r e)"
  by (simp_all add: preserves_def around scheduleExpiry_def Let_def)

lemma handleDecision_pres: "preserves I (handleDecision env clk r context decision)"
  by (cases decision)
    (auto simp: handleDecision_def intro!: preserved parts_pres decide_pres pending_pres continue_pres)

lemma discover_pres: "preserves I (discover env clk r input profile)"
  by (cases "in_source input") (auto simp: discover_def intro!: preserved parts_pres)

lemma acquire_pres: "preserves I (acquire_decision env clk r input profile d)"
  unfolding acquire_decision_def Let_def by (intro preserved parts_pres)

lemma item_pres: "preserves I (store (setDiscoveredItem r it))"
  by (simp add: preserves_def store_def item)

lemma execute_pres:
  "h = pe_keccak_text (ov_policy env) \<Longrightarrow> preserves I (executeRun env clk r input)"
  unfolding executeRun_def run_body_def Let_def
  by (intro preserved parts_pres handleDecision_pres discover_pres acquire_pres item_pres)
    (simp_all add: orchestrator_clients_evolve)

lemma start_pres:
  assumes "I w" "getRun r (oc_store w) = None"
  shows "I (snd (startRun env now r input w))"
  using assms by (auto simp: startRun_def andThen_def store_def created split: sum.splits)

lemma expire_pres: "I w \<Longrightarrow> I (snd (expire_begin env now r w))" "preserves I (expire_finish r answer)"
proof -
  assume "I w"
  then have "I (w\<lparr>oc_timers := AList.delete r (oc_timers w)\<rparr>)" by (rule around)
  then show "I (snd (expire_begin env now r w))"
    using preservesD [OF services_pres [OF policy_calls_evolve(2)]]
    by (auto simp: expire_begin_def Let_def split: prod.splits)
next
  have drop: "I w \<Longrightarrow> I (drop_pending r w)" for w
    unfolding drop_pending_def using around(4) [OF around(3) [of w]] by simp
  have fin: "preserves I (finalizeExpiredEscalation r)"
    using drop decide_pres(1) [of Run_REFUSED]
    unfolding preserves_def finalizeExpiredEscalation_def by auto
  show "preserves I (expire_finish r answer)"
    using fin safeFailure_pres drop unfolding expire_finish_def preserves_def by (auto split: sum.split)
qed

lemma resolve_pres:
  "preserves I (resolve_begin env now r body)" "preserves I (resolve_finish env clk r context answer)"
proof -
  show "preserves I (resolve_begin env now r body)"
    using preservesD [OF services_pres [OF policy_calls_evolve(2)]]
    by (auto simp: preserves_def resolve_begin_def split: option.splits prod.splits)
  have drop: "I w \<Longrightarrow> I (drop_pending r w)" for w
    unfolding drop_pending_def using around(4) [OF around(3) [of w]] by simp
  have fin: "preserves I (finalizeExpiredEscalation r)"
    using drop decide_pres(1) [of Run_REFUSED]
    unfolding preserves_def finalizeExpiredEscalation_def by auto
  show "preserves I (resolve_finish env clk r context answer)"
  proof (cases answer)
    case (Inl e)
    have "preserves I (andThen (finalizeExpiredEscalation r) (\<lambda>_. ret Run_REFUSED))"
      by (intro preserved fin)
    then show ?thesis using Inl by (auto simp: preserves_def resolve_finish_def)
  next
    case (Inr decision)
    have "resolve_finish env clk r context answer =
        andThen (\<lambda>w. (Inr (), drop_pending r w)) (\<lambda>_. andThen (case decision of
             EA_signed header nonce \<Rightarrow>
               andThen (store (\<lambda>s. setOutcome r (Out_checkout_pending ''pending'' ''pending'')
                 (setRunState r Run_RUNNING s))) (\<lambda>_. continueSignedRun env clk r context header)
           | EA_refused check checkIndex detail human \<Rightarrow>
               store (\<lambda>s. setRunState r Run_REFUSED
                 (setOutcome r (Out_refused check checkIndex detail human) s))) (\<lambda>_.
            \<lambda>w. (Inr (coalesce (run_state_of r w) Run_FAILED), w)))"
      by (simp add: resolve_finish_def Inr fun_eq_iff)
    moreover have "preserves I (\<lambda>w. (Inr (), drop_pending r w))"
      "preserves I (\<lambda>w. (Inr (coalesce (run_state_of r w) Run_FAILED), w))"
      by (simp_all add: preserves_def drop)
    ultimately show ?thesis
      by (cases decision) (auto intro!: preserved decide_pres continue_pres)
  qed
qed

end

section \<open>Well-formed runs\<close>

definition run_ok :: "string \<Rightarrow> run_record \<Rightarrow> ledger \<Rightarrow> bool" where
  "run_ok k run l \<longleftrightarrow> ru_requestId run = k \<and>
     map rev_seq (ru_events run) = [1..<length (ru_events run) + 1] \<and>
     outcome_fits (ru_state run) (ru_outcome run) \<and>
     (ru_state run = Run_DONE \<longrightarrow> (\<forall>tx ci. ru_outcome run = Some (Out_signed tx ci) \<longrightarrow> captured k tx l))"

definition runs_ok :: "('s, 'c, 'x) orch \<Rightarrow> bool" where
  "runs_ok w \<longleftrightarrow> (\<forall>k run. getRun k (oc_store w) = Some run \<longrightarrow> run_ok k run (wd_ledger (oc_world w)))"

lemma run_ok_evolves: "run_ok k run l \<Longrightarrow> evolves h l l' \<Longrightarrow> run_ok k run l'"
  by (auto simp: run_ok_def intro: captured_evolves)

lemma runs_ok_update:
  assumes "runs_ok w" "\<And>run. run_ok r run (wd_ledger (oc_world w)) \<Longrightarrow> run_ok r (f run) (wd_ledger (oc_world w))"
  shows "runs_ok (w\<lparr>oc_store := update_run r f (oc_store w)\<rparr>)"
  using assms by (auto simp: runs_ok_def)

interpretation run_records: pipeline_invariant runs_ok h for h
proof unfold_locales
  fix w :: "('a, 'b, 'c) orch" and v :: "'a world"
  assume "runs_ok w" "evolves h (wd_ledger (oc_world w)) (wd_ledger v)"
  then show "runs_ok (w\<lparr>oc_world := v\<rparr>)" by (auto simp: runs_ok_def intro: run_ok_evolves)
next
  fix w :: "('a, 'b, 'c) orch" and n r stg st ck
  assume w: "runs_ok w"
  show "runs_ok (w\<lparr>oc_store := snd (emitEvent n r stg st ck (oc_store w))\<rparr>)"
  proof (cases "getRun r (oc_store w)")
    case (Some run)
    have "run_ok r run (wd_ledger (oc_world w))" using w Some by (simp add: runs_ok_def)
    then show ?thesis using w Some
      by (auto simp: emitEvent_def Let_def runs_ok_def run_ok_def getRun_def update_conv')
  qed (use w in \<open>simp add: emitEvent_def\<close>)
next
  fix w :: "('a, 'b, 'c) orch" and r it
  assume "runs_ok w"
  then show "runs_ok (w\<lparr>oc_store := setDiscoveredItem r it (oc_store w)\<rparr>)"
    unfolding setDiscoveredItem_def by (rule runs_ok_update) (simp add: run_ok_def)
next
  fix w :: "('a, 'b, 'c) orch" and state r and out :: run_outcome
  assume "runs_ok w" "outcome_fits state (Some out)" "state \<noteq> Run_DONE"
  then show "runs_ok (w\<lparr>oc_store := setRunState r state (setOutcome r out (oc_store w))\<rparr>)"
    unfolding setRunState_def setOutcome_def update_run_twice
    by (intro runs_ok_update) (simp_all add: run_ok_def)
next
  fix w :: "('a, 'b, 'c) orch" and r tx ci
  assume "runs_ok w" "captured r tx (wd_ledger (oc_world w))"
  then show "runs_ok (w\<lparr>oc_store := setRunState r Run_DONE (setOutcome r (Out_signed tx ci) (oc_store w))\<rparr>)"
    unfolding setRunState_def setOutcome_def update_run_twice
    by (intro runs_ok_update) (simp_all add: run_ok_def)
next
  fix w :: "('a, 'b, 'c) orch" and r now meta
  assume "runs_ok w" "getRun r (oc_store w) = None"
  then show "runs_ok (w\<lparr>oc_store := createRun now r meta (oc_store w)\<rparr>)"
    by (auto simp: runs_ok_def run_ok_def)
qed (simp_all add: runs_ok_def)

end
