(* ===== verification/Run_System.thy ===== *)
theory Run_System
  imports Run_Invariants
begin

text \<open>
  The orchestrator as a transition system.  A state is the world and the answers of the policy
  service that are on their way back to a handler; handlers of one run can overlap there, also an
  answer with the expiry of its escalation.  Everything else of the world may change between two
  steps: other requests to the ledger, the chain, the signer, the outside.
\<close>

datatype waiting =
    Waiting_resolve string pending_context "js_error + escalation_answer"
  | Waiting_expire string "js_error + escalation_answer"

type_synonym ('s, 'c, 'x) system = "('s, 'c, 'x) orch \<times> waiting list"

inductive system_step ::
    "('s, 'c, 'x) orch_env \<Rightarrow> ('s, 'c, 'x) system \<Rightarrow> ('s, 'c, 'x) system \<Rightarrow> bool" for env where
  run: "getRun r (oc_store w) = None \<Longrightarrow> startRun env now r input w = (Inr u, w1) \<Longrightarrow>
    system_step env (w, fl) (snd (executeRun env clk r input w1), fl)"
| ask: "resolve_begin env now r body w = (Inr (context, answer), w') \<Longrightarrow>
    system_step env (w, fl) (w', Waiting_resolve r context answer # fl)"
| answered: "Waiting_resolve r context answer \<in> set fl \<Longrightarrow>
    system_step env (w, fl) (snd (resolve_finish env clk r context answer w),
      remove1 (Waiting_resolve r context answer) fl)"
| fire: "jget (oc_timers w) r = Some t \<Longrightarrow> t \<le> now \<Longrightarrow>
    expire_begin env now r w = (Some answer, w') \<Longrightarrow>
    system_step env (w, fl) (w', Waiting_expire r answer # fl)"
| fire_late: "jget (oc_timers w) r = Some t \<Longrightarrow> t \<le> now \<Longrightarrow> expire_begin env now r w = (None, w') \<Longrightarrow>
    system_step env (w, fl) (w', fl)"
| expired: "Waiting_expire r answer \<in> set fl \<Longrightarrow>
    system_step env (w, fl) (snd (expire_finish r answer w), remove1 (Waiting_expire r answer) fl)"
| watch: "st_streams (oc_store w) conn = None \<Longrightarrow>
    system_step env (w, fl) (w\<lparr>oc_store := snd (open_stream conn r (oc_store w))\<rparr>, fl)"
| unwatch: "system_step env (w, fl) (w\<lparr>oc_store := close_stream conn r (oc_store w)\<rparr>, fl)"
| elsewhere: "evolves (pe_keccak_text (ov_policy env)) (wd_ledger (oc_world w)) (wd_ledger v) \<Longrightarrow>
    system_step env (w, fl) (w\<lparr>oc_world := v, oc_gateway := g, oc_ext := x\<rparr>, fl)"

inductive system_reachable ::
    "('s, 'c, 'x) orch_env \<Rightarrow> ('s, 'c, 'x) system \<Rightarrow> bool" for env where
  boot: "st_runs (oc_store w) = [] \<Longrightarrow> system_reachable env (w, [])"
| step: "system_reachable env x \<Longrightarrow> system_step env x y \<Longrightarrow> system_reachable env y"

section \<open>Run records\<close>

lemma run_ok_subscribers [simp]: "run_ok k (run\<lparr>ru_subscribers := cs\<rparr>) l = run_ok k run l"
  by (simp add: run_ok_def)

lemma open_stream_runs:
  "runs_ok w \<Longrightarrow> runs_ok (w\<lparr>oc_store := snd (open_stream conn r (oc_store w))\<rparr>)"
  by (auto simp: runs_ok_def open_stream_def subscribe_def Let_def split: option.splits)

lemma close_stream_runs:
  "runs_ok w \<Longrightarrow> runs_ok (w\<lparr>oc_store := close_stream conn r (oc_store w)\<rparr>)"
  unfolding close_stream_def unsubscribe_def by (erule runs_ok_update) (simp add: run_ok_def)

lemma system_step_runs:
  assumes "system_step env x y" "runs_ok (fst x)"
  shows "runs_ok (fst y)"
proof -
  let ?h = "pe_keccak_text (ov_policy env)"
  show ?thesis
    using assms
  proof cases
    case (run r w now input u w1 fl clk)
    have "runs_ok w1"
      using run_records.start_pres [of w r env now input] run assms(2) by simp
    then show ?thesis
      using run_records.execute_pres [of ?h env clk r input] run by (simp add: preserves_def)
  next
    case (ask now r body w ctx answer w' fl)
    then show ?thesis
      using run_records.resolve_pres(1) [of env now r body] assms(2) by (auto dest: preservesD)
  next
    case (answered r ctx answer fl w clk)
    then show ?thesis
      using run_records.resolve_pres(2) [of env clk r ctx answer] assms(2) by (simp add: preserves_def)
  next
    case (fire w r t now answer w' fl)
    then show ?thesis using run_records.expire_pres(1) [of w env now r] assms(2) by simp
  next
    case (fire_late w r t now w' fl)
    then show ?thesis using run_records.expire_pres(1) [of w env now r] assms(2) by simp
  next
    case (expired r answer fl w)
    then have "runs_ok w" using assms(2) by simp
    then have "runs_ok (snd (expire_finish r answer w))"
      by (rule run_records.expire_pres(2) [unfolded preserves_def, rule_format])
    then show ?thesis using expired by simp
  next
    case (elsewhere w v fl g x')
    have "runs_ok (w\<lparr>oc_world := v\<rparr>)"
      using run_records.world [of w ?h v] elsewhere assms(2) by simp
    then show ?thesis using elsewhere by (simp add: runs_ok_def)
  qed (simp_all add: open_stream_runs close_stream_runs)
qed

lemma system_reachable_runs: "system_reachable env x \<Longrightarrow> runs_ok (fst x)"
proof (induction rule: system_reachable.induct)
  case (boot w)
  then show ?case by (simp add: runs_ok_def getRun_def)
qed (rule system_step_runs)

text \<open>C13. Whatever overlaps, the record of a run is coherent: it sits under its own id, its events are numbered
  from one without gaps, its outcome is of the kind that its state announces, and a run that is
  done carries a settlement transaction that the ledger holds as captured for this very request.\<close>

theorem run_records_coherent:
  assumes "system_reachable env (w, fl)" "getRun k (oc_store w) = Some run"
  shows "ru_requestId run = k \<and>
    map rev_seq (ru_events run) = [1..<length (ru_events run) + 1] \<and>
    outcome_fits (ru_state run) (ru_outcome run) \<and>
    (ru_state run = Run_DONE \<longrightarrow> (\<exists>tx ci i cap. ru_outcome run = Some (Out_signed tx ci) \<and>
       jget (l_intents (wd_ledger (oc_world w))) k = Some i \<and> i_capture i = Some cap \<and>
       cp_settlementTx cap = tx))"
proof -
  have "run_ok k run (wd_ledger (oc_world w))"
    using system_reachable_runs [OF assms(1)] assms(2) by (simp add: runs_ok_def)
  then show ?thesis by (auto simp: run_ok_def captured_def)
qed

section \<open>Event streams\<close>

definition still_open :: "nat \<Rightarrow> ('s, 'c, 'x) orch \<Rightarrow> bool" where
  "still_open c w \<longleftrightarrow> (\<exists>es. st_streams (oc_store w) c = Some es \<and> \<not> es_ended es)"

text \<open>The run is not finished.\<close>

definition unfinished :: "string \<Rightarrow> ('s, 'c, 'x) orch \<Rightarrow> bool" where
  "unfinished r w \<longleftrightarrow> (\<forall>run. getRun r (oc_store w) = Some run \<longrightarrow> \<not> isTerminalRunState (ru_state run))"

definition live :: "nat \<Rightarrow> string \<Rightarrow> ('s, 'c, 'x) orch \<Rightarrow> bool" where
  "live c r w \<longleftrightarrow> still_open c w \<and> unfinished r w"

lemma notify_open:
  assumes "\<not> isTerminalRunState st" "f c = Some es" "\<not> es_ended es"
  shows "\<exists>es'. notify st e cs f c = Some es' \<and> \<not> es_ended es'"
  using assms
proof (induction st e cs f arbitrary: es rule: notify.induct)
  case (2 state event d ds streams)
  define s1 where "s1 = (if d = c then on_event state event es else es)"
  have 1: "(streams(d := map_option (on_event state event) (streams d))) c = Some s1"
    using 2(3) by (auto simp: s1_def)
  have s1: "\<not> es_ended s1" using 2(2,4) by (auto simp: s1_def on_event_def)
  show ?case using 2(1) [OF 2(2) 1 s1] by (simp only: notify.simps)
qed simp

lemma emit_live: "preserves (live c r :: ('s, 'c, 'x) orch \<Rightarrow> bool) (emit clk r stg st ck)"
  unfolding preserves_def emit_snd
proof (intro allI impI)
  fix w :: "('s, 'c, 'x) orch" assume w: "live c r w"
  then obtain es where es: "st_streams (oc_store w) c = Some es" "\<not> es_ended es"
    by (auto simp: live_def still_open_def)
  show "live c r (w\<lparr>oc_store := snd (emitEvent (clk stg) r stg (Some st) ck (oc_store w))\<rparr>)"
  proof (cases "getRun r (oc_store w)")
    case (Some run)
    then have run: "\<not> isTerminalRunState (ru_state run)" using w by (simp add: live_def unfinished_def)
    show ?thesis
      using Some run notify_open [where f = "st_streams (oc_store w)", OF run es]
      by (auto simp: live_def still_open_def unfinished_def emitEvent_def Let_def getRun_def update_conv')
  qed (use w in \<open>simp add: emitEvent_def\<close>)
qed

lemma elsewhere_live:
  "preserves (live c r) (services m)" "preserves (live c r) (gateway m')" "preserves (live c r) (outside m'')"
  by (simp_all add: preserves_def services_def gateway_def outside_def within_snd live_def
      still_open_def unfinished_def)

lemma update_live:
  "live c r w \<Longrightarrow> (\<And>run. \<not> isTerminalRunState (ru_state run) \<Longrightarrow> \<not> isTerminalRunState (ru_state (f run))) \<Longrightarrow>
   live c r (w\<lparr>oc_store := update_run r f (oc_store w)\<rparr>)"
  by (auto simp: live_def still_open_def unfinished_def)

lemma set_live:
  "\<not> isTerminalRunState st \<Longrightarrow> preserves (live c r) (store (\<lambda>s. setRunState r st (setOutcome r out s)))"
  "\<not> isTerminalRunState st \<Longrightarrow> preserves (live c r) (store (\<lambda>s. setOutcome r out (setRunState r st s)))"
  "preserves (live c r) (store (setDiscoveredItem r it))"
  unfolding set_both
  by (auto simp: preserves_def store_def setRunState_def setOutcome_def setDiscoveredItem_def intro!: update_live)

lemma pending_live:
  "preserves (live c r) (\<lambda>w. (Inr (), w\<lparr>oc_pending := f w\<rparr>))"
  "preserves (live c r) (scheduleExpiry now k e)"
  "preserves (live c r) (\<lambda>w. (Inr (), drop_pending k w))"
  by (simp_all add: preserves_def live_def still_open_def unfinished_def scheduleExpiry_def Let_def
      drop_pending_def)

text \<open>
  An action that keeps the run unfinished when it throws, and the stream open in any case: the
  state of the run becomes final only by its last write.
\<close>

definition closes :: "nat \<Rightarrow> string \<Rightarrow> (('s, 'c, 'x) orch, 'a) io \<Rightarrow> bool" where
  "closes c r m \<longleftrightarrow> (\<forall>w. live c r w \<longrightarrow>
     (case m w of (Inl e, w') \<Rightarrow> live c r w' | (Inr x, w') \<Rightarrow> still_open c w'))"

named_theorems closing \<open>actions that leave an open stream open\<close>

lemma closes_preserved: "preserves (live c r) m \<Longrightarrow> closes c r m"
  unfolding closes_def preserves_def live_def by (metis (no_types, lifting) case_prod_beta sum.case_eq_if)

lemma closes_andThen [closing]:
  fixes m :: "(('s, 'c, 'x) orch, 'a) io"
  assumes "preserves (live c r) m" "\<And>x. closes c r (f x)"
  shows "closes c r (andThen m f)"
  unfolding closes_def
proof (intro allI impI)
  fix w :: "('s, 'c, 'x) orch" assume w: "live c r w"
  obtain a w1 where m: "m w = (a, w1)" by (cases "m w")
  have "live c r w1" by (rule preservesD [OF assms(1) w m])
  then show "case andThen m f w of (Inl e, w') \<Rightarrow> live c r w' | (Inr x, w') \<Rightarrow> still_open c w'"
    using assms(2) by (cases a) (simp_all add: andThen_def m closes_def)
qed

lemma closes_if [closing]: "closes c r m \<Longrightarrow> closes c r n \<Longrightarrow> closes c r (if b then m else n)"
  by simp

lemma store_closes [closing]:
  "closes c r (store (\<lambda>s. setRunState r st (setOutcome r out s)))"
  "closes c r (safeFailure r msg f)"
  by (simp_all add: closes_def store_def safeFailure_def live_def still_open_def setRunState_def setOutcome_def)

text \<open>\<open>try\<close> with a failure handler that only writes the outcome.\<close>

lemma catching_failure:
  fixes m :: "(('s, 'c, 'x) orch, unit) io"
  assumes "closes c r m"
  shows "closes c r (catching m (\<lambda>_. safeFailure r msg f))"
  unfolding closes_def
proof (intro allI impI)
  fix w :: "('s, 'c, 'x) orch" assume w: "live c r w"
  obtain a w1 where m: "m w = (a, w1)" by (cases "m w")
  have c: "case (a, w1) of (Inl e, w') \<Rightarrow> live c r w' | (Inr x, w') \<Rightarrow> still_open c w'"
    using assms w m unfolding closes_def by metis
  show "case catching m (\<lambda>_. safeFailure r msg f) w of
      (Inl e, w') \<Rightarrow> live c r w' | (Inr x, w') \<Rightarrow> still_open c w'"
  proof (cases a)
    case (Inl e)
    then have "live c r w1" using c by simp
    moreover have "closes c r (safeFailure r msg f :: (('s, 'c, 'x) orch, unit) io)" by (rule store_closes)
    ultimately show ?thesis using Inl by (simp add: catching_def m closes_def)
  qed (use c in \<open>simp add: catching_def m\<close>)
qed

lemmas live_parts = emit_live elsewhere_live set_live pending_live

lemma checkout_live: "preserves (live c r) (checkout_leg env clk r context ci tx)"
  by (cases "in_source (px_input context)")
    (auto simp: checkout_leg_def runCheckout_def completeUcpCheckout_def intro!: preserved live_parts)

lemma signed_run_closes: "closes c r (signed_run env clk r context header)"
  unfolding signed_run_def finalize_settlement_def Let_def
  by (intro closes_andThen live_parts, split pay_result.split)
    (auto simp: isTerminalRunState_def intro!: closing live_parts checkout_live)

lemma continue_closes: "closes c r (continueSignedRun env clk r context header)"
  unfolding continueSignedRun_def by (rule catching_failure [OF signed_run_closes])

lemma handleDecision_closes: "closes c r (handleDecision env clk r context decision)"
  by (cases decision)
    (auto simp: handleDecision_def isTerminalRunState_def intro!: closing live_parts continue_closes
      closes_preserved [OF pending_live(2)])

lemma executeRun_closes: "closes c r (executeRun env clk r input)"
proof -
  have d: "preserves (live c r) (discover env clk r input profile)" for profile
    by (cases "in_source input") (auto simp: discover_def intro!: preserved live_parts)
  have a: "preserves (live c r) (acquire_decision env clk r input profile disc)" for profile disc
    unfolding acquire_decision_def Let_def by (intro preserved live_parts)
  have "closes c r (run_body env clk r input)"
    unfolding run_body_def Let_def
    by (intro closes_andThen preserved live_parts d a) (auto intro!: handleDecision_closes)
  then show ?thesis unfolding executeRun_def by (rule catching_failure)
qed

lemma closes_open:
  assumes "closes c r m" "live c r w"
  shows "still_open c (snd (m w))"
proof -
  have "case m w of (Inl e, w') \<Rightarrow> live c r w' | (Inr x, w') \<Rightarrow> still_open c w'"
    using assms by (simp add: closes_def)
  then show ?thesis by (auto simp: live_def split: prod.splits sum.splits)
qed

lemma store_open:
  "still_open c w \<Longrightarrow> still_open c (snd (store (\<lambda>s. setRunState r st (setOutcome r out s)) w))"
  "still_open c w \<Longrightarrow> still_open c (drop_pending r w)"
  "still_open c w \<Longrightarrow> still_open c (snd (finalizeExpiredEscalation r w))"
  "still_open c w \<Longrightarrow> still_open c (snd (safeFailure r msg f w))"
  by (simp_all add: still_open_def store_def setRunState_def setOutcome_def drop_pending_def
      finalizeExpiredEscalation_def safeFailure_def)

lemma finish_open:
  "still_open c w \<Longrightarrow> still_open c (snd (expire_finish r answer w))"
  by (auto simp: expire_finish_def store_open split: sum.split)

lemma still_open_world [simp]:
  "still_open c (w\<lparr>oc_world := v\<rparr>) = still_open c w" "still_open c (w\<lparr>oc_timers := t\<rparr>) = still_open c w"
  by (simp_all add: still_open_def)

lemma begin_open:
  "still_open c w \<Longrightarrow> still_open c (snd (expire_begin env now r w))"
  "still_open c w \<Longrightarrow> still_open c (snd (resolve_begin env now r body w))"
  by (auto simp: expire_begin_def resolve_begin_def Let_def services_def within_def
      split: prod.splits option.splits)

lemma answer_open:
  assumes "still_open c w"
  shows "still_open c (snd (resolve_finish env clk r ctx answer w))"
proof (cases answer)
  case (Inl e)
  have "finalizeExpiredEscalation r w = (Inr (), snd (finalizeExpiredEscalation r w))"
    by (simp add: finalizeExpiredEscalation_def store_def)
  then show ?thesis
    using Inl assms store_open(3) [OF assms, of r]
    by (auto simp: resolve_finish_def andThen_def ret_def split: prod.splits)
next
  case (Inr decision)
  let ?w = "\<lambda>w. w\<lparr>oc_store := setOutcome r (Out_checkout_pending ''pending'' ''pending'')
    (setRunState r Run_RUNNING (oc_store w))\<rparr>"
  have d: "still_open c (drop_pending r w)" by (rule store_open(2) [OF assms])
  have "live c r (?w (drop_pending r w))"
    using d by (auto simp: live_def still_open_def unfinished_def setOutcome_def setRunState_def
        isTerminalRunState_def)
  then have s: "\<And>h. still_open c (snd (continueSignedRun env clk r ctx h (?w (drop_pending r w))))"
    by (rule closes_open [OF continue_closes])
  show ?thesis
  proof (cases decision)
    case (EA_signed header nonce)
    obtain a w1 where c: "continueSignedRun env clk r ctx header (?w (drop_pending r w)) = (a, w1)"
      by (cases "continueSignedRun env clk r ctx header (?w (drop_pending r w))")
    have "still_open c w1" using s [of header] by (simp add: c)
    then show ?thesis
      using EA_signed c by (cases a) (simp_all add: resolve_finish_def Inr andThen_def store_def)
  next
    case (EA_refused check checkIndex detail human)
    then show ?thesis
      using store_open(1) [OF d, of r Run_REFUSED]
      by (simp add: resolve_finish_def Inr andThen_def store_def)
  qed
qed

lemma system_step_open:
  assumes "system_step env x y" "still_open c (fst x)"
  shows "still_open c (fst y)"
  using assms
proof cases
  case (run r w now input u w1 fl clk)
  have "live c r w1"
    using run assms(2)
    by (auto simp: startRun_def andThen_def lift_def ret_def store_def live_def still_open_def unfinished_def
        isTerminalRunState_def split: prod.splits sum.splits)
  then show ?thesis using closes_open [OF executeRun_closes] run by simp
next
  case (watch w conn r fl)
  then show ?thesis
    using assms(2) by (auto simp: still_open_def open_stream_def subscribe_def Let_def split: option.splits)
next
  case (unwatch w fl conn r)
  then show ?thesis using assms(2) by (simp add: still_open_def close_stream_def unsubscribe_def)
next
  case (ask now r body w ctx answer w' fl)
  then show ?thesis using begin_open(2) [of c w env now r body] assms(2) by simp
next
  case (fire w r t now answer w' fl)
  then show ?thesis using begin_open(1) [of c w env now r] assms(2) by simp
next
  case (fire_late w r t now w' fl)
  then show ?thesis using begin_open(1) [of c w env now r] assms(2) by simp
next
  case (elsewhere w v fl g x')
  then show ?thesis using assms(2) by (simp add: still_open_def)
qed (use assms(2) in \<open>simp_all add: answer_open finish_open\<close>)

text \<open>A response of GET /run/:requestId/events that is open stays open on the side of the server, whatever the
  handlers do next, each taken as one step: the run writes all its events before it becomes final,
  so that no event arrives in a final state.  The client of a finished run waits on.\<close>

theorem live_stream_never_ended:
  assumes "(system_step env)\<^sup>*\<^sup>* x y" "still_open c (fst x)"
  shows "still_open c (fst y)"
  using assms by (induction rule: rtranclp_induct) (auto intro: system_step_open)

end
