(* ===== verification/Run_Properties.thy ===== *)
theory Run_Properties
  imports Run_System Wiring_Properties Escalation_Properties
begin

text \<open>
  What a run guarantees: the exactness of its price, what crosses from the card service's untrusted
  tool result, where the browser pays, what a finished run proves, and how refusals and expired
  escalations end it.
\<close>

section \<open>A finished run\<close>

lemma confirm_body_Inr:
  assumes "parse_settlement_body (Some (confirm_body tx chain asset recipient amount)) = Inr q"
  shows "sq_txHash q = to_lower tx" "sq_chainId q = Some (JNum chain)" "sq_asset q = to_lower asset"
    "sq_to q = to_lower recipient" "sq_amount q = amount"
  using assms
  by (auto simp: parse_settlement_body_def confirm_body_def jmember_def parse_Inr parseTxHash_def)

lemma map_sum_reply: "map_sum id SettlementReply x = Inr (SettlementReply r) \<longleftrightarrow> x = Inr r"
  by (cases x) auto

lemma confirmSettlement_matched:
  assumes "confirmSettlement gd gt token rid now tx chain asset recipient amount st = (Inr r, st')" "st_ok r"
  obtains receipt c1 where
    "cl_getTransactionReceipt (gd_client gd) chain (to_lower tx) (snd st) = (Inr receipt, c1)"
    "tr_success receipt"
    "filter (transfer_matches (gd_decode gd) (to_lower asset) (to_lower recipient) (int (of_base 10 amount)))
       (tr_logs receipt) \<noteq> []"
proof -
  let ?body = "Some (confirm_body tx chain asset recipient amount)"
  have "\<exists>c'. settlement_route (gd_client gd) (gd_decode gd) ?body (snd st) = (Inr r, c')"
    using assms(1)
    by (auto simp: confirmSettlement_def gateway_app_def serve_def gateway_handle_def on_chain_def Let_def
        errorHandler_def map_sum_reply split: sum.splits prod.splits reply.splits gateway_reply.splits js_error.splits if_splits)
  then obtain c' where "settlement_route (gd_client gd) (gd_decode gd) ?body (snd st) = (Inr r, c')" ..
  then obtain q c receipt s1 head where b: "parse_settlement_body ?body = Inr q"
      "parseChainNumber (sq_chainId q) = Inr c"
      "cl_getTransactionReceipt (gd_client gd) c (sq_txHash q) (snd st) = (Inr receipt, s1)"
      "st_ok r \<longleftrightarrow> tr_success receipt \<and> st_transferMatched r"
      "st_transferMatched r \<longleftrightarrow> filter (transfer_matches (gd_decode gd) (sq_asset q) (sq_to q)
        (int (of_base 10 (sq_amount q)))) (tr_logs receipt) \<noteq> []"
    by (rule settlement_route_Inr)
  note q = confirm_body_Inr [OF b(1)]
  have "c = chain" using b(2) by (auto simp: q parseChainNumber_def parse_Inr)
  then show ?thesis using that b(3-5) assms(2) by (simp add: q)
qed

lemma run_state_update [simp]:
  "run_state_of k (w\<lparr>oc_store := setRunState r st s\<rparr>) =
     (if k = r then map_option (\<lambda>_. st) (getRun r s) else map_option ru_state (getRun k s))"
  "run_state_of k (w\<lparr>oc_store := setOutcome r out s\<rparr>) = map_option ru_state (getRun k s)"
  by (auto simp: run_state_of_def setRunState_def setOutcome_def option.map_comp o_def)

lemma failure_state: "run_state_of r (snd (safeFailure r msg f w)) \<in> {None, Some Run_FAILED}"
  by (cases "getRun r (oc_store w)") (auto simp: safeFailure_def store_def setOutcome_def)

text \<open>The branches of a signed run that end in the state DONE.\<close>

abbreviation px_challenge :: "pending_context \<Rightarrow> x402_requirements" where
  "px_challenge px \<equiv> gc_challenge (px_cardResult px)"

lemma finalize_done:
  assumes "finalize_settlement env clk r px ci tx sp w = (Inr u, w')" "run_state_of r w' = Some Run_DONE"
  obtains st g where "confirmSettlement (ov_gateway env) (ov_gatewayToken env) (ov_token env) (ov_rid env)
      (clk Stage_SETTLEMENT_FINALIZED) tx (c_chainId (px_challenge px)) (c_asset (px_challenge px))
      (c_payTo (px_challenge px)) (c_amount (px_challenge px)) (oc_gateway w) = (Inr st, g)" "st_ok st"
    "map_option ru_outcome (getRun r (oc_store w')) = Some (Some (Out_signed tx ci))"
    "captured r tx (wd_ledger (oc_world w'))"
proof -
  from assms(1) obtain st w1 where
    c: "gateway (confirmSettlement (ov_gateway env) (ov_gatewayToken env) (ov_token env) (ov_rid env)
      (clk Stage_SETTLEMENT_FINALIZED) tx (c_chainId (px_challenge px)) (c_asset (px_challenge px))
      (c_payTo (px_challenge px)) (c_amount (px_challenge px))) w = (Inr st, w1)"
    by (auto simp: finalize_settlement_def Let_def io_Inr)
  note rest = assms(1) [unfolded finalize_settlement_def Let_def andThen_def c, simplified]
  have ok: "st_ok st \<and> st_transferMatched st"
  proof (rule ccontr)
    assume "\<not> ?thesis"
    then obtain w2 where "safeFailure r ''capture-time settlement verification failed; the transfer did not match the signed authorization'' True w2 = (Inr u, w')"
      using rest by (auto split: prod.splits sum.splits)
    then have "run_state_of r w' \<in> {None, Some Run_FAILED}" using failure_state by (metis snd_conv)
    then show False using assms(2) by simp
  qed
  then obtain v w2 w3 w4 where s:
    "services (recordSettlement (clk Stage_SETTLEMENT_FINALIZED) r tx (st_blockNumber st) ci
       (Some (gc_rawToolResultHash (px_cardResult px)))) w1 = (Inr v, w2)"
    "services (recordCapture (clk Stage_SETTLEMENT_FINALIZED) r (sl_orderId sp) (sl_observedAt sp) tx
       (st_blockNumber st)) w2 = (Inr v, w3)"
    "emit clk r Stage_SETTLEMENT_FINALIZED Ev_ok None w3 = (Inr v, w4)"
    "w' = w4\<lparr>oc_store := setRunState r Run_DONE (setOutcome r (Out_signed tx ci) (oc_store w4))\<rparr>"
    using rest by (auto simp: store_def split: prod.splits sum.splits)
  have "tx \<noteq> []" using s(1) by (auto simp: services_def io_within dest: recordSettlement_nonempty)
  then have "captured r tx (wd_ledger (oc_world w3))"
    using s(2) by (auto simp: services_def io_within intro: recordCapture_captured)
  moreover have "oc_world w4 = oc_world w3"
    using arg_cong [OF s(3), of "oc_world \<circ> snd"] by (simp add: emit_snd)
  ultimately have cap: "captured r tx (wd_ledger (oc_world w'))" by (simp add: s(4))
  have out: "map_option ru_outcome (getRun r (oc_store w')) = Some (Some (Out_signed tx ci))"
    using assms(2) by (auto simp: s(4) setRunState_def setOutcome_def run_state_of_def)
  obtain g where "confirmSettlement (ov_gateway env) (ov_gatewayToken env) (ov_token env) (ov_rid env)
      (clk Stage_SETTLEMENT_FINALIZED) tx (c_chainId (px_challenge px)) (c_asset (px_challenge px))
      (c_payTo (px_challenge px)) (c_amount (px_challenge px)) (oc_gateway w) = (Inr st, g)"
    using c by (auto simp: gateway_def io_within)
  then show thesis using that ok out cap by blast
qed

text \<open>The payment with the signed header, and a transfer on chain that is what a challenge asks for.\<close>

abbreviation card_issue ::
    "('s, 'c, 'x) orch_env \<Rightarrow> clock \<Rightarrow> pending_context \<Rightarrow> string \<Rightarrow> ('x, pay_result) io" where
  "card_issue env clk px header \<equiv> payAndIssue (ov_card env) (clk Stage_CARD_ISSUED)
      \<lparr>pp_cardapiUrl = gc_cardapiUrl (px_cardResult px), pp_header = header, pp_amountSgd = px_amountSgd px,
       pp_cardholderName = coalesce (in_cardholderName (px_input px)) DEFAULT_CARDHOLDER_NAME\<rparr>"

definition settled_on_chain :: "('s, 'c, 'x) orch_env \<Rightarrow> x402_requirements \<Rightarrow> string \<Rightarrow> bool" where
  "settled_on_chain env ch tx \<longleftrightarrow> (\<exists>receipt c0 c1.
     cl_getTransactionReceipt (gd_client (ov_gateway env)) (c_chainId ch) (to_lower tx) c0 = (Inr receipt, c1) \<and>
     tr_success receipt \<and>
     filter (transfer_matches (gd_decode (ov_gateway env)) (to_lower (c_asset ch)) (to_lower (c_payTo ch))
       (int (of_base 10 (c_amount ch)))) (tr_logs receipt) \<noteq> [])"

lemma signed_run_Inr:
  assumes "signed_run env clk r px header w = (Inr u, w')"
  obtains (rejected) c v where "outside (card_issue env clk px header) w = (Inr (Pay_rejected c), v)"
      "safeFailure r ''cardapi rejected the signed authorization; start a fresh request'' True v = (Inr u, w')"
    | (issued) ci tx at v sp y where
      "outside (card_issue env clk px header) w = (Inr (Pay_issued ci tx at), v)"
      "finalize_settlement env clk r px ci tx sp y = (Inr u, w')"
proof -
  from assms obtain issued v where pay: "outside (card_issue env clk px header) w = (Inr issued, v)"
    by (auto simp: signed_run_def io_Inr)
  note rest = assms [unfolded signed_run_def andThen_def [of "outside _"] pay, simplified]
  show ?thesis
    using pay rest that by (cases issued) (auto simp: io_Inr)
qed

text \<open>The signed run returns, or throws and fails the run.\<close>

lemma continue_cases:
  assumes "continueSignedRun env clk r px header w = (res, w')"
  obtains (returned) "signed_run env clk r px header w = (Inr (), w')"
    | (failed) v where
      "safeFailure r ''post-signature processing failed; start a fresh request'' True v = (res, w')"
  using assms by (auto simp: continueSignedRun_def catching_def split: prod.splits sum.splits)

lemma failure_leaves: "safeFailure r msg f w = (res, w') \<Longrightarrow> run_state_of r w' \<in> {None, Some Run_FAILED}"
  using failure_state [of r msg f w] by simp

text \<open>C8. A run that the signed header takes to DONE was paid: the card service issued a card against the
  header, chain-gateway found a successful receipt of the settlement transaction with a log that
  transfers exactly the amount of the challenge, in its asset, to its recipient, and the capture is
  in the ledger.\<close>

theorem done_means_settled:
  assumes "continueSignedRun env clk r px header w = (res, w')" "run_state_of r w' = Some Run_DONE"
  shows "\<exists>ci tx at x.
    card_issue env clk px header (oc_ext w) =
      (Inr (Pay_issued ci tx at), x) \<and>
    map_option ru_outcome (getRun r (oc_store w')) = Some (Some (Out_signed tx ci)) \<and>
    settled_on_chain env (px_challenge px) tx \<and>
    captured r tx (wd_ledger (oc_world w'))"
proof -
  have "signed_run env clk r px header w = (Inr (), w')"
    using assms(1) by (rule continue_cases) (use assms(2) in \<open>auto dest: failure_leaves\<close>)
  then show ?thesis
  proof (cases rule: signed_run_Inr)
    case (rejected c v)
    then show ?thesis using assms(2) by (auto dest: failure_leaves)
  next
    case (issued ci tx at v sp y)
    obtain st g where f: "confirmSettlement (ov_gateway env) (ov_gatewayToken env) (ov_token env) (ov_rid env)
      (clk Stage_SETTLEMENT_FINALIZED) tx (c_chainId (px_challenge px)) (c_asset (px_challenge px))
      (c_payTo (px_challenge px)) (c_amount (px_challenge px)) (oc_gateway y) = (Inr st, g)" "st_ok st"
      "map_option ru_outcome (getRun r (oc_store w')) = Some (Some (Out_signed tx ci))"
      "captured r tx (wd_ledger (oc_world w'))"
      using issued(2) assms(2) by (rule finalize_done)
    have "settled_on_chain env (px_challenge px) tx"
      using f(1,2) by (rule confirmSettlement_matched) (auto simp: settled_on_chain_def)
    moreover obtain x where "card_issue env clk px header (oc_ext w) = (Inr (Pay_issued ci tx at), x)"
      using issued(1) by (auto simp: outside_def io_within)
    ultimately show ?thesis using f(3,4) by (intro exI conjI)
  qed
qed

section \<open>Refusals\<close>

text \<open>Every result of an action has a property.\<close>

definition yields :: "('a \<Rightarrow> bool) \<Rightarrow> ('w, 'a) io \<Rightarrow> bool" where
  "yields P m \<longleftrightarrow> (\<forall>w x. fst (m w) = Inr x \<longrightarrow> P x)"

lemma yields_andThen: "(\<And>x. yields P (f x)) \<Longrightarrow> yields P (andThen m f)"
  by (auto simp: yields_def andThen_def split: prod.splits sum.splits)

lemma yields_ret: "P x \<Longrightarrow> yields P (ret x)"
  by (simp add: yields_def)

text \<open>The policy service sends a refusal with the status 422 and with no other.\<close>

abbreviation refusal_422 :: "payment_reply reply \<Rightarrow> bool" where
  "refusal_422 r \<equiv> (case r of Reply st (PRefused b) \<Rightarrow> st = 422 | _ \<Rightarrow> True)"

lemma refuse_422: "yields refusal_422 (refuseAndRecord now k c d)"
  unfolding refuseAndRecord_def by (intro yields_andThen yields_ret) simp

lemma escalate_422: "yields refusal_422 (escalateAndRespond env now k m c r d dn)"
  unfolding escalateAndRespond_def Let_def by (intro yields_andThen yields_ret) simp

lemma respondFailure_422: "yields refusal_422 (respondFailure env now k m dn f)"
  by (cases f) (auto simp: respondFailure_def refuse_422 escalate_422)

lemma signAndRecord_422: "yields refusal_422 (signAndRecord env now k mid amount m c i dn cs)"
  unfolding signAndRecord_def Let_def
  by (rule yields_andThen, split signing_outcome.split)
    (auto simp: sendError_def intro!: yields_andThen yields_ret)

lemma decidePayment_422: "yields refusal_422 (decidePayment env now k mid amount c item i m)"
  unfolding decidePayment_def Let_def
  by (intro yields_andThen) (auto intro!: yields_andThen respondFailure_422 signAndRecord_422 split: option.split prod.split)

lemma respond_422: "yields refusal_422 m \<Longrightarrow> refusal_422 (fst (respond m w))"
  by (cases "m w"; cases "fst (m w)") (auto simp: yields_def respond_def uncaught_def dest!: spec [of _ w])

lemma payment_request_422: "refusal_422 (fst (payment_request env now body w))"
  unfolding payment_request_def Let_def
  by (rule respond_422)
    (auto simp: sendError_def intro!: yields_andThen yields_ret respondFailure_422 decidePayment_422 refuse_422
      split: option.split)

lemma parsed_kinds:
  "parse_signed v \<noteq> Inr (PD_refused check i d h)" "parse_escalated v \<noteq> Inr (PD_refused check i d h)"
  by (auto simp: parse_signed_def parse_escalated_def split: option.splits json.splits if_splits)

lemma read_decision_refused:
  assumes "read_decision res = Inr (PD_refused check i d h)"
  shows "response_ok (fst res)" "jprop (snd res) ''status'' = Some (JStr ''refused'')"
  using assms by (auto simp: read_decision_def parsePolicyDecision_def parsed_kinds split: if_splits)

lemma sent_refused:
  assumes "jprop (snd (response_of payment_json r)) ''status'' = Some (JStr ''refused'')"
  obtains st b where "r = Reply st (PRefused b)"
proof (cases r)
  case (Reply st x)
  then show ?thesis using assms that by (cases x) (auto simp: response_of_def jmember_def)
qed (use assms in \<open>auto simp: response_of_def jmember_def envelope_json_def\<close>)

lemma requestPayment_not_refused:
  "fst (requestPayment env now k mid amount c item w) \<noteq> Inr (PD_refused check i d h)"
proof -
  define body where "body = \<lparr>pb_requestId = Some k, pb_mandateId = Some mid,
         pb_requestedAmount = Some amount, pb_challenge = Some c, pb_resolvedItem = Some item\<rparr>"
  obtain r w' where r: "payment_request env now body w = (r, w')" by (cases "payment_request env now body w")
  have "refusal_422 r" using payment_request_422 [of env now body w] by (simp add: r)
  then have "read_decision (response_of payment_json r) \<noteq> Inr (PD_refused check i d h)"
    using read_decision_refused [of "response_of payment_json r"] sent_refused [of r]
    by (force simp: response_of_def)
  then show ?thesis using r by (simp add: requestPayment_def body_def)
qed

lemma store_state:
  "run_state_of r (snd (store (\<lambda>s. setRunState r st (setOutcome r out s)) w)) \<in> {None, Some st}"
  by (cases "getRun r (oc_store w)") (auto simp: store_def setOutcome_def)

lemma store_leaves:
  "store (\<lambda>s. setRunState r st (setOutcome r out s)) w = (res, w') \<Longrightarrow> run_state_of r w' \<in> {None, Some st}"
  using store_state [of r st out w] by simp

lemma finalize_state:
  assumes "finalize_settlement env clk r px ci tx sp v = (Inr u, v')"
  shows "run_state_of r v' \<in> {None, Some Run_FAILED, Some Run_DONE}"
  using assms by (auto simp: finalize_settlement_def Let_def io_Inr split: if_splits dest!: failure_leaves store_leaves)

lemma continue_state:
  assumes "continueSignedRun env clk r px header w = (res, w')"
  shows "run_state_of r w' \<in> {None, Some Run_FAILED, Some Run_DONE}"
  using assms
proof (cases rule: continue_cases)
  case returned
  then show ?thesis by (rule signed_run_Inr) (auto dest: failure_leaves finalize_state)
qed (auto dest: failure_leaves)

lemma acquire_not_refused:
  assumes "acquire_decision env clk r input profile disc v = (Inr (px, d), v')"
  shows "d \<noteq> PD_refused check i t h"
proof -
  from assms obtain mid amount c item y z where
    "requestPayment (ov_policy env) (clk Stage_POLICY_DECISION) r mid amount c item y = (Inr d, z)"
    by (auto simp: acquire_decision_def Let_def io_Inr services_def io_within simp del: andThen_lift)
  then show ?thesis using requestPayment_not_refused by (metis fst_conv)
qed

text \<open>A run up to the payment request: the amount and the challenge it asks for, and what the run keeps.\<close>

definition before_decision ::
    "('s, 'c, 'x) orch_env \<Rightarrow> clock \<Rightarrow> string \<Rightarrow> run_input \<Rightarrow>
     (('s, 'c, 'x) orch, string \<times> x402_requirements \<times> pending_context) io" where
  "before_decision env clk r input =
     (let now = clk Stage_INTENT_CREATED in
      andThen (services (createIntent (pe_keccak_text (ov_policy env)) now r (in_mandateId input)
        (in_agentId input) (in_instruction input) (toISOString now))) (\<lambda>_.
      andThen (emit clk r Stage_INTENT_CREATED Ev_ok None) (\<lambda>_.
      andThen (lift (bindE (getMerchantProfile (ov_profiles env)
        (case in_source input of Source_merchant p \<Rightarrow> p | _ \<Rightarrow> ''local-fixture'')) readable_profile)) (\<lambda>profile.
      andThen (discover env clk r input profile) (\<lambda>discovery.
      let item = dr_resolvedItem discovery; compromise = dr_simulatedCompromise discovery in
      andThen (store (setDiscoveredItem r item)) (\<lambda>_.
      andThen (lift (exactAmountSgd (r_price item))) (\<lambda>amountSgd.
      andThen (outside (getCard (ov_card env) \<lparr>gp_walletAddress = ov_payingWallet env,
        gp_cardholderName = coalesce (in_cardholderName input) DEFAULT_CARDHOLDER_NAME,
        gp_amountSgd = amountSgd\<rparr>)) (\<lambda>cardResult.
      andThen (emit clk r Stage_CHALLENGE_RECEIVED Ev_ok None) (\<lambda>_.
      andThen (services (attachChallenge (clk Stage_CHALLENGE_RECEIVED) r (gc_challenge cardResult))) (\<lambda>_.
        ret (coalesce (Option.bind compromise sc_amountOverride) (c_amount (gc_challenge cardResult)),
          requestedChallenge (gc_challenge cardResult) compromise,
          \<lparr>px_input = input, px_resolvedItem = item, px_cardResult = cardResult,
            px_amountSgd = amountSgd, px_profile = profile\<rparr>)))))))))))"

text \<open>The request that a run puts to the policy service behind that, and the rest of the run.\<close>

abbreviation asks ::
    "('s, 'c, 'x) orch_env \<Rightarrow> clock \<Rightarrow> string \<Rightarrow> pending_context \<Rightarrow> string \<Rightarrow> x402_requirements \<Rightarrow>
     ('s world, policy_decision) io" where
  "asks env clk r px amount c \<equiv> requestPayment (ov_policy env) (clk Stage_POLICY_DECISION) r
     (in_mandateId (px_input px)) amount c (px_resolvedItem px)"

lemma andThen_later: "(\<And>x. f x = g x) \<Longrightarrow> andThen m f = andThen m g"
  by (rule arg_cong2 [where f = andThen], rule refl, rule ext)

lemma run_body_asks:
  "run_body env clk r input = andThen (before_decision env clk r input) (\<lambda>(amount, c, px).
     andThen (services (asks env clk r px amount c)) (\<lambda>d. handleDecision env clk r px d))"
  unfolding run_body_def before_decision_def acquire_decision_def Let_def andThen_assoc andThen_ret
  by (intro andThen_later) (simp only: prod.case pending_context.select_convs)

lemma asks_refused:
  assumes "payment_request (ov_policy env) (clk Stage_POLICY_DECISION)
      (body_of r (in_mandateId (px_input px)) amount c (px_resolvedItem px)) s = (Reply st (PRefused b), s')"
  shows "st = 422" "\<exists>e. asks env clk r px amount c s = (Inl e, s') \<and> thrown_status e = Some 422"
proof -
  show st: "st = 422"
    using payment_request_422 [of "ov_policy env" "clk Stage_POLICY_DECISION"
      "body_of r (in_mandateId (px_input px)) amount c (px_resolvedItem px)" s]
    by (simp add: assms)
  show "\<exists>e. asks env clk r px amount c s = (Inl e, s') \<and> thrown_status e = Some 422"
    using assms unfolding st
    by (simp add: requestPayment_def body_of_def read_decision_def response_of_def policy_error_def)
qed

text \<open>C16. A refusal of the policy service never becomes the outcome of a run.  When the payment request of a run is
  refused, the service sends the refusal with the status 422, the client throws an error of that
  status before it reads the body, and the run ends as failed with the fixed text of a run that did not complete:
  the check, its index and the explanation that the service gave are in no run, no other run changes, and nothing
  outside the policy service is called any more.  Whatever happens, executing a run never ends it as refused.\<close>

theorem policy_refusal_never_refuses_run:
  "run_state_of r (snd (executeRun env clk r input w)) \<noteq> Some Run_REFUSED \<and>
   (\<forall>amount c px v st b s.
     before_decision env clk r input w = (Inr (amount, c, px), v) \<longrightarrow>
     payment_request (ov_policy env) (clk Stage_POLICY_DECISION)
       (body_of r (in_mandateId (px_input px)) amount c (px_resolvedItem px)) (oc_world v) = (Reply st (PRefused b), s) \<longrightarrow>
     st = 422 \<and>
     (\<exists>e. asks env clk r px amount c (oc_world v) = (Inl e, s) \<and> thrown_status e = Some 422) \<and>
     (\<exists>runs. executeRun env clk r input w = (Inr (), v\<lparr>oc_world := s, oc_store := runs\<rparr>) \<and>
       (\<forall>k. getRun k runs = (if k \<noteq> r then getRun k (oc_store v)
          else map_option (\<lambda>run. run\<lparr>ru_outcome := Some (Out_failed ''run failed closed before completion'' False),
            ru_state := Run_FAILED\<rparr>) (getRun r (oc_store v))))))"
proof (intro conjI allI impI)
  obtain res w' where e: "executeRun env clk r input w = (res, w')" by (cases "executeRun env clk r input w")
  obtain a w1 where b: "run_body env clk r input w = (a, w1)" by (cases "run_body env clk r input w")
  consider v where "safeFailure r ''run failed closed before completion'' False v = (res, w')"
    | px d v where "handleDecision env clk r px d v = (Inr (), w')" "\<nexists>check i t h. d = PD_refused check i t h"
  proof (cases a)
    case (Inl x)
    then show ?thesis using that(1) e b by (simp add: executeRun_def catching_def)
  next
    case (Inr u)
    have "w' = w1" using e b Inr by (simp add: executeRun_def catching_def)
    then obtain profile disc y px d z where
      "acquire_decision env clk r input profile disc y = (Inr (px, d), z)"
      "handleDecision env clk r px d z = (Inr (), w')"
      using b Inr by (auto simp: run_body_def Let_def io_Inr simp del: andThen_lift)
    then show ?thesis using that(2) acquire_not_refused by metis
  qed
  then have "run_state_of r w' \<noteq> Some Run_REFUSED"
  proof cases
    case (2 px d v)
    then show ?thesis
      by (cases d) (auto simp: handleDecision_def io_Inr scheduleExpiry_def Let_def run_state_of_def dest!: store_leaves continue_state)
  qed (auto dest: failure_leaves)
  then show "run_state_of r (snd (executeRun env clk r input w)) \<noteq> Some Run_REFUSED" by (simp add: e)
next
  fix amount c px v st b s
  assume reached: "before_decision env clk r input w = (Inr (amount, c, px), v)"
    and refused: "payment_request (ov_policy env) (clk Stage_POLICY_DECISION)
      (body_of r (in_mandateId (px_input px)) amount c (px_resolvedItem px)) (oc_world v) = (Reply st (PRefused b), s)"
  show "st = 422" by (rule asks_refused(1) [where clk = clk and env = env and s = "oc_world v", OF refused])
  show thrown: "\<exists>e. asks env clk r px amount c (oc_world v) = (Inl e, s) \<and> thrown_status e = Some 422"
    by (rule asks_refused(2) [where clk = clk and env = env and s = "oc_world v", OF refused])
  then obtain e where "services (asks env clk r px amount c) v = (Inl e, v\<lparr>oc_world := s\<rparr>)"
    by (auto simp: services_def within_def)
  then have "run_body env clk r input w = (Inl e, v\<lparr>oc_world := s\<rparr>)"
    unfolding run_body_asks by (simp add: andThen_def reached)
  then have "executeRun env clk r input w =
      (Inr (), v\<lparr>oc_world := s, oc_store := setRunState r Run_FAILED
        (setOutcome r (Out_failed ''run failed closed before completion'' False) (oc_store v))\<rparr>)"
    by (simp add: executeRun_def catching_def safeFailure_def store_def)
  then show "\<exists>runs. executeRun env clk r input w = (Inr (), v\<lparr>oc_world := s, oc_store := runs\<rparr>) \<and>
       (\<forall>k. getRun k runs = (if k \<noteq> r then getRun k (oc_store v)
          else map_option (\<lambda>run. run\<lparr>ru_outcome := Some (Out_failed ''run failed closed before completion'' False),
            ru_state := Run_FAILED\<rparr>) (getRun r (oc_store v))))"
    by (intro exI) (rule conjI, assumption, simp add: setRunState_def setOutcome_def option.map_comp o_def)
qed

section \<open>Expired escalations\<close>

lemma nowSec_after: "x < nowSec now \<longleftrightarrow> (x + 1) * 1000 \<le> now"
  by auto

text \<open>The answer that the timer's unsigned denial gets, before and after the policy service sees the deadline.\<close>

abbreviation unsigned_deny :: resolve_body where
  "unsigned_deny \<equiv> \<lparr>rb_decision = Deny, rb_approvedBy = None, rb_signature = None, rb_standing = None\<rparr>"

lemma deny_early:
  assumes "jget (l_escalations (wd_ledger v)) r = Some e" "\<not> e_resolved e" "nowSec now \<le> e_expiresAt e"
    and "jget (l_policies (wd_ledger v)) (e_mandateId e) = Some p"
  shows "\<exists>x. resolveEscalation env now r unsigned_deny v = (Inl x, v) \<and> thrown_status x = Some 403"
  using assms
  by (simp add: resolveEscalation_def resolve_escalation_def respond_def getEscalation_def getPolicy_def
      client_reads sendError_def read_resolution_def response_of_def policy_error_def Let_def)

lemma deny_late:
  assumes "jget (l_escalations (wd_ledger v)) r = Some e" "\<not> e_resolved e" "e_expiresAt e < nowSec now"
    and "jget (l_intents (wd_ledger v)) r = Some i" "r \<noteq> []"
  shows "\<exists>x v'. resolveEscalation env now r unsigned_deny v = (Inl x, v') \<and> thrown_status x = Some 410 \<and>
    map_option e_resolved (jget (l_escalations (wd_ledger v')) r) = Some True"
proof -
  obtain l' entry where "resolve_escalation env now r (Some Deny) None None None v =
      (sendError 410 ''ESCALATION_EXPIRED'' (''escalation '' @ r @ '' expired'') r False, v\<lparr>wd_ledger := l'\<rparr>)"
    "jget (l_escalations l') r = Some (e\<lparr>e_resolved := True, e_decision := Some Deny,
        e_approvedBy := None, e_resolvedAt := Some (toISOString now)\<rparr>)"
    using assms by (rule expired_resolution) auto
  then show ?thesis
    by (simp add: resolveEscalation_def sendError_def read_resolution_def response_of_def policy_error_def Let_def)
qed

text \<open>C38. The timer of an escalation fires a quarter of a second behind the deadline, but the policy service sees
  the deadline as passed only in the next full second.  Until then its answer to the timer's
  unsigned denial is 403, so the run ends as failed while the escalation stays open in the ledger;
  only a timer that is late by three quarters of a second ends the run as refused, with the denial
  recorded.\<close>

theorem expiry_timer_too_early:
  assumes "run_state_of r w = Some Run_ESCALATED"
    and "jget (l_escalations (wd_ledger (oc_world w))) r = Some e" "\<not> e_resolved e"
    and "jget (l_policies (wd_ledger (oc_world w))) (e_mandateId e) = Some p"
    and "jget (l_intents (wd_ledger (oc_world w))) r = Some i" "r \<noteq> []"
  shows "jget (oc_timers (snd (scheduleExpiry t r (e_expiresAt e) w))) r = Some (max t (e_expiresAt e * 1000 + 250)) \<and>
    (let w' = expireEscalation env now r w in
     if now < (e_expiresAt e + 1) * 1000
     then run_state_of r w' = Some Run_FAILED \<and> oc_world w' = oc_world w
     else run_state_of r w' = Some Run_REFUSED \<and>
       map_option e_resolved (jget (l_escalations (wd_ledger (oc_world w'))) r) = Some True)"
proof -
  obtain run where run: "getRun r (oc_store w) = Some run" "ru_state run = Run_ESCALATED"
    using assms(1) by (auto simp: run_state_of_def)
  show ?thesis
  proof (cases "now < (e_expiresAt e + 1) * 1000")
    case True
    then have "nowSec now \<le> e_expiresAt e" using nowSec_after [of "e_expiresAt e" now] by linarith
    then obtain x where "resolveEscalation (ov_policy env) now r unsigned_deny (oc_world w) = (Inl x, oc_world w)"
        "thrown_status x = Some 403"
      using deny_early [OF assms(2,3) _ assms(4), of now "ov_policy env"] by auto
    then show ?thesis
      using True run
      by (simp add: expireEscalation_def expire_begin_def expire_finish_def services_def within_def
          run_state_of_def safeFailure_def store_def setRunState_def setOutcome_def drop_pending_def
          scheduleExpiry_def jm.get_put Let_def)
  next
    case False
    then have "e_expiresAt e < nowSec now" using nowSec_after [of "e_expiresAt e" now] by linarith
    then obtain x v' where "resolveEscalation (ov_policy env) now r unsigned_deny (oc_world w) = (Inl x, v')"
        "thrown_status x = Some 410" "map_option e_resolved (jget (l_escalations (wd_ledger v')) r) = Some True"
      using deny_late [OF assms(2,3) _ assms(5,6), of now "ov_policy env"] by auto
    then show ?thesis
      using False run
      by (simp add: expireEscalation_def expire_begin_def expire_finish_def services_def within_def
          run_state_of_def finalizeExpiredEscalation_def store_def setRunState_def setOutcome_def
          drop_pending_def scheduleExpiry_def jm.get_put Let_def)
  qed
qed

lemma expire_finish_ends:
  obtains st out where "isTerminalRunState st" "snd (expire_finish r answer w) =
    (drop_pending r w)\<lparr>oc_store := setRunState r st (setOutcome r out (oc_store w))\<rparr>"
proof -
  note refused = that [of Run_REFUSED] and failed = that [of Run_FAILED]
  show thesis
  proof (cases "\<exists>e. answer = Inl e \<and> thrown_status e \<noteq> Some 410")
    case True
    then show thesis
      by (auto simp: expire_finish_def safeFailure_def store_def isTerminalRunState_def drop_pending_def
          intro: failed)
  next
    case False
    then have "expire_finish r answer w = finalizeExpiredEscalation r w"
      by (auto simp: expire_finish_def split: sum.split)
    then show thesis
      by (auto simp: finalizeExpiredEscalation_def store_def isTerminalRunState_def drop_pending_def intro: refused)
  qed
qed

text \<open>The state in which a signed answer resumes the run.\<close>

definition resumed :: "string \<Rightarrow> ('s, 'c, 'x) orch \<Rightarrow> ('s, 'c, 'x) orch" where
  "resumed r w = (drop_pending r w)\<lparr>oc_store := setOutcome r (Out_checkout_pending ''pending'' ''pending'')
     (setRunState r Run_RUNNING (oc_store w))\<rparr>"

lemma resolve_signed: "resolve_finish env clk r px (Inr (EA_signed header nonce)) w =
    andThen (continueSignedRun env clk r px header)
      (\<lambda>_ w. (Inr (coalesce (run_state_of r w) Run_FAILED), w)) (resumed r w)"
  by (simp add: resolve_finish_def andThen_def store_def resumed_def drop_pending_def)

lemma set_twice: "setOutcome r o1 (setRunState r s1 (setRunState r s2 (setOutcome r o2 s))) =
    setOutcome r o1 (setRunState r s1 s)"
proof -
  have f: "(\<lambda>run. run\<lparr>ru_outcome := Some o1\<rparr>) \<circ> (\<lambda>run. run\<lparr>ru_state := s1\<rparr>) \<circ>
      (\<lambda>run. run\<lparr>ru_state := s2\<rparr>) \<circ> (\<lambda>run :: run_record. run\<lparr>ru_outcome := Some o2\<rparr>) =
      (\<lambda>run. run\<lparr>ru_outcome := Some o1\<rparr>) \<circ> (\<lambda>run. run\<lparr>ru_state := s1\<rparr>)"
    by (simp add: fun_eq_iff)
  show ?thesis unfolding setOutcome_def setRunState_def update_run_twice o_assoc f by (rule refl)
qed

text \<open>C39. An approval in flight outlives the end of its run: when the timer ends the run while the signed answer
  of the policy service is on its way (the timer's own denial is then answered with 409), the run
  reaches a final state, but the answer is processed all the same and to the same effect as if the
  run had never ended, with the payment that follows.\<close>

theorem ended_run_revived:
  assumes "run_state_of r w \<noteq> None"
  shows "let w' = snd (expire_finish r answer w) in
    (\<exists>st. run_state_of r w' = Some st \<and> isTerminalRunState st) \<and>
    resolve_finish env clk r px (Inr (EA_signed header nonce)) w' =
    resolve_finish env clk r px (Inr (EA_signed header nonce)) w"
proof -
  obtain st out where e: "isTerminalRunState st" "snd (expire_finish r answer w) =
      (drop_pending r w)\<lparr>oc_store := setRunState r st (setOutcome r out (oc_store w))\<rparr>"
    by (rule expire_finish_ends)
  have "run_state_of r (snd (expire_finish r answer w)) = Some st"
    using assms by (auto simp: e(2) run_state_of_def setRunState_def setOutcome_def)
  moreover have "resumed r (snd (expire_finish r answer w)) = resumed r w"
    by (simp add: e(2) resumed_def set_twice drop_pending_def delete_idem)
  ultimately show ?thesis using e(1) by (simp add: resolve_signed Let_def)
qed

end
