(* ===== verification/Run_Order.thy ===== *)
theory Run_Order
  imports Run_Invariants "HOL-Library.Sublist"
begin

text \<open>
  The order of a run's events.  The stages are linearly ordered the way the pipeline passes them; an
  action of a run either leaves its events alone or appends to them, and what a run has written when it
  ends, pauses or fails is a prefix of the stages in that order.
\<close>

section \<open>The order of the stages\<close>

fun stage_index :: "run_stage \<Rightarrow> nat" where
  "stage_index Stage_INTENT_CREATED = 0"
| "stage_index Stage_DISCOVERY_DONE = 1"
| "stage_index Stage_CHECKOUT_ACQUIRED = 2"
| "stage_index Stage_CHALLENGE_RECEIVED = 3"
| "stage_index Stage_POLICY_DECISION = 4"
| "stage_index Stage_CARD_ISSUED = 5"
| "stage_index Stage_CHECKOUT_ASSERTED = 6"
| "stage_index Stage_SPEND_RECORDED = 7"
| "stage_index Stage_SETTLEMENT_FINALIZED = 8"

lemma stage_index_inj: "stage_index s = stage_index t \<Longrightarrow> s = t"
  by (cases s; cases t) simp_all

instantiation run_stage :: linorder
begin

definition less_eq_run_stage :: "run_stage \<Rightarrow> run_stage \<Rightarrow> bool" where
  "less_eq_run_stage s t \<longleftrightarrow> stage_index s \<le> stage_index t"

definition less_run_stage :: "run_stage \<Rightarrow> run_stage \<Rightarrow> bool" where
  "less_run_stage s t \<longleftrightarrow> stage_index s < stage_index t"

instance
  by standard (auto simp: less_eq_run_stage_def less_run_stage_def intro: stage_index_inj)

end

section \<open>What an action appends\<close>

definition stages :: "string \<Rightarrow> ('s, 'c, 'x) orch \<Rightarrow> run_stage list" where
  "stages r w = (case getRun r (oc_store w) of None \<Rightarrow> [] | Some run \<Rightarrow> map rev_stage (ru_events run))"

definition run_done :: "string \<Rightarrow> ('s, 'c, 'x) orch \<Rightarrow> bool" where
  "run_done r w \<longleftrightarrow> run_state_of r w = Some Run_DONE"

definition neutral :: "string \<Rightarrow> (('s, 'c, 'x) orch, 'a) io \<Rightarrow> bool" where
  "neutral r m \<longleftrightarrow> (\<forall>w. stages r (snd (m w)) = stages r w \<and> (run_done r (snd (m w)) \<longrightarrow> run_done r w))"

text \<open>
  From the events \<open>ps\<close> of a run that is not done: an action that passes has written \<open>qs\<close> when it returns
  and a part of them when it throws, and has not made the run done; an action that ends a run has written a
  part of \<open>qs\<close>, and all of them when the run is done.
\<close>

definition passes :: "string \<Rightarrow> run_stage list \<Rightarrow> run_stage list \<Rightarrow> (('s, 'c, 'x) orch, 'a) io \<Rightarrow> bool" where
  "passes r ps qs m \<longleftrightarrow> (\<forall>w. stages r w = ps \<longrightarrow> \<not> run_done r w \<longrightarrow> \<not> run_done r (snd (m w)) \<and> (case m w of
      (Inl e, w') \<Rightarrow> prefix (stages r w') qs | (Inr x, w') \<Rightarrow> stages r w' = qs))"

definition ends :: "string \<Rightarrow> run_stage list \<Rightarrow> run_stage list \<Rightarrow> (('s, 'c, 'x) orch, 'a) io \<Rightarrow> bool" where
  "ends r ps qs m \<longleftrightarrow> (\<forall>w. stages r w = ps \<longrightarrow> \<not> run_done r w \<longrightarrow> prefix (stages r (snd (m w))) qs \<and>
     (run_done r (snd (m w)) \<longrightarrow> stages r (snd (m w)) = qs))"

named_theorems appends \<open>what an action appends to the events of a run\<close>

lemma neutralD: "neutral r m \<Longrightarrow> m w = (x, w') \<Longrightarrow> stages r w' = stages r w \<and> (run_done r w' \<longrightarrow> run_done r w)"
  unfolding neutral_def by (metis snd_conv)

lemma passesI:
  assumes "\<And>w e w'. stages r w = ps \<Longrightarrow> \<not> run_done r w \<Longrightarrow> m w = (Inl e, w') \<Longrightarrow> prefix (stages r w') qs \<and> \<not> run_done r w'"
    and "\<And>w x w'. stages r w = ps \<Longrightarrow> \<not> run_done r w \<Longrightarrow> m w = (Inr x, w') \<Longrightarrow> stages r w' = qs \<and> \<not> run_done r w'"
  shows "passes r ps qs m"
  unfolding passes_def
proof (intro allI impI, goal_cases)
  case (1 w)
  with assms [of w] show ?case by (cases "m w"; cases "fst (m w)") simp_all
qed

lemma passesD:
  assumes "passes r ps qs m" "stages r w = ps" "\<not> run_done r w"
  shows "m w = (Inl e, w') \<Longrightarrow> prefix (stages r w') qs \<and> \<not> run_done r w'"
    and "m w = (Inr x, w') \<Longrightarrow> stages r w' = qs \<and> \<not> run_done r w'"
  by (use assms in \<open>auto simp: passes_def\<close>)

lemma endsI:
  assumes "\<And>w x w'. stages r w = ps \<Longrightarrow> \<not> run_done r w \<Longrightarrow> m w = (x, w') \<Longrightarrow>
    prefix (stages r w') qs \<and> (run_done r w' \<longrightarrow> stages r w' = qs)"
  shows "ends r ps qs m"
  unfolding ends_def using assms by (metis prod.collapse)

lemma endsD:
  "ends r ps qs m \<Longrightarrow> stages r w = ps \<Longrightarrow> \<not> run_done r w \<Longrightarrow> m w = (x, w') \<Longrightarrow>
    prefix (stages r w') qs \<and> (run_done r w' \<longrightarrow> stages r w' = qs)"
  unfolding ends_def by (metis snd_conv)

lemma passes_neutral: "neutral r m \<Longrightarrow> passes r ps ps m"
  by (rule passesI) (auto dest: neutralD)

lemma ends_neutral: "neutral r m \<Longrightarrow> prefix ps qs \<Longrightarrow> ends r ps qs m"
  by (rule endsI) (auto dest: neutralD)

lemma passes_andThen:
  assumes "passes r ps qs m" "prefix qs rs" "\<And>x. passes r qs rs (f x)"
  shows "passes r ps rs (andThen m f)"
  by (rule passesI; elim andThen_cases)
    (use assms in \<open>auto dest: passesD intro: prefix_order.trans\<close>)

lemma ends_andThen:
  assumes "passes r ps qs m" "prefix qs rs" "\<And>x. ends r qs rs (f x)"
  shows "ends r ps rs (andThen m f)"
  by (rule endsI; elim andThen_cases)
    (use assms in \<open>auto dest: passesD endsD intro: prefix_order.trans\<close>)

lemma ends_catching:
  assumes "ends r ps qs m" "\<And>e. neutral r (h e)"
  shows "ends r ps qs (catching m h)"
proof (rule endsI)
  fix w x w'
  assume w: "stages r w = ps" "\<not> run_done r w" "catching m h w = (x, w')"
  obtain y w1 where m: "m w = (y, w1)" by (cases "m w")
  note first = endsD [OF assms(1) w(1,2) m]
  show "prefix (stages r w') qs \<and> (run_done r w' \<longrightarrow> stages r w' = qs)"
  proof (cases y)
    case (Inl e)
    then show ?thesis using first w(3) m neutralD [OF assms(2) [of e], of w1] by (auto simp: catching_def)
  next
    case (Inr z)
    then show ?thesis using first w(3) m by (simp add: catching_def)
  qed
qed

lemma ends_then_neutral:
  assumes "ends r ps qs m" "\<And>x. neutral r (f x)"
  shows "ends r ps qs (andThen m f)"
proof (rule endsI, elim andThen_cases)
  fix w x w' y w1
  assume w: "stages r w = ps" "\<not> run_done r w" "m w = (Inr y, w1)" "f y w1 = (x, w')"
  show "prefix (stages r w') qs \<and> (run_done r w' \<longrightarrow> stages r w' = qs)"
    using endsD [OF assms(1) w(1,2,3)] neutralD [OF assms(2) w(4)] by auto
qed (use assms(1) in \<open>blast dest: endsD\<close>)

lemma passes_emit: "passes r ps (ps @ [stg]) (emit clk r stg st ck)"
  by (auto simp: passes_def emit_def emitEvent_def stages_def run_done_def run_state_of_def getRun_def Let_def
      update_conv' split: option.splits)

section \<open>Actions that write no event\<close>

lemmas observed_defs = neutral_def stages_def run_done_def run_state_of_def

lemma neutral_services [appends]: "neutral r (services m)"
  and neutral_gateway [appends]: "neutral r (gateway m')"
  and neutral_outside [appends]: "neutral r (outside m'')"
  by (simp_all add: observed_defs services_def gateway_def outside_def within_snd)

lemma neutral_pure [appends]: "neutral r (lift x)" "neutral r (ret y)"
  by (simp_all add: neutral_def)

lemma neutral_state:
  assumes "st \<noteq> Run_DONE"
  shows "neutral r (store (\<lambda>s. setRunState k st (setOutcome k out s)))"
    "neutral r (store (\<lambda>s. setOutcome k out (setRunState k st s)))"
  using assms by (auto simp: observed_defs store_def setRunState_def setOutcome_def split: option.splits)

lemma neutral_item [appends]: "neutral r (store (setDiscoveredItem k it))"
  by (auto simp: observed_defs store_def setDiscoveredItem_def split: option.splits)

lemmas neutral_store [appends] = neutral_item
  neutral_state [of Run_RUNNING, simplified] neutral_state [of Run_ESCALATED, simplified]
  neutral_state [of Run_AWAITING_CHECKOUT, simplified] neutral_state [of Run_REFUSED, simplified] neutral_state [of Run_FAILED, simplified]

lemma ends_done: "ends r qs qs (store (\<lambda>s. setRunState r Run_DONE (setOutcome r out s)))"
  by (auto simp: ends_def stages_def store_def setRunState_def setOutcome_def split: option.splits)

lemma neutral_failure [appends]: "neutral r (safeFailure k msg f)"
  unfolding safeFailure_def by (rule neutral_store)

lemma neutral_pending [appends]:
  "neutral r (\<lambda>w. (Inr (), w\<lparr>oc_pending := f w\<rparr>))" "neutral r (scheduleExpiry now k e)"
  "neutral r (\<lambda>w. (Inr (), drop_pending k w))"
  by (simp_all add: observed_defs scheduleExpiry_def drop_pending_def Let_def)

lemma neutral_andThen [appends]:
  assumes "neutral r m" "\<And>x. neutral r (f x)"
  shows "neutral r (andThen m f)"
  unfolding neutral_def
proof (rule allI)
  fix w
  obtain y w2 where e: "andThen m f w = (y, w2)" by (cases "andThen m f w")
  have "stages r w2 = stages r w \<and> (run_done r w2 \<longrightarrow> run_done r w)"
    using e by (rule andThen_cases) (metis assms neutralD)+
  then show "stages r (snd (andThen m f w)) = stages r w \<and> (run_done r (snd (andThen m f w)) \<longrightarrow> run_done r w)"
    by (simp add: e)
qed

lemma passes_after:
  "neutral r m \<Longrightarrow> prefix ps rs \<Longrightarrow> (\<And>x. passes r ps rs (f x)) \<Longrightarrow> passes r ps rs (andThen m f)"
  by (rule passes_andThen [OF passes_neutral])

lemma ends_after:
  "neutral r m \<Longrightarrow> prefix ps rs \<Longrightarrow> (\<And>x. ends r ps rs (f x)) \<Longrightarrow> ends r ps rs (andThen m f)"
  by (rule ends_andThen [OF passes_neutral])

lemma passes_event:
  "prefix (ps @ [stg]) rs \<Longrightarrow> (\<And>x. passes r (ps @ [stg]) rs (f x)) \<Longrightarrow>
   passes r ps rs (andThen (emit clk r stg st ck) f)"
  by (rule passes_andThen [OF passes_emit])

lemma ends_event:
  "prefix (ps @ [stg]) rs \<Longrightarrow> (\<And>x. ends r (ps @ [stg]) rs (f x)) \<Longrightarrow>
   ends r ps rs (andThen (emit clk r stg st ck) f)"
  by (rule ends_andThen [OF passes_emit])

lemmas neutral_heads = neutral_services neutral_gateway neutral_outside neutral_pure neutral_store
  neutral_failure neutral_pending

lemmas passing = passes_event neutral_heads [THEN passes_after] neutral_heads [THEN passes_neutral]
lemmas ending = ends_done ends_event neutral_heads [THEN ends_after] neutral_heads [THEN ends_neutral]

section \<open>The pipeline\<close>

abbreviation paid_stages :: "run_stage list" where
  "paid_stages \<equiv> [Stage_CARD_ISSUED, Stage_CHECKOUT_ASSERTED, Stage_SPEND_RECORDED, Stage_SETTLEMENT_FINALIZED]"

definition run_order :: "run_source \<Rightarrow> run_stage list" where
  "run_order source = [Stage_INTENT_CREATED,
     case source of Source_shopify c \<Rightarrow> Stage_CHECKOUT_ACQUIRED | _ \<Rightarrow> Stage_DISCOVERY_DONE,
     Stage_CHALLENGE_RECEIVED, Stage_POLICY_DECISION] @ paid_stages"

lemma checkout_passes:
  "passes r ps (ps @ [Stage_CHECKOUT_ASSERTED]) (checkout_leg env clk r px ci tx)"
  by (cases "in_source (px_input px)")
    (auto simp: checkout_leg_def runCheckout_def completeUcpCheckout_def intro!: passing)

lemma finalize_ends:
  "ends r ps (ps @ [Stage_SETTLEMENT_FINALIZED]) (finalize_settlement env clk r px ci tx sp)"
  unfolding finalize_settlement_def Let_def
  by (auto intro!: ending)

lemma continue_ends: "ends r ps (ps @ paid_stages) (continueSignedRun env clk r px header)"
proof -
  have "ends r (ps @ [Stage_CARD_ISSUED]) (ps @ paid_stages) (andThen (checkout_leg env clk r px ci tx)
      (\<lambda>spend. andThen (services (recordSpend now spend)) (\<lambda>_. andThen (emit clk r Stage_SPEND_RECORDED Ev_ok None)
        (\<lambda>_. finalize_settlement env clk r px ci tx spend))))" for ci tx now
    by (rule ends_andThen [OF checkout_passes])
      (use finalize_ends [of r "ps @ [Stage_CARD_ISSUED, Stage_CHECKOUT_ASSERTED, Stage_SPEND_RECORDED]"] in
        \<open>auto intro!: ending\<close>)
  then have "ends r ps (ps @ paid_stages) (signed_run env clk r px header)"
    unfolding signed_run_def
    by (auto intro!: ending split: pay_result.split)
  then show ?thesis unfolding continueSignedRun_def by (rule ends_catching) (rule neutral_failure)
qed

lemma decision_ends:
  "ends r ps (ps @ Stage_POLICY_DECISION # paid_stages) (handleDecision env clk r px decision)"
  using continue_ends [of r "ps @ [Stage_POLICY_DECISION]" env clk px]
  by (cases decision) (auto simp: handleDecision_def intro!: ending)

lemma discover_passes:
  "passes r ps (ps @ [run_order (in_source input) ! 1]) (discover env clk r input profile)"
  by (cases "in_source input") (auto simp: discover_def run_order_def intro!: passing)

lemma acquire_passes:
  "passes r ps (ps @ [Stage_CHALLENGE_RECEIVED]) (acquire_decision env clk r input profile d)"
  unfolding acquire_decision_def Let_def by (auto intro!: passing)

lemma body_ends: "ends r [] (run_order (in_source input)) (run_body env clk r input)"
proof -
  define d where "d = run_order (in_source input) ! 1"
  have o: "run_order (in_source input) = Stage_INTENT_CREATED # d # Stage_CHALLENGE_RECEIVED #
      Stage_POLICY_DECISION # paid_stages"
    by (simp add: d_def run_order_def)
  note disc = discover_passes [of r "[Stage_INTENT_CREATED]" input, folded d_def]
  have acq: "ends r [Stage_INTENT_CREATED, d] (run_order (in_source input))
      (andThen (acquire_decision env clk r input profile dr) (\<lambda>(px, decision).
        handleDecision env clk r px decision))" for profile dr
    using decision_ends [of r "[Stage_INTENT_CREATED, d, Stage_CHALLENGE_RECEIVED]" env clk]
    by (intro ends_andThen [OF acquire_passes]) (auto simp: o)
  have "ends r [Stage_INTENT_CREATED] (run_order (in_source input))
      (andThen (discover env clk r input profile) (\<lambda>discovery.
       andThen (store (setDiscoveredItem r (dr_resolvedItem discovery))) (\<lambda>_.
       andThen (acquire_decision env clk r input profile discovery) (\<lambda>(px, decision).
        handleDecision env clk r px decision))))" for profile
    by (rule ends_andThen [OF disc]) (use acq in \<open>auto simp: o intro!: ending\<close>)
  then show ?thesis unfolding run_body_def Let_def by (auto simp: o intro!: ending)
qed

lemma execute_ends: "ends r [] (run_order (in_source input)) (executeRun env clk r input)"
  unfolding executeRun_def by (rule ends_catching [OF body_ends neutral_failure])

lemma neutral_expired: "neutral r (finalizeExpiredEscalation k)"
  by (auto simp: observed_defs finalizeExpiredEscalation_def store_def drop_pending_def
      setRunState_def setOutcome_def split: option.splits)

lemma finish_ends: "ends r ps (ps @ paid_stages) (resolve_finish env clk r px answer)"
proof (cases answer)
  case (Inl e)
  have "resolve_finish env clk r px answer =
      (if thrown_status e = Some 410 then andThen (finalizeExpiredEscalation r) (\<lambda>_. ret Run_REFUSED) else lift (Inl e))"
    by (simp add: resolve_finish_def Inl fun_eq_iff)
  then have "neutral r (resolve_finish env clk r px answer)"
    by (simp add: neutral_andThen neutral_expired neutral_pure)
  then show ?thesis by (rule ends_neutral) simp
next
  case (Inr decision)
  have read: "neutral r (\<lambda>w. (Inr (coalesce (run_state_of r w) Run_FAILED), w))"
    by (simp add: neutral_def)
  have decided: "ends r ps (ps @ paid_stages) (case decision of
       EA_signed header nonce \<Rightarrow>
         andThen (store (\<lambda>s. setOutcome r (Out_checkout_pending ''pending'' ''pending'')
           (setRunState r Run_RUNNING s))) (\<lambda>_. continueSignedRun env clk r px header)
     | EA_refused check checkIndex detail human \<Rightarrow>
         store (\<lambda>s. setRunState r Run_REFUSED (setOutcome r (Out_refused check checkIndex detail human) s)))"
    by (cases decision) (auto intro!: ending continue_ends)
  have "ends r ps (ps @ paid_stages) (andThen (\<lambda>w. (Inr (), drop_pending r w)) (\<lambda>_. andThen (case decision of
       EA_signed header nonce \<Rightarrow>
         andThen (store (\<lambda>s. setOutcome r (Out_checkout_pending ''pending'' ''pending'')
           (setRunState r Run_RUNNING s))) (\<lambda>_. continueSignedRun env clk r px header)
     | EA_refused check checkIndex detail human \<Rightarrow>
         store (\<lambda>s. setRunState r Run_REFUSED (setOutcome r (Out_refused check checkIndex detail human) s)))
       (\<lambda>_. (\<lambda>w. (Inr (coalesce (run_state_of r w) Run_FAILED), w)))))"
    using decided read
    by (intro ends_after neutral_pending ends_then_neutral) simp_all
  then show ?thesis by (simp add: ends_def resolve_finish_def Inr)
qed

lemma resume_ends: "ends r ps (ps @ paid_stages) (resolveRunEscalation env clk r body)"
proof -
  have started: "neutral r (resolve_begin env now r body)" for now
    by (auto simp: observed_defs resolve_begin_def services_def within_def split: option.splits prod.splits)
  show ?thesis unfolding resolveRunEscalation_def
    by (rule ends_after [OF started]) (auto intro: finish_ends)
qed

section \<open>The events of a run\<close>

definition in_order :: "string \<Rightarrow> run_source \<Rightarrow> ('s, 'c, 'x) orch \<Rightarrow> bool" where
  "in_order r source w \<longleftrightarrow> prefix (stages r w) (run_order source) \<and>
     (run_done r w \<longrightarrow> stages r w = run_order source)"

lemma started_run:
  assumes "startRun env now r input w0 = (Inr u, w1)"
  shows "stages r w1 = [] \<and> \<not> run_done r w1"
  using assms by (auto simp: startRun_def andThen_def store_def stages_def run_done_def run_state_of_def
      split: sum.splits)

text \<open>C35.
  Whatever happens to a run, its events are the first stages of the pipeline, each once and in order, and
  all of them when the run is done: after the run has been executed, and after a run that paused behind
  the decision was resumed.
\<close>

theorem run_events_in_order:
  assumes "startRun env now r input w0 = (Inr u, w1)"
  shows "sorted_wrt (<) (run_order (in_source input)) \<and>
    in_order r (in_source input) (snd (executeRun env clk r input w1)) \<and>
    (stages r w = take 4 (run_order (in_source input)) \<and> run_state_of r w = Some Run_ESCALATED \<longrightarrow>
      in_order r (in_source input) (snd (resolveRunEscalation env clk r body w)))"
proof -
  have "in_order r (in_source input) (snd (executeRun env clk r input w1))"
    using execute_ends [of r input env clk] started_run [OF assms] by (simp add: ends_def in_order_def)
  moreover have "in_order r (in_source input) (snd (resolveRunEscalation env clk r body w))"
    if "stages r w = take 4 (run_order (in_source input)) \<and> run_state_of r w = Some Run_ESCALATED"
    using resume_ends [of r "take 4 (run_order (in_source input))" env clk body] that
    by (simp add: ends_def in_order_def run_order_def run_done_def)
  moreover have "sorted_wrt (<) (run_order (in_source input))"
    by (cases "in_source input") (simp_all add: run_order_def less_run_stage_def)
  ultimately show ?thesis by blast
qed

end
