(* ===== verification/Purchase_Properties.thy ===== *)
theory Purchase_Properties
  imports Run_Pipeline
begin

text \<open>
  What a run buys and where it pays: the price read from a page is charged exactly or not at all,
  only an allowlisted address crosses from the card service's untrusted tool result, and the
  browser pays on the discovered checkout page of an allowlisted host.
\<close>

section \<open>The price\<close>

lemma price_parts_iff:
  "price_parts s = Some (whole, frac) \<longleftrightarrow>
     s = whole @ (if frac = [] then [] else CHR ''.'' # frac) \<and> is_decimal whole \<and>
     (hd whole \<noteq> CHR ''0'' \<or> whole = ''0'') \<and> list_all is_digit frac \<and> length frac \<le> 6"
    (is "?l \<longleftrightarrow> ?r")
proof
  assume l: ?l
  define w rest where "w = takeWhile is_digit s" and "rest = dropWhile is_digit s"
  have s: "s = w @ rest" and w: "list_all is_digit w"
    by (auto simp: w_def rest_def list_all_iff dest: set_takeWhileD)
  from l have "w \<noteq> []" "hd w \<noteq> CHR ''0'' \<or> w = ''0''" "whole = w"
      "rest = [] \<and> frac = [] \<or> rest = CHR ''.'' # frac \<and> is_decimal frac \<and> length frac \<le> 6"
    unfolding price_parts_def Let_def w_def [symmetric] rest_def [symmetric]
    by (cases rest; auto split: if_splits)+
  then show ?r using s w by (auto simp: is_decimal_def)
next
  assume r: ?r
  have d: "\<not> is_digit CHR ''.''" by (simp add: is_digit_def)
  have w: "\<forall>c \<in> set whole. is_digit c" using r by (simp add: is_decimal_def list_all_iff)
  have "takeWhile is_digit s = whole"
    "dropWhile is_digit s = (if frac = [] then [] else CHR ''.'' # frac)"
    using r w d by (auto simp: takeWhile_append2 dropWhile_append2)
  then show ?l using r by (auto simp: price_parts_def Let_def is_decimal_def)
qed

lemma padded_fraction:
  assumes "length frac \<le> 6"
  shows "of_base 10 (take 6 (frac @ ''000000'')) = of_base 10 frac * 10 ^ (6 - length frac)"
proof -
  have z: "take k ''000000'' = replicate k CHR ''0''" if "k \<le> 6" for k
  proof -
    have "''000000'' = replicate 6 CHR ''0''" by (simp add: numeral_eq_Suc)
    then show ?thesis using that by (metis min_absorb2 take_replicate min.commute)
  qed
  have "of_base 10 (frac @ replicate k CHR ''0'') = of_base 10 frac * 10 ^ k" for k
    using of_base_replicate_zero [of 10 k "[]"] by (simp add: of_base_append)
  then show ?thesis using assms z [of "6 - length frac"] by simp
qed

lemma exactAmountSgd_Inr:
  "exactAmountSgd p = Inr n \<longleftrightarrow> is_decimal p \<and> n = of_base 10 p \<and> MIN_BASE_UNITS \<le> n \<and> n \<le> MAX_BASE_UNITS"
  by (auto simp: exactAmountSgd_def Let_def)

text \<open>C23. A price on a page is charged exactly or not at all: it is accepted if and only if it is written as a
  decimal without leading zeros and with at most six places and lies between 5 and 30 dollars, and
  the amount the card is requested for is then exactly that price.\<close>

theorem price_exact:
  "bindE (dollarsToBaseUnits6 s) exactAmountSgd = Inr n \<longleftrightarrow>
     (\<exists>whole frac. s = whole @ (if frac = [] then [] else CHR ''.'' # frac) \<and> is_decimal whole \<and>
        hd whole \<in> {c. c \<noteq> CHR ''0''} \<union> {c. whole = ''0''} \<and> list_all is_digit frac \<and> length frac \<le> 6 \<and>
        n = of_base 10 whole * 1000000 + of_base 10 frac * 10 ^ (6 - length frac) \<and>
        5000000 \<le> n \<and> n \<le> 30000000)"
proof -
  have "bindE (dollarsToBaseUnits6 s) exactAmountSgd = Inr n \<longleftrightarrow>
    (\<exists>whole frac. price_parts s = Some (whole, frac) \<and>
       n = of_base 10 whole * 1000000 + of_base 10 (take 6 (frac @ ''000000'')) \<and>
       5000000 \<le> n \<and> n \<le> 30000000)"
    by (auto simp: dollarsToBaseUnits6_def exactAmountSgd_Inr Let_def MIN_BASE_UNITS_def MAX_BASE_UNITS_def
        split: option.splits)
  also have "\<dots> \<longleftrightarrow> (\<exists>whole frac. price_parts s = Some (whole, frac) \<and>
       n = of_base 10 whole * 1000000 + of_base 10 frac * 10 ^ (6 - length frac) \<and>
       5000000 \<le> n \<and> n \<le> 30000000)"
    by (intro iff_exI conj_cong refl) (drule price_parts_iff [THEN iffD1], elim conjE, simp only: padded_fraction)
  finally show ?thesis
    unfolding price_parts_iff by (simp only: Un_iff mem_Collect_eq conj_assoc)
qed

section \<open>The untrusted tool result\<close>

text \<open>C19. Of all that the card service's tool result says, one thing crosses: an https address of the allowlist
  without credentials, query or fragment.  The challenge of the card comes from the 402 response
  of that very address, and the request was made for a name and an amount in the documented
  bounds.\<close>

theorem only_url_crosses:
  assumes "getCard gx params x = (Inr g, x')"
  shows "gc_cardapiUrl g \<in> set DEFAULT_CARDAPI_URLS \<and>
    (\<exists>toolResult rawText x1 body. gx_callTool gx (Get_card_sandbox params) x = (Inr toolResult, x1) \<and>
       extractToolResultText toolResult = Inr rawText \<and> gc_rawToolResultHash g = gx_keccak gx rawText \<and>
       gx_post gx (gc_cardapiUrl g) None (gp_cardholderName params) (gp_amountSgd params) x1 = (Inr (402, Some body), x') \<and>
       parseX402Challenge (Some body) = Inr (gc_challenge g)) \<and>
    2 \<le> length (gp_cardholderName params) \<and> length (gp_cardholderName params) \<le> 26 \<and>
    5000000 \<le> gp_amountSgd params \<and> gp_amountSgd params \<le> 30000000"
  using assms
  by (auto simp: getCard_def io_Inr read_tool_result_def filterMcpCardResult_def validateCardapiUrl_def
      validateParams_def Let_def response_json_def split: if_splits option.splits)

section \<open>The page that is paid on\<close>

text \<open>The page that was opened may be paid on.\<close>

definition payable :: "('s, 'c, 'x) orch_env \<Rightarrow> merchant_profile \<Rightarrow> resolved_item \<Rightarrow> page \<Rightarrow> bool" where
  "payable env profile item pg \<longleftrightarrow> pg_url pg = r_checkoutUrl item \<and>
     (\<exists>u. ov_parse env (pg_url pg) None = Some u \<and> u_hostname u = r_merchantDomain item) \<and>
     r_merchantDomain item \<in> set (mp_allowedHosts profile) \<and>
     (mp_checkoutUrlPattern profile = [] \<or> ov_regexp env (mp_checkoutUrlPattern profile) (pg_url pg))"

definition checkout_input :: "merchant_profile \<Rightarrow> resolved_item \<Rightarrow> page \<Rightarrow> checkout_assertion_input" where
  "checkout_input profile item pg = \<lparr>ca_currentUrl = pg_url pg, ca_matchedCheckoutUrl = r_checkoutUrl item,
     ca_matchedDomain = r_merchantDomain item, ca_allowedHosts = Some (mp_allowedHosts profile),
     ca_checkoutUrlPattern = Some (mp_checkoutUrlPattern profile)\<rparr>"

lemma assert_allowed:
  assumes "assertCheckoutDomain (ov_parse env) (ov_regexp env) (checkout_input profile item pg) = Inr c" "cr_allowed c"
  shows "payable env profile item pg"
proof -
  from assms(1) obtain u v :: url where "new_URL (ov_parse env) (pg_url pg) None = Inr u"
    "\<lparr>cr_allowed = (u_protocol u = u_protocol v \<and> u_hostname u = r_merchantDomain item \<and>
       pg_url pg = r_checkoutUrl item \<and> u_hostname u \<in> set (mp_allowedHosts profile) \<and>
       (if falsy (Some (mp_checkoutUrlPattern profile)) then True
        else ov_regexp env (the (Some (mp_checkoutUrlPattern profile))) (pg_url pg))),
       cr_merchantDomain = r_merchantDomain item, cr_matchedAgainst = r_checkoutUrl item\<rparr> = c"
    unfolding assertCheckoutDomain_def checkout_input_def Let_def bindE_eq_Inr sum.inject
      checkout_assertion_input.select_convs coalesce.simps by blast
  then show ?thesis using assms(2) by (auto simp: payable_def new_URL_def split: option.splits if_splits)
qed

lemma confirmation_evidence:
  assumes "read_confirmation env now r profile pg = Inr sp"
  shows "\<exists>c. ov_parse env (pg_url pg) None = Some c \<and> u_hostname c \<in> set (mp_allowedHosts profile) \<and>
    sl_merchantDomain sp = u_hostname c"
    "[] \<notin> {sl_orderTotal sp, sl_itemSku sp, sl_orderId sp, sl_observedAt sp}"
proof -
  from assms obtain u :: url and total' sku order observed where
    "new_URL (ov_parse env) (pg_url pg) None = Inr u" "u_hostname u \<in> set (mp_allowedHosts profile)"
    "(if total' = [] \<or> sku = [] \<or> order = [] \<or> observed = []
      then Inl (JsError ''confirmation page omitted required evidence'')
      else Inr \<lparr>sl_requestId = r, sl_merchantDomain = u_hostname u, sl_orderTotal = total', sl_itemSku = sku,
        sl_orderId = order, sl_observedAt = observed, sl_proof = ''none''\<rparr>) = Inr sp"
    unfolding read_confirmation_def Let_def bindE_eq_Inr throwIf_Inr not_not by blast
  then show "\<exists>c. ov_parse env (pg_url pg) None = Some c \<and> u_hostname c \<in> set (mp_allowedHosts profile) \<and>
      sl_merchantDomain sp = u_hostname c"
    "[] \<notin> {sl_orderTotal sp, sl_itemSku sp, sl_orderId sp, sl_observedAt sp}"
    by (auto simp: new_URL_def split: if_splits option.splits)
qed

text \<open>The outside is left as the opening left it when the assertion does not hold.\<close>

lemma checkout_stops:
  assumes "runCheckout env clk r profile item ci tx w = (res, w')"
    "ov_open env (r_checkoutUrl item) (oc_ext w) = (Inr pg, x)" "\<not> payable env profile item pg"
  shows "(\<exists>e. res = Inl e) \<and> oc_ext w' = x"
proof (cases "assertCheckoutDomain (ov_parse env) (ov_regexp env) (checkout_input profile item pg)")
  case (Inl e)
  then show ?thesis
    using assms(1,2) by (auto simp: runCheckout_def checkout_input_def andThen_def outside_def within_def)
next
  case (Inr c)
  with assert_allowed assms(3) have "\<not> cr_allowed c" by blast
  with Inr show ?thesis
    using assms(1,2) by (auto simp: runCheckout_def checkout_input_def andThen_def outside_def within_def throwIf_def)
qed

lemma emit_outside: "emit clk r st s c v = (res, v') \<Longrightarrow> oc_ext v' = oc_ext v"
  by (auto simp: emit_def split: prod.splits)

text \<open>C21. The browser pays only behind the assertion.  When the page it opened is not the discovered checkout
  address on the discovered domain, a host of the profile, with an address of the profile's pattern, the
  checkout fails and the outside is as the opening left it: no card was viewed and nothing paid.  A
  checkout that succeeds opened such a page, then viewed the card of the run, then paid on this page
  with that card, and read its evidence, none of it empty, from a confirmation page on a host of the profile.\<close>

theorem checkout_on_merchant_host:
  assumes "runCheckout env clk r profile item ci tx w = (res, w')"
    "ov_open env (r_checkoutUrl item) (oc_ext w) = (Inr pg, x)"
  shows "let safe = (pg_url pg = r_checkoutUrl item \<and>
        (\<exists>u. ov_parse env (pg_url pg) None = Some u \<and> u_hostname u = r_merchantDomain item) \<and>
        r_merchantDomain item \<in> set (mp_allowedHosts profile) \<and>
        (mp_checkoutUrlPattern profile = [] \<or> ov_regexp env (mp_checkoutUrlPattern profile) (pg_url pg)))
    in (\<not> safe \<longrightarrow> (\<exists>e. res = Inl e) \<and> oc_ext w' = x) \<and>
       (\<forall>sp. res = Inr sp \<longrightarrow> safe \<and> (\<exists>cv x1 conf c.
          viewCard (ov_card env) \<lparr>vp_cardOpaqueId = ci, vp_settlementTx = tx, vp_walletAddress = ov_payingWallet env\<rparr> x =
            (Inr cv, x1) \<and>
          ov_pay env pg (vr_iframeUrl cv) profile x1 = (Inr conf, oc_ext w') \<and>
          ov_parse env (pg_url conf) None = Some c \<and> u_hostname c \<in> set (mp_allowedHosts profile) \<and>
          sl_merchantDomain sp = u_hostname c) \<and>
          [] \<notin> {sl_orderTotal sp, sl_itemSku sp, sl_orderId sp, sl_observedAt sp})"
proof -
  have "payable env profile item pg \<and> (\<exists>cv x1 conf.
      viewCard (ov_card env) \<lparr>vp_cardOpaqueId = ci, vp_settlementTx = tx, vp_walletAddress = ov_payingWallet env\<rparr> x =
        (Inr cv, x1) \<and>
      ov_pay env pg (vr_iframeUrl cv) profile x1 = (Inr conf, oc_ext w') \<and>
      read_confirmation env (clk Stage_SPEND_RECORDED) r profile conf = Inr sp)"
    if "res = Inr sp" for sp
  proof -
    from assms(1) that obtain c v1 cv x1 conf where s:
      "assertCheckoutDomain (ov_parse env) (ov_regexp env) (checkout_input profile item pg) = Inr c" "cr_allowed c"
      "emit clk r Stage_CHECKOUT_ASSERTED Ev_ok None (w\<lparr>oc_ext := x\<rparr>) = (Inr (), v1)"
      "viewCard (ov_card env) \<lparr>vp_cardOpaqueId = ci, vp_settlementTx = tx, vp_walletAddress = ov_payingWallet env\<rparr>
        (oc_ext v1) = (Inr cv, x1)"
      "ov_pay env pg (vr_iframeUrl cv) profile x1 = (Inr conf, oc_ext w')"
      "read_confirmation env (clk Stage_SPEND_RECORDED) r profile conf = Inr sp"
      unfolding runCheckout_def checkout_input_def
      by (auto simp: io_Inr outside_def io_within assms(2) throwIf_Inr)
    then show ?thesis using assert_allowed [OF s(1,2)] emit_outside [OF s(3)] by auto
  qed
  note success = this
  show ?thesis
    unfolding Let_def payable_def [symmetric]
  proof (intro conjI impI allI)
    fix sp assume "res = Inr sp"
    from success [OF this] confirmation_evidence
    show "payable env profile item pg" "[] \<notin> {sl_orderTotal sp, sl_itemSku sp, sl_orderId sp, sl_observedAt sp}"
      "\<exists>cv x1 conf c.
        viewCard (ov_card env) \<lparr>vp_cardOpaqueId = ci, vp_settlementTx = tx, vp_walletAddress = ov_payingWallet env\<rparr> x =
          (Inr cv, x1) \<and>
        ov_pay env pg (vr_iframeUrl cv) profile x1 = (Inr conf, oc_ext w') \<and>
        ov_parse env (pg_url conf) None = Some c \<and> u_hostname c \<in> set (mp_allowedHosts profile) \<and>
        sl_merchantDomain sp = u_hostname c"
      by blast+
  qed (use checkout_stops [OF assms] in blast)+
qed

end
