(* ===== verification/Mcp_Properties.thy ===== *)
theory Mcp_Properties
  imports Mcp_Client
begin

text \<open>
  The event-stream client: every call is settled exactly once and resolved only by the response
  that carries its id; cutting the stream into chunks makes no difference unless a chunk ends in
  the middle of a CRLF, and then a complete response can stay unread.
\<close>

section \<open>Calls are settled once\<close>

definition call_ids :: "mcp_client \<Rightarrow> int list" where
  "call_ids c = map fst (mc_pending c) @ map fst (mc_settled c)"

text \<open>A message whose result is \<open>v\<close>, for the call \<open>i\<close>.\<close>

definition replies_to :: "(string \<Rightarrow> json option) \<Rightarrow> int \<Rightarrow> json \<Rightarrow> bool" where
  "replies_to json_parse i v \<longleftrightarrow> (\<exists>data message. json_parse data = Some message \<and>
     jprop message ''id'' = Some (JNum i) \<and> jprop message ''result'' = Some v \<and>
     \<not> truthy (jprop message ''error''))"

definition mcp_ok :: "(string \<Rightarrow> json option) \<Rightarrow> mcp_client \<Rightarrow> bool" where
  "mcp_ok json_parse c \<longleftrightarrow> distinct (call_ids c) \<and> set (call_ids c) = {1..<mc_nextId c} \<and> 1 \<le> mc_nextId c \<and>
     (\<forall>i v. (i, Inr v) \<in> set (mc_settled c) \<longrightarrow> replies_to json_parse i v)"

lemma mcp_ok_fields [simp]:
  "mcp_ok jp (c\<lparr>mc_buffer := b\<rparr>) = mcp_ok jp c"
  "mcp_ok jp (c\<lparr>mc_reading := r\<rparr>) = mcp_ok jp c"
  "mcp_ok jp (c\<lparr>mc_ready := y\<rparr>) = mcp_ok jp c"
  "mcp_ok jp (c\<lparr>mc_closed := x\<rparr>) = mcp_ok jp c"
  "mcp_ok jp (c\<lparr>mc_messagesUrl := u\<rparr>) = mcp_ok jp c"
  by (simp_all add: mcp_ok_def call_ids_def)

lemma mcp_ok_new [simp]: "mcp_ok jp (new_client u)"
  by (simp add: mcp_ok_def call_ids_def new_client_def)

lemma settle_ok:
  assumes "mcp_ok jp c" and "\<And>v. r = Inr v \<Longrightarrow> replies_to jp i v"
  shows "mcp_ok jp (settle i r c)"
proof (cases "map_of (mc_pending c) i")
  case (Some m)
  then have i: "i \<in> fst ` set (mc_pending c)" by (force dest: map_of_SomeD)
  have sub: "fst ` {p \<in> set (mc_pending c). fst p \<noteq> i} = fst ` set (mc_pending c) - {i}" by auto
  have d: "distinct (map fst (mc_pending c))" "distinct (map fst (mc_settled c))"
    "fst ` set (mc_pending c) \<inter> fst ` set (mc_settled c) = {}"
    "fst ` set (mc_pending c) \<union> fst ` set (mc_settled c) = {1..<mc_nextId c}"
    using assms(1) by (auto simp: mcp_ok_def call_ids_def)
  have "distinct (map fst (filter (\<lambda>p. fst p \<noteq> i) (mc_pending c)))"
    using d(1) by (simp add: distinct_map_filter)
  moreover have "i \<notin> fst ` set (mc_settled c)" using i d(3) by blast
  moreover have "(fst ` set (mc_pending c) - {i}) \<inter> insert i (fst ` set (mc_settled c)) = {}"
    using d(3) by blast
  moreover have "(fst ` set (mc_pending c) - {i}) \<union> insert i (fst ` set (mc_settled c)) = {1..<mc_nextId c}"
    using d(4) i by blast
  ultimately show ?thesis
    using assms Some d(2) by (auto simp: settle_def mcp_ok_def call_ids_def sub)
qed (use assms in \<open>simp add: settle_def\<close>)

lemma rejectAll_ok: "mcp_ok jp c \<Longrightarrow> mcp_ok jp (rejectAll e c)"
  by (auto simp: rejectAll_def mcp_ok_def call_ids_def o_def)

lemma fail_reading_ok: "mcp_ok jp c \<Longrightarrow> mcp_ok jp (fail_reading e c)"
  by (simp add: fail_reading_def Let_def rejectAll_ok)

lemma response_result_replies:
  assumes "response_result message = Inr v" "jp data = Some message"
    "jprop message ''id'' = Some (JNum i)"
  shows "replies_to jp i v"
  using assms by (auto simp: response_result_def replies_to_def split: if_splits option.splits)

lemma dispatchEvent_ok:
  "dispatchEvent parse jp raw c = Inr c' \<Longrightarrow> mcp_ok jp c \<Longrightarrow> mcp_ok jp c'"
  by (auto simp: dispatchEvent_def split: prod.splits if_splits option.splits json.splits sum.splits
        js_error.splits intro!: settle_ok response_result_replies)

lemma drain_ok: "mcp_ok jp c \<Longrightarrow> mcp_ok jp (drain parse jp c)"
proof (induction parse jp c rule: drain.induct)
  case (1 parse jp c)
  show ?case
  proof (cases "find_separator (mc_buffer c)")
    case (Some p)
    obtain x y where p: "p = (x, y)" by (cases p)
    show ?thesis
    proof (cases "dispatchEvent parse jp x (c\<lparr>mc_buffer := y\<rparr>)")
      case (Inl e)
      then show ?thesis using Some p 1(2) by (subst drain.simps) (simp add: fail_reading_ok)
    next
      case (Inr c')
      have "mcp_ok jp c'" using dispatchEvent_ok [OF Inr] 1(2) by simp
      then show ?thesis using Some p Inr 1(1) [OF Some p [symmetric] Inr] by (subst drain.simps) simp
    qed
  qed (use 1(2) in \<open>subst drain.simps, simp\<close>)
qed

lemma mcp_step_ok: "mcp_ok jp c \<Longrightarrow> mcp_ok jp (mcp_step parse jp x c)"
proof (cases x)
  case (Call m)
  assume ok: "mcp_ok jp c"
  have "{1..<mc_nextId c + 1} = insert (mc_nextId c) {1..<mc_nextId c}"
    using ok by (auto simp: mcp_ok_def)
  moreover have "mc_nextId c \<notin> set (call_ids c)" using ok by (simp add: mcp_ok_def)
  ultimately show ?thesis using ok Call by (auto simp: mcp_step_defs mcp_ok_def call_ids_def)
qed (auto simp: mcp_step_defs drain_ok fail_reading_ok rejectAll_ok intro!: settle_ok split: option.split)

lemma mcp_run_ok: "mcp_ok jp c \<Longrightarrow> mcp_ok jp (mcp_run parse jp xs c)"
  by (induction xs arbitrary: c) (simp_all add: mcp_step_ok)

text \<open>C26. Whatever happens to the client and in whatever order, every call it ever made is either still open or
  was settled exactly once, and it was settled with a result only by a message with its own id
  that carries this result and no error.\<close>

theorem calls_settled_once:
  "let c = mcp_run parse json_parse xs (new_client u) in
    distinct (map fst (mc_pending c) @ map fst (mc_settled c)) \<and>
    set (map fst (mc_pending c) @ map fst (mc_settled c)) = {1..<mc_nextId c} \<and>
    {(i, v). (i, Inr v) \<in> set (mc_settled c)} \<subseteq> {(i, v). \<exists>data message. json_parse data = Some message \<and>
       jprop message ''id'' = Some (JNum i) \<and> jprop message ''result'' = Some v \<and>
       \<not> truthy (jprop message ''error'')}"
proof -
  have "mcp_ok json_parse (mcp_run parse json_parse xs (new_client u))"
    by (rule mcp_run_ok [OF mcp_ok_new])
  then show ?thesis unfolding mcp_ok_def call_ids_def replies_to_def Let_def by blast
qed

section \<open>Chunks\<close>

lemma normalise_Cons: "v \<noteq> CR \<Longrightarrow> normalise_newlines (v # t) = v # normalise_newlines t"
  by (cases t) auto

lemma normalise_append:
  assumes "s = [] \<or> last s \<noteq> CR"
  shows "normalise_newlines (s @ t) = normalise_newlines s @ normalise_newlines t"
  using assms
  by (induction s rule: normalise_newlines.induct) (auto simp: normalise_Cons split: if_splits)

lemma normalise_concat:
  assumes "\<forall>t \<in> set (butlast ts). t = [] \<or> last t \<noteq> CR"
  shows "normalise_newlines (concat ts) = concat (map normalise_newlines ts)"
  using assms
proof (induction ts)
  case (Cons t ts)
  then show ?case by (cases ts) (auto simp: normalise_append)
qed simp

lemma find_separator_append:
  "find_separator s = Some (x, y) \<Longrightarrow> find_separator (s @ t) = Some (x, y @ t)"
  by (induction s arbitrary: x rule: find_separator.induct) (auto split: if_splits)

text \<open>The buffer is no concern of the dispatch of an event.\<close>

abbreviation buffered :: "string \<Rightarrow> mcp_client \<Rightarrow> mcp_client" where
  "buffered b c \<equiv> c\<lparr>mc_buffer := b\<rparr>"

lemma settle_buffer: "settle i r (buffered b c) = buffered b (settle i r c)"
  by (simp add: settle_def split: option.splits)

lemma fail_reading_buffer: "fail_reading e (buffered b c) = buffered b (fail_reading e c)"
  by (simp add: fail_reading_def rejectAll_def Let_def)

lemma dispatchEvent_buffer:
  "dispatchEvent parse jp raw (buffered b c) = map_sum id (buffered b) (dispatchEvent parse jp raw c)"
  by (simp add: dispatchEvent_def settle_buffer split: prod.splits option.splits json.splits sum.splits
      js_error.splits)

lemma dispatchEvent_reading:
  "dispatchEvent parse jp raw c = Inr c' \<Longrightarrow> mc_reading c' = mc_reading c"
  by (auto simp: dispatchEvent_def settle_def split: prod.splits if_splits option.splits json.splits
      sum.splits js_error.splits)

text \<open>Draining a buffer in two parts, up to the buffer that a failed reader leaves behind.\<close>

lemma drain_append:
  assumes "mc_reading c"
  shows "buffered [] (drain parse jp (buffered (mc_buffer c @ t) c)) =
    buffered [] (let d = drain parse jp c in
      if mc_reading d then drain parse jp (buffered (mc_buffer d @ t) d) else d)"
  using assms
proof (induction parse jp c rule: drain.induct)
  case (1 parse jp c)
  show ?case
  proof (cases "find_separator (mc_buffer c)")
    case None
    then have "drain parse jp c = c" by (subst drain.simps) simp
    then show ?thesis using 1(2) by simp
  next
    case (Some p)
    obtain x y where p: "p = (x, y)" by (cases p)
    let ?c = "buffered y c"
    have L: "drain parse jp (buffered (mc_buffer c @ t) c) =
        (case dispatchEvent parse jp x (buffered (y @ t) c) of
           Inl e \<Rightarrow> fail_reading (stream_failure e) (buffered (y @ t) c)
         | Inr c' \<Rightarrow> drain parse jp (buffered (y @ t) c'))"
      using find_separator_append [OF Some [unfolded p], of t]
      by (subst drain.simps) (simp split: sum.split)
    have R: "drain parse jp c = (case dispatchEvent parse jp x ?c of
           Inl e \<Rightarrow> fail_reading (stream_failure e) ?c
         | Inr c' \<Rightarrow> drain parse jp (buffered y c'))"
      using Some p by (subst drain.simps) (simp split: sum.split)
    show ?thesis
    proof (cases "dispatchEvent parse jp x c")
      case (Inl e)
      moreover have "\<not> mc_reading (fail_reading e c)" for e
        by (simp add: fail_reading_def Let_def)
      ultimately show ?thesis by (simp add: L R dispatchEvent_buffer fail_reading_buffer)
    next
      case (Inr c')
      have "mc_reading (buffered y c')" using dispatchEvent_reading [OF Inr] 1(2) by simp
      moreover have "dispatchEvent parse jp x ?c = Inr (buffered y c')"
        using Inr by (simp add: dispatchEvent_buffer)
      ultimately show ?thesis
        using 1(1) [OF Some p [symmetric], of "buffered y c'"] Inr by (simp add: L R dispatchEvent_buffer)
    qed
  qed
qed

lemma mcp_step_not_reading: "\<not> mc_reading c \<Longrightarrow> mcp_run parse jp (map Chunk ts) c = c"
  by (induction ts) (auto simp: mcp_step_defs)

text \<open>The chunks from a given one on, on text that is already normalised.\<close>

lemma chunks_drain:
  assumes "mc_reading c" "ts \<noteq> []"
  shows "buffered [] (mcp_run parse jp (map Chunk ts) c) =
    buffered [] (drain parse jp (buffered (mc_buffer c @ concat (map normalise_newlines ts)) c))"
  using assms
proof (induction ts arbitrary: c)
  case (Cons t ts)
  define d where "d = drain parse jp (buffered (mc_buffer c @ normalise_newlines t) c)"
  have step: "mcp_step parse jp (Chunk t) c = d" using Cons.prems by (simp add: mcp_step_defs d_def)
  show ?case
  proof (cases "ts = []")
    case False
    have "buffered [] (drain parse jp (buffered (mc_buffer c @ concat (map normalise_newlines (t # ts))) c)) =
        buffered [] (if mc_reading d
          then drain parse jp (buffered (mc_buffer d @ concat (map normalise_newlines ts)) d) else d)"
      using drain_append [of "buffered (mc_buffer c @ normalise_newlines t) c" parse jp
          "concat (map normalise_newlines ts)"] Cons.prems
      by (simp add: d_def Let_def)
    then show ?thesis
      using Cons.IH [of d] False by (simp add: step mcp_step_not_reading)
  qed (simp add: step d_def)
qed simp

text \<open>However the network cuts the stream into chunks, as long as no chunk but the last ends in a carriage
  return, the client ends in the same state as if the whole text had arrived at once: the same
  calls settled with the same results in the same order (a failed reader may leave another
  unread rest).\<close>

theorem chunking_irrelevant:
  assumes "ts \<noteq> []" "\<forall>t \<in> set (butlast ts). t = [] \<or> last t \<noteq> CR"
  shows "(mcp_run parse json_parse (map Chunk ts) c)\<lparr>mc_buffer := []\<rparr> =
    (mcp_step parse json_parse (Chunk (concat ts)) c)\<lparr>mc_buffer := []\<rparr>"
proof (cases "mc_reading c")
  case True
  then show ?thesis
    using chunks_drain [OF True assms(1)] by (simp add: mcp_step_defs normalise_concat [OF assms(2)])
qed (simp add: mcp_step_not_reading mcp_step_defs)

section \<open>A CRLF cut in two\<close>

lemma normalise_plain: "CR \<notin> set s \<Longrightarrow> normalise_newlines s = s"
  by (induction s rule: normalise_newlines.induct) auto

lemma CR_LF [simp]: "CR \<noteq> LF" "LF \<noteq> CR"
  by (simp_all add: CR_def LF_def char_eq_code)

lemma find_separator_after:
  assumes "LF \<notin> set s"
  shows "find_separator (s @ [LF, LF]) = Some (s, [])" "find_separator (s @ [LF, CR]) = None"
    "find_separator (s @ [LF, CR, LF]) = None"
  using assms by (induction s rule: find_separator.induct) auto

lemma js_split_none: "c \<notin> set s \<Longrightarrow> js_split c s = [s]"
  by (induction s) auto

lemma drain_None: "find_separator (mc_buffer c) = None \<Longrightarrow> drain parse jp c = c"
  by (subst drain.simps) simp

text \<open>A response whose final CRLF is cut by a chunk boundary is not read although all of it has arrived: the
  call it answers stays open, while the same bytes in one chunk settle it.\<close>

theorem split_crlf_loses_reply:
  assumes "json_parse data = Some message" "jprop message ''id'' = Some (JNum i)"
    and "CR \<notin> set data" "LF \<notin> set data" "data \<noteq> []" "\<not> is_space (hd data)"
    and "mc_reading c" "mc_buffer c = []" "map_of (mc_pending c) i = Some method"
  shows "map_of (mc_pending (mcp_step parse json_parse (Chunk (''data:'' @ data @ [CR, LF, CR, LF])) c)) i = None \<and>
    mc_pending (mcp_run parse json_parse [Chunk (''data:'' @ data @ [CR, LF, CR]), Chunk [LF]] c) = mc_pending c"
proof -
  define w where "w = ''data:'' @ data"
  have plain: "CR \<notin> set w" "LF \<notin> set w" "w \<noteq> []"
    using assms(3-5) by (auto simp: w_def CR_def LF_def char_eq_code)
  have "last w \<noteq> CR" using plain(1) last_in_set [OF plain(3)] by metis
  have n: "normalise_newlines (w @ t) = w @ normalise_newlines t" for t
    using normalise_append [of w t] normalise_plain [OF plain(1)] \<open>last w \<noteq> CR\<close> by simp
  have "read_event w = (''message'', data)"
    unfolding read_event_def js_split_none [OF plain(2)]
    using assms(5,6) by (cases data) (simp_all add: starts_with_def w_def)
  then have d: "dispatchEvent parse json_parse w c' = Inr (settle i (response_result message) c')" for c'
    using assms(1,2,5) by (cases message) (simp_all add: dispatchEvent_def)
  let ?whole = "mcp_step parse json_parse (Chunk (w @ [CR, LF, CR, LF])) c"
  have "find_separator (w @ [LF, LF]) = Some (w, [])" by (rule find_separator_after [OF plain(2)])
  then have "?whole = drain parse json_parse ((settle i (response_result message) (buffered [] c))\<lparr>mc_buffer := []\<rparr>)"
    using assms(7,8) by (simp add: mcp_step_defs n drain.simps [of _ _ "buffered _ c"] d)
  also have "\<dots> = settle i (response_result message) (buffered [] c)"
    by (simp add: drain_None settle_buffer)
  finally have whole: "map_of (mc_pending ?whole) i = None"
    using assms(9) by (auto simp: settle_def map_of_eq_None_iff)
  have "mcp_run parse json_parse [Chunk (w @ [CR, LF, CR]), Chunk [LF]] c = buffered (w @ [LF, CR, LF]) c"
    using assms(7,8) find_separator_after [OF plain(2)] by (simp add: mcp_step_defs n drain_None)
  then show ?thesis using whole by (simp add: w_def)
qed

end
