(* ===== verification/Orchestrator_Witnesses.thy ===== *)
theory Orchestrator_Witnesses
  imports Run_Properties Run_Order Purchase_Properties Mcp_Properties Samples Chain_Witnesses
begin

text \<open>
  The theorems about the orchestrator applied to one purchase: a fixture page that sells shoes for
  seven dollars, a card service that answers with a challenge, issues a card and shows it, and a
  chain that holds the transfer.  The state of the outside counts the calls.
\<close>

section \<open>A purchase\<close>

definition demo_asset :: string where
  "demo_asset = hex_text 40 CHR ''a''"

definition demo_payee :: string where
  "demo_payee = hex_text 40 CHR ''b''"

definition demo_tx :: string where
  "demo_tx = hex_text 64 CHR ''1''"

definition demo_cardapi :: string where
  "demo_cardapi = ''https://card.straitsx.ai/sandbox/cardapi/issue_card''"

definition demo_url :: "string \<Rightarrow> url" where
  "demo_url s = \<lparr>u_protocol = ''https:'', u_origin = ''o'',
     u_hostname = (if s = ''view'' then ''card.straitsx.ai'' else ''shop.example''),
     u_pathname = ''/sandbox/view/1'', u_search = [], u_searchParams = [], u_hash = [],
     u_username = [], u_password = [], u_href = s\<rparr>"

definition demo_challenge :: json where
  "demo_challenge = JObj [(''x402Version'', JNum 1), (''accepts'', JArr [JObj [(''scheme'', JStr ''exact''),
     (''network'', JStr ''n''), (''chainId'', JNum 43113), (''amount'', JStr ''7000000''),
     (''asset'', JStr demo_asset), (''payTo'', JStr demo_payee), (''maxTimeoutSeconds'', JNum 60),
     (''extra'', JObj [(''assetTransferMethod'', JStr ''eip3009''), (''name'', JStr ''XSGD''),
       (''version'', JStr ''2'')])]])]"

definition tool_text :: "string \<Rightarrow> json" where
  "tool_text s = JObj [(''content'', JArr [JObj [(''type'', JStr ''text''), (''text'', JStr s)]])]"

definition demo_card :: "nat card_externals" where
  "demo_card = \<lparr>gx_callTool = (\<lambda>c x. (Inr (tool_text (case c of Get_card_sandbox p \<Rightarrow> ''get'' | View_card_sandbox p \<Rightarrow> ''see'')), x + 1)),
     gx_post = (\<lambda>u header who amount x. (Inr (case header of None \<Rightarrow> (402, Some demo_challenge)
       | Some h \<Rightarrow> (200, Some (JObj [(''card_opaque_id'', JStr ''card''), (''settlement_tx'', JStr demo_tx)]))), x + 1)),
     gx_json_parse = (\<lambda>s. Some (JObj (if s = ''get'' then [(''url'', JStr demo_cardapi)]
       else [(''iframe_url'', JStr ''view'')]))),
     gx_keccak = toy_hash, gx_url = (\<lambda>s b. Some (demo_url s))\<rparr>"

definition demo_page :: "string \<Rightarrow> page" where
  "demo_page address = \<lparr>pg_url = address,
     pg_query = (\<lambda>s a. Inr (Some (if a = Some ''data-price'' then ''7''
       else if a = Some ''data-title'' then ''Red shoes'' else ''x''))), pg_count = (\<lambda>s. 0)\<rparr>"

definition demo_gateway :: "nat gateway_deps" where
  "demo_gateway = \<lparr>gd_client = toy_client\<lparr>cl_getTransactionReceipt := (\<lambda>c h s. (Inr \<lparr>tr_success = True,
       tr_blockNumber = 10, tr_logs = [toy_log\<lparr>lg_address := demo_asset\<rparr>]\<rparr>, s + 1))\<rparr>,
     gd_getAddress = (\<lambda>s. s), gd_decode = (\<lambda>t d. Some (Some demo_payee, Some 7000000)),
     gd_encode_revoke = (\<lambda>s. s), gd_registry = registry_addresses\<rparr>"

definition demo_env :: "(nat, nat, nat) orch_env" where
  "demo_env = \<lparr>ov_policy = sample_env, ov_gateway = demo_gateway, ov_gatewayToken = Some ''tok'',
     ov_token = ''tok'', ov_rid = ''id'', ov_card = demo_card, ov_regexp = (\<lambda>p s. True),
     ov_open = (\<lambda>a x. (Inr (demo_page a), x + 1)),
     ov_pay = (\<lambda>pg iframe profile x. (Inr (demo_page ''paid''), x + 1)),
     ov_ucp = (\<lambda>u hs b x. (Inr (500, None), x)), ov_payingWallet = ''0xW'',
     ov_fixtureBaseUrl = ''https://shop.example'', ov_fixtureHost = ''shop.example'',
     ov_ucpApiUrl = [], ov_ucpPlatformProfileUrl = [], ov_ucpRelayHosts = []\<rparr>"

definition demo_mandate :: mandate where
  "demo_mandate = sample_mandate\<lparr>m_asset := demo_asset, m_settlementRecipient := demo_payee\<rparr>"

definition demo_start :: "(nat, nat, nat) orch" where
  "demo_start = \<lparr>oc_world = \<lparr>wd_ledger = ledger_run toy_hash [(6, PutPolicy ''0xm'' (Some demo_mandate))]
       empty_ledger, wd_signer = 0\<rparr>,
     oc_gateway = (Map.empty, 0), oc_store = \<lparr>st_runs = [], st_streams = Map.empty\<rparr>, oc_pending = [],
     oc_timers = [], oc_ext = 0\<rparr>"

definition demo_input :: run_input where
  "demo_input = \<lparr>in_instruction = ''buy red shoes'', in_mandateId = ''0xm'', in_agentId = ''agent'',
     in_source = Source_fixture ''clean'', in_cardholderName = None\<rparr>"

definition noon :: clock where
  "noon stage = (if stage = Stage_INTENT_CREATED then 999000 else 1000000)"

definition demo_started :: "(nat, nat, nat) orch" where
  "demo_started = snd (startRun demo_env 1000000 ''r'' demo_input demo_start)"

definition demo_done :: "(nat, nat, nat) orch" where
  "demo_done = snd (executeRun demo_env noon ''r'' demo_input demo_started)"

lemma demo_run_done:
  "map_option ru_outcome (getRun ''r'' (oc_store demo_done)) = Some (Some (Out_signed demo_tx ''card'')) \<and>
   run_state_of ''r'' demo_done = Some Run_DONE"
  by code_simp

lemma demo_reached: "system_reachable demo_env (demo_done, [])"
proof -
  have "startRun demo_env 1000000 ''r'' demo_input demo_start = (Inr ''/run/r/events'', demo_started)"
    unfolding demo_started_def by (simp add: startRun_def demo_input_def productUrl_def andThen_def store_def)
  then have "system_step demo_env (demo_start, []) (demo_done, [])"
    unfolding demo_done_def by (rule system_step.run [rotated]) (simp add: demo_start_def getRun_def)
  then show ?thesis
    by (rule system_reachable.step [rotated]) (rule system_reachable.boot, simp add: demo_start_def)
qed

lemma run_events_in_order_witness:
  "stages ''r'' demo_done = run_order (in_source demo_input) \<and> run_done ''r'' demo_done \<and>
   in_order ''r'' (in_source demo_input) (snd (executeRun demo_env noon ''r'' demo_input demo_started))"
proof -
  have "startRun demo_env 1000000 ''r'' demo_input demo_start = (Inr ''/run/r/events'', demo_started)"
    unfolding demo_started_def by (simp add: startRun_def demo_input_def productUrl_def andThen_def store_def)
  note ordered = run_events_in_order [OF this, of noon]
  have "stages ''r'' demo_done = run_order (in_source demo_input)" by code_simp
  moreover have "run_done ''r'' demo_done" using demo_run_done by (simp add: run_done_def)
  ultimately show ?thesis using ordered by blast
qed

lemma run_records_coherent_witness:
  "\<exists>run i cap. getRun ''r'' (oc_store demo_done) = Some run \<and> ru_state run = Run_DONE \<and>
     jget (l_intents (wd_ledger (oc_world demo_done))) ''r'' = Some i \<and> i_capture i = Some cap \<and>
     cp_settlementTx cap = demo_tx"
proof -
  obtain run where run: "getRun ''r'' (oc_store demo_done) = Some run" "ru_state run = Run_DONE"
      "ru_outcome run = Some (Out_signed demo_tx ''card'')"
    using demo_run_done by (auto simp: run_state_of_def)
  then show ?thesis using run_records_coherent [OF demo_reached run(1)] by auto
qed

section \<open>A purchase that the policy service refuses\<close>

text \<open>The same purchase under a mandate that pins another recipient.\<close>

definition unpinned_started :: "(nat, nat, nat) orch" where
  "unpinned_started = snd (startRun demo_env 1000000 ''r'' demo_input (demo_start\<lparr>oc_world :=
     \<lparr>wd_ledger = ledger_run toy_hash [(6, PutPolicy ''0xm'' (Some (sample_mandate\<lparr>m_asset := demo_asset\<rparr>)))] empty_ledger,
      wd_signer = 0\<rparr>\<rparr>))"

fun is_refusal :: "payment_reply reply \<Rightarrow> bool" where
  "is_refusal (Reply st (PRefused b)) = True"
| "is_refusal r = False"

lemma is_refusalE: "is_refusal r \<Longrightarrow> (\<And>st b. r = Reply st (PRefused b) \<Longrightarrow> P) \<Longrightarrow> P"
  by (cases r rule: is_refusal.cases) auto

lemma policy_refusal_never_refuses_run_witness:
  "\<exists>w'. executeRun demo_env noon ''r'' demo_input unpinned_started = (Inr (), w') \<and>
     run_state_of ''r'' w' = Some Run_FAILED"
proof -
  have "case before_decision demo_env noon ''r'' demo_input unpinned_started of
      (Inl e, v) \<Rightarrow> False
    | (Inr (amount, c, px), v) \<Rightarrow> \<not> Option.is_none (getRun ''r'' (oc_store v)) \<and>
        is_refusal (fst (payment_request (ov_policy demo_env) (noon Stage_POLICY_DECISION)
          (body_of ''r'' (in_mandateId (px_input px)) amount c (px_resolvedItem px)) (oc_world v)))"
    by code_simp
  then obtain amount c px v run st b where
      "before_decision demo_env noon ''r'' demo_input unpinned_started = (Inr (amount, c, px), v)"
      "getRun ''r'' (oc_store v) = Some run"
      "fst (payment_request (ov_policy demo_env) (noon Stage_POLICY_DECISION)
        (body_of ''r'' (in_mandateId (px_input px)) amount c (px_resolvedItem px)) (oc_world v)) = Reply st (PRefused b)"
    by (auto simp: Option.is_none_def elim!: is_refusalE split: prod.splits sum.splits)
  moreover from this(3) obtain s where "payment_request (ov_policy demo_env) (noon Stage_POLICY_DECISION)
        (body_of ''r'' (in_mandateId (px_input px)) amount c (px_resolvedItem px)) (oc_world v) = (Reply st (PRefused b), s)"
    by (metis prod.collapse)
  ultimately show ?thesis
    using policy_refusal_never_refuses_run [of "''r''" demo_env noon demo_input unpinned_started]
    by (fastforce simp: run_state_of_def)
qed

section \<open>The signed part of the purchase\<close>

definition demo_requirements :: x402_requirements where
  "demo_requirements = sample_challenge\<lparr>c_asset := demo_asset, c_payTo := demo_payee\<rparr>"

definition demo_pending :: pending_context where
  "demo_pending = \<lparr>px_input = demo_input,
     px_resolvedItem = \<lparr>r_title = ''Red shoes'', r_sku = ''x'', r_price = ''7000000'',
       r_merchantDomain = ''shop.example'', r_checkoutUrl = ''x''\<rparr>,
     px_cardResult = \<lparr>gc_cardapiUrl = demo_cardapi, gc_challenge = demo_requirements,
       gc_rawToolResultHash = toy_hash []\<rparr>,
     px_amountSgd = 7000000, px_profile = snd (hd (ov_profiles demo_env))\<rparr>"

definition demo_signed :: "(nat, nat, nat) orch" where
  "demo_signed = demo_started\<lparr>oc_world := sample_world\<rparr>"

definition demo_paid :: "(nat, nat, nat) orch" where
  "demo_paid = snd (continueSignedRun demo_env noon ''r'' demo_pending ''header'' demo_signed)"

lemma demo_paid_done:
  "run_state_of ''r'' demo_paid = Some Run_DONE \<and>
   map_option ru_outcome (getRun ''r'' (oc_store demo_paid)) = Some (Some (Out_signed demo_tx ''card''))"
  by code_simp

lemma done_means_settled_witness:
  "settled_on_chain demo_env demo_requirements demo_tx \<and> captured ''r'' demo_tx (wd_ledger (oc_world demo_paid))"
proof -
  have "continueSignedRun demo_env noon ''r'' demo_pending ''header'' demo_signed =
      (fst (continueSignedRun demo_env noon ''r'' demo_pending ''header'' demo_signed), demo_paid)"
    by (simp add: demo_paid_def)
  from done_means_settled [OF this] demo_paid_done show ?thesis by (auto simp: demo_pending_def)
qed

definition demo_params :: get_card_params where
  "demo_params = \<lparr>gp_walletAddress = ''0xW'', gp_cardholderName = ''Ann Lee'', gp_amountSgd = 7000000\<rparr>"

lemma only_url_crosses_witness:
  "\<exists>g x. getCard demo_card demo_params 0 = (Inr g, x) \<and> gc_cardapiUrl g \<in> set DEFAULT_CARDAPI_URLS"
proof -
  have "map_sum (\<lambda>_. ()) (\<lambda>_. ()) (fst (getCard demo_card demo_params 0)) = Inr ()" by code_simp
  then obtain g x where g: "getCard demo_card demo_params 0 = (Inr g, x)"
    by (cases "getCard demo_card demo_params 0"; cases "fst (getCard demo_card demo_params 0)") auto
  from only_url_crosses [OF g] g show ?thesis by auto
qed

lemma checkout_on_merchant_host_witness:
  "\<exists>sp w. runCheckout demo_env noon ''r'' (px_profile demo_pending) (px_resolvedItem demo_pending) ''card''
        demo_tx demo_signed = (Inr sp, w) \<and>
     (\<exists>c :: url. u_hostname c \<in> set (mp_allowedHosts (px_profile demo_pending)) \<and> sl_merchantDomain sp = u_hostname c)"
proof -
  let ?c = "runCheckout demo_env noon ''r'' (px_profile demo_pending) (px_resolvedItem demo_pending) ''card''
      demo_tx demo_signed"
  let ?o = "ov_open demo_env (r_checkoutUrl (px_resolvedItem demo_pending)) (oc_ext demo_signed)"
  have "map_sum (\<lambda>_. ()) (\<lambda>_. ()) (fst ?c) = Inr ()" "map_sum (\<lambda>_. ()) (\<lambda>_. ()) (fst ?o) = Inr ()"
    by (code_simp, code_simp)
  then obtain sp w pg x where c: "?c = (Inr sp, w)" and o: "?o = (Inr pg, x)"
    by (cases ?c; cases "fst ?c"; cases ?o; cases "fst ?o") auto
  from checkout_on_merchant_host [OF c o, unfolded Let_def, THEN conjunct2, THEN spec, THEN mp, OF refl] c
  show ?thesis by blast
qed

section \<open>An escalated run\<close>

definition demo_waiting :: "(nat, nat, nat) orch" where
  "demo_waiting = demo_started\<lparr>oc_world := escalated_world, oc_store :=
     setRunState ''r'' Run_ESCALATED (oc_store demo_started)\<rparr>"

lemma demo_waiting_state: "run_state_of ''r'' demo_waiting = Some Run_ESCALATED"
  by code_simp

lemma expiry_timer_too_early_witness:
  "run_state_of ''r'' (expireEscalation demo_env 300250 ''r'' demo_waiting) = Some Run_FAILED \<and>
   run_state_of ''r'' (expireEscalation demo_env 301000 ''r'' demo_waiting) = Some Run_REFUSED"
proof -
  let ?l = "wd_ledger (oc_world demo_waiting)"
  have "map_option (\<lambda>e. (e_resolved e, e_expiresAt e, e_mandateId e)) (jget (l_escalations ?l) ''r'') =
      Some (False, 300, ''0xm'')"
    "map_option (\<lambda>_. ()) (jget (l_policies ?l) ''0xm'') = Some ()"
    "map_option (\<lambda>_. ()) (jget (l_intents ?l) ''r'') = Some ()"
    by (code_simp, code_simp, code_simp)
  then obtain e p i where l: "jget (l_escalations ?l) ''r'' = Some e" "\<not> e_resolved e" "e_expiresAt e = 300"
      "jget (l_policies ?l) (e_mandateId e) = Some p" "jget (l_intents ?l) ''r'' = Some i"
    by auto
  note expired = expiry_timer_too_early [OF demo_waiting_state l(1,2,4,5), of 0 demo_env]
  from expired [of 300250] expired [of 301000] show ?thesis by (simp add: l(3) Let_def)
qed

lemma ended_run_revived_witness:
  "run_state_of ''r'' (snd (expire_finish ''r'' (Inl (mk_app_error 409 INTERNAL [] False)) demo_waiting)) = Some Run_FAILED \<and>
   resolve_finish demo_env noon ''r'' demo_pending (Inr (EA_signed ''header'' ''0x''))
     (snd (expire_finish ''r'' (Inl (mk_app_error 409 INTERNAL [] False)) demo_waiting)) =
   resolve_finish demo_env noon ''r'' demo_pending (Inr (EA_signed ''header'' ''0x'')) demo_waiting"
proof -
  have "run_state_of ''r'' demo_waiting \<noteq> None" using demo_waiting_state by simp
  note revived = ended_run_revived [OF this, of "Inl (mk_app_error 409 INTERNAL [] False)" demo_env noon
      demo_pending "''header''" "''0x''"]
  have "run_state_of ''r'' (snd (expire_finish ''r'' (Inl (mk_app_error 409 INTERNAL [] False)) demo_waiting)) =
      Some Run_FAILED" by code_simp
  then show ?thesis using revived by (simp add: Let_def)
qed

text \<open>A stream opened on the waiting run is still open when the timer has ended the run.\<close>

definition demo_watched :: "(nat, nat, nat) orch" where
  "demo_watched = demo_waiting\<lparr>oc_store := snd (open_stream 0 ''r'' (oc_store demo_waiting))\<rparr>"

definition demo_expired :: "(nat, nat, nat) orch" where
  "demo_expired = snd (expire_finish ''r'' (Inl (mk_app_error 410 INTERNAL [] False)) demo_watched)"

lemma live_stream_never_ended_witness:
  "still_open 0 demo_expired \<and> run_state_of ''r'' demo_expired = Some Run_REFUSED"
proof -
  let ?a = "Inl (mk_app_error 410 INTERNAL [] False)"
  have "(system_step demo_env)\<^sup>*\<^sup>* (demo_watched, [Waiting_expire ''r'' ?a]) (demo_expired, [])"
    unfolding demo_expired_def
    using system_step.expired [of "''r''" ?a "[Waiting_expire ''r'' ?a]" demo_env demo_watched] by auto
  moreover have "still_open 0 demo_watched"
    by (simp add: still_open_def demo_watched_def demo_waiting_def demo_started_def startRun_def demo_input_def
        productUrl_def andThen_def store_def open_stream_def subscribe_def setRunState_def Let_def
        isTerminalRunState_def)
  moreover have "run_state_of ''r'' demo_expired = Some Run_REFUSED" by code_simp
  ultimately show ?thesis using live_stream_never_ended [of demo_env _ _ 0] by fastforce
qed

section \<open>The event stream of the card service\<close>

definition demo_reply :: "string \<Rightarrow> json option" where
  "demo_reply s = (if s = ''reply'' then Some (JObj [(''id'', JNum 1), (''result'', JBool True)]) else None)"

lemma chunking_irrelevant_witness:
  "(mcp_run (\<lambda>s b. None) demo_reply (map Chunk [''da'', ''ta:reply'' @ [LF], [LF]]) (new_client ''u''))\<lparr>mc_buffer := []\<rparr> =
   (mcp_step (\<lambda>s b. None) demo_reply (Chunk (''data:reply'' @ [LF, LF])) (new_client ''u''))\<lparr>mc_buffer := []\<rparr>"
  using chunking_irrelevant [of "[''da'', ''ta:reply'' @ [LF], [LF]]" "\<lambda>s b. None" demo_reply "new_client ''u''"]
  by (simp add: CR_def LF_def char_eq_code)

lemma split_crlf_loses_reply_witness:
  "\<exists>c. mc_pending c = [(1, ''tools/call'')] \<and>
     mc_pending (mcp_run (\<lambda>s b. None) demo_reply
       [Chunk (''data:reply'' @ [CR, LF, CR]), Chunk [LF]] c) = [(1, ''tools/call'')]"
proof -
  let ?c = "mcp_step (\<lambda>s b. None) demo_reply (Call ''tools/call'') (new_client ''u'')"
  have "mc_pending ?c = [(1, ''tools/call'')]" "mc_reading ?c" "mc_buffer ?c = []"
    by (simp_all add: mcp_step_defs new_client_def)
  moreover have "demo_reply ''reply'' = Some (JObj [(''id'', JNum 1), (''result'', JBool True)])"
    by (simp add: demo_reply_def)
  ultimately show ?thesis
    using split_crlf_loses_reply [of demo_reply "''reply''" "JObj [(''id'', JNum 1), (''result'', JBool True)]" 1
        ?c "''tools/call''" "\<lambda>s b. None"]
    by (intro exI [of _ ?c]) (simp add: jmember_def CR_def LF_def char_eq_code is_space_def)
qed

end
