(* ===== verification/Dashboard_Lib.thy ===== *)
theory Dashboard_Lib
  imports Orchestrator_App
begin

text \<open>
  \<open>services/dashboard/lib\<close>: amounts as the pages print and read them, the wallet behind the injected
  provider, the mandates staged by this dashboard, the unsigned \<open>createMandate\<close> transaction, and the
  clients of chain-gateway, policy-service, ledger-service and the orchestrator, each on the model of
  the service it calls.  The ellipsis of \<open>shortHex\<close> is written as three dots.
\<close>

section \<open>format.ts\<close>

text \<open>\<open>/\<close> and \<open>%\<close> of a \<open>BigInt\<close> truncate towards zero.\<close>

definition big_div :: "int \<Rightarrow> int \<Rightarrow> int" where
  "big_div a b = sgn a * sgn b * (\<bar>a\<bar> div \<bar>b\<bar>)"

definition big_mod :: "int \<Rightarrow> int \<Rightarrow> int" where
  "big_mod a b = sgn a * (\<bar>a\<bar> mod \<bar>b\<bar>)"

definition formatXsgd :: "string \<Rightarrow> js_error + string" where
  "formatXsgd baseUnits = bindE (bigint baseUnits) (\<lambda>v.
     let divisor = 10 ^ XSGD_DECIMALS; whole = big_div v divisor;
         frac = pad_start XSGD_DECIMALS CHR ''0'' (dec_int (big_mod v divisor))
     in Inr (dec_int whole @ ''.'' @ frac))"

text \<open>\<open>s || "0"\<close>.\<close>

definition or_zero :: "string \<Rightarrow> string" where
  "or_zero s = (if s = [] then ''0'' else s)"

definition sgdToBaseUnits :: "string \<Rightarrow> js_error + string" where
  "sgdToBaseUnits sgd =
     (let parts = js_split CHR ''.'' sgd; whole = hd parts;
          frac = (if length parts > 1 then parts ! 1 else []);
          paddedFrac = take XSGD_DECIMALS (frac @ replicate XSGD_DECIMALS CHR ''0'')
      in bindE (bigint (or_zero whole)) (\<lambda>w.
         bindE (bigint (or_zero paddedFrac)) (\<lambda>f.
           Inr (dec_int (w * 10 ^ XSGD_DECIMALS + f)))))"

definition shortHex :: "string \<Rightarrow> nat \<Rightarrow> string" where
  "shortHex h chars =
     (if length h \<le> chars * 2 + 2 then h
      else take (chars + 2) h @ ''...'' @ drop (length h - chars) h)"

section \<open>wallet.ts\<close>

text \<open>
  The injected provider: what its requests answer and do to the wallet and its chain.
  \<open>wp_now\<close> reads the clock, \<open>wp_sleep\<close> is the timer of the receipt loop.
\<close>

record eth_tx =
  et_from :: address
  et_to :: address
  et_data :: hex
  et_value :: string
  et_gas :: string

record 'w eth_provider =
  wp_accounts :: "('w, string list) io"
  wp_personal_sign :: "string \<Rightarrow> address \<Rightarrow> ('w, hex) io"
  wp_switch :: "string \<Rightarrow> ('w, unit) io"
  wp_send :: "eth_tx \<Rightarrow> ('w, hex) io"
  wp_receipt :: "hex \<Rightarrow> ('w, bool) io"
  wp_now :: "'w \<Rightarrow> int"
  wp_sleep :: "'w \<Rightarrow> 'w"

definition getProvider :: "'w eth_provider option \<Rightarrow> js_error + 'w eth_provider" where
  "getProvider injected = (case injected of
      None \<Rightarrow> Inl (JsError ''No wallet found -- install MetaMask or another injected wallet.'')
    | Some eth \<Rightarrow> Inr eth)"

definition first_account :: "string list \<Rightarrow> js_error + string" where
  "first_account accounts =
     (let account = (case accounts of [] \<Rightarrow> None | a # as \<Rightarrow> Some a)
      in if falsy account then Inl (JsError ''wallet returned no accounts'') else Inr (the account))"

definition connectWallet :: "'w eth_provider option \<Rightarrow> ('w, string) io" where
  "connectWallet injected =
     andThen (lift (getProvider injected)) (\<lambda>eth.
     andThen (wp_accounts eth) (\<lambda>accounts. lift (first_account accounts)))"

definition signEscalationDecision ::
    "'w eth_provider option \<Rightarrow> string \<Rightarrow> hex \<Rightarrow> escalation_decision \<Rightarrow> ('w, string \<times> hex) io" where
  "signEscalationDecision injected requestId mandateId decision =
     andThen (lift (getProvider injected)) (\<lambda>eth.
     andThen (connectWallet injected) (\<lambda>approvedBy.
     andThen (wp_personal_sign eth (buildEscalationMessage requestId mandateId decision) approvedBy)
       (\<lambda>signature. ret (approvedBy, signature))))"

text \<open>\<open>`0x${n.toString(16)}`\<close>.\<close>

definition hex_quantity :: "int \<Rightarrow> string" where
  "hex_quantity n = ''0x'' @ (if n < 0 then ''-'' @ to_base 16 (nat (- n)) else to_base 16 (nat n))"

text \<open>A refused switch of the chain is ignored.\<close>

definition sendTransaction :: "'w eth_provider option \<Rightarrow> unsigned_tx \<Rightarrow> ('w, hex) io" where
  "sendTransaction injected tx =
     andThen (lift (getProvider injected)) (\<lambda>eth.
     andThen (catching (wp_switch eth (hex_quantity (ux_chainId tx))) (\<lambda>_. ret ())) (\<lambda>_.
     andThen (wp_accounts eth) (\<lambda>accounts.
     andThen (lift (first_account accounts)) (\<lambda>sender.
     andThen (lift (bigint (ux_value tx))) (\<lambda>v.
     andThen (lift (bigint (ux_gasLimit tx))) (\<lambda>gas.
       wp_send eth \<lparr>et_from = sender, et_to = ux_to tx, et_data = ux_data tx,
         et_value = hex_quantity v, et_gas = hex_quantity gas\<rparr>))))))"

text \<open>The loop may run forever; \<open>None\<close> is a loop that does not end.\<close>

partial_function (option) receipt_loop ::
    "'w eth_provider \<Rightarrow> int \<Rightarrow> int \<Rightarrow> hex \<Rightarrow> 'w \<Rightarrow> ((js_error + unit) \<times> 'w) option" where
  "receipt_loop eth start timeoutMs txHash w =
     (case wp_receipt eth txHash w of
        (Inl e, w') \<Rightarrow> Some (Inl e, w')
      | (Inr found, w') \<Rightarrow>
          if found then Some (Inr (), w')
          else if wp_now eth w' - start > timeoutMs
          then Some (Inl (JsError (''timed out waiting for '' @ txHash @ '' to be mined'')), w')
          else receipt_loop eth start timeoutMs txHash (wp_sleep eth w'))"

definition waitForReceipt ::
    "'w eth_provider option \<Rightarrow> int \<Rightarrow> hex \<Rightarrow> 'w \<Rightarrow> ((js_error + unit) \<times> 'w) option" where
  "waitForReceipt injected timeoutMs txHash w = (case getProvider injected of
      Inl e \<Rightarrow> Some (Inl e, w)
    | Inr eth \<Rightarrow> receipt_loop eth (wp_now eth w) timeoutMs txHash w)"

end
