(* ===== verification/Dashboard_Routes.thy ===== *)
theory Dashboard_Routes
  imports Dashboard_Lib
begin

text \<open>
  The server side of the dashboard: \<open>lib/mandate-store.ts\<close>, \<open>lib/mandate-tx.ts\<close>, the clients of
  \<open>lib\<close> and the route handlers of \<open>app/api\<close>.  The world is the system of the orchestrator and the
  services behind it, with the mandates this dashboard has staged.  A handler that throws gets the
  framework's own answer; that is the \<open>Inl\<close> of its action.
\<close>

section \<open>mandate-store.ts\<close>

record tracked_mandate =
  tm_mandate :: mandate
  tm_confirmed :: bool
  tm_stagedAt :: string

definition stageMandate :: "int \<Rightarrow> mandate \<Rightarrow> tracked_mandate jsmap \<Rightarrow> tracked_mandate jsmap" where
  "stageMandate now m tracked = jset (m_mandateId m)
     \<lparr>tm_mandate = m, tm_confirmed = False, tm_stagedAt = toISOString now\<rparr> tracked"

definition markConfirmed :: "string \<Rightarrow> tracked_mandate jsmap \<Rightarrow> tracked_mandate jsmap" where
  "markConfirmed mandateId tracked = (case jget tracked mandateId of
      None \<Rightarrow> tracked
    | Some entry \<Rightarrow> jset mandateId (entry\<lparr>tm_confirmed := True\<rparr>) tracked)"

definition getTrackedMandate :: "string \<Rightarrow> tracked_mandate jsmap \<Rightarrow> tracked_mandate option" where
  "getTrackedMandate mandateId tracked = jget tracked mandateId"

definition listTrackedMandates ::
    "(string \<Rightarrow> string \<Rightarrow> int) \<Rightarrow> tracked_mandate jsmap \<Rightarrow> tracked_mandate list" where
  "listTrackedMandates localeCompare tracked =
     js_sort (\<lambda>a b. localeCompare (tm_stagedAt b) (tm_stagedAt a) \<le> 0) (jvalues tracked)"

section \<open>mandate-tx.ts\<close>

definition CREATE_MANDATE_GAS_LIMIT :: string where
  "CREATE_MANDATE_GAS_LIMIT = ''150000''"

text \<open>\<open>encode_create\<close> is \<open>encodeFunctionData\<close> of the registry's \<open>createMandate\<close>.\<close>

definition buildCreateMandateTx ::
    "(string \<Rightarrow> address) \<Rightarrow> (string \<Rightarrow> hex) \<Rightarrow> (hex \<Rightarrow> hex \<Rightarrow> int \<Rightarrow> js_error + hex) \<Rightarrow>
     (string \<times> string option) list \<Rightarrow> mandate \<Rightarrow> js_error + unsigned_tx \<times> hex" where
  "buildCreateMandateTx toChecksum keccak_text encode_create file m =
     bindE (requireRegistryAddress file (m_chainId m)) (\<lambda>registryAddress.
     let policyHash = hashPolicy keccak_text m in
     bindE (encode_create (m_mandateId m) policyHash (m_expiresAt m)) (\<lambda>data.
       Inr (\<lparr>ux_to = toChecksum registryAddress, ux_data = data, ux_value = ''0'',
         ux_chainId = m_chainId m, ux_gasLimit = CREATE_MANDATE_GAS_LIMIT\<rparr>, policyHash)))"

section \<open>The world and the clients\<close>

record ('s, 'c, 'x) dash =
  dw_orch :: "('s, 'c, 'x) orch"
  dw_tracked :: "tracked_mandate jsmap"

text \<open>
  The services as they are deployed, the tokens, and what a call to the orchestrator depends on:
  its clock, the request id it draws, its readiness probe.  \<open>de_fetch\<close> reads a page.
\<close>

record ('s, 'c, 'x) dash_env =
  de_orch :: "('s, 'c, 'x) orch_env"
  de_orchToken :: "string option"
  de_internalToken :: "string option"
  de_rid :: string
  de_clk :: clock
  de_fresh :: string
  de_ready :: "readiness option"
  de_later :: "string \<Rightarrow> string \<Rightarrow> bool"
  de_localeCompare :: "string \<Rightarrow> string \<Rightarrow> int"
  de_encode_create :: "hex \<Rightarrow> hex \<Rightarrow> int \<Rightarrow> js_error + hex"
  de_fetch :: "string \<Rightarrow> ('x, string) io"

text \<open>\<open>process.env["INTERNAL_TOKEN"] ?? "dev-secret"\<close>, in every client but that of \<open>/api/ready\<close>.\<close>

definition de_token :: "('s, 'c, 'x) dash_env \<Rightarrow> string" where
  "de_token env = coalesce (de_internalToken env) ''dev-secret''"

definition system :: "(('s, 'c, 'x) orch, 'a) io \<Rightarrow> (('s, 'c, 'x) dash, 'a) io" where
  "system = within dw_orch (\<lambda>v w. w\<lparr>dw_orch := v\<rparr>)"

definition tracking ::
    "(tracked_mandate jsmap \<Rightarrow> tracked_mandate jsmap) \<Rightarrow> (('s, 'c, 'x) dash, unit) io" where
  "tracking f w = (Inr (), w\<lparr>dw_tracked := f (dw_tracked w)\<rparr>)"

definition tracked_of :: "string \<Rightarrow> (('s, 'c, 'x) dash, tracked_mandate option) io" where
  "tracked_of mandateId w = (Inr (getTrackedMandate mandateId (dw_tracked w)), w)"

text \<open>A reply as a value: the service does not throw to its client.\<close>

definition answered :: "('w \<Rightarrow> 'b \<times> 'w) \<Rightarrow> ('w, 'b) io" where
  "answered f w = (case f w of (r, w') \<Rightarrow> (Inr r, w'))"

definition gateway_reply_of ::
    "('s, 'c, 'x) dash_env \<Rightarrow> int \<Rightarrow> string \<Rightarrow> string \<Rightarrow> json option \<Rightarrow> gateway_call \<Rightarrow>
     (('s, 'c, 'x) orch, gateway_reply reply) io" where
  "gateway_reply_of env now method url body call =
     gateway (answered (gateway_app (ov_gateway (de_orch env)) (ov_gatewayToken (de_orch env)) now (Some call)
       (client_request method url (de_token env) body (de_rid env))))"

definition read_mandate_reply :: "gateway_reply reply \<Rightarrow> js_error + mandate_read option" where
  "read_mandate_reply res =
     (if reply_status res = 404 then Inr None
      else case res of
          Reply st (MandateReply b) \<Rightarrow> Inr (Some b)
        | _ \<Rightarrow> Inl (JsError (''chain-gateway getMandate '' @ dec (reply_status res))))"

definition getOnChainMandate ::
    "('s, 'c, 'x) dash_env \<Rightarrow> int \<Rightarrow> hex \<Rightarrow> int \<Rightarrow> (('s, 'c, 'x) orch, mandate_read option) io" where
  "getOnChainMandate env now mandateId chainId =
     andThen (gateway_reply_of env now ''GET''
       (''/mandate/'' @ mandateId @ ''?chainId='' @ dec_int chainId) None
       (GetMandate (Some (JStr mandateId)) (Some (JStr (dec_int chainId)))))
       (\<lambda>res. lift (read_mandate_reply res))"

definition buildRevokeTx ::
    "('s, 'c, 'x) dash_env \<Rightarrow> int \<Rightarrow> hex \<Rightarrow> int \<Rightarrow> address \<Rightarrow> (('s, 'c, 'x) orch, unsigned_tx) io" where
  "buildRevokeTx env now mandateId chainId sender =
     (let body = JObj [(''mandateId'', JStr mandateId), (''chainId'', JNum chainId), (''from'', JStr sender)]
      in andThen (gateway_reply_of env now ''POST'' ''/tx/build-revoke'' (Some body)
           (PostBuildRevoke (Some body))) (\<lambda>res. lift (case res of
             Reply st (RevokeReply tx) \<Rightarrow> Inr tx
           | ErrReply st e \<Rightarrow> Inl (JsError (env_message e))
           | _ \<Rightarrow> Inl (JsError (''chain-gateway buildRevokeTx '' @ dec (reply_status res))))))"

definition policy_record_of ::
    "('s, 'c, 'x) dash_env \<Rightarrow> string \<Rightarrow> (('s, 'c, 'x) orch, policy_view option) io" where
  "policy_record_of env mandateId =
     andThen (services (answered (policy_get (ov_policy (de_orch env)) mandateId))) (\<lambda>res.
       lift (if reply_status res = 404 then Inr None
             else case res of Reply st v \<Rightarrow> Inr (Some v)
               | _ \<Rightarrow> Inl (JsError (''policy-service getPolicy '' @ dec (reply_status res)))))"

datatype put_result = Put_ok policy_view | Put_failed nat string string

text \<open>The body of an exception has a text under \<open>error\<close>, which has neither code nor message.\<close>

definition read_put :: "policy_view reply \<Rightarrow> put_result" where
  "read_put res = (case res of
      Reply st v \<Rightarrow> Put_ok v
    | ErrReply st e \<Rightarrow> Put_failed st (env_code e) (env_message e)
    | ServerError msg \<Rightarrow> Put_failed 500 ''UNKNOWN'' ''Internal Server Error'')"

definition send_policy ::
    "('s, 'c, 'x) dash_env \<Rightarrow> int \<Rightarrow> string \<Rightarrow> mandate \<Rightarrow> (('s, 'c, 'x) orch, put_result) io" where
  "send_policy env now mandateId policy =
     andThen (services (answered (policy_put (ov_policy (de_orch env)) now mandateId (Some policy))))
       (\<lambda>res. ret (read_put res))"

definition ledger_read :: "(ledger \<Rightarrow> js_error + 'a) \<Rightarrow> (('s, 'c, 'x) orch, 'a) io" where
  "ledger_read f = services (reading f)"

definition getReceipt :: "string \<Rightarrow> (('s, 'c, 'x) orch, receipt option) io" where
  "getReceipt requestId = ledger_read (\<lambda>l. found_or_null ''getReceipt'' (get_receipt requestId l))"

definition window_usage ::
    "('s, 'c, 'x) dash_env \<Rightarrow> int \<Rightarrow> string \<Rightarrow> int \<Rightarrow> string \<Rightarrow> (('s, 'c, 'x) orch, window_response) io" where
  "window_usage env now mandateId windowSeconds maxPerWindow =
     ledger_read (\<lambda>l. expect_ok ''getWindowUsage'' (get_window (pe_date_other (ov_policy (de_orch env))) now
       mandateId (Some windowSeconds) (Some maxPerWindow) l))"

definition listLedgerIntents :: "('s, 'c, 'x) dash_env \<Rightarrow> (('s, 'c, 'x) orch, intent_view list) io" where
  "listLedgerIntents env =
     ledger_read (\<lambda>l. expect_ok ''listIntents'' (get_intents (de_localeCompare env) l))"

definition orch_reply_of ::
    "('s, 'c, 'x) dash_env \<Rightarrow> string \<Rightarrow> string \<Rightarrow> orch_call \<Rightarrow> (('s, 'c, 'x) orch, orch_reply reply) io" where
  "orch_reply_of env method url call = answered (orch_app (de_orch env) (de_orchToken env) (de_clk env)
     (de_fresh env) (de_ready env) (de_later env) (Some call)
     (client_request method url (de_token env) None (de_rid env)))"

definition run_summaries :: "('s, 'c, 'x) dash_env \<Rightarrow> (('s, 'c, 'x) orch, run_summary list) io" where
  "run_summaries env = andThen (orch_reply_of env ''GET'' ''/runs'' Runs) (\<lambda>res. lift (case res of
      Reply st (R_runs rs) \<Rightarrow> Inr rs
    | _ \<Rightarrow> Inl (JsError (''orchestrator listRuns '' @ dec (reply_status res)))))"

definition run_of ::
    "('s, 'c, 'x) dash_env \<Rightarrow> string \<Rightarrow> (('s, 'c, 'x) orch, (run_summary \<times> run_event list) option) io" where
  "run_of env requestId =
     andThen (orch_reply_of env ''GET'' (''/run/'' @ requestId) (Get_run requestId)) (\<lambda>res.
       lift (if reply_status res = 404 then Inr None
         else case res of Reply st (R_record s es) \<Rightarrow> Inr (Some (s, es))
           | _ \<Rightarrow> Inl (JsError (''orchestrator getRun '' @ dec (reply_status res)))))"

section \<open>Mandates\<close>

text \<open>A body, or \<open>{ error: { code?, message } }\<close> with a status.\<close>

datatype 'b dash_reply = Sent 'b | Failed nat "string option" string

text \<open>\<open>m.catch(() => null)\<close>.\<close>

definition or_null :: "('w, 'a option) io \<Rightarrow> ('w, 'a option) io" where
  "or_null m = catching m (\<lambda>_. ret None)"

record mandate_row =
  mw_mandate :: mandate
  mw_confirmed :: bool
  mw_stagedAt :: string
  mw_onChain :: "mandate_read option"
  mw_inSync :: "bool option"

definition mandate_row_of ::
    "('s, 'c, 'x) dash_env \<Rightarrow> int \<Rightarrow> tracked_mandate \<Rightarrow> (('s, 'c, 'x) orch, mandate_row) io" where
  "mandate_row_of env now t =
     (let m = tm_mandate t;
          row = (\<lambda>onChain policyRecord. ret \<lparr>mw_mandate = m, mw_confirmed = tm_confirmed t,
            mw_stagedAt = tm_stagedAt t, mw_onChain = onChain,
            mw_inSync = map_option pv_inSync policyRecord\<rparr>)
      in if tm_confirmed t
         then andThen (or_null (getOnChainMandate env now (m_mandateId m) (m_chainId m))) (\<lambda>onChain.
              andThen (or_null (policy_record_of env (m_mandateId m))) (\<lambda>policyRecord.
                row onChain policyRecord))
         else row None None)"

fun mandate_rows ::
    "('s, 'c, 'x) dash_env \<Rightarrow> int \<Rightarrow> tracked_mandate list \<Rightarrow> (('s, 'c, 'x) orch, mandate_row list) io" where
  "mandate_rows env now [] = ret []"
| "mandate_rows env now (t # ts) =
     andThen (mandate_row_of env now t) (\<lambda>r. andThen (mandate_rows env now ts) (\<lambda>rs. ret (r # rs)))"

definition get_mandates :: "('s, 'c, 'x) dash_env \<Rightarrow> int \<Rightarrow> (('s, 'c, 'x) dash, mandate_row list) io" where
  "get_mandates env now w =
     system (mandate_rows env now (listTrackedMandates (de_localeCompare env) (dw_tracked w))) w"

text \<open>\<open>POST /api/mandates\<close>; the id of the new mandate is drawn by the host.\<close>

definition post_mandates ::
    "('s, 'c, 'x) dash_env \<Rightarrow> int \<Rightarrow> hex \<Rightarrow> mandate \<Rightarrow>
     (('s, 'c, 'x) dash, (hex \<times> hex \<times> unsigned_tx) dash_reply) io" where
  "post_mandates env now mandateId body =
     (let m = body\<lparr>m_mandateId := mandateId, m_revoked := False, m_policyVersion := 1\<rparr>;
          gd = ov_gateway (de_orch env)
      in case buildCreateMandateTx (gd_getAddress gd) (pe_keccak_text (ov_policy (de_orch env)))
                (de_encode_create env) (gd_registry gd) m of
           Inl err \<Rightarrow> ret (Failed 400 None (error_text err))
         | Inr (unsignedTx, policyHash) \<Rightarrow>
             andThen (tracking (stageMandate now m)) (\<lambda>_. ret (Sent (mandateId, policyHash, unsignedTx))))"

record mandate_detail =
  md_mandate :: mandate
  md_confirmed :: bool
  md_onChain :: "mandate_read option"
  md_policyRecord :: "policy_view option"

definition get_mandate ::
    "('s, 'c, 'x) dash_env \<Rightarrow> int \<Rightarrow> string \<Rightarrow> (('s, 'c, 'x) dash, mandate_detail dash_reply) io" where
  "get_mandate env now mandateId = andThen (tracked_of mandateId) (\<lambda>tracked. case tracked of
      None \<Rightarrow> ret (Failed 404 None (''no mandate staged for '' @ mandateId))
    | Some t \<Rightarrow>
        andThen (system (or_null (getOnChainMandate env now mandateId (m_chainId (tm_mandate t))))) (\<lambda>onChain.
        andThen (system (or_null (policy_record_of env mandateId))) (\<lambda>policyRecord.
          ret (Sent \<lparr>md_mandate = tm_mandate t, md_confirmed = tm_confirmed t, md_onChain = onChain,
            md_policyRecord = policyRecord\<rparr>))))"

definition post_confirm ::
    "('s, 'c, 'x) dash_env \<Rightarrow> int \<Rightarrow> string \<Rightarrow> (('s, 'c, 'x) dash, policy_view dash_reply) io" where
  "post_confirm env now mandateId = andThen (tracked_of mandateId) (\<lambda>tracked. case tracked of
      None \<Rightarrow> ret (Failed 404 None (''no staged mandate '' @ mandateId))
    | Some t \<Rightarrow>
        andThen (system (send_policy env now mandateId (tm_mandate t))) (\<lambda>result. case result of
            Put_failed st c msg \<Rightarrow> ret (Failed st (Some c) msg)
          | Put_ok v \<Rightarrow> andThen (tracking (markConfirmed mandateId)) (\<lambda>_. ret (Sent v))))"

definition post_revoke ::
    "('s, 'c, 'x) dash_env \<Rightarrow> int \<Rightarrow> hex \<Rightarrow> int \<Rightarrow> address \<Rightarrow>
     (('s, 'c, 'x) dash, unsigned_tx dash_reply) io" where
  "post_revoke env now mandateId chainId sender =
     catching (andThen (system (buildRevokeTx env now mandateId chainId sender)) (\<lambda>tx. ret (Sent tx)))
       (\<lambda>err. ret (Failed 502 None (error_text err)))"

end
