(* ===== verification/Dashboard_Proxies.thy ===== *)
theory Dashboard_Proxies
  imports Dashboard_Routes
begin

text \<open>
  The route handlers of \<open>app/api\<close> that read or pass a request on: receipts, the spending window, the
  ledger, readiness and health, runs with their escalations and event streams, the second read of a
  product page, and the proxy of the agent service.
\<close>

section \<open>Receipt, window, ledger\<close>

definition get_receipt_route :: "string \<Rightarrow> (('s, 'c, 'x) dash, receipt dash_reply) io" where
  "get_receipt_route requestId = andThen (system (getReceipt requestId)) (\<lambda>receipt. ret (case receipt of
      None \<Rightarrow> Failed 404 None (''no receipt for '' @ requestId)
    | Some r \<Rightarrow> Sent r))"

record window_reply =
  wr_usage :: window_response
  wr_maxPerWindow :: uint
  wr_maxCardsPerWindow :: int

definition get_window_route ::
    "('s, 'c, 'x) dash_env \<Rightarrow> int \<Rightarrow> string \<Rightarrow> (('s, 'c, 'x) dash, window_reply dash_reply) io" where
  "get_window_route env now mandateId =
     andThen (system (policy_record_of env mandateId)) (\<lambda>policyRecord.
       case Option.bind policyRecord pv_policy of
         None \<Rightarrow> ret (Failed 404 None (''no policy on file for '' @ mandateId))
       | Some p \<Rightarrow>
           andThen (system (window_usage env now mandateId (m_windowSeconds p) (m_maxPerWindow p))) (\<lambda>usage.
             ret (Sent \<lparr>wr_usage = usage, wr_maxPerWindow = m_maxPerWindow p,
               wr_maxCardsPerWindow = m_maxCardsPerWindow p\<rparr>)))"

text \<open>\<open>GET /api/ledger\<close>: status, intents, and the error text.\<close>

definition get_ledger_route ::
    "('s, 'c, 'x) dash_env \<Rightarrow> (('s, 'c, 'x) dash, nat \<times> intent_view list \<times> string option) io" where
  "get_ledger_route env =
     catching (andThen (system (listLedgerIntents env)) (\<lambda>intents. ret (200, intents, None)))
       (\<lambda>err. ret (503, [], Some (error_text err)))"

section \<open>Readiness and health\<close>

text \<open>
  \<open>reached\<close> is false when the orchestrator cannot be reached in time.  The readiness route sends the
  internal token only when one is set, the health route never.
\<close>

definition plain_request :: "string \<Rightarrow> string \<Rightarrow> request" where
  "plain_request url rid = \<lparr>rq_method = ''GET'', rq_url = url, rq_headers = (\<lambda>_. None), rq_body = None,
     rq_id = rid\<rparr>"

definition orch_answer ::
    "('s, 'c, 'x) dash_env \<Rightarrow> orch_call \<Rightarrow> request \<Rightarrow> (('s, 'c, 'x) dash, orch_reply reply) io" where
  "orch_answer env call req = system (answered (orch_app (de_orch env) (de_orchToken env) (de_clk env)
     (de_fresh env) (de_ready env) (de_later env) (Some call) req))"

definition get_ready_route ::
    "('s, 'c, 'x) dash_env \<Rightarrow> bool \<Rightarrow> (('s, 'c, 'x) dash, orch_reply reply) io" where
  "get_ready_route env reached =
     (if \<not> reached then ret (Reply 503 (R_ready 503 unavailableReadiness))
      else orch_answer env Ready
        (if falsy (de_internalToken env) then plain_request ''/ready'' (de_rid env)
         else client_request ''GET'' ''/ready'' (the (de_internalToken env)) None (de_rid env)))"

definition get_health_route ::
    "('s, 'c, 'x) dash_env \<Rightarrow> bool \<Rightarrow> (('s, 'c, 'x) dash, nat \<times> bool \<times> string) io" where
  "get_health_route env reached =
     (if \<not> reached then ret (503, False, ''unreachable'')
      else andThen (orch_answer env Health (plain_request ''/health'' (de_rid env))) (\<lambda>res.
          let ok = response_ok (reply_status res)
          in ret (if ok then 200 else 503, ok, if ok then ''reachable'' else ''unreachable'')))"

section \<open>Runs\<close>

text \<open>The four proxies of the orchestrator hand on the status and the body they get.\<close>

definition forward ::
    "('s, 'c, 'x) dash_env \<Rightarrow> string \<Rightarrow> string \<Rightarrow> orch_call \<Rightarrow>
     (('s, 'c, 'x) dash, orch_reply reply) io" where
  "forward env method url call = system (orch_reply_of env method url call)"

definition post_run_proxy ::
    "('s, 'c, 'x) dash_env \<Rightarrow> run_request_body \<Rightarrow> (('s, 'c, 'x) dash, orch_reply reply) io" where
  "post_run_proxy env body = forward env ''POST'' ''/run'' (Run body)"

definition post_escalation_proxy ::
    "('s, 'c, 'x) dash_env \<Rightarrow> string \<Rightarrow> escalation_decision option \<Rightarrow> string option \<Rightarrow> string option \<Rightarrow>
     standing_scope option \<Rightarrow> (('s, 'c, 'x) dash, orch_reply reply) io" where
  "post_escalation_proxy env requestId decision approvedBy signature standing =
     forward env ''POST'' (''/run/'' @ requestId @ ''/escalation'')
       (Escalation requestId decision approvedBy signature standing)"

definition events_proxy ::
    "('s, 'c, 'x) dash_env \<Rightarrow> nat \<Rightarrow> string \<Rightarrow> (('s, 'c, 'x) dash, orch_reply reply) io" where
  "events_proxy env conn requestId =
     forward env ''GET'' (''/run/'' @ requestId @ ''/events'') (Events conn requestId)"

definition get_runs_route :: "('s, 'c, 'x) dash_env \<Rightarrow> (('s, 'c, 'x) dash, run_summary list) io" where
  "get_runs_route env = system (run_summaries env)"

definition get_run_route ::
    "('s, 'c, 'x) dash_env \<Rightarrow> string \<Rightarrow> (('s, 'c, 'x) dash, (run_summary \<times> run_event list) dash_reply) io" where
  "get_run_route env requestId = andThen (system (run_of env requestId)) (\<lambda>run. ret (case run of
      None \<Rightarrow> Failed 404 None (''no run for '' @ requestId)
    | Some r \<Rightarrow> Sent r))"

section \<open>The second read of a product page\<close>

text \<open>The text behind the first occurrence of \<open>p\<close>.\<close>

fun after_first :: "string \<Rightarrow> string \<Rightarrow> string option" where
  "after_first p [] = (if p = [] then Some [] else None)"
| "after_first p (c # s) =
     (if take (length p) (c # s) = p then Some (drop (length p) (c # s)) else after_first p s)"

text \<open>\<open>/<div[^>]*data-product[^>]*>/\<close>: the leftmost tag that holds the attribute.\<close>

fun product_tag :: "string \<Rightarrow> string option" where
  "product_tag [] = None"
| "product_tag (c # s) =
     (let inner = takeWhile (\<lambda>x. x \<noteq> CHR ''>'') (drop 4 (c # s));
          rest = dropWhile (\<lambda>x. x \<noteq> CHR ''>'') (drop 4 (c # s))
      in if take 4 (c # s) = ''<div'' \<and> rest \<noteq> [] \<and> after_first ''data-product'' inner \<noteq> None
         then Some (''<div'' @ inner @ ''>'') else product_tag s)"

text \<open>\<open>/name="([^"]*)"/\<close>.\<close>

definition attr :: "string \<Rightarrow> string \<Rightarrow> string option" where
  "attr tag name = (case after_first (name @ ''='' @ [CHR 0x22]) tag of
      None \<Rightarrow> None
    | Some s \<Rightarrow> if CHR 0x22 \<in> set s then Some (takeWhile (\<lambda>x. x \<noteq> CHR 0x22) s) else None)"

record product_attributes =
  pa_title :: "string option"
  pa_sku :: "string option"
  pa_price :: "string option"

definition extractProductAttributes :: "string \<Rightarrow> product_attributes" where
  "extractProductAttributes html = (case product_tag html of
      None \<Rightarrow> \<lparr>pa_title = None, pa_sku = None, pa_price = None\<rparr>
    | Some tag \<Rightarrow> \<lparr>pa_title = attr tag ''data-title'', pa_sku = attr tag ''data-sku'',
        pa_price = attr tag ''data-price''\<rparr>)"

record independent_check =
  ic_productUrl :: string
  ic_independentlyFetched :: product_attributes
  ic_agentResolved :: "resolved_item option"

definition independent_check_route ::
    "('s, 'c, 'x) dash_env \<Rightarrow> string \<Rightarrow> (('s, 'c, 'x) dash, independent_check dash_reply) io" where
  "independent_check_route env requestId = andThen (system (run_of env requestId)) (\<lambda>run. case run of
      None \<Rightarrow> ret (Failed 404 None (''no run for '' @ requestId))
    | Some (s, events) \<Rightarrow>
        let productUrl = me_productUrl (rs_meta s) in
        andThen (system (outside (de_fetch env productUrl))) (\<lambda>html.
          ret (Sent \<lparr>ic_productUrl = productUrl,
            ic_independentlyFetched = extractProductAttributes html,
            ic_agentResolved = rs_resolvedItem s\<rparr>)))"

section \<open>The proxy of the agent service\<close>

text \<open>
  What the server is configured with, and what the upstream answers: \<open>None\<close> when it cannot be
  reached, else status, content type and text.
\<close>

record agent_proxy =
  ap_baseUrl :: string
  ap_accessToken :: string
  ap_production :: bool

record proxy_request =
  pq_method :: string
  pq_url :: string
  pq_authorization :: "string option"
  pq_body :: "string option"

datatype proxy_reply =
    Proxy_error nat string
  | Proxied nat string string

definition bearer :: "string \<Rightarrow> string" where
  "bearer token = (if starts_with ''Bearer '' token then token else ''Bearer '' @ token)"

definition proxy_upstream :: "agent_proxy \<Rightarrow> string list \<Rightarrow> string" where
  "proxy_upstream cfg path = strip_slash (ap_baseUrl cfg) @ ''/'' @ js_join ''/'' path"

definition proxy ::
    "agent_proxy \<Rightarrow> (proxy_request \<Rightarrow> (nat \<times> string option \<times> string) option) \<Rightarrow> string \<Rightarrow> string list \<Rightarrow>
     string option \<Rightarrow> string \<Rightarrow> proxy_reply" where
  "proxy cfg fetch method path authorization body =
     (let token = (if ap_accessToken cfg \<noteq> [] then ap_accessToken cfg else coalesce authorization []);
          upstream = proxy_upstream cfg path
      in if ap_baseUrl cfg = []
         then Proxy_error 503
           ''AGENT_API_BASE_URL is not configured on the server. Set it to the live agent API URL.''
         else if token = [] \<and> \<not> ap_production cfg
         then Proxy_error 401 (''AGENT_API_ACCESS_TOKEN is not configured on the server. Add it to '' @
           ''services/dashboard/.env -- a Cognito access token for the starnote-agents audience/scopes.'')
         else case fetch \<lparr>pq_method = method, pq_url = upstream,
                  pq_authorization = (if token = [] then None else Some (bearer token)),
                  pq_body = (if method = ''GET'' then None else Some body)\<rparr> of
             None \<Rightarrow> Proxy_error 502 (''Failed to reach the agent API. Is it deployed? ('' @ upstream @ '')'')
           | Some (st, contentType, text) \<Rightarrow>
               Proxied st (if falsy contentType then ''application/json'' else the contentType) text)"

end
