(* ===== verification/Dashboard_Pages.thy ===== *)
theory Dashboard_Pages
  imports Dashboard_Proxies
begin

text \<open>
  What the pages of the dashboard do: the live ledger page, the flow from a mandate to a run inside
  the chat, the mandates page, and the decision on an escalated run.  The pages run in the browser;
  their requests are the route handlers of \<open>Dashboard_Routes\<close> and \<open>Dashboard_Proxies\<close>, and the wallet
  acts on the same world, so that a transaction it sends can change the chain the services read.
\<close>

section \<open>app/ledger/page.tsx\<close>

record ledger_page =
  lp_intents :: "intent_view list"
  lp_events :: "ledger_event list"
  lp_connected :: bool
  lp_snapshotError :: "string option"

definition new_ledger_page :: ledger_page where
  "new_ledger_page = \<lparr>lp_intents = [], lp_events = [], lp_connected = False, lp_snapshotError = None\<rparr>"

definition upsertIntent :: "intent_view \<Rightarrow> intent_view list \<Rightarrow> intent_view list" where
  "upsertIntent view prev = view # filter (\<lambda>it. v_requestId it \<noteq> v_requestId view) prev"

text \<open>\<open>event.intent\<close>.\<close>

fun event_intent :: "event_payload \<Rightarrow> intent_view option" where
  "event_intent (IntentCreated _ _ _ v) = Some v"
| "event_intent (ChallengeAttached _ _ v) = Some v"
| "event_intent (NonceReserved _ _ v) = Some v"
| "event_intent (NonceReleased _ _ v) = Some v"
| "event_intent (DecisionRecorded _ _ _ _ _ v) = Some v"
| "event_intent (SettlementRecorded _ _ _ _ v) = Some v"
| "event_intent (SpendRecorded _ _ _ _ _ v) = Some v"
| "event_intent (CaptureRecorded _ _ _ _ v) = Some v"
| "event_intent _ = None"

datatype page_input =
    Fetched "string + intent_view list"
  | Streamed stream_message
  | Opened
  | Disconnected

definition ledger_page_step :: "page_input \<Rightarrow> ledger_page \<Rightarrow> ledger_page" where
  "ledger_page_step input p = (case input of
      Fetched (Inl msg) \<Rightarrow> p\<lparr>lp_snapshotError := Some msg\<rparr>
    | Fetched (Inr intents) \<Rightarrow> p\<lparr>lp_intents := intents\<rparr>
    | Streamed (Snapshot intents) \<Rightarrow> p\<lparr>lp_intents := intents, lp_events := [], lp_connected := True\<rparr>
    | Streamed (Append e) \<Rightarrow>
        p\<lparr>lp_events := take 200 (e # lp_events p),
          lp_intents := (case event_intent (ev_payload e) of
              None \<Rightarrow> lp_intents p | Some v \<Rightarrow> upsertIntent v (lp_intents p)),
          lp_connected := True\<rparr>
    | Opened \<Rightarrow> p\<lparr>lp_connected := True\<rparr>
    | Disconnected \<Rightarrow> p\<lparr>lp_connected := False\<rparr>)"

definition ledger_page_run :: "page_input list \<Rightarrow> ledger_page \<Rightarrow> ledger_page" where
  "ledger_page_run inputs p = fold ledger_page_step inputs p"

text \<open>\<open>short(value, head, tail)\<close>.\<close>

definition short :: "string option \<Rightarrow> nat \<Rightarrow> nat \<Rightarrow> string" where
  "short v h t =
     (if falsy v then ''-''
      else let s = the v
        in if length s > h + t + 1 then take h s @ ''...'' @ drop (length s - t) s else s)"

section \<open>The mandate form\<close>

record mandate_form =
  mf_owner :: string
  mf_agentId :: string
  mf_chainId :: int
  mf_asset :: string
  mf_settlementRecipient :: string
  mf_maxPerCardSgd :: string
  mf_maxPerWindowSgd :: string
  mf_maxCardsPerWindow :: int
  mf_windowSeconds :: int
  mf_maxAuthValiditySeconds :: int
  mf_expiresAt :: int
  mf_intentConstraint :: string
  mf_merchantAllowlist :: string

definition DAY_SECONDS :: int where
  "DAY_SECONDS = 86400"

definition defaultMandateForm :: "int \<Rightarrow> string \<Rightarrow> string \<Rightarrow> mandate_form" where
  "defaultMandateForm now agentId intentConstraint =
     \<lparr>mf_owner = [], mf_agentId = agentId, mf_chainId = k_chainId FUJI, mf_asset = k_xsgd FUJI,
      mf_settlementRecipient = coalesce (k_settlementRecipient FUJI) [],
      mf_maxPerCardSgd = ''30'', mf_maxPerWindowSgd = ''100'', mf_maxCardsPerWindow = 5,
      mf_windowSeconds = DAY_SECONDS, mf_maxAuthValiditySeconds = 300,
      mf_expiresAt = now div 1000 + 30 * DAY_SECONDS,
      mf_intentConstraint = take 180 intentConstraint, mf_merchantAllowlist = ''localhost''\<rparr>"

definition form_allowlist :: "string \<Rightarrow> string list" where
  "form_allowlist s = filter (\<lambda>d. d \<noteq> []) (map js_trim (js_split CHR '','' s))"

text \<open>The body of \<open>POST /api/mandates\<close>; the id, \<open>revoked\<close> and the version are set by the route.\<close>

definition form_body :: "mandate_form \<Rightarrow> js_error + mandate" where
  "form_body form =
     bindE (sgdToBaseUnits (mf_maxPerCardSgd form)) (\<lambda>maxPerCard.
     bindE (sgdToBaseUnits (mf_maxPerWindowSgd form)) (\<lambda>maxPerWindow.
       Inr \<lparr>m_mandateId = [], m_owner = mf_owner form, m_agentId = mf_agentId form,
         m_chainId = mf_chainId form, m_asset = mf_asset form,
         m_settlementRecipient = mf_settlementRecipient form, m_maxPerCard = maxPerCard,
         m_maxPerWindow = maxPerWindow, m_maxCardsPerWindow = mf_maxCardsPerWindow form,
         m_windowSeconds = mf_windowSeconds form,
         m_maxAuthValiditySeconds = mf_maxAuthValiditySeconds form, m_expiresAt = mf_expiresAt form,
         m_revoked = False, m_intentConstraint = mf_intentConstraint form,
         m_merchantAllowlist = form_allowlist (mf_merchantAllowlist form), m_policyVersion = 1\<rparr>))"

section \<open>Creating and revoking a mandate\<close>

text \<open>
  The wait for the receipt may not return; an action whose wait does not is \<open>None\<close>.
\<close>

type_synonym ('w, 'a) may_hang = "'w \<Rightarrow> ((js_error + 'a) \<times> 'w) option"

definition then_hang :: "('w, 'a) may_hang \<Rightarrow> ('a \<Rightarrow> ('w, 'b) io) \<Rightarrow> ('w, 'b) may_hang" where
  "then_hang m f w = map_option (\<lambda>(r, w'). case r of Inl e \<Rightarrow> (Inl e, w') | Inr x \<Rightarrow> f x w') (m w)"

definition hang_after :: "('w, 'a) io \<Rightarrow> ('a \<Rightarrow> ('w, 'b) may_hang) \<Rightarrow> ('w, 'b) may_hang" where
  "hang_after m f w = (case m w of (Inl e, w') \<Rightarrow> Some (Inl e, w') | (Inr x, w') \<Rightarrow> f x w')"

text \<open>\<open>if (!res.ok) throw new Error(body.error?.message ?? ...)\<close>.\<close>

definition sent_or_throw :: "'b dash_reply \<Rightarrow> js_error + 'b" where
  "sent_or_throw r = (case r of Sent b \<Rightarrow> Inr b | Failed st c msg \<Rightarrow> Inl (JsError msg))"

type_synonym ('s, 'c, 'x) wallet = "(('s, 'c, 'x) dash) eth_provider option"

text \<open>
  The flow: build the transaction, have the wallet send it, wait until it is mined, then store the
  policy.  \<open>clk\<close> gives the instants of the two route handlers.
\<close>

definition create_mandate ::
    "('s, 'c, 'x) dash_env \<Rightarrow> ('s, 'c, 'x) wallet \<Rightarrow> int \<times> int \<Rightarrow> hex \<Rightarrow> mandate_form \<Rightarrow>
     (('s, 'c, 'x) dash, hex) may_hang" where
  "create_mandate env injected clk newId form =
     hang_after (lift (form_body form)) (\<lambda>body.
     hang_after (andThen (post_mandates env (fst clk) newId body) (\<lambda>r. lift (sent_or_throw r)))
       (\<lambda>(mandateId, policyHash, unsignedTx).
     hang_after (sendTransaction injected unsignedTx) (\<lambda>txHash.
     then_hang (waitForReceipt injected 90000 txHash) (\<lambda>_.
     andThen (post_confirm env (snd clk) mandateId) (\<lambda>r.
     andThen (lift (sent_or_throw r)) (\<lambda>_. ret mandateId))))))"

definition revoke ::
    "('s, 'c, 'x) dash_env \<Rightarrow> ('s, 'c, 'x) wallet \<Rightarrow> int \<Rightarrow> mandate \<Rightarrow> (('s, 'c, 'x) dash, unit) may_hang" where
  "revoke env injected now m =
     hang_after (connectWallet injected) (\<lambda>sender.
     hang_after (andThen (post_revoke env now (m_mandateId m) (m_chainId m) sender)
       (\<lambda>r. lift (sent_or_throw r))) (\<lambda>unsignedTx.
     hang_after (sendTransaction injected unsignedTx) (\<lambda>txHash.
       waitForReceipt injected 90000 txHash)))"

text \<open>The label of a mandate in the list.\<close>

definition mandate_label :: "mandate_row \<Rightarrow> string" where
  "mandate_label row =
     (let revoked = coalesce (map_option mr_revoked (mw_onChain row)) False
      in if revoked then ''REVOKED'' else if mw_confirmed row then ''live'' else ''pending confirmation'')"

section \<open>The flow card of components/run-console.tsx\<close>

datatype flow_step = Step_mandate | Step_run

text \<open>\<open>fl_streams\<close>: the event sources opened so far, with whether they are still open.\<close>

record flow =
  fl_step :: flow_step
  fl_mandateIds :: "string list"
  fl_selected :: string
  fl_error :: "string option"
  fl_requestId :: "string option"
  fl_events :: "run_event list"
  fl_streams :: "(string \<times> bool) list"

definition new_flow :: flow where
  "new_flow = \<lparr>fl_step = Step_mandate, fl_mandateIds = [], fl_selected = [], fl_error = None,
     fl_requestId = None, fl_events = [], fl_streams = []\<rparr>"

definition load_mandates :: "mandate_row list \<Rightarrow> flow \<Rightarrow> flow" where
  "load_mandates rows f =
     (let ids = map (\<lambda>r. m_mandateId (mw_mandate r)) rows
      in f\<lparr>fl_mandateIds := ids, fl_selected := (if length ids = 1 then hd ids else fl_selected f)\<rparr>)"

definition createMandate ::
    "('s, 'c, 'x) dash_env \<Rightarrow> ('s, 'c, 'x) wallet \<Rightarrow> int \<times> int \<Rightarrow> hex \<Rightarrow> mandate_form \<Rightarrow> flow \<Rightarrow>
     ('s, 'c, 'x) dash \<Rightarrow> (flow \<times> ('s, 'c, 'x) dash) option" where
  "createMandate env injected clk newId form f w =
     map_option (\<lambda>(r, w'). (case r of
         Inl e \<Rightarrow> f\<lparr>fl_error := Some (error_text e)\<rparr>
       | Inr mandateId \<Rightarrow> f\<lparr>fl_step := Step_run,
           fl_mandateIds := (if mandateId \<in> set (fl_mandateIds f) then fl_mandateIds f
             else fl_mandateIds f @ [mandateId]),
           fl_selected := mandateId, fl_error := None\<rparr>, w'))
       (create_mandate env injected clk newId form w)"

definition selectExisting :: "flow \<Rightarrow> flow" where
  "selectExisting f =
     (if fl_selected f = [] then f\<lparr>fl_error := None\<rparr> else f\<lparr>fl_step := Step_run, fl_error := None\<rparr>)"

text \<open>The body of \<open>POST /api/run\<close>.\<close>

datatype source_choice = Pick_fixture string | Pick_merchant string

definition run_body_of :: "string \<Rightarrow> string \<Rightarrow> string option \<Rightarrow> source_choice \<Rightarrow> run_request_body" where
  "run_body_of instruction mandateId agentId choice =
     \<lparr>rr_instruction = Some instruction, rr_mandateId = Some mandateId, rr_agentId = agentId,
      rr_fixture = None,
      rr_source = Some (case choice of
          Pick_fixture n \<Rightarrow> \<lparr>sb_kind = Some ''fixture'', sb_name = Some n, sb_profileId = None\<rparr>
        | Pick_merchant p \<Rightarrow> \<lparr>sb_kind = Some ''merchant'', sb_name = None, sb_profileId = Some p\<rparr>),
      rr_cardholderName = None\<rparr>"

definition flow_startRun ::
    "('s, 'c, 'x) dash_env \<Rightarrow> string \<Rightarrow> string option \<Rightarrow> source_choice \<Rightarrow> flow \<Rightarrow>
     ('s, 'c, 'x) dash \<Rightarrow> flow \<times> ('s, 'c, 'x) dash" where
  "flow_startRun env instruction agentId choice f w =
     (if fl_selected f = []
      then (f\<lparr>fl_error := Some ''create or select a mandate first''\<rparr>, w)
      else case post_run_proxy env (run_body_of instruction (fl_selected f) agentId choice) w of
          (Inr (Reply st (R_run input url)), w') \<Rightarrow>
            (f\<lparr>fl_error := None, fl_requestId := Some (de_fresh env), fl_events := [],
               fl_streams := fl_streams f @ [(de_fresh env, True)]\<rparr>, w')
        | (Inr (ErrReply st e), w') \<Rightarrow> (f\<lparr>fl_error := Some (env_message e)\<rparr>, w')
        | (_, w') \<Rightarrow> (f\<lparr>fl_error := Some ''run failed to start''\<rparr>, w'))"

text \<open>A message of any source that is still open; events are told apart by their number alone.\<close>

definition on_message :: "nat \<Rightarrow> run_event \<Rightarrow> flow \<Rightarrow> flow" where
  "on_message conn e f =
     (if conn < length (fl_streams f) \<and> snd (fl_streams f ! conn)
      then f\<lparr>fl_events := (if \<exists>x \<in> set (fl_events f). rev_seq x = rev_seq e then fl_events f
             else fl_events f @ [e])\<rparr>
      else f)"

definition close_source :: "nat \<Rightarrow> flow \<Rightarrow> flow" where
  "close_source conn f = f\<lparr>fl_streams := (fl_streams f)[conn := (fst (fl_streams f ! conn), False)]\<rparr>"

section \<open>app/runs/[requestId]/page.tsx\<close>

definition isExpired :: "int \<Rightarrow> int \<Rightarrow> bool" where
  "isExpired now expiresAt \<longleftrightarrow> now div 1000 \<ge> expiresAt"

text \<open>The text of the countdown.\<close>

definition countdown :: "int \<Rightarrow> int \<Rightarrow> string" where
  "countdown now expiresAt =
     (let remaining = max 0 (expiresAt - now div 1000)
      in if remaining = 0 then ''Expired -- auto-denied''
         else dec_int remaining @ ''s remaining (expiry means deny)'')"

text \<open>The names of the attributes that both sides have with different values.\<close>

definition mismatches :: "string jsmap \<Rightarrow> string jsmap \<Rightarrow> string list" where
  "mismatches data other =
     map fst (filter (\<lambda>(k, v). jget other k \<noteq> None \<and> jget other k \<noteq> Some v) data)"

text \<open>\<open>Object.entries\<close> of the two sides; an attribute that was not found does not arrive.\<close>

definition attribute_entries :: "product_attributes \<Rightarrow> string jsmap" where
  "attribute_entries a = concat (map (\<lambda>(k, v). case v of None \<Rightarrow> [] | Some t \<Rightarrow> [(k, t)])
     [(''title'', pa_title a), (''sku'', pa_sku a), (''price'', pa_price a)])"

definition item_entries :: "resolved_item \<Rightarrow> string jsmap" where
  "item_entries item = [(''title'', r_title item), (''sku'', r_sku item), (''price'', r_price item),
     (''merchantDomain'', r_merchantDomain item), (''checkoutUrl'', r_checkoutUrl item)]"

text \<open>The decision of the owner: signed in the wallet, sent to the orchestrator.\<close>

definition respond_escalation ::
    "('s, 'c, 'x) dash_env \<Rightarrow> ('s, 'c, 'x) wallet \<Rightarrow> string \<Rightarrow> run_summary \<Rightarrow> escalation_decision \<Rightarrow> bool \<Rightarrow>
     (('s, 'c, 'x) dash, unit) io" where
  "respond_escalation env injected requestId run decision standing =
     (case rs_outcome run of
        Some (Out_escalated reason url expiresAt ttl) \<Rightarrow>
          andThen (signEscalationDecision injected requestId (me_mandateId (rs_meta run)) decision)
            (\<lambda>(approvedBy, signature).
          andThen (post_escalation_proxy env requestId (Some decision) (Some approvedBy) (Some signature)
            (if standing then Some Merchant_Window else None)) (\<lambda>res. lift (case res of
              Reply st b \<Rightarrow> Inr ()
            | ErrReply st e \<Rightarrow> Inl (JsError (env_message e))
            | ServerError msg \<Rightarrow> Inl (JsError (''failed to '' @ decision_text decision)))))
      | _ \<Rightarrow> ret ())"

end
