(* ===== verification/Agent_Api.thy ===== *)
theory Agent_Api
  imports Dashboard_Proxies
begin

text \<open>
  \<open>services/dashboard/lib/agent-api.ts\<close> and the chat of \<open>components/run-console.tsx\<close>: the client of
  the agent service, the polling of an agent run, and what a submitted request does to the page.  The
  service is a parameter; its bodies have the declared types.
\<close>

section \<open>Requests\<close>

record agent_call =
  ac_method :: string
  ac_path :: string
  ac_body :: "json option"

text \<open>A failed fetch carries its message; a body that is no JSON is \<open>Inl\<close> with the parse error.\<close>

datatype agent_response =
    No_response string
  | Response nat "string + json"

type_synonym 'w agent_service = "agent_call \<Rightarrow> 'w \<Rightarrow> agent_response \<times> 'w"

record agent_error =
  ag_status :: nat
  ag_message :: string

text \<open>What the page catches: an \<open>AgentApiError\<close> or another \<open>Error\<close>.\<close>

datatype page_error = Agent_error agent_error | Page_error string

type_synonym ('w, 'a) page_io = "'w \<Rightarrow> (page_error + 'a) \<times> 'w"

definition then_page :: "('w, 'a) page_io \<Rightarrow> ('a \<Rightarrow> ('w, 'b) page_io) \<Rightarrow> ('w, 'b) page_io" where
  "then_page m f w = (case m w of (Inl e, w') \<Rightarrow> (Inl e, w') | (Inr x, w') \<Rightarrow> f x w')"

definition api_error :: "nat \<Rightarrow> string \<Rightarrow> page_error" where
  "api_error st msg = Agent_error \<lparr>ag_status = st, ag_message = msg\<rparr>"

text \<open>\<open>body.message || body.error || message\<close>; a body of \<open>null\<close> throws and is ignored.\<close>

definition failure_message :: "nat \<Rightarrow> string + json \<Rightarrow> string" where
  "failure_message st body =
     (let default = ''Request failed with '' @ dec st in case body of
        Inl e \<Rightarrow> default
      | Inr b \<Rightarrow>
          if truthy (jprop b ''message'') then js_string (the (jprop b ''message''))
          else if truthy (jprop b ''error'') then js_string (the (jprop b ''error''))
          else default)"

definition agentRequest :: "'w agent_service \<Rightarrow> agent_call \<Rightarrow> ('w, json) page_io" where
  "agentRequest api call w = (case api (call\<lparr>ac_path := ''/api/agent/v1/'' @ ac_path call\<rparr>) w of
      (No_response msg, w') \<Rightarrow> (Inl (api_error 0 msg), w')
    | (Response st body, w') \<Rightarrow>
        if \<not> response_ok st then (Inl (api_error st (failure_message st body)), w')
        else (case body of Inl e \<Rightarrow> (Inl (api_error 0 e), w') | Inr b \<Rightarrow> (Inr b, w')))"

definition get_call :: "string \<Rightarrow> agent_call" where
  "get_call path = \<lparr>ac_method = ''GET'', ac_path = path, ac_body = None\<rparr>"

definition post_call :: "string \<Rightarrow> json \<Rightarrow> agent_call" where
  "post_call path body = \<lparr>ac_method = ''POST'', ac_path = path, ac_body = Some body\<rparr>"

text \<open>A field of a body; \<open>null\<close> is read like an absent one.\<close>

definition text_of :: "json \<Rightarrow> string \<Rightarrow> string option" where
  "text_of b k = (case jprop b k of None \<Rightarrow> None | Some JNull \<Rightarrow> None | Some v \<Rightarrow> Some (js_string v))"

text \<open>The id of the created agent.\<close>

definition createAgent :: "'w agent_service \<Rightarrow> string \<Rightarrow> string \<Rightarrow> ('w, string) page_io" where
  "createAgent api displayName instructions =
     then_page (agentRequest api (post_call ''agents''
       (JObj [(''displayName'', JStr displayName), (''instructions'', JStr instructions)])))
       (\<lambda>b w. (Inr (coalesce (text_of b ''agentId'') []), w))"

text \<open>The run id of a queued message, if the service gave one.\<close>

definition createMessage :: "'w agent_service \<Rightarrow> string \<Rightarrow> string \<Rightarrow> ('w, string option) page_io" where
  "createMessage api agentId content =
     then_page (agentRequest api (post_call (''agents/'' @ agentId @ ''/messages'')
       (JObj [(''content'', JStr content)]))) (\<lambda>b w. (Inr (text_of b ''runId''), w))"

record agent_message =
  am_role :: string
  am_content :: string

definition read_messages :: "json \<Rightarrow> agent_message list" where
  "read_messages b = (case b of
      JArr ms \<Rightarrow> map (\<lambda>m. \<lparr>am_role = coalesce (text_of m ''role'') [],
        am_content = coalesce (text_of m ''content'') []\<rparr>) ms
    | _ \<Rightarrow> [])"

definition listMessages :: "'w agent_service \<Rightarrow> string \<Rightarrow> ('w, agent_message list) page_io" where
  "listMessages api agentId = then_page (agentRequest api (get_call (''agents/'' @ agentId @ ''/messages'')))
     (\<lambda>b w. (Inr (read_messages b), w))"

record agent_run =
  ar_runId :: string
  ar_status :: string
  ar_response :: "string option"
  ar_error :: "string option"

definition read_run :: "json \<Rightarrow> agent_run" where
  "read_run b = \<lparr>ar_runId = coalesce (text_of b ''runId'') [], ar_status = coalesce (text_of b ''status'') [],
     ar_response = text_of b ''response'', ar_error = text_of b ''error''\<rparr>"

definition getAgentRun :: "'w agent_service \<Rightarrow> string \<Rightarrow> string \<Rightarrow> ('w, agent_run) page_io" where
  "getAgentRun api agentId runId =
     then_page (agentRequest api (get_call (''agents/'' @ agentId @ ''/runs/'' @ runId)))
       (\<lambda>b w. (Inr (read_run b), w))"

section \<open>Waiting for an agent run\<close>

definition ended :: "agent_run \<Rightarrow> bool" where
  "ended run \<longleftrightarrow> ar_status run = ''succeeded'' \<or> ar_status run = ''failed''"

text \<open>\<open>aborted\<close> reads the caller's signal, \<open>sleep\<close> is the timer of 750 ms; \<open>n\<close> attempts are left.\<close>

fun poll_run ::
    "nat \<Rightarrow> 'w agent_service \<Rightarrow> ('w \<Rightarrow> bool) \<Rightarrow> ('w \<Rightarrow> 'w) \<Rightarrow> string \<Rightarrow> string \<Rightarrow> ('w, agent_run) page_io" where
  "poll_run 0 api aborted sleep agentId runId w =
     (Inl (api_error 0 ''Timed out waiting for the agent run''), w)"
| "poll_run (Suc n) api aborted sleep agentId runId w =
     (if aborted w then (Inl (api_error 0 ''Aborted''), w)
      else case getAgentRun api agentId runId w of
          (Inl e, w') \<Rightarrow> (Inl e, w')
        | (Inr run, w') \<Rightarrow> if ended run then (Inr run, w')
            else poll_run n api aborted sleep agentId runId (sleep w'))"

definition waitForRun ::
    "'w agent_service \<Rightarrow> ('w \<Rightarrow> bool) \<Rightarrow> ('w \<Rightarrow> 'w) \<Rightarrow> string \<Rightarrow> string \<Rightarrow> ('w, agent_run) page_io" where
  "waitForRun = poll_run 80"

section \<open>The chat of the run console\<close>

datatype chat_block = User_block string | Assistant_block string string

record chat =
  ch_agentId :: "string option"
  ch_instruction :: string
  ch_blocks :: "chat_block list"
  ch_phase :: "string option"
  ch_error :: "string option"

definition errorMessage :: "page_error \<Rightarrow> string" where
  "errorMessage e = (case e of
      Agent_error a \<Rightarrow>
        if ag_status a = 401
        then if contains_text ''AGENT_API_ACCESS_TOKEN'' (ag_message a) then ag_message a
             else ''The agent API rejected the request (status 401). Set AGENT_API_ACCESS_TOKEN on the server.''
        else ag_message a
    | Page_error m \<Rightarrow> m)"

definition AGENT_INSTRUCTIONS :: string where
  "AGENT_INSTRUCTIONS = ''You turn a user's shopping request into a concrete, explicit purchase intent. '' @
     ''Keep responses concise, list candidate products when relevant, and never invent merchants.''"

text \<open>The agent of the page, created on the first request.\<close>

definition ensure_agent :: "'w agent_service \<Rightarrow> string option \<Rightarrow> ('w, string) page_io" where
  "ensure_agent api agentId =
     (if falsy agentId then createAgent api ''StraitsX shopper'' AGENT_INSTRUCTIONS
      else (\<lambda>w. (Inr (the agentId), w)))"

text \<open>The newest message of the assistant, else the response of the run.\<close>

definition answer_block :: "agent_run \<Rightarrow> agent_message list \<Rightarrow> page_error + chat_block" where
  "answer_block run fresh =
     (if ar_status run = ''succeeded'' \<and> \<not> falsy (ar_response run)
      then Inr (Assistant_block (ar_runId run)
        (case find (\<lambda>m. am_role m = ''assistant'') (rev fresh) of
           None \<Rightarrow> the (ar_response run) | Some m \<Rightarrow> am_content m))
      else Inl (Page_error (coalesce (ar_error run) ''the agent run did not complete'')))"

definition submitRequest ::
    "'w agent_service \<Rightarrow> ('w \<Rightarrow> 'w) \<Rightarrow> string \<Rightarrow> chat \<Rightarrow> 'w \<Rightarrow> chat \<times> 'w" where
  "submitRequest api sleep request c w =
     (if js_trim request = [] \<or> ch_phase c \<noteq> None then (c, w)
      else let messageText = js_trim request;
               c1 = c\<lparr>ch_instruction := [], ch_error := None, ch_blocks := ch_blocks c @ [User_block messageText]\<rparr>;
               fail = (\<lambda>c e. c\<lparr>ch_error := Some (errorMessage e)\<rparr>)
        in case ensure_agent api (ch_agentId c) w of
             (Inl e, w1) \<Rightarrow> (fail c1 e, w1)
           | (Inr agentId, w1) \<Rightarrow>
               let c2 = c1\<lparr>ch_agentId := Some agentId\<rparr> in
               (case then_page (createMessage api agentId messageText) (\<lambda>runId.
                       if falsy runId
                       then (\<lambda>w. (Inl (Page_error ''the agent accepted the message but returned no run id''), w))
                       else then_page (waitForRun api (\<lambda>_. False) sleep agentId (the runId)) (\<lambda>run.
                            then_page (listMessages api agentId) (\<lambda>fresh w.
                              (answer_block run fresh, w)))) w1 of
                  (Inl e, w2) \<Rightarrow> (fail c2 e, w2)
                | (Inr block, w2) \<Rightarrow> (c2\<lparr>ch_blocks := ch_blocks c2 @ [block]\<rparr>, w2)))"

end
