(* ===== verification/Dashboard_Properties.thy ===== *)
theory Dashboard_Properties
  imports Dashboard_Pages Agent_Api Ledger_Properties Escalation_Properties Purchase_Properties
begin

text \<open>
  The properties of the dashboard: the live page shows the ledger, amounts survive the form, a
  mandate is confirmed exactly when the registry holds its hash, and the waits end.
\<close>

section \<open>The live ledger page\<close>

text \<open>Every accepted change of an intent is announced with the view of the stored intent.\<close>

definition announces :: "ledger \<Rightarrow> ledger \<Rightarrow> ledger_event \<Rightarrow> bool" where
  "announces l l' e \<longleftrightarrow> (case event_intent (ev_payload e) of
      None \<Rightarrow> l_intents l' = l_intents l
    | Some v \<Rightarrow> \<exists>k i. l_intents l' = jset k i (l_intents l) \<and> v = intentViewOf i)"

lemma next_announces:
  "ledger_next h now c l = l \<or>
   (\<exists>e. l_events (ledger_next h now c l) = l_events l @ [e] \<and> announces l (ledger_next h now c l) e)"
  by (cases c) (auto simp: intent_handler_defs other_handler_defs put_intent_def appendEvent_def
      announces_def Let_def split: option.split)

text \<open>The views of all stored intents.\<close>

definition ledger_views :: "ledger \<Rightarrow> intent_view multiset" where
  "ledger_views l = image_mset intentViewOf (mset (jvalues (l_intents l)))"

lemma mset_jset:
  "distinct (map fst m) \<Longrightarrow>
   mset (map snd (jset k v m)) = add_mset v (mset (map snd (filter (\<lambda>p. fst p \<noteq> k) m)))"
proof (induction m)
  case (Cons p m)
  show ?case
  proof (cases "fst p = k")
    case True
    then have "filter (\<lambda>p. fst p \<noteq> k) m = m"
      using Cons.prems by (intro filter_True) (force simp: image_iff)
    then show ?thesis using True by (cases p) simp
  qed (use Cons in \<open>cases p; simp\<close>)
qed simp

lemma filter_views:
  "(\<And>p. p \<in> set m \<Longrightarrow> i_requestId (snd p) = fst p) \<Longrightarrow>
   filter (\<lambda>v. v_requestId v \<noteq> k) (map (\<lambda>p. intentViewOf (snd p)) m) =
   map (\<lambda>p. intentViewOf (snd p)) (filter (\<lambda>p. fst p \<noteq> k) m)"
  by (induction m) (simp_all add: intentViewOf_def)

lemma ledger_views_alt:
  "ledger_views l = mset (map (\<lambda>p. intentViewOf (snd p)) (l_intents l))"
  by (simp only: ledger_views_def jvalues_def mset_map [symmetric] map_map comp_def)

lemma upsert_shows:
  assumes ok: "intents_ok h l" and l': "l_intents l' = jset k i (l_intents l)" and k: "i_requestId i = k"
    and vs: "mset vs = ledger_views l"
  shows "mset (upsertIntent (intentViewOf i) vs) = ledger_views l'"
proof -
  let ?P = "\<lambda>p. fst p \<noteq> k" and ?v = "\<lambda>p. intentViewOf (snd p)"
  have dist: "distinct (map fst (l_intents l))" using ok by (simp add: intents_ok_def jkeys_def)
  have own: "i_requestId (snd p) = fst p" if "p \<in> set (l_intents l)" for p
  proof -
    have "jget (l_intents l) (fst p) = Some (snd p)" using that dist by (simp add: map_of_is_SomeI)
    then have "intent_ok h (fst p) (snd p)" using ok by (simp add: intents_ok_def)
    then show ?thesis by (simp add: intent_ok_def)
  qed
  have "mset (filter (\<lambda>v. v_requestId v \<noteq> k) vs) = mset (filter (\<lambda>v. v_requestId v \<noteq> k) (map ?v (l_intents l)))"
    using vs unfolding ledger_views_alt by (simp only: mset_filter)
  also have "\<dots> = image_mset intentViewOf (mset (map snd (filter ?P (l_intents l))))"
    by (simp only: filter_views [OF own] mset_map [symmetric] map_map comp_def)
  finally show ?thesis
    using k by (simp add: upsertIntent_def ledger_views_def [of l'] jvalues_def l' mset_jset [OF dist]
        intentViewOf_def [of i] del: mset_filter mset_map)
qed

definition shows_ledger :: "ledger \<Rightarrow> ledger \<Rightarrow> ledger_page \<Rightarrow> bool" where
  "shows_ledger l l' p \<longleftrightarrow> mset (lp_intents p) = ledger_views l' \<and> lp_connected p \<and>
     lp_events p = take 200 (rev (drop (length (l_events l)) (l_events l')))"

lemma mset_insert_by: "mset (insert_by leq x ys) = add_mset x (mset ys)"
  by (induction ys) auto

lemma mset_js_sort: "mset (js_sort leq xs) = mset xs"
  by (induction xs) (simp_all add: mset_insert_by)

lemma stream_step:
  assumes "l_events l'' = l_events l' @ [e]" and "length (l_events l) \<le> length (l_events l')"
  shows "event_stream lc l l'' = event_stream lc l l' @ [Append e]"
  using assms by (simp add: event_stream_def)

lemma append_shows:
  assumes shown: "shows_ledger l l' p" and ok: "intents_ok h l'" "intents_ok h l''"
    and e: "l_events l'' = l_events l' @ [e]" "announces l' l'' e"
    and len: "length (l_events l) \<le> length (l_events l')"
  shows "shows_ledger l l'' (ledger_page_step (Streamed (Append e)) p)"
proof -
  have "mset (case event_intent (ev_payload e) of None \<Rightarrow> lp_intents p
      | Some v \<Rightarrow> upsertIntent v (lp_intents p)) = ledger_views l''"
  proof (cases "event_intent (ev_payload e)")
    case None
    then show ?thesis using e(2) shown by (simp add: announces_def shows_ledger_def ledger_views_def)
  next
    case (Some v)
    then obtain k i where i: "l_intents l'' = jset k i (l_intents l')" "v = intentViewOf i"
      using e(2) by (auto simp: announces_def)
    then have "intent_ok h k i" using ok(2) by (simp add: intents_ok_def update_conv')
    then have "i_requestId i = k" by (simp add: intent_ok_def)
    from upsert_shows [OF ok(1) i(1) this] shown Some i(2) show ?thesis by (simp add: shows_ledger_def)
  qed
  then show ?thesis using shown e(1) len
    by (simp add: shows_ledger_def ledger_page_step_def take_Cons' min_def)
qed

text \<open>A page that shows the ledger follows it through the appended events.\<close>

lemma appends_show:
  assumes "ledger_reachable h s" "length (l_events l) \<le> length (l_events s)" "shows_ledger l s p"
  shows "shows_ledger l (ledger_run h cs s)
     (ledger_page_run (map (Streamed \<circ> Append) (drop (length (l_events s)) (l_events (ledger_run h cs s)))) p)"
proof (induction cs rule: rev_induct)
  case Nil
  then show ?case using assms(3) by (simp add: ledger_page_run_def)
next
  case (snoc c cs)
  obtain now cmd where c: "c = (now, cmd)" by (cases c)
  let ?l = "ledger_run h cs s"
  have len: "length (l_events s) \<le> length (l_events ?l)"
    using logs_append_only [of h cs s] by auto
  have next_l: "ledger_run h (cs @ [c]) s = ledger_next h now cmd ?l" by (simp add: ledger_run_append c)
  have reach: "ledger_reachable h ?l" by (rule ledger_reachable_run [OF assms(1)])
  consider "ledger_next h now cmd ?l = ?l"
    | e where "l_events (ledger_next h now cmd ?l) = l_events ?l @ [e]" "announces ?l (ledger_next h now cmd ?l) e"
    using next_announces by blast
  then show ?case
  proof cases
    case 1
    then show ?thesis using snoc.IH by (simp add: next_l)
  next
    case (2 e)
    have "intents_ok h ?l" "intents_ok h (ledger_next h now cmd ?l)"
      using ledger_ok [OF reach] ledger_ok [OF ledger_reachable.step [OF reach]] by auto
    from append_shows [OF snoc.IH this 2 order.trans [OF assms(2) len]] 2(1) len show ?thesis
      by (simp add: next_l ledger_page_run_def)
  qed
qed

lemma stream_shows:
  assumes "ledger_reachable h l"
  shows "shows_ledger l (ledger_run h cs l)
     (ledger_page_run (map Streamed (event_stream lc l (ledger_run h cs l))) p)"
proof -
  obtain views where views: "event_stream lc l (ledger_run h cs l) =
      Snapshot views # map Append (drop (length (l_events l)) (l_events (ledger_run h cs l)))"
    "mset views = ledger_views l"
    by (simp add: event_stream_def ledger_views_def mset_js_sort)
  have "shows_ledger l l (ledger_page_step (Streamed (Snapshot views)) p)"
    using views(2) by (simp add: shows_ledger_def ledger_page_step_def)
  from appends_show [OF assms order.refl this, of cs] show ?thesis
    by (simp add: views(1) ledger_page_run_def)
qed

text \<open>The fetched snapshot touches the intents alone.\<close>

lemma run_other_intents:
  "lp_events p = lp_events q \<Longrightarrow> lp_connected p = lp_connected q \<Longrightarrow>
   lp_events (ledger_page_run xs p) = lp_events (ledger_page_run xs q) \<and>
   lp_connected (ledger_page_run xs p) = lp_connected (ledger_page_run xs q)"
proof (induction xs arbitrary: p q)
  case (Cons x xs)
  have "lp_events (ledger_page_step x p) = lp_events (ledger_page_step x q)"
    "lp_connected (ledger_page_step x p) = lp_connected (ledger_page_step x q)"
    using Cons.prems
    by (auto simp: ledger_page_step_def split: page_input.splits sum.splits stream_message.splits)
  from Cons.IH [OF this] show ?case by (simp add: ledger_page_run_def)
qed (simp add: ledger_page_run_def)

text \<open>
  What a list of appended events makes of the intents: the last view of each intent they carry, and
  the others as they were.
\<close>

fun append_intents :: "ledger_event list \<Rightarrow> intent_view list \<Rightarrow> intent_view list" where
  "append_intents [] is = is"
| "append_intents (e # es) is = append_intents es
     (case event_intent (ev_payload e) of None \<Rightarrow> is | Some v \<Rightarrow> upsertIntent v is)"

definition carried :: "ledger_event list \<Rightarrow> string set" where
  "carried es = {v_requestId v |v e. e \<in> set es \<and> event_intent (ev_payload e) = Some v}"

lemma append_intents_append: "append_intents (es @ fs) is = append_intents fs (append_intents es is)"
  by (induction es arbitrary: "is") simp_all

lemma run_append_intents:
  "lp_intents (ledger_page_run (map (Streamed \<circ> Append) es) p) = append_intents es (lp_intents p)"
  by (induction es arbitrary: p) (auto simp: ledger_page_run_def ledger_page_step_def split: option.splits)

lemma append_intents_parts:
  "filter (\<lambda>v. v_requestId v \<notin> carried es) (append_intents es is) = filter (\<lambda>v. v_requestId v \<notin> carried es) is"
  "filter (\<lambda>v. v_requestId v \<in> carried es) (append_intents es is) =
   filter (\<lambda>v. v_requestId v \<in> carried es) (append_intents es [])"
proof (induction es rule: rev_induct)
  case (snoc e es)
  have carried: "carried (es @ [e]) = carried es \<union>
      (case event_intent (ev_payload e) of None \<Rightarrow> {} | Some v \<Rightarrow> {v_requestId v})"
    by (auto simp: carried_def split: option.splits)
  have kept: "filter (\<lambda>v. v_requestId v \<notin> insert k (carried es)) xs =
      filter (\<lambda>v. v_requestId v \<noteq> k) (filter (\<lambda>v. v_requestId v \<notin> carried es) xs)"
    and moved: "filter (\<lambda>v. v_requestId v \<in> insert k (carried es)) (filter (\<lambda>v. v_requestId v \<noteq> k) xs) =
      filter (\<lambda>v. v_requestId v \<noteq> k) (filter (\<lambda>v. v_requestId v \<in> carried es) xs)" for k xs
    by (simp_all cong: conj_cong, rule filter_cong, auto, rule filter_cong, auto)
  {
    case 1
    show ?case
    proof (cases "event_intent (ev_payload e)")
      case None
      then show ?thesis using snoc(1) by (simp add: append_intents_append carried)
    next
      case (Some v)
      let ?k = "v_requestId v" and ?A = "append_intents es is"
      have "filter (\<lambda>u. v_requestId u \<notin> insert ?k (carried es)) (filter (\<lambda>it. v_requestId it \<noteq> ?k) xs) =
          filter (\<lambda>u. v_requestId u \<noteq> ?k) (filter (\<lambda>u. v_requestId u \<notin> carried es) xs)" for xs
        by (induction xs) auto
      from this [of ?A] show ?thesis
        unfolding append_intents_append carried Some upsertIntent_def append_intents.simps option.case
          Un_insert_right sup_bot_right snoc(1)
        by (simp add: kept [symmetric] del: filter_filter)
    qed
  next
    case 2
    show ?case
    proof (cases "event_intent (ev_payload e)")
      case None
      then show ?thesis using snoc(2) by (simp add: append_intents_append carried)
    next
      case (Some v)
      then show ?thesis
        using snoc(2) by (simp add: append_intents_append carried upsertIntent_def moved del: insert_iff filter_filter)
    qed
  }
qed (simp_all add: carried_def)

text \<open>Events that have led to these intents lead from them to the same again.\<close>

lemma append_intents_again:
  assumes "mset (append_intents es is) = mset js"
  shows "mset (append_intents es js) = mset js"
proof -
  let ?in = "\<lambda>v. v_requestId v \<in> carried es"
  have "mset (append_intents es js) = mset (filter ?in (append_intents es js)) +
      mset (filter (\<lambda>v. \<not> ?in v) (append_intents es js))"
    by (simp add: mset_filter multiset_partition [symmetric])
  also have "\<dots> = mset (filter ?in (append_intents es is)) + mset (filter (\<lambda>v. \<not> ?in v) js)"
    using append_intents_parts [of es js] append_intents_parts(2) [of es "is"] by simp
  also have "mset (filter ?in (append_intents es is)) = mset (filter ?in js)"
    using assms by (simp add: mset_filter)
  finally show ?thesis by (simp add: mset_filter multiset_partition [symmetric])
qed

lemma run_snapshot_error:
  "ledger_page_run (map Streamed ms) (p\<lparr>lp_snapshotError := e\<rparr>) =
   (ledger_page_run (map Streamed ms) p)\<lparr>lp_snapshotError := e\<rparr>"
proof (induction ms arbitrary: p)
  case (Cons m ms)
  have "ledger_page_step (Streamed m) (p\<lparr>lp_snapshotError := e\<rparr>) =
      (ledger_page_step (Streamed m) p)\<lparr>lp_snapshotError := e\<rparr>"
    by (cases m) (simp_all add: ledger_page_step_def split: option.splits)
  then show ?case using Cons.IH by (simp add: ledger_page_run_def)
qed (simp add: ledger_page_run_def)

text \<open>C14. The live ledger page is complete.  The page opens the stream at some state of the ledger and fetches
  a snapshot beside it; the fetch may fail, and it may arrive before, between or after the messages of the
  stream.  As long as a snapshot that arrives after the stream has begun was read when the events that
  had arrived by then had happened, the page then shows exactly the views of the intents now stored,
  each once, and the last two hundred events, whatever it showed before.\<close>

theorem ledger_page_complete:
  assumes "ledger_reachable h l" "cs = read @ later"
    and "event_stream lc l (ledger_run h cs l) = arrived @ coming"
    and "\<And>views. fetched = Inr views \<Longrightarrow> arrived \<noteq> [] \<Longrightarrow>
      get_intents lc (ledger_run h read l) = Reply 200 views \<and>
      length arrived \<le> length (event_stream lc l (ledger_run h read l))"
  shows "shows_ledger l (ledger_run h cs l)
     (ledger_page_run (map Streamed arrived @ [Fetched fetched] @ map Streamed coming) p)"
proof (cases arrived)
  case Nil
  then show ?thesis
    using stream_shows [OF assms(1), of cs lc "ledger_page_step (Fetched fetched) p"] assms(3)
    by (simp add: ledger_page_run_def)
next
  case (Cons a arrived')
  let ?L = "ledger_run h cs l" and ?S = "ledger_run h read l" and ?n = "length (l_events l)"
  let ?q = "ledger_page_run (map Streamed arrived) p"
  have whole: "shows_ledger l ?L (ledger_page_run (map Streamed coming) ?q)"
    using stream_shows [OF assms(1), of cs lc p] assms(3) by (simp add: ledger_page_run_def)
  show ?thesis
  proof (cases fetched)
    case (Inl msg)
    have "ledger_page_run (map Streamed coming) (?q\<lparr>lp_snapshotError := e\<rparr>) =
        (ledger_page_run (map Streamed coming) ?q)\<lparr>lp_snapshotError := e\<rparr>" for e
      by (rule run_snapshot_error)
    then show ?thesis
      using whole Inl by (simp add: shows_ledger_def ledger_page_run_def ledger_page_step_def)
  next
    case (Inr views)
    have fresh: "mset views = ledger_views ?S" "length arrived \<le> Suc (length (l_events ?S) - ?n)"
      using assms(4) [OF Inr] Cons
      by (auto simp: get_intents_def ledger_views_def mset_js_sort event_stream_def)
    obtain snap where stream: "event_stream lc l s = Snapshot snap # map Append (drop ?n (l_events s))"
        "mset snap = ledger_views l" for s
      by (simp add: event_stream_def ledger_views_def mset_js_sort)
    obtain more where more: "l_events ?L = l_events ?S @ more" "?L = ledger_run h later ?S"
      using logs_append_only [of h later ?S] by (auto simp: assms(2) ledger_run_append)
    have n: "?n \<le> length (l_events ?S)" using logs_append_only [of h read l] by auto
    define es1 where "es1 = take (length arrived') (drop ?n (l_events ?S))"
    define es2 where "es2 = drop (length arrived') (drop ?n (l_events ?S))"
    have es: "drop ?n (l_events ?S) = es1 @ es2" unfolding es1_def es2_def by (rule append_take_drop_id [symmetric])
    have len: "length arrived' = length es1" using fresh(2) Cons by (simp add: es1_def)
    have "a # arrived' @ coming = Snapshot snap # map Append es1 @ map Append (es2 @ more)"
      using assms(3) Cons n es by (simp add: stream(1) more(1))
    then have coming: "coming = map Append (es2 @ more)"
      using len by simp
    have reachS: "ledger_reachable h ?S" by (rule ledger_reachable_run [OF assms(1)])
    have "shows_ledger l ?S (ledger_page_run (map Streamed (event_stream lc l ?S)) p)"
      by (rule stream_shows [OF assms(1)])
    then have "mset (append_intents (es1 @ es2) snap) = mset views"
      using run_append_intents [of "es1 @ es2" "ledger_page_step (Streamed (Snapshot snap)) p"]
      by (simp add: shows_ledger_def stream(1) es fresh(1) ledger_page_run_def ledger_page_step_def)
    then have "mset (append_intents es2 views) = mset views"
      using append_intents_again by (simp add: append_intents_append)
    define q2 where "q2 = (ledger_page_run (map Streamed (event_stream lc l ?S)) p)\<lparr>lp_intents := append_intents es2 views\<rparr>"
    have "shows_ledger l ?S q2"
      using stream_shows [OF assms(1), of read lc p] \<open>mset (append_intents es2 views) = mset views\<close> fresh(1)
      by (simp add: shows_ledger_def q2_def)
    from appends_show [OF reachS n this, of later]
    have "mset (append_intents more (append_intents es2 views)) = ledger_views ?L"
      by (simp add: shows_ledger_def more run_append_intents q2_def flip: more(2))
    then have "mset (lp_intents (ledger_page_run (map Streamed coming) (?q\<lparr>lp_intents := views\<rparr>))) = ledger_views ?L"
      using run_append_intents [of "es2 @ more" "?q\<lparr>lp_intents := views\<rparr>"] coming
      by (simp add: append_intents_append)
    then show ?thesis
      using whole run_other_intents [of "?q\<lparr>lp_intents := views\<rparr>" ?q "map Streamed coming"] Inr
      by (simp add: shows_ledger_def ledger_page_run_def ledger_page_step_def)
  qed
qed

text \<open>The snapshot the page also fetches is not ordered with the stream: when it arrives last, it takes
  the page back to the ledger it was read from.\<close>

lemma late_snapshot_rolls_back:
  "get_intents lc l = Reply 200 views \<Longrightarrow>
   mset (lp_intents (ledger_page_step (Fetched (Inr views)) p)) = ledger_views l"
  by (auto simp: get_intents_def ledger_page_step_def ledger_views_def mset_js_sort)

section \<open>Amounts\<close>

lemma split_point: "c \<notin> set a \<Longrightarrow> c \<notin> set b \<Longrightarrow> js_split c (a @ c # b) = [a, b]"
proof (induction a)
  case Nil
  then show ?case by (induction b) auto
qed auto

lemma point_not_digit: "list_all is_digit s \<Longrightarrow> CHR ''.'' \<notin> set s"
  by (auto simp: list_all_iff is_digit_def)

lemma dec_int_nat: "dec_int (int n) = dec n"
  by (simp add: dec_int_def)

text \<open>A plain decimal amount: what is typed beyond the sixth place is dropped.\<close>

lemma sgd_plain:
  assumes "is_decimal whole" "list_all is_digit frac"
  shows "sgdToBaseUnits (whole @ ''.'' @ frac) = Inr (dec (of_base 10 whole * 1000000 +
    of_base 10 (take 6 (frac @ replicate 6 CHR ''0''))))"
proof -
  define pad where "pad = take 6 (frac @ replicate 6 CHR ''0'')"
  have "list_all is_digit whole" using assms(1) by (simp add: is_decimal_def)
  then have parts: "js_split CHR ''.'' (whole @ ''.'' @ frac) = [whole, frac]"
    using split_point [of "CHR ''.''" whole frac] assms(2) by (simp add: point_not_digit)
  have "list_all is_digit pad" using assms(2)
    by (auto simp: list_all_iff is_digit_def pad_def dest!: in_set_takeD)
  moreover have "length pad = 6" by (simp add: pad_def)
  then have "pad \<noteq> []" by force
  ultimately have pad: "bigint (or_zero pad) = Inr (int (of_base 10 pad))"
    by (simp add: is_decimal_def or_zero_def bigint_decimal)
  have "whole \<noteq> []" using assms(1) by (auto simp: is_decimal_def)
  then have whole: "bigint (or_zero whole) = Inr (int (of_base 10 whole))"
    using assms(1) by (simp add: or_zero_def bigint_decimal)
  have "sgdToBaseUnits (whole @ ''.'' @ frac) = bindE (bigint (or_zero whole)) (\<lambda>w.
      bindE (bigint (or_zero pad)) (\<lambda>f. Inr (dec_int (w * 1000000 + f))))"
    unfolding sgdToBaseUnits_def parts by (simp add: Let_def XSGD_DECIMALS_def pad_def del: take_append)
  also have "\<dots> = Inr (dec (of_base 10 whole * 1000000 + of_base 10 pad))"
    unfolding whole pad bindE_Inr using dec_int_nat [of "of_base 10 whole * 1000000 + of_base 10 pad"] by simp
  finally show ?thesis unfolding pad_def .
qed

lemma printed_amount_reads_back:
  "sgdToBaseUnits (dec (n div 1000000) @ ''.'' @ pad_start 6 CHR ''0'' (dec (n mod 1000000))) = Inr (dec n)"
proof -
  let ?frac = "pad_start 6 CHR ''0'' (dec (n mod 1000000))"
  have "length (dec (n mod 1000000)) \<le> 6" by (rule to_base_length_le) simp_all
  then have len: "length ?frac = 6" by simp
  have "list_all is_digit ?frac" by (rule pad_start_all) (simp_all add: is_digit_def)
  from sgd_plain [OF dec_decimal this] len show ?thesis by simp
qed

text \<open>C34. An amount that the dashboard prints is read back by its forms as the same number of base units.\<close>

theorem sgd_roundtrip: "\<exists>s. formatXsgd (dec n) = Inr s \<and> sgdToBaseUnits s = Inr (dec n)"
proof -
  have "big_div (int n) 1000000 = int (n div 1000000)" "big_mod (int n) 1000000 = int (n mod 1000000)"
    by (cases "n = 0"; simp add: big_div_def big_mod_def zdiv_int zmod_int)+
  then have "formatXsgd (dec n) = Inr (dec (n div 1000000) @ ''.'' @ pad_start 6 CHR ''0'' (dec (n mod 1000000)))"
    by (simp add: formatXsgd_def bindE_def bigint_def XSGD_DECIMALS_def dec_int_nat Let_def)
  then show ?thesis by (intro exI conjI) (assumption, rule printed_amount_reads_back)
qed

text \<open>A minus sign belongs to the whole part alone: minus one and a half dollars reads as minus half a
  dollar.\<close>

lemma negative_amount_misread: "sgdToBaseUnits ''-1.5'' = Inr ''-500000''"
  by code_simp

section \<open>Waiting\<close>

text \<open>One more poll for every two seconds that are left.\<close>

lemma receipt_loop_ends:
  fixes polls :: "'w \<Rightarrow> nat"
  assumes sleep: "\<And>w. wp_now eth w + 2000 \<le> wp_now eth (wp_sleep eth w)" "\<And>w. polls (wp_sleep eth w) = polls w"
    and ask: "\<And>w r w'. wp_receipt eth h w = (r, w') \<Longrightarrow> wp_now eth w \<le> wp_now eth w' \<and> polls w' = polls w + 1"
  shows "start + timeoutMs < wp_now eth w + 2000 * int n \<Longrightarrow>
    \<exists>r w'. receipt_loop eth start timeoutMs h w = Some (r, w') \<and> polls w' \<le> polls w + n + 1"
proof (induction n arbitrary: w)
  case 0
  obtain r w' where q: "wp_receipt eth h w = (r, w')" by (cases "wp_receipt eth h w")
  from 0 ask [OF q] have "wp_now eth w' - start > timeoutMs" by simp
  then show ?case using ask [OF q]
    by (subst receipt_loop.simps) (cases r; simp add: q)
next
  case (Suc n)
  obtain r w' where q: "wp_receipt eth h w = (r, w')" by (cases "wp_receipt eth h w")
  have "start + timeoutMs < wp_now eth (wp_sleep eth w') + 2000 * int n"
    using Suc.prems ask [OF q] sleep(1) [of w'] by simp
  from Suc.IH [OF this] obtain r2 w2 where rest:
    "receipt_loop eth start timeoutMs h (wp_sleep eth w') = Some (r2, w2)" "polls w2 \<le> polls w' + n + 1"
    by (auto simp: sleep(2))
  show ?case using ask [OF q] rest
    by (subst receipt_loop.simps) (cases r; simp add: q)
qed

text \<open>C33. Waiting for a transaction always ends, mined or not: as long as the clock of the browser does not run
  backwards and a pause takes its two seconds, the provider is asked at most once for every two
  seconds of the timeout, and twice more.\<close>

theorem receipt_wait_ends:
  fixes polls :: "'w \<Rightarrow> nat"
  assumes "\<And>w. wp_now eth w + 2000 \<le> wp_now eth (wp_sleep eth w)" "\<And>w. polls (wp_sleep eth w) = polls w"
    and "\<And>w r w'. wp_receipt eth h w = (r, w') \<Longrightarrow> wp_now eth w \<le> wp_now eth w' \<and> polls w' = polls w + 1"
    and "0 \<le> timeoutMs"
  shows "\<exists>r w'. waitForReceipt (Some eth) timeoutMs h w = Some (r, w') \<and>
     polls w' \<le> polls w + nat (timeoutMs div 2000) + 2"
proof -
  have "timeoutMs < 2000 * (timeoutMs div 2000 + 1)" by presburger
  then have "wp_now eth w + timeoutMs < wp_now eth w + 2000 * int (nat (timeoutMs div 2000) + 1)"
    using assms(4) by (simp add: pos_imp_zdiv_nonneg_iff)
  from receipt_loop_ends [OF assms(1-3) this] show ?thesis
    by (auto simp: waitForReceipt_def getProvider_def)
qed

text \<open>Waiting for an agent run asks at most eighty times, and a run it returns has ended.\<close>

lemma poll_run_ends:
  assumes "\<And>call w r w'. api call w = (r, w') \<Longrightarrow> asked w' = asked w + (1::nat)" "\<And>w. asked (sleep w) = asked w"
    and "poll_run n api aborted sleep agentId runId w = (r, w')"
  shows "asked w' \<le> asked w + n \<and> (\<forall>run. r = Inr run \<longrightarrow> ended run)"
  using assms(3)
proof (induction n arbitrary: w)
  case (Suc n)
  have one: "asked v' = asked v + 1" if "getAgentRun api agentId runId v = (q, v')" for v q v'
    using that assms(1) by (auto simp: getAgentRun_def then_page_def agentRequest_def Let_def
        split: prod.splits sum.splits agent_response.splits if_splits)
  show ?case
  proof (cases "aborted w")
    case False
    obtain q v where q: "getAgentRun api agentId runId w = (q, v)" by (cases "getAgentRun api agentId runId w")
    show ?thesis
    proof (cases "\<exists>run. q = Inr run \<and> \<not> ended run")
      case True
      then have "poll_run n api aborted sleep agentId runId (sleep v) = (r, w')"
        using Suc.prems False q by auto
      from Suc.IH [OF this] one [OF q] show ?thesis by (simp add: assms(2))
    qed (use Suc.prems False q one [OF q] in \<open>auto split: sum.splits if_splits\<close>)
  qed (use Suc.prems in auto)
qed auto

lemma agent_wait_bounded:
  assumes "\<And>call w r w'. api call w = (r, w') \<Longrightarrow> asked w' = asked w + (1::nat)" "\<And>w. asked (sleep w) = asked w"
    and "waitForRun api aborted sleep agentId runId w = (r, w')"
  shows "asked w' \<le> asked w + 80 \<and> (\<forall>run. r = Inr run \<longrightarrow> ended run)"
  using poll_run_ends [of api asked sleep 80] assms unfolding waitForRun_def by blast

section \<open>The second read of the price\<close>

lemma price_differs:
  assumes "dollarsToBaseUnits6 d = Inr p" "exactAmountSgd p = Inr n"
  shows "p \<noteq> d"
proof
  assume "p = d"
  obtain whole frac where parts: "price_parts d = Some (whole, frac)"
    and p: "p = dec (of_base 10 whole * 1000000 + of_base 10 (take 6 (frac @ ''000000'')))"
    using assms(1) by (auto simp: dollarsToBaseUnits6_def Let_def split: option.splits)
  have "list_all is_digit d" using p \<open>p = d\<close> dec_digits by metis
  then have "CHR ''.'' \<notin> set d" by (rule point_not_digit)
  then have frac: "frac = []" "d = whole" using parts by (auto simp: price_parts_iff split: if_splits)
  have "of_base 10 ''000000'' = 0" by code_simp
  then have "of_base 10 d = of_base 10 d * 1000000"
    using arg_cong [OF p, of "of_base 10"] frac \<open>p = d\<close> by simp
  then have "of_base 10 d = 0" by simp
  then show False using assms(2) \<open>p = d\<close> by (auto simp: exactAmountSgd_Inr MIN_BASE_UNITS_def)
qed

text \<open>C24. The comparison of an escalated run flags every honest price: when the second read finds on the page the
  very text that discovery read, the price is shown as a mismatch on both sides, because one side
  is in dollars and the other in base units.\<close>

theorem honest_price_flagged:
  assumes "discoverProduct parse url pg = Inr res" "exactAmountSgd (r_price (dr_resolvedItem res)) = Inr n"
    and "pg_query pg ''[data-product]'' (Some ''data-price'') = Inr (Some d)" "pa_price seen = Some d"
  shows "''price'' \<in> set (mismatches (attribute_entries seen) (item_entries (dr_resolvedItem res))) \<and>
     ''price'' \<in> set (mismatches (item_entries (dr_resolvedItem res)) (attribute_entries seen))"
proof -
  let ?item = "dr_resolvedItem res"
  have "dollarsToBaseUnits6 d = Inr (r_price ?item)"
    using assms(1,3) by (auto simp: discoverProduct_def)
  then have "r_price ?item \<noteq> d" using price_differs assms(2) by blast
  moreover have "jget (attribute_entries seen) ''price'' = Some d"
    using assms(4) by (auto simp: attribute_entries_def split: option.splits)
  moreover have "(''price'', d) \<in> set (attribute_entries seen)"
    using assms(4) by (simp add: attribute_entries_def)
  ultimately show ?thesis by (force simp: mismatches_def item_entries_def)
qed

section \<open>The event list of a run\<close>

text \<open>A second run in one card: the source of the first stays open, and its next event takes the place of the
  second run's event with that number.\<close>

lemma run_again_mixes_events:
  assumes "fl_events f = []" "a < length (fl_streams f)" "b < length (fl_streams f)"
    and "snd (fl_streams f ! a)" "snd (fl_streams f ! b)" "rev_seq e = rev_seq e'"
  shows "fl_events (on_message b e' (on_message a e f)) = [e]"
  using assms by (simp add: on_message_def)

section \<open>The decision of the owner\<close>

text \<open>A wallet that signs for its account, as the verifier of the policy service sees it.\<close>

definition signs_for :: "'w eth_provider \<Rightarrow> message_verifier \<Rightarrow> bool" where
  "signs_for eth verify \<longleftrightarrow> (\<forall>m a w sg w'. wp_personal_sign eth m a w = (Inr sg, w') \<longrightarrow>
     is_hex_string sg \<and> verify a m sg = Inr True)"

lemma owner_signature_accepted:
  assumes "signEscalationDecision (Some eth) requestId mandateId d w = (Inr (approvedBy, sg), w')"
    and "signs_for eth verify"
  shows "verifyEscalationSignature verify requestId mandateId d sg approvedBy = None"
proof -
  obtain w1 where "wp_personal_sign eth (buildEscalationMessage requestId mandateId d) approvedBy w1 = (Inr sg, w')"
    using assms(1) by (auto simp: signEscalationDecision_def getProvider_def io_Inr simp del: andThen_lift)
  then have "is_hex_string sg" "verify approvedBy (buildEscalationMessage requestId mandateId d) sg = Inr True"
    using assms(2) unfolding signs_for_def by blast+
  then show ?thesis by (simp add: verifyEscalationSignature_def)
qed

end
