(* ===== verification/Mandate_Properties.thy ===== *)
theory Mandate_Properties
  imports Dashboard_Pages Escalation_Properties
begin

text \<open>
  The life of a mandate in the dashboard: staged by the route that builds its transaction, confirmed
  when the registry holds its hash, on file with the policy service from then on, and the flow of
  the page through the wallet that leads there.
\<close>

abbreviation policies :: "('s, 'c, 'x) dash \<Rightarrow> policy_record jsmap" where
  "policies w \<equiv> l_policies (wd_ledger (oc_world (dw_orch w)))"

text \<open>The registry, as the policy service reads it, holds the hash of the mandate.\<close>

definition commits :: "'s policy_env \<Rightarrow> string \<Rightarrow> mandate \<Rightarrow> bool" where
  "commits env k m \<longleftrightarrow> (\<exists>reg. pe_registry env k (m_chainId m) = Inr (Some reg) \<and>
     to_lower (rm_policyHash reg) = to_lower (hashPolicy (pe_keccak_text env) m))"

abbreviation de_policy :: "('s, 'c, 'x) dash_env \<Rightarrow> 's policy_env" where
  "de_policy env \<equiv> ov_policy (de_orch env)"

lemma policy_put_outcome:
  assumes "policy_put env now k (Some p) w = (r, w')"
  shows "if commits env k p
     then (\<exists>v. r = Reply 200 v) \<and> w' = w\<lparr>wd_ledger := snd (put_policy now k (Some p) (wd_ledger w))\<rparr>
     else (\<forall>st v. r \<noteq> Reply st v) \<and> w' = w"
  using assms
  by (auto simp: policy_put_def respond_def putPolicy_def andThen_def writing_def put_policy_def
      expect_ok_def commits_def sendError_def uncaught_def Let_def
      split: option.splits sum.splits if_splits)

lemma send_policy_outcome:
  assumes "system (send_policy env now k m) w = (r, w')"
  shows "dw_tracked w' = dw_tracked w \<and> (if commits (de_policy env) k m
     then (\<exists>v. r = Inr (Put_ok v)) \<and> (\<exists>n. policies w' = jset k \<lparr>pr_policy = m, pr_policyVersion = n\<rparr> (policies w))
     else (\<exists>st c msg. r = Inr (Put_failed st c msg)) \<and> w' = w)"
proof -
  obtain q v where q: "policy_put (de_policy env) now k (Some m) (oc_world (dw_orch w)) = (q, v)"
    by (cases "policy_put (de_policy env) now k (Some m) (oc_world (dw_orch w))")
  have r: "r = Inr (read_put q)" "w' = w\<lparr>dw_orch := (dw_orch w)\<lparr>oc_world := v\<rparr>\<rparr>"
    using assms by (auto simp: system_def send_policy_def services_def within_def answered_def andThen_def q)
  show ?thesis using policy_put_outcome [OF q] r
    by (cases q) (auto simp: read_put_def put_policy_def Let_def split: if_splits)
qed

section \<open>Confirming\<close>

lemma confirm_cases:
  assumes "post_confirm env now k w = (r, w')"
  obtains (unknown) "getTrackedMandate k (dw_tracked w) = None" "w' = w" "\<forall>v. r \<noteq> Inr (Sent v)"
    | (refused) t where "getTrackedMandate k (dw_tracked w) = Some t" "\<not> commits (de_policy env) k (tm_mandate t)"
        "w' = w" "\<forall>v. r \<noteq> Inr (Sent v)"
    | (confirmed) t v n where "getTrackedMandate k (dw_tracked w) = Some t" "commits (de_policy env) k (tm_mandate t)"
        "r = Inr (Sent v)" "dw_tracked w' = markConfirmed k (dw_tracked w)"
        "policies w' = jset k \<lparr>pr_policy = tm_mandate t, pr_policyVersion = n\<rparr> (policies w)"
proof (cases "getTrackedMandate k (dw_tracked w)")
  case None
  then have "post_confirm env now k w = (Inr (Failed 404 None (''no staged mandate '' @ k)), w)"
    by (simp add: post_confirm_def tracked_of_def andThen_def)
  then show ?thesis by (intro that(1) [OF None]) (use assms in simp_all)
next
  case (Some t)
  obtain q v where q: "system (send_policy env now k (tm_mandate t)) w = (q, v)"
    by (cases "system (send_policy env now k (tm_mandate t)) w")
  note out = send_policy_outcome [OF q]
  show ?thesis
  proof (cases "commits (de_policy env) k (tm_mandate t)")
    case True
    then obtain p n where p: "q = Inr (Put_ok p)"
        "policies v = jset k \<lparr>pr_policy = tm_mandate t, pr_policyVersion = n\<rparr> (policies w)"
      using out by auto
    have "post_confirm env now k w = (Inr (Sent p), v\<lparr>dw_tracked := markConfirmed k (dw_tracked v)\<rparr>)"
      by (simp add: post_confirm_def tracked_of_def andThen_def tracking_def Some q p(1))
    then have "r = Inr (Sent p)" "dw_tracked w' = markConfirmed k (dw_tracked w)" "policies w' = policies v"
      using assms out by auto
    then show ?thesis by (intro that(3) [OF Some True]) (use p(2) in simp_all)
  next
    case False
    then obtain st c msg where p: "q = Inr (Put_failed st c msg)" "v = w" using out by auto
    have "post_confirm env now k w = (Inr (Failed st (Some c) msg), w)"
      by (simp add: post_confirm_def tracked_of_def andThen_def Some q p)
    then show ?thesis by (intro that(2) [OF Some False]) (use assms in simp_all)
  qed
qed

text \<open>A staged mandate is confirmed exactly when the registry holds the hash of what was staged.  It is then
  on file with the policy service; in every other case the request changes nothing.\<close>

theorem confirm_exact:
  assumes "post_confirm env now k w = (r, w')"
  shows "if \<exists>t. getTrackedMandate k (dw_tracked w) = Some t \<and> commits (de_policy env) k (tm_mandate t)
     then \<exists>v t n. r = Inr (Sent v) \<and> getTrackedMandate k (dw_tracked w) = Some t \<and>
       getTrackedMandate k (dw_tracked w') = Some (t\<lparr>tm_confirmed := True\<rparr>) \<and>
       jget (policies w') k = Some \<lparr>pr_policy = tm_mandate t, pr_policyVersion = n\<rparr>
     else w' = w \<and> (\<forall>v. r \<noteq> Inr (Sent v))"
  using assms
  by (cases rule: confirm_cases) (auto simp: getTrackedMandate_def markConfirmed_def update_conv')

section \<open>The mandates of one dashboard\<close>

text \<open>
  The reachable states: the two routes that write the staged mandates, with any environment, and
  everything else that happens in the system but another client's PUT of a policy.
\<close>

inductive dash_reachable :: "('s, 'c, 'x) dash \<Rightarrow> bool" where
  start: "dw_tracked w = [] \<Longrightarrow> dash_reachable w"
| create: "dash_reachable w \<Longrightarrow> post_mandates env now newId body w = (r, w') \<Longrightarrow> dash_reachable w'"
| confirm: "dash_reachable w \<Longrightarrow> post_confirm env now k w = (r, w') \<Longrightarrow> dash_reachable w'"
| elsewhere: "dash_reachable w \<Longrightarrow> dw_tracked w' = dw_tracked w \<Longrightarrow> policies w' = policies w \<Longrightarrow>
    dash_reachable w'"

definition staged_ok :: "policy_record jsmap \<Rightarrow> string \<Rightarrow> tracked_mandate \<Rightarrow> bool" where
  "staged_ok ps k t \<longleftrightarrow> m_mandateId (tm_mandate t) = k \<and> \<not> m_revoked (tm_mandate t) \<and>
     m_policyVersion (tm_mandate t) = 1 \<and>
     (tm_confirmed t \<longrightarrow> (\<exists>n. jget ps k = Some \<lparr>pr_policy = tm_mandate t, pr_policyVersion = n\<rparr>))"

lemma post_mandates_cases:
  assumes "post_mandates env now newId body w = (r, w')"
  obtains (failed) msg where "r = Inr (Failed 400 None msg)" "w' = w"
    | (staged) hash tx where "r = Inr (Sent (newId, hash, tx))"
        "w' = w\<lparr>dw_tracked := stageMandate now
           (body\<lparr>m_mandateId := newId, m_revoked := False, m_policyVersion := 1\<rparr>) (dw_tracked w)\<rparr>"
  using assms unfolding post_mandates_def Let_def
  by (auto simp: andThen_def tracking_def split: sum.splits)

text \<open>C17. In every state of the dashboard a mandate it shows as confirmed is on file with the policy service,
  field for field as it was staged, whatever else happens as long as no other client stores
  policies; a staged mandate sits under its own id, unrevoked, in its first version.\<close>

theorem confirmed_policy_on_file:
  assumes "dash_reachable w" "getTrackedMandate k (dw_tracked w) = Some t"
  shows "staged_ok (policies w) k t"
  using assms
proof (induction arbitrary: k t)
  case (create w env now newId body r w')
  from create.hyps(2) show ?case
  proof (cases rule: post_mandates_cases)
    case staged
    then show ?thesis using create.prems create.IH [of k t]
      by (auto simp: getTrackedMandate_def stageMandate_def update_conv' staged_ok_def split: if_splits)
  qed (use create.prems create.IH in simp)
next
  case (confirm w env now c r w')
  from confirm.hyps(2) show ?case
  proof (cases rule: confirm_cases)
    case (confirmed t' v n)
    have "staged_ok (policies w) c t'" using confirm.IH confirmed(1) by simp
    then show ?thesis using confirm.prems confirm.IH [of k t] confirmed
      by (auto simp: getTrackedMandate_def markConfirmed_def update_conv' staged_ok_def split: if_splits)
  qed (use confirm.prems confirm.IH in simp_all)
qed (auto simp: getTrackedMandate_def)

section \<open>The flow of the page\<close>

text \<open>The wallet has no access to what the dashboard's server has staged.\<close>

definition wallet_apart :: "(('s, 'c, 'x) dash) eth_provider \<Rightarrow> bool" where
  "wallet_apart eth \<longleftrightarrow> (\<forall>T. let I = (\<lambda>w. dw_tracked w = T) in
     preserves I (wp_accounts eth) \<and> (\<forall>c. preserves I (wp_switch eth c)) \<and>
     (\<forall>tx. preserves I (wp_send eth tx)) \<and> (\<forall>h. preserves I (wp_receipt eth h)) \<and>
     (\<forall>w. I w \<longrightarrow> I (wp_sleep eth w)))"

lemma receipt_loop_apart:
  assumes "wallet_apart eth" "receipt_loop eth start timeoutMs h w = Some (r, w')"
  shows "dw_tracked w' = dw_tracked w"
proof -
  have step: "dw_tracked v' = dw_tracked v" if "wp_receipt eth h v = (q, v')" for q v v'
  proof -
    have "preserves (\<lambda>w. dw_tracked w = dw_tracked v) (wp_receipt eth h)"
      using assms(1) unfolding wallet_apart_def Let_def by blast
    from preservesD [OF this refl that] show ?thesis .
  qed
  have pause: "dw_tracked (wp_sleep eth v) = dw_tracked v" for v
    using assms(1) unfolding wallet_apart_def Let_def by blast
  have "eth = eth \<longrightarrow> h = h \<longrightarrow> dw_tracked (snd (r, w')) = dw_tracked w"
  proof (rule receipt_loop.raw_induct [where
        P = "\<lambda>e s t k v y. e = eth \<longrightarrow> k = h \<longrightarrow> dw_tracked (snd y) = dw_tracked v", OF _ assms(2)],
      intro impI)
    fix loop e s t k v y
    assume IH: "\<And>e s t k v y. loop e s t k v = Some y \<Longrightarrow> e = eth \<longrightarrow> k = h \<longrightarrow> dw_tracked (snd y) = dw_tracked v"
      and body: "(case wp_receipt e k v of (Inl err, w') \<Rightarrow> Some (Inl err, w')
        | (Inr found, w') \<Rightarrow> if found then Some (Inr (), w')
            else if t < wp_now e w' - s
            then Some (Inl (JsError (''timed out waiting for '' @ k @ '' to be mined'')), w')
            else loop e s t k (wp_sleep e w')) = Some y"
      and eqs: "e = eth" "k = h"
    obtain q v' where q: "wp_receipt eth h v = (q, v')" by (cases "wp_receipt eth h v")
    note same = step [OF q]
    from body have "snd y = v' \<or> loop eth s t h (wp_sleep eth v') = Some y"
      unfolding eqs q by (auto split: sum.splits if_splits)
    then show "dw_tracked (snd y) = dw_tracked v"
    proof
      assume "loop eth s t h (wp_sleep eth v') = Some y"
      from IH [OF this] show ?thesis by (simp add: pause same)
    qed (simp add: same)
  qed
  then show ?thesis by simp
qed

lemma lift_Inr: "lift (Inr x) = ret x"
  by (simp add: fun_eq_iff)

lemma sendTransaction_apart:
  assumes "\<And>eth. injected = Some eth \<Longrightarrow> wallet_apart eth" "sendTransaction injected tx w = (r, w')"
  shows "dw_tracked w' = dw_tracked w"
proof (cases injected)
  case None
  then show ?thesis using assms(2) by (simp add: sendTransaction_def getProvider_def andThen_def)
next
  case (Some eth)
  have apart: "preserves (\<lambda>v. dw_tracked v = dw_tracked w) (wp_accounts eth)"
      "preserves (\<lambda>v. dw_tracked v = dw_tracked w) (wp_switch eth c)"
      "preserves (\<lambda>v. dw_tracked v = dw_tracked w) (wp_send eth t)" for c t
    using assms(1) [OF Some] unfolding wallet_apart_def Let_def by blast+
  have "preserves (\<lambda>v. dw_tracked v = dw_tracked w) (sendTransaction injected tx)"
    unfolding sendTransaction_def Some getProvider_def option.case lift_Inr andThen_ret
    by (intro preserved apart)
  from preservesD [OF this refl assms(2)] show ?thesis .
qed

lemma hang_after_Inr:
  "hang_after m f w = Some (Inr y, w'') \<longleftrightarrow> (\<exists>x w1. m w = (Inr x, w1) \<and> f x w1 = Some (Inr y, w''))"
  by (auto simp: hang_after_def split: prod.splits sum.splits)

lemma then_hang_Inr:
  "then_hang m f w = Some (Inr y, w'') \<longleftrightarrow> (\<exists>x w1. m w = Some (Inr x, w1) \<and> f x w1 = (Inr y, w''))"
proof (cases "m w")
  case (Some p)
  then show ?thesis by (cases p; cases "fst p") (auto simp: then_hang_def)
qed (simp add: then_hang_def)

lemma sent_or_throw_Inr: "sent_or_throw r = Inr b \<longleftrightarrow> r = Sent b"
  by (cases r) (auto simp: sent_or_throw_def)

text \<open>C9. When the page reports a new mandate as created, the mandate of its form is in force, field for field:
  the registry holds its hash, the policy service has it on file, and the dashboard shows it as
  confirmed.\<close>

theorem created_mandate_in_force:
  assumes "create_mandate env injected clk newId form w = Some (Inr k, w')"
    and "\<And>eth. injected = Some eth \<Longrightarrow> wallet_apart eth"
  shows "\<exists>body m n t. form_body form = Inr body \<and> k = newId \<and>
     m = body\<lparr>m_mandateId := newId, m_revoked := False, m_policyVersion := 1\<rparr> \<and>
     commits (de_policy env) newId m \<and>
     jget (policies w') newId = Some \<lparr>pr_policy = m, pr_policyVersion = n\<rparr> \<and>
     getTrackedMandate newId (dw_tracked w') = Some t \<and> tm_mandate t = m \<and> tm_confirmed t"
proof -
  obtain body w1 hash tx txHash w2 w3 v where body: "form_body form = Inr body"
    and post: "post_mandates env (fst clk) newId body w = (Inr (Sent (k, hash, tx)), w1)"
    and sent: "sendTransaction injected tx w1 = (Inr txHash, w2)"
    and mined: "waitForReceipt injected 90000 txHash w2 = Some (Inr (), w3)"
    and confirm: "post_confirm env (snd clk) k w3 = (Inr (Sent v), w')"
    using assms(1) unfolding create_mandate_def hang_after_Inr then_hang_Inr io_Inr sent_or_throw_Inr
    by (auto simp: hang_after_Inr then_hang_Inr io_Inr sent_or_throw_Inr simp del: andThen_lift)
  let ?m = "body\<lparr>m_mandateId := newId, m_revoked := False, m_policyVersion := 1\<rparr>"
  have k: "k = newId" and w1: "dw_tracked w1 = stageMandate (fst clk) ?m (dw_tracked w)"
    by (cases rule: post_mandates_cases [OF post]; simp)+
  obtain eth where eth: "injected = Some eth"
    using mined by (cases injected) (simp_all add: waitForReceipt_def getProvider_def)
  have "dw_tracked w3 = dw_tracked w2"
    using mined receipt_loop_apart [OF assms(2) [OF eth]]
    by (simp add: waitForReceipt_def getProvider_def eth)
  then have "dw_tracked w3 = stageMandate (fst clk) ?m (dw_tracked w)"
    using sendTransaction_apart [OF assms(2) sent] w1 by simp
  then have staged: "getTrackedMandate newId (dw_tracked w3) =
      Some \<lparr>tm_mandate = ?m, tm_confirmed = False, tm_stagedAt = toISOString (fst clk)\<rparr>"
    by (simp add: getTrackedMandate_def stageMandate_def update_conv')
  from confirm show ?thesis unfolding k
    by (cases rule: confirm_cases)
      (use staged body k in \<open>auto simp: getTrackedMandate_def markConfirmed_def update_conv'\<close>)
qed

end
