(* ===== verification/Dashboard_Witnesses.thy ===== *)
theory Dashboard_Witnesses
  imports Dashboard_Properties Mandate_Properties Orchestrator_Witnesses
begin

text \<open>
  The theorems about the dashboard applied to one ledger, one mandate and two wallets: one that sends
  and sees its transaction mined, one whose transaction never is.
\<close>

section \<open>The ledger page\<close>

definition posted_intent :: ledger_cmd where
  "posted_intent = PostIntent (Some ''r'') (Some ''m'') (Some ''a'') (Some ''i'') (Some ''t'')"

lemma ledger_page_complete_witness:
  "map v_requestId (lp_intents (ledger_page_run
     (map Streamed [Snapshot []] @ [Fetched (Inr (map intentViewOf (jvalues (l_intents
        (ledger_run (\<lambda>s. s) [(0, posted_intent)] empty_ledger)))))] @
      map Streamed (tl (event_stream (\<lambda>a b. 0) empty_ledger
        (ledger_run (\<lambda>s. s) ([(0, posted_intent)] @ [(1, PostNonce ''r'' (Some ''n''))]) empty_ledger))))
     new_ledger_page)) = [''r'']"
proof -
  let ?read = "[(0, posted_intent)]" and ?later = "[(1, PostNonce ''r'' (Some ''n''))]"
  let ?S = "ledger_run (\<lambda>s. s) ?read empty_ledger"
  let ?l = "ledger_run (\<lambda>s. s) (?read @ ?later) empty_ledger"
  let ?views = "map intentViewOf (jvalues (l_intents ?S))"
  let ?coming = "tl (event_stream (\<lambda>a b. 0) empty_ledger ?l)"
  let ?p = "ledger_page_run (map Streamed [Snapshot []] @ [Fetched (Inr ?views)] @ map Streamed ?coming) new_ledger_page"
  have stream: "event_stream (\<lambda>a b. 0) empty_ledger ?l = [Snapshot []] @ ?coming"
    by (simp add: event_stream_def empty_ledger_def jvalues_def)
  have read: "get_intents (\<lambda>a b. 0) ?S = Reply 200 ?views" by code_simp
  have "shows_ledger empty_ledger ?l ?p"
    by (rule ledger_page_complete [OF ledger_reachable.start refl stream])
      (use read in \<open>simp_all add: event_stream_def\<close>)
  moreover have "map i_requestId (jvalues (l_intents ?l)) = [''r'']" by code_simp
  ultimately have "image_mset v_requestId (mset (lp_intents ?p)) = {#''r''#}"
    by (auto simp: shows_ledger_def ledger_views_def intentViewOf_def map_eq_Cons_conv)
  then show ?thesis by (metis mset_map mset_single_iff)
qed

section \<open>Waiting\<close>

text \<open>The world of this wallet is its clock and the number of polls.\<close>

definition stuck_wallet :: "(int \<times> nat) eth_provider" where
  "stuck_wallet = \<lparr>wp_accounts = (\<lambda>w. (Inr [''0xA0''], w)), wp_personal_sign = (\<lambda>m a w. (Inr [], w)),
     wp_switch = (\<lambda>c w. (Inr (), w)), wp_send = (\<lambda>t w. (Inr [], w)),
     wp_receipt = (\<lambda>h w. (Inr False, fst w, snd w + 1)), wp_now = fst,
     wp_sleep = (\<lambda>w. (fst w + 2000, snd w))\<rparr>"

lemma receipt_wait_ends_witness:
  "\<exists>r w'. waitForReceipt (Some stuck_wallet) 90000 ''tx'' (0, 0) = Some (r, w') \<and> snd w' \<le> 47"
proof -
  have "\<exists>r w'. waitForReceipt (Some stuck_wallet) 90000 ''tx'' (0, 0) = Some (r, w') \<and>
      snd w' \<le> snd (0::int, 0::nat) + nat (90000 div 2000) + 2"
    by (rule receipt_wait_ends) (auto simp: stuck_wallet_def)
  then show ?thesis by simp
qed

section \<open>A mandate\<close>

definition desk_env :: "(nat, nat, nat) dash_env" where
  "desk_env = \<lparr>de_orch = demo_env, de_orchToken = Some ''tok'', de_internalToken = Some ''tok'',
     de_rid = ''id'', de_clk = noon, de_fresh = ''r'', de_ready = None, de_later = (\<lambda>a b. True),
     de_localeCompare = (\<lambda>a b. 0), de_encode_create = (\<lambda>i h e. Inr h), de_fetch = (\<lambda>u x. (Inr [], x))\<rparr>"

definition desk :: "(nat, nat, nat) dash" where
  "desk = \<lparr>dw_orch = demo_start, dw_tracked = []\<rparr>"

definition desk_wallet :: "((nat, nat, nat) dash) eth_provider" where
  "desk_wallet = \<lparr>wp_accounts = (\<lambda>w. (Inr [''0xA0''], w)), wp_personal_sign = (\<lambda>m a w. (Inr ''0xab'', w)),
     wp_switch = (\<lambda>c w. (Inr (), w)), wp_send = (\<lambda>t w. (Inr ''0xtx'', w)),
     wp_receipt = (\<lambda>h w. (Inr True, w)), wp_now = (\<lambda>w. 0), wp_sleep = (\<lambda>w. w)\<rparr>"

definition desk_form :: mandate_form where
  "desk_form = (defaultMandateForm 0 ''agent'' ''red shoes'')\<lparr>mf_owner := ''0xA0''\<rparr>"

definition desk_created :: "(nat, nat, nat) dash" where
  "desk_created = snd (post_mandates desk_env 0 ''0xn'' (projr (form_body desk_form)) desk)"

lemma desk_commits: "commits (de_policy desk_env) k m"
  by (simp add: commits_def desk_env_def demo_env_def sample_env_def sample_registry_def hashPolicy_def toy_hash_def)

lemma desk_staged:
  "\<exists>t. getTrackedMandate ''0xn'' (dw_tracked desk_created) = Some t"
proof -
  have "getTrackedMandate ''0xn'' (dw_tracked desk_created) \<noteq> None" by code_simp
  then show ?thesis by simp
qed

lemma confirm_exact_witness:
  "\<exists>v t. fst (post_confirm desk_env 1 ''0xn'' desk_created) = Inr (Sent v) \<and>
     getTrackedMandate ''0xn'' (dw_tracked (snd (post_confirm desk_env 1 ''0xn'' desk_created))) =
       Some (t\<lparr>tm_confirmed := True\<rparr>)"
  using confirm_exact [OF prod.collapse [symmetric, of "post_confirm desk_env 1 ''0xn'' desk_created"]] desk_staged
  by (auto simp: desk_commits)

lemma desk_reachable: "dash_reachable (snd (post_confirm desk_env 1 ''0xn'' desk_created))"
proof (rule dash_reachable.confirm [OF _ prod.collapse [symmetric]])
  show "dash_reachable desk_created" unfolding desk_created_def
    by (rule dash_reachable.create [OF dash_reachable.start prod.collapse [symmetric]]) (simp add: desk_def)
qed

lemma confirmed_policy_on_file_witness:
  "\<exists>t. getTrackedMandate ''0xn'' (dw_tracked (snd (post_confirm desk_env 1 ''0xn'' desk_created))) = Some t \<and>
     staged_ok (policies (snd (post_confirm desk_env 1 ''0xn'' desk_created))) ''0xn'' t"
proof -
  have "getTrackedMandate ''0xn'' (dw_tracked (snd (post_confirm desk_env 1 ''0xn'' desk_created))) \<noteq> None"
    by code_simp
  then show ?thesis using confirmed_policy_on_file [OF desk_reachable] by auto
qed

lemma desk_mined: "waitForReceipt (Some desk_wallet) t h w = Some (Inr (), w)"
  by (simp add: waitForReceipt_def getProvider_def receipt_loop.simps desk_wallet_def)

lemma created_mandate_in_force_witness:
  "\<exists>w' m n. create_mandate desk_env (Some desk_wallet) (0, 1) ''0xn'' desk_form desk = Some (Inr ''0xn'', w') \<and>
     m_maxPerCard m = ''30000000'' \<and> jget (policies w') ''0xn'' = Some \<lparr>pr_policy = m, pr_policyVersion = n\<rparr>"
proof -
  have "map_option fst (create_mandate desk_env (Some desk_wallet) (0, 1) ''0xn'' desk_form desk) =
      Some (Inr ''0xn'')"
    unfolding create_mandate_def then_hang_def desk_mined by code_simp
  then obtain w' where w': "create_mandate desk_env (Some desk_wallet) (0, 1) ''0xn'' desk_form desk =
      Some (Inr ''0xn'', w')" by auto
  have "wallet_apart desk_wallet" by (simp add: wallet_apart_def desk_wallet_def preserves_def)
  with created_mandate_in_force [OF w'] obtain body m n where b: "form_body desk_form = Inr body"
      "m = body\<lparr>m_mandateId := ''0xn'', m_revoked := False, m_policyVersion := 1\<rparr>"
      "jget (policies w') ''0xn'' = Some \<lparr>pr_policy = m, pr_policyVersion = n\<rparr>" by auto
  have "map_sum id m_maxPerCard (form_body desk_form) = Inr ''30000000''" by code_simp
  with b w' show ?thesis by auto
qed

section \<open>The second read\<close>

lemma honest_price_flagged_witness:
  "''price'' \<in> set (mismatches [(''price'', ''7'')] (item_entries (dr_resolvedItem
     (projr (discoverProduct (\<lambda>s b. Some (demo_url s)) ''x'' (demo_page ''x''))))))"
proof -
  let ?r = "discoverProduct (\<lambda>s b. Some (demo_url s)) ''x'' (demo_page ''x'')"
  have "map_sum id (\<lambda>r. exactAmountSgd (r_price (dr_resolvedItem r))) ?r = Inr (Inr 7000000)" by code_simp
  then obtain res where r: "?r = Inr res" "exactAmountSgd (r_price (dr_resolvedItem res)) = Inr 7000000"
    by (cases ?r) auto
  have "pg_query (demo_page ''x'') ''[data-product]'' (Some ''data-price'') = Inr (Some ''7'')"
    by (simp add: demo_page_def)
  from honest_price_flagged [OF r this, of "\<lparr>pa_title = None, pa_sku = None, pa_price = Some ''7''\<rparr>"] r(1)
  show ?thesis by (simp add: attribute_entries_def)
qed

end
