(* ===== verification/Dashboard_Views.thy ===== *)
theory Dashboard_Views
  imports Dashboard_Pages Agent_Api
begin

text \<open>
  What the pages of the dashboard show.  A page is the list of its visible elements in the order of
  the JSX: texts, alerts, labelled values, links, and controls with their disabled flag; layout,
  styling, icons and the wording of placeholders are left out, arrows, dots and long dashes are
  written in ASCII.  A value whose formatting throws makes the rendering of its page fail.
\<close>

datatype el =
    Text string
  | Alert string string
  | Field string string
  | Link string string
  | Button string bool
  | Input string string bool
  | Select string string "(string \<times> string) list"

text \<open>\<open>condition && element\<close>.\<close>

definition when_shown :: "bool \<Rightarrow> el list \<Rightarrow> el list" where
  "when_shown b xs = (if b then xs else [])"

definition alert :: "string \<Rightarrow> string option \<Rightarrow> el list" where
  "alert title e = (if falsy e then [] else [Alert title (the e)])"

definition PageHeading :: "string \<Rightarrow> string option \<Rightarrow> string option \<Rightarrow> el list" where
  "PageHeading title description backHref =
     (if falsy backHref then [] else [Link (the backHref) ''Back'']) @ [Text title] @
     (if falsy description then [] else [Text (the description)])"

section \<open>components/app-shell.tsx\<close>

definition navigation :: "(string \<times> string) list" where
  "navigation = [(''/'', ''Run''), (''/mandates'', ''Mandates''), (''/runs'', ''Runs''),
     (''/ledger'', ''Ledger''), (''/injection-demo'', ''Injection boundary'')]"

definition isCurrent :: "string \<Rightarrow> string \<Rightarrow> bool" where
  "isCurrent pathname href =
     (if href = ''/'' then pathname = href else take (length href) pathname = href)"

section \<open>The flow card of components/run-console.tsx\<close>

definition FIXTURES :: "string list" where
  "FIXTURES = [''clean'', ''poisoned-recipient'', ''poisoned-amount'', ''wrong-item'']"

record flow_card =
  fc_flow :: flow
  fc_showCreateForm :: bool
  fc_form :: mandate_form
  fc_mandateBusy :: "string option"
  fc_sourceKind :: string
  fc_fixture :: string
  fc_profileId :: string
  fc_runBusy :: bool

definition new_flow_card :: "int \<Rightarrow> string option \<Rightarrow> string \<Rightarrow> flow_card" where
  "new_flow_card now agentId instruction =
     \<lparr>fc_flow = new_flow, fc_showCreateForm = False,
      fc_form = defaultMandateForm now (coalesce agentId []) instruction, fc_mandateBusy = None,
      fc_sourceKind = ''fixture'', fc_fixture = ''clean'', fc_profileId = ''local-fixture'',
      fc_runBusy = False\<rparr>"

definition connectOwner ::
    "('s, 'c, 'x) wallet \<Rightarrow> flow_card \<Rightarrow> ('s, 'c, 'x) dash \<Rightarrow> flow_card \<times> ('s, 'c, 'x) dash" where
  "connectOwner injected c w =
     (case connectWallet injected w of
        (Inl e, w') \<Rightarrow> (c\<lparr>fc_flow := (fc_flow c)\<lparr>fl_error := Some (error_text e)\<rparr>\<rparr>, w')
      | (Inr account, w') \<Rightarrow> (c\<lparr>fc_flow := (fc_flow c)\<lparr>fl_error := None\<rparr>,
          fc_form := (fc_form c)\<lparr>mf_owner := account\<rparr>\<rparr>, w'))"

definition card_source :: "flow_card \<Rightarrow> source_choice" where
  "card_source c = (if fc_sourceKind c = ''fixture'' then Pick_fixture (fc_fixture c)
     else Pick_merchant (fc_profileId c))"

fun status_word :: "event_status \<Rightarrow> string" where
  "status_word Ev_ok = ''ok''"
| "status_word Ev_refused = ''refused''"
| "status_word Ev_escalated = ''escalated''"

fun stage_word :: "run_stage \<Rightarrow> string" where
  "stage_word Stage_INTENT_CREATED = ''INTENT_CREATED''"
| "stage_word Stage_DISCOVERY_DONE = ''DISCOVERY_DONE''"
| "stage_word Stage_CHECKOUT_ACQUIRED = ''CHECKOUT_ACQUIRED''"
| "stage_word Stage_CHALLENGE_RECEIVED = ''CHALLENGE_RECEIVED''"
| "stage_word Stage_POLICY_DECISION = ''POLICY_DECISION''"
| "stage_word Stage_CARD_ISSUED = ''CARD_ISSUED''"
| "stage_word Stage_CHECKOUT_ASSERTED = ''CHECKOUT_ASSERTED''"
| "stage_word Stage_SPEND_RECORDED = ''SPEND_RECORDED''"
| "stage_word Stage_SETTLEMENT_FINALIZED = ''SETTLEMENT_FINALIZED''"

definition terminalStatus :: "run_event list \<Rightarrow> string option" where
  "terminalStatus events =
     find (\<lambda>t. \<exists>e \<in> set events. map_option status_word (rev_status e) = Some t)
       [''DONE'', ''REFUSED'', ''ESCALATED'', ''FAILED'', ''AWAITING_CHECKOUT'']"

definition card_status :: "flow \<Rightarrow> string" where
  "card_status f =
     (if fl_step f = Step_run \<and> \<not> falsy (fl_requestId f)
      then coalesce (terminalStatus (fl_events f)) ''running...''
      else if fl_step f = Step_mandate then ''step 1 of 2'' else ''step 2 of 2'')"

definition existing_mandates_view :: "flow_card \<Rightarrow> el list" where
  "existing_mandates_view c =
     (let f = fc_flow c; busy = fc_mandateBusy c \<noteq> None
      in if fl_mandateIds f = [] then [Text ''No mandates yet -- create one for this intent.'']
         else [Select ''Existing mandate'' (fl_selected f)
             (([], ''-- select --'') # map (\<lambda>i. (i, shortHex i 6)) (fl_mandateIds f)),
           Button ''Use this mandate'' (fl_selected f = [] \<or> busy),
           Button ''Create a new mandate'' busy])"

definition create_form_view :: "flow_card \<Rightarrow> el list" where
  "create_form_view c =
     (let form = fc_form c; busy = fc_mandateBusy c
      in when_shown (fc_showCreateForm c \<or> fl_mandateIds (fc_flow c) = [])
        [Input ''owner (your wallet)'' (mf_owner form) False,
         Button ''Use wallet'' (busy \<noteq> None),
         Input ''intentConstraint'' (mf_intentConstraint form) False,
         Text ''Prefilled from your request; the policy hashes it into the mandate.'',
         Input ''maxPerCard (SGD)'' (mf_maxPerCardSgd form) False,
         Input ''maxPerWindow (SGD)'' (mf_maxPerWindowSgd form) False,
         Input ''maxCardsPerWindow'' (dec_int (mf_maxCardsPerWindow form)) False,
         Button (coalesce busy ''Build + sign createMandate'') (busy \<noteq> None \<or> mf_owner form = [])])"

definition source_view :: "flow_card \<Rightarrow> el list" where
  "source_view c =
     [Select ''source'' (fc_sourceKind c)
        [(''fixture'', ''fixture''), (''merchant'', ''merchant profile'')],
      if fc_sourceKind c = ''fixture''
      then Select ''fixture'' (fc_fixture c) (map (\<lambda>n. (n, n)) FIXTURES)
      else Input ''profileId'' (fc_profileId c) False]"

definition event_item :: "run_event \<Rightarrow> el list" where
  "event_item e = [Text (stage_word (rev_stage e))] @
     (case rev_status e of None \<Rightarrow> [] | Some s \<Rightarrow> [Text (status_word s)]) @
     (if falsy (rev_check e) then [] else [Text (''('' @ the (rev_check e) @ '')'')])"

definition outcome_link :: "flow \<Rightarrow> el list" where
  "outcome_link f =
     (let t = terminalStatus (fl_events f)
      in if falsy t \<or> falsy (fl_requestId f) then []
         else [Link (''/runs/'' @ the (fl_requestId f))
           (if t = Some ''DONE'' then ''Open run detail'' else ''Review outcome'')])"

definition run_step_view :: "flow_card \<Rightarrow> el list" where
  "run_step_view c =
     (let f = fc_flow c
      in source_view c @ [Text (''mandate '' @ shortHex (fl_selected f) 6)] @
         [Button (if fc_runBusy c then ''Starting...'' else if fl_events f \<noteq> [] then ''Run again''
            else ''Start run'') (fc_runBusy c \<or> fl_selected f = [])] @
         concat (map event_item (fl_events f)) @ outcome_link f)"

definition flow_card_view :: "flow_card \<Rightarrow> el list" where
  "flow_card_view c =
     [Text ''Mandate -> run'', Text (card_status (fc_flow c)),
      Text (''One workflow: the mandate authorizes your intent, then the run executes it '' @
        ''through every policy check -- nothing signs without the mandate.'')] @
     alert ''Workflow unsuccessful'' (fl_error (fc_flow c)) @
     (if fl_step (fc_flow c) = Step_mandate then existing_mandates_view c @ create_form_view c
      else run_step_view c)"

section \<open>The chat of components/run-console.tsx\<close>

text \<open>
  One refresh of the readiness line: \<open>None\<close> when the request or its body failed, else whether the
  status was a success and the body.
\<close>

definition readiness_refresh :: "(bool \<times> json) option \<Rightarrow> bool" where
  "readiness_refresh answer = (case answer of None \<Rightarrow> False
     | Some (ok, body) \<Rightarrow> ok \<and> jprop body ''ready'' = Some (JBool True))"

definition readiness_line :: "bool option \<Rightarrow> string" where
  "readiness_line ready = (case ready of
      Some True \<Rightarrow> ''Ledger, policy, and chain gateway are ready.''
    | Some False \<Rightarrow> ''Waiting for ledger, policy, and chain gateway.''
    | None \<Rightarrow> ''Checking payment dependencies...'')"

text \<open>\<open>cards\<close> gives the state of the flow card below the answer with an id.\<close>

fun block_view :: "(string \<Rightarrow> flow_card) \<Rightarrow> chat_block \<Rightarrow> el list" where
  "block_view cards (User_block content) = [Text content]"
| "block_view cards (Assistant_block runId content) = Text content # flow_card_view (cards runId)"

definition CHAT_GREETING :: string where
  "CHAT_GREETING = ''Tell me what to buy, and under what constraint -- e.g. '' @
     ''\"Buy the 500ml stainless water bottle from localhost under S$20\". I'll draft the intent, '' @
     ''you create a live mandate, and it runs through every policy check before anything signs.''"

definition run_console_view :: "bool option \<Rightarrow> (string \<Rightarrow> flow_card) \<Rightarrow> chat \<Rightarrow> el list" where
  "run_console_view ready cards c =
     (let processing = ch_phase c \<noteq> None
      in [Text ''Run with StraitsX'', Text (readiness_line ready)] @
         alert ''Request unsuccessful'' (ch_error c) @ [Text CHAT_GREETING] @
         concat (map (block_view cards) (ch_blocks c)) @
         (if falsy (ch_phase c) then [] else [Text (the (ch_phase c))]) @
         [Input ''Run request'' (ch_instruction c) processing,
          Text (''The message goes to the agent first -- then the mandatory-run workflow continues '' @
            ''right here in the thread.''),
          Button (if processing then ''Processing'' else ''Send'')
            (js_trim (ch_instruction c) = [] \<or> processing)])"

section \<open>app/runs/page.tsx\<close>

fun run_state_word :: "run_state \<Rightarrow> string" where
  "run_state_word Run_RUNNING = ''RUNNING''"
| "run_state_word Run_ESCALATED = ''ESCALATED''"
| "run_state_word Run_AWAITING_CHECKOUT = ''AWAITING_CHECKOUT''"
| "run_state_word Run_DONE = ''DONE''"
| "run_state_word Run_REFUSED = ''REFUSED''"
| "run_state_word Run_FAILED = ''FAILED''"

text \<open>\<open>run.meta.fixture ?? run.meta.source?.profileId ?? run.meta.source?.name\<close>.\<close>

definition source_label :: "run_meta \<Rightarrow> string option" where
  "source_label m = (case me_fixture m of Some n \<Rightarrow> Some n
     | None \<Rightarrow> (case me_source m of Source_merchant p \<Rightarrow> Some p | Source_fixture n \<Rightarrow> Some n
         | Source_shopify _ \<Rightarrow> None))"

definition outcome_check :: "run_outcome option \<Rightarrow> string option" where
  "outcome_check out = (case out of Some (Out_refused check i d h) \<Rightarrow> Some check | _ \<Rightarrow> None)"

definition run_row :: "run_summary \<Rightarrow> el list" where
  "run_row run =
     [Link (''/runs/'' @ rs_requestId run) (take 8 (rs_requestId run)),
      Text (run_state_word (rs_state run)), Text (me_instruction (rs_meta run)),
      Text (''source: '' @ coalesce (source_label (rs_meta run)) ''unknown'' @
        (let check = outcome_check (rs_outcome run) in if falsy check then [] else '' | '' @ the check))]"

definition runs_page_view :: "run_summary list \<Rightarrow> el list" where
  "runs_page_view runs =
     PageHeading ''Runs'' (Some ''Every run and its outcome. Refused runs never sign anything.'') None @
     when_shown (runs = []) [Text ''No runs yet -- start one from the home page.''] @
     concat (map run_row runs)"

section \<open>app/runs/[requestId]/page.tsx\<close>

text \<open>\<open>other\<close> is \<open>None\<close> while there is nothing to compare with.\<close>

definition comparison_view :: "string jsmap \<Rightarrow> string jsmap option \<Rightarrow> el list" where
  "comparison_view data other =
     map (\<lambda>(k, v). Field (k @ (if k \<in> set (mismatches data (coalesce other [])) then '' -- mismatch'' else [])) v)
       data"

definition escalation_view ::
    "resolved_item option \<Rightarrow> product_attributes option \<Rightarrow> string option \<Rightarrow> bool \<Rightarrow> int \<Rightarrow> string \<Rightarrow> int \<Rightarrow>
     el list" where
  "escalation_view item independent err busy now reason expiresAt =
     (let own = map_option item_entries item; second = map_option attribute_entries independent;
          closed = busy \<or> isExpired now expiresAt
      in [Text ''Escalated -- human decision required'', Text (''reason: '' @ reason),
          Text (countdown now expiresAt), Text ''Agent's self-report (not ground truth)''] @
         comparison_view (coalesce own []) second @ [Text ''Independently re-fetched (the real control)''] @
         (case second of None \<Rightarrow> [Text ''loading...''] | Some d \<Rightarrow> comparison_view d own) @
         alert ''Escalation failed'' err @
         [Button ''Approve once'' closed, Button ''Approve merchant for this window'' closed,
          Button ''Deny'' closed])"

definition outcome_view ::
    "string \<Rightarrow> run_summary \<Rightarrow> product_attributes option \<Rightarrow> string option \<Rightarrow> bool \<Rightarrow> int \<Rightarrow> el list" where
  "outcome_view requestId run independent err busy now = (case rs_outcome run of
      Some (Out_refused check checkIndex detail explanation) \<Rightarrow>
        [Text (''Refused -- check '' @ (case checkIndex of None \<Rightarrow> ''?'' | Some i \<Rightarrow> dec_int i)),
         Text check, Text explanation, Text detail, Text ''Nothing was signed. No money moved.'']
    | Some (Out_escalated reason url expiresAt ttl) \<Rightarrow>
        escalation_view (rs_resolvedItem run) independent err busy now reason expiresAt
    | Some (Out_signed tx cardId) \<Rightarrow>
        [Text ''Signed and settled'', Text ''The settlement was signed by the mandate signer.'',
         Link (''/receipt/'' @ requestId) ''View receipt'']
    | Some (Out_failed message fresh) \<Rightarrow> [Text ''Failed'', Text message]
    | _ \<Rightarrow> [])"

definition checkout_view :: "run_summary \<Rightarrow> el list" where
  "checkout_view run =
     when_shown ((case rs_outcome run of Some (Out_checkout_pending tx cardId) \<Rightarrow> True | _ \<Rightarrow> False) \<or>
         rs_state run = Run_AWAITING_CHECKOUT)
       [Text ''Settlement verified -- checkout in progress'',
        Text ''The one-time card view exists only inside the isolated browser context.'']"

definition event_line :: "run_event \<Rightarrow> string" where
  "event_line e = stage_word (rev_stage e) @
     (case rev_status e of None \<Rightarrow> [] | Some s \<Rightarrow> '' -- '' @ status_word s) @
     (if falsy (rev_check e) then [] else '' ('' @ the (rev_check e) @ '')'')"

definition run_detail_view ::
    "string \<Rightarrow> (run_summary \<times> run_event list) option \<Rightarrow> product_attributes option \<Rightarrow> string option \<Rightarrow> bool \<Rightarrow>
     int \<Rightarrow> el list" where
  "run_detail_view requestId loaded independent err busy now = (case loaded of
      None \<Rightarrow> [Text ''Loading...'']
    | Some (run, events) \<Rightarrow>
        PageHeading (''Run '' @ take 8 requestId)
          (Some (me_instruction (rs_meta run) @ '' -- source: '' @
             coalesce (source_label (rs_meta run)) ''undefined'')) (Some ''/runs'') @
        outcome_view requestId run independent err busy now @ checkout_view run @
        [Text ''Event timeline''] @ map (\<lambda>e. Text (event_line e)) events)"

section \<open>app/receipt/[requestId]/page.tsx\<close>

definition explorerBase :: "receipt \<Rightarrow> string option" where
  "explorerBase r = (case rc_challenge r of None \<Rightarrow> None
     | Some ch \<Rightarrow> map_option k_explorerTxBase (CHAINS (cv_chainId ch)))"

definition settlement_view :: "receipt \<Rightarrow> el list" where
  "settlement_view r =
     (if \<not> falsy (rc_settlementTx r) \<and> \<not> falsy (explorerBase r)
      then [Text ''settlement -- '', Link (the (explorerBase r) @ the (rc_settlementTx r))
        (shortHex (the (rc_settlementTx r)) 6 @ '' (view on explorer)'')]
      else [Text ''settlement -- --''])"

fun decision_word :: "decision \<Rightarrow> string" where
  "decision_word Signed = ''signed''"
| "decision_word Refused = ''refused''"
| "decision_word Escalated = ''escalated''"

definition spend_view :: "receipt \<Rightarrow> string" where
  "spend_view r = (case rc_spendLeg r of
      (status, Some (merchantDomain, orderTotal), proof) \<Rightarrow>
        ''observed at '' @ merchantDomain @ '', total '' @ orderTotal @ '' -- status: observed, proof: none. '' @
        ''Not yet cryptographically bound to a merchant-signed attestation (docs/execution_plan.md section 12).''
    | (status, None, proof) \<Rightarrow> ''absent -- proof: none'')"

definition receipt_view :: "string \<Rightarrow> receipt option \<Rightarrow> js_error + el list" where
  "receipt_view requestId loaded = (case loaded of
      None \<Rightarrow> Inr (PageHeading ''Receipt'' None (Some ''/runs'') @ [Text (''No receipt for '' @ requestId @ ''.'')])
    | Some r \<Rightarrow>
        bindE (case rc_challenge r of None \<Rightarrow> Inr ''--''
          | Some ch \<Rightarrow> bindE (formatXsgd (cv_amount ch)) (\<lambda>a. Inr (a @ '' XSGD''))) (\<lambda>amount.
        Inr (PageHeading ''Receipt'' (Some (rc_intent r)) (Some ''/runs'') @
          [Text ''Unbroken chain'', Text ''Every leg anchored to the request your wallet authorized.'',
           Text (''intent -- '' @ shortHex (rc_requestId r) 6),
           Text (''challenge -- payTo '' @
             (case rc_challenge r of None \<Rightarrow> ''--'' | Some ch \<Rightarrow> shortHex (cv_payTo ch) 6)),
           Text (''authorization -- nonce '' @
             (case rc_authorization r of None \<Rightarrow> ''--'' | Some (va, vb, nonce) \<Rightarrow> shortHex nonce 6))] @
          settlement_view r @
          [Text (''card -- '' @ coalesce (rc_cardOpaqueId r) ''--''), Field ''Amount'' amount,
           Field ''Decision'' (case rc_decision r of None \<Rightarrow> ''--'' | Some d \<Rightarrow> decision_word d),
           Text (coalesce (rc_decidedAt r) ''--''), Field ''Spend leg'' (spend_view r)])))"

section \<open>app/mandates/page.tsx\<close>

record mandates_page =
  mp_rows :: "mandate_row list"
  mp_windows :: "window_reply jsmap"
  mp_form :: mandate_form
  mp_busy :: "string option"
  mp_error :: "string option"

definition new_mandates_page :: "int \<Rightarrow> mandates_page" where
  "new_mandates_page now = \<lparr>mp_rows = [], mp_windows = [],
     mp_form = defaultMandateForm now ''shopper-1'' ''500ml stainless steel water bottle, under S$20'',
     mp_busy = None, mp_error = None\<rparr>"

text \<open>
  The windows of the confirmed rows; a reply that is no success leaves what is shown, also the 500
  of a route that throws.
\<close>

fun load_windows ::
    "('s, 'c, 'x) dash_env \<Rightarrow> int \<Rightarrow> mandate_row list \<Rightarrow> window_reply jsmap \<Rightarrow>
     (('s, 'c, 'x) dash, window_reply jsmap) io" where
  "load_windows env now [] windows = ret windows"
| "load_windows env now (row # rows) windows =
     (if mw_confirmed row
      then andThen (catching (get_window_route env now (m_mandateId (mw_mandate row)))
          (\<lambda>err. ret (Failed 500 None (error_text err)))) (\<lambda>res.
        load_windows env now rows (case res of
            Sent usage \<Rightarrow> jset (m_mandateId (mw_mandate row)) usage windows
          | Failed st c msg \<Rightarrow> windows))
      else load_windows env now rows windows)"

definition mandates_refresh ::
    "('s, 'c, 'x) dash_env \<Rightarrow> int \<Rightarrow> mandates_page \<Rightarrow> (('s, 'c, 'x) dash, mandates_page) io" where
  "mandates_refresh env now p =
     andThen (get_mandates env now) (\<lambda>rows.
     andThen (load_windows env now rows (mp_windows p)) (\<lambda>windows.
       ret (p\<lparr>mp_rows := rows, mp_windows := windows\<rparr>)))"

definition page_connectOwner ::
    "('s, 'c, 'x) wallet \<Rightarrow> mandates_page \<Rightarrow> ('s, 'c, 'x) dash \<Rightarrow> mandates_page \<times> ('s, 'c, 'x) dash" where
  "page_connectOwner injected p w =
     (case connectWallet injected w of
        (Inl e, w') \<Rightarrow> (p\<lparr>mp_error := Some (error_text e)\<rparr>, w')
      | (Inr account, w') \<Rightarrow> (p\<lparr>mp_form := (mp_form p)\<lparr>mf_owner := account\<rparr>\<rparr>, w'))"

text \<open>\<open>createMandate\<close> and \<open>revoke\<close> of the page: the action, then a refresh; a failure is shown.\<close>

definition then_refresh ::
    "('s, 'c, 'x) dash_env \<Rightarrow> int \<Rightarrow> (('s, 'c, 'x) dash, 'a) may_hang \<Rightarrow> mandates_page \<Rightarrow>
     ('s, 'c, 'x) dash \<Rightarrow> (mandates_page \<times> ('s, 'c, 'x) dash) option" where
  "then_refresh env now act p w =
     map_option (\<lambda>(r, w'). (case r of
         Inl e \<Rightarrow> p\<lparr>mp_busy := None, mp_error := Some (error_text e)\<rparr>
       | Inr p' \<Rightarrow> p'\<lparr>mp_busy := None, mp_error := None\<rparr>, w'))
       (then_hang act (\<lambda>_. mandates_refresh env now p) w)"

definition page_createMandate ::
    "('s, 'c, 'x) dash_env \<Rightarrow> ('s, 'c, 'x) wallet \<Rightarrow> int \<times> int \<times> int \<Rightarrow> hex \<Rightarrow> mandates_page \<Rightarrow>
     ('s, 'c, 'x) dash \<Rightarrow> (mandates_page \<times> ('s, 'c, 'x) dash) option" where
  "page_createMandate env injected clk newId p = (case clk of (t1, t2, t3) \<Rightarrow>
     then_refresh env t3 (create_mandate env injected (t1, t2) newId (mp_form p)) p)"

definition page_revoke ::
    "('s, 'c, 'x) dash_env \<Rightarrow> ('s, 'c, 'x) wallet \<Rightarrow> int \<times> int \<Rightarrow> mandate \<Rightarrow> mandates_page \<Rightarrow>
     ('s, 'c, 'x) dash \<Rightarrow> (mandates_page \<times> ('s, 'c, 'x) dash) option" where
  "page_revoke env injected clk m p =
     then_refresh env (snd clk) (revoke env injected (fst clk) m) p"

definition mandate_form_view :: "mandates_page \<Rightarrow> el list" where
  "mandate_form_view p =
     (let form = mp_form p; busy = mp_busy p \<noteq> None
      in [Text ''Create mandate'',
          Text (if falsy (mp_busy p) then ''Confirm the on-chain constraints stored in the policy registry.''
            else the (mp_busy p) @ ''...''),
          Input ''owner (your wallet)'' (mf_owner form) False, Button ''Use connected wallet'' busy,
          Input ''agentId'' (mf_agentId form) False,
          Input ''intentConstraint'' (mf_intentConstraint form) False,
          Input ''merchantAllowlist (comma-separated)'' (mf_merchantAllowlist form) False,
          Text ''Only these merchant domains may settle against this mandate.'',
          Input ''maxPerCard (SGD)'' (mf_maxPerCardSgd form) False,
          Input ''maxPerWindow (SGD)'' (mf_maxPerWindowSgd form) False,
          Input ''maxCardsPerWindow'' (dec_int (mf_maxCardsPerWindow form)) False,
          Input ''windowSeconds'' (dec_int (mf_windowSeconds form)) False,
          Button (if mp_busy p = Some ''creating'' then ''Creating...'' else ''Build + sign createMandate'')
            (busy \<or> mf_owner form = [])])"

definition usage_view :: "window_reply \<Rightarrow> js_error + string" where
  "usage_view u =
     bindE (formatXsgd (w_spent (wr_usage u))) (\<lambda>spent.
     bindE (formatXsgd (wr_maxPerWindow u)) (\<lambda>limit.
       Inr (''spend: '' @ spent @ '' / '' @ limit @ '' XSGD | cards: '' @ dec (w_cardCount (wr_usage u)) @
         '' / '' @ dec_int (wr_maxCardsPerWindow u))))"

definition is_revoked :: "mandate_row \<Rightarrow> bool" where
  "is_revoked row = coalesce (map_option mr_revoked (mw_onChain row)) False"

definition mandate_row_view :: "mandates_page \<Rightarrow> mandate_row \<Rightarrow> js_error + el list" where
  "mandate_row_view p row =
     (let m = mw_mandate row; allowlist = js_join '', '' (m_merchantAllowlist m)
      in bindE (case jget (mp_windows p) (m_mandateId m) of None \<Rightarrow> Inr []
           | Some u \<Rightarrow> bindE (usage_view u) (\<lambda>line. Inr [Text line])) (\<lambda>usage.
         Inr ([Text (shortHex (m_mandateId m) 6), Text (mandate_label row), Text (m_intentConstraint m),
           Text (''allowlist: '' @ (if allowlist = [] then ''(none)'' else allowlist) @ '' | chain '' @
             dec_int (m_chainId m) @ '' | inSync: '' @
             (case mw_inSync row of None \<Rightarrow> ''n/a'' | Some b \<Rightarrow> if b then ''true'' else ''false''))] @ usage @
           when_shown (\<not> is_revoked row \<and> mw_confirmed row) [Button ''Revoke'' (mp_busy p \<noteq> None)])))"

fun render_all :: "('a \<Rightarrow> js_error + el list) \<Rightarrow> 'a list \<Rightarrow> js_error + el list" where
  "render_all f [] = Inr []"
| "render_all f (x # xs) = bindE (f x) (\<lambda>v. bindE (render_all f xs) (\<lambda>vs. Inr (v @ vs)))"

definition mandates_page_view :: "mandates_page \<Rightarrow> js_error + el list" where
  "mandates_page_view p =
     bindE (render_all (mandate_row_view p) (mp_rows p)) (\<lambda>rows.
       Inr (PageHeading ''Mandates'' (Some (''Creation builds an unsigned on-chain transaction -- you sign it '' @
           ''in your own wallet. Nothing here ever touches a private key.'')) None @
         alert ''Mandate failed'' (mp_error p) @ mandate_form_view p @ [Text ''All mandates''] @
         when_shown (mp_rows p = []) [Text ''None created from this dashboard yet.''] @ rows))"

section \<open>app/ledger/page.tsx\<close>

fun intent_state_word :: "intent_state \<Rightarrow> string" where
  "intent_state_word INTENT_CREATED = ''INTENT_CREATED''"
| "intent_state_word CHALLENGE_ATTACHED = ''CHALLENGE_ATTACHED''"
| "intent_state_word NONCE_RESERVED = ''NONCE_RESERVED''"
| "intent_state_word SIGNED = ''SIGNED''"
| "intent_state_word SETTLED = ''SETTLED''"
| "intent_state_word CAPTURED = ''CAPTURED''"

text \<open>
  The card of an intent.  The page would also show \<open>intent.check\<close> and \<open>intent.detail\<close>, which the
  ledger declares in its view and never sends.
\<close>

definition intent_card :: "intent_view \<Rightarrow> el list" where
  "intent_card v =
     [Text (v_requestId v), Text (intent_state_word (v_state v))] @
     (case v_decision v of None \<Rightarrow> [] | Some d \<Rightarrow> [Text (decision_word d)]) @
     [Text (v_instruction v),
      Field ''mandate'' (short (Some (v_mandateId v)) 10 6),
      Field ''agent'' (short (Some (v_agentId v)) 10 6),
      Field ''policy hash'' (short (v_policyHash v) 10 6),
      Field ''merchant'' (short (v_merchantDomain v) 10 6),
      Field ''pay to'' (short (map_option cv_payTo (v_challenge v)) 10 6),
      Field ''amount'' (let amount = map_option cv_amount (v_challenge v)
        in if falsy amount then ''-'' else the amount @ '' base units''),
      Field ''chain'' (case v_challenge v of None \<Rightarrow> ''-'' | Some ch \<Rightarrow> dec_int (cv_chainId ch)),
      Field ''nonce'' (short (v_nonce v) 8 6),
      Field ''settlement tx'' (short (map_option fst (v_settlement v)) 10 6),
      Field ''block'' (case v_settlement v of None \<Rightarrow> ''-'' | Some (tx, block, cardId) \<Rightarrow> dec_int block),
      Field ''order'' (short (case v_spend v of Some s \<Rightarrow> Some (sp_orderId s)
        | None \<Rightarrow> map_option cp_orderId (v_capture v)) 10 6),
      Field ''instructions hash'' (short (Some (v_instructionHash v)) 8 6)]"

text \<open>\<open>event.kind\<close> and \<open>event.requestId\<close>.\<close>

fun event_kind :: "event_payload \<Rightarrow> string \<times> string option" where
  "event_kind (IntentCreated r m s v) = (''intent.created'', Some r)"
| "event_kind (ChallengeAttached r m v) = (''challenge.attached'', Some r)"
| "event_kind (NonceReserved r m v) = (''nonce.reserved'', Some r)"
| "event_kind (NonceReleased r m v) = (''nonce.released'', Some r)"
| "event_kind (DecisionRecorded r m d c t v) = (''decision.recorded'', Some r)"
| "event_kind (SettlementRecorded r m tx b v) = (''settlement.recorded'', Some r)"
| "event_kind (SpendRecorded r m a b c v) = (''spend.recorded'', Some r)"
| "event_kind (CaptureRecorded r m a b v) = (''capture.recorded'', Some r)"
| "event_kind (EscalationCreated r m why ex url ttl) = (''escalation.created'', Some r)"
| "event_kind (EscalationResolved r m d at) = (''escalation.resolved'', Some r)"
| "event_kind (PolicyPut m ver) = (''policy.put'', None)"
| "event_kind (StandingApprovalSet m d ex) = (''standing_approval.set'', None)"

definition ledger_event_view :: "ledger_event \<Rightarrow> el" where
  "ledger_event_view e =
     (let (kind, requestId) = event_kind (ev_payload e)
      in Field (''#'' @ dec (ev_seq e) @ '' '' @ kind @
          (if falsy requestId then [] else '' | '' @ short requestId 6 4))
        (take 8 (drop 11 (ev_at e))))"

definition ledger_page_view :: "ledger_page \<Rightarrow> el list" where
  "ledger_page_view p =
     PageHeading ''Ledger'' (Some (''The append-only record behind every mandate. Each payment step is '' @
       ''broadcast here as it happens -- refusals included.'')) None @
     [Text (if lp_connected p then ''live'' else ''stream disconnected'')] @
     (if falsy (lp_snapshotError p) then []
      else [Text (''Ledger snapshot unavailable: '' @ the (lp_snapshotError p))]) @
     when_shown (lp_intents p = [])
       [Text (''No intents recorded yet -- run a payment from the home page and watch it appear here.'')] @
     concat (map intent_card (lp_intents p)) @
     [Text ''Live events'', Text ''Every ledger mutation, broadcast as it happens.''] @
     when_shown (lp_events p = []) [Text ''Waiting for the next mutation...''] @
     map ledger_event_view (lp_events p)"

end
