(* ===== verification/View_Properties.thy ===== *)
theory View_Properties
  imports Dashboard_Views Signer_Properties
begin

text \<open>
  What the pages of the dashboard show: the flow card never reports how a run ended, the navigation
  marks at most one page, decisions are offered only while they can count, the explorer link is that
  of the settlement, and revoking is offered for the mandates labelled live.
\<close>

section \<open>The flow card\<close>

lemma terminalStatus_None: "terminalStatus events = None"
proof -
  have "map_option status_word s \<noteq> Some t"
    if "t \<in> {''DONE'', ''REFUSED'', ''ESCALATED'', ''FAILED'', ''AWAITING_CHECKOUT''}" for s t
    using that by (cases s; cases "the s") auto
  then show ?thesis by (auto simp: terminalStatus_def)
qed

lemma el_of_parts:
  "Link h l \<notin> set (alert title e)" "Link h l \<notin> set (event_item ev)" "Link h l \<notin> set (source_view c)"
  by (auto simp: alert_def event_item_def source_view_def split: option.splits)

text \<open>C40. A flow card with a started run says running and links to no outcome, whatever events it
  has received: it looks for the names of run states among the statuses of the events, which are
  \<open>ok\<close>, \<open>refused\<close> and \<open>escalated\<close>.\<close>

theorem card_never_shows_outcome:
  assumes "fl_step (fc_flow c) = Step_run" "fl_requestId (fc_flow c) = Some r" "r \<noteq> []"
  shows "card_status (fc_flow c) = ''running...'' \<and> (\<forall>h l. Link h l \<notin> set (flow_card_view c))"
  using assms
  by (auto simp: card_status_def terminalStatus_None flow_card_view_def run_step_view_def Let_def
      outcome_link_def el_of_parts)

lemma card_never_shows_outcome_witness:
  "card_status (fc_flow ((new_flow_card 0 None ''buy'')\<lparr>fc_flow :=
       on_message 0 \<lparr>rev_seq = 9, rev_stage = Stage_SETTLEMENT_FINALIZED, rev_status = Some Ev_ok,
         rev_check = None, rev_at = ''t''\<rparr> (new_flow\<lparr>fl_step := Step_run, fl_selected := ''m'',
           fl_requestId := Some ''r'', fl_streams := [(''r'', True)]\<rparr>)\<rparr>)) = ''running...''"
  by (rule conjunct1 [OF card_never_shows_outcome [where r = "''r''"]]) (simp_all add: on_message_def)

section \<open>The navigation\<close>

text \<open>At most one entry of the navigation is marked as the current page.\<close>

lemma isCurrent_prefix:
  assumes "isCurrent p h" "h \<in> fst ` set navigation"
  shows "take 2 p = take 2 h"
proof (cases "h = ''/''")
  case True
  with assms(1) show ?thesis by (simp add: isCurrent_def)
next
  case False
  with assms(1) have "take (length h) p = h" by (simp add: isCurrent_def)
  moreover have "2 \<le> length h" using assms(2) False by (auto simp: navigation_def)
  ultimately show ?thesis by (metis min.absorb2 take_take min.commute)
qed

theorem one_current_page:
  assumes "isCurrent p a" "isCurrent p b" "a \<in> fst ` set navigation" "b \<in> fst ` set navigation"
  shows "a = b"
  using isCurrent_prefix [OF assms(1,3)] isCurrent_prefix [OF assms(2,4)] assms(3,4)
  by (auto simp: navigation_def)

section \<open>The run page\<close>

lemma decision_not_elsewhere:
  "Button b d \<notin> set (PageHeading t x y)" "Button b d \<notin> set (checkout_view run)"
  "Button b d \<notin> set (comparison_view m n)" "Button b d \<notin> set (alert t e)"
  by (auto simp: PageHeading_def checkout_view_def when_shown_def comparison_view_def alert_def)

text \<open>A decision is offered exactly for an escalated run, before its deadline and while none is being
  sent.\<close>

theorem decision_offered_iff:
  "Button ''Approve once'' False \<in> set (run_detail_view requestId (Some (run, events)) independent err busy now) \<longleftrightarrow>
     (\<exists>reason url expiresAt ttl. rs_outcome run = Some (Out_escalated reason url expiresAt ttl) \<and>
        \<not> busy \<and> now div 1000 < expiresAt)"
proof (cases "rs_outcome run")
  case None
  then show ?thesis by (auto simp: run_detail_view_def decision_not_elsewhere outcome_view_def)
next
  case (Some out)
  then show ?thesis
    by (cases out) (auto simp: run_detail_view_def decision_not_elsewhere outcome_view_def
        escalation_view_def Let_def isExpired_def split: option.splits)
qed

section \<open>The receipt page\<close>

text \<open>The page links to an explorer only for a recorded settlement on a supported chain, and to that
  transaction.\<close>

theorem explorer_link_of_settlement:
  assumes "receipt_view requestId (Some r) = Inr els" "Link h l \<in> set els" "h \<noteq> ''/runs''"
  shows "\<exists>tx ch chain. rc_settlementTx r = Some tx \<and> rc_challenge r = Some ch \<and>
     CHAINS (cv_chainId ch) = Some chain \<and> h = k_explorerTxBase chain @ tx"
  using assms
  by (auto simp: receipt_view_def PageHeading_def settlement_view_def explorerBase_def
      split: if_splits option.splits)

section \<open>The mandates page\<close>

text \<open>Revoking is offered exactly for the mandates that the page labels live.\<close>

theorem revoke_offered_for_live:
  assumes "mandate_row_view p row = Inr els"
  shows "(\<exists>d. Button ''Revoke'' d \<in> set els) \<longleftrightarrow> mandate_label row = ''live''"
  using assms
  by (auto simp: mandate_row_view_def Let_def when_shown_def is_revoked_def mandate_label_def
      split: option.splits if_splits)

end
