(* ===== verification/Ops_Scripts.thy ===== *)
theory Ops_Scripts
  imports Signer_Service X402 Dashboard_Lib Mcp_Client
begin

text \<open>
  The operational scripts of \<open>scripts/\<close>: the custody move that prints an unsigned token transfer, the
  publication of a deployed registry, and the two probes of the card service's 402.  \<open>fail\<close> prints its
  message and ends the process: it is \<open>Inl\<close> of the message, as is any exception that ends a script.
  Files, the network and the clock are arguments.  Of a message the sentence that names the fault is
  kept, with its long dashes written in ASCII; the advice after it is left out.
\<close>

section \<open>Arguments\<close>

text \<open>\<open>args[args.indexOf(`--${name}`) + 1]\<close>.\<close>

definition arg :: "string \<Rightarrow> string list \<Rightarrow> string option" where
  "arg name args = (case dropWhile (\<lambda>a. a \<noteq> ''--'' @ name) args of
      _ # v # _ \<Rightarrow> Some v | _ \<Rightarrow> None)"

definition has_flag :: "string \<Rightarrow> string list \<Rightarrow> bool" where
  "has_flag flag args \<longleftrightarrow> ''--'' @ flag \<in> set args"

definition failing :: "js_error + 'a \<Rightarrow> string \<Rightarrow> string + 'a" where
  "failing r message = (case r of Inl e \<Rightarrow> Inl message | Inr x \<Rightarrow> Inr x)"

definition raising :: "js_error + 'a \<Rightarrow> string + 'a" where
  "raising r = (case r of Inl (JsError m) \<Rightarrow> Inl m | Inl (AppError a) \<Rightarrow> Inl (ae_message a)
     | Inl (FrameworkError n m) \<Rightarrow> Inl m | Inr x \<Rightarrow> Inr x)"

section \<open>move-xsgd.ts\<close>

record move_request =
  mv_chain :: chain_constants
  mv_to :: address
  mv_amount :: nat

definition parse_move :: "string list \<Rightarrow> string + move_request" where
  "parse_move args =
     (let rawChain = coalesce (arg ''chain'' args) ''43113''; rawTo = arg ''to'' args;
          rawAmount = coalesce (arg ''amount'' args) ''30000000''
      in case number_of_string rawChain of
           NInt c \<Rightarrow> (case CHAINS c of
               None \<Rightarrow> Inl (''--chain must be 43113 (Fuji) or 43114 (mainnet), got '' @ rawChain)
             | Some chain \<Rightarrow>
                 bindE (throwIf (falsy rawTo) ''--to <address> is required'') (\<lambda>_.
                 bindE (failing (parseAddress (Some (JStr (the rawTo))) ''--to'')
                   (''--to is not a valid address: '' @ the rawTo)) (\<lambda>to.
                 bindE (throwIf (\<not> is_decimal rawAmount)
                   (''--amount must be a base-unit decimal string, got '' @ rawAmount)) (\<lambda>_.
                 let amount = of_base 10 rawAmount in
                 bindE (throwIf (amount = 0) ''--amount must be greater than zero'') (\<lambda>_.
                 bindE (throwIf (to_lower to = to_lower FUNDING_ORIGIN_WALLET)
                   ''--to is the funding wallet itself -- that moves nothing.'') (\<lambda>_.
                   Inr \<lparr>mv_chain = chain, mv_to = to, mv_amount = amount\<rparr>))))))
         | _ \<Rightarrow> Inl (''--chain must be 43113 (Fuji) or 43114 (mainnet), got '' @ rawChain))"

definition TRANSFER_SELECTOR :: string where
  "TRANSFER_SELECTOR = ''a9059cbb''"

definition pad32 :: "string \<Rightarrow> string + string" where
  "pad32 digits =
     (if length digits > 64 then Inl ''value too wide for a 32-byte word''
      else Inr (pad_start 64 CHR ''0'' digits))"

definition strip_0x :: "string \<Rightarrow> string" where
  "strip_0x h = (if take 2 h = ''0x'' then drop 2 h else h)"

definition transfer_data :: "address \<Rightarrow> nat \<Rightarrow> string + hex" where
  "transfer_data to amount =
     bindE (pad32 (strip_0x (to_lower to))) (\<lambda>recipient.
     bindE (pad32 (to_base 16 amount)) (\<lambda>v.
       Inr (''0x'' @ TRANSFER_SELECTOR @ recipient @ v)))"

text \<open>\<open>`${v / 10n ** 6n}.${(v % 10n ** 6n).toString().padStart(6, "0")}`\<close> of a balance or amount.\<close>

definition xsgd_text :: "nat \<Rightarrow> string" where
  "xsgd_text v = dec (v div 10 ^ XSGD_DECIMALS) @ ''.'' @
     pad_start XSGD_DECIMALS CHR ''0'' (dec (v mod 10 ^ XSGD_DECIMALS))"

text \<open>The balance of the funding wallet: \<open>None\<close> when it could not be read, which only warns.\<close>

definition preflight :: "(string \<Rightarrow> address) \<Rightarrow> string option \<Rightarrow> nat \<Rightarrow> string + unit" where
  "preflight toChecksum balanceHex amount = (case balanceHex of
      None \<Rightarrow> Inr ()
    | Some h \<Rightarrow> bindE (raising (bigint h)) (\<lambda>balance.
        throwIf (balance < int amount)
          (''the funding wallet cannot cover this transfer. have '' @ xsgd_text (nat balance) @ '' XSGD at '' @
           toChecksum FUNDING_ORIGIN_WALLET @ '' want '' @ xsgd_text amount @ '' XSGD'')))"

definition MOVE_GAS_LIMIT :: string where
  "MOVE_GAS_LIMIT = ''100000''"

text \<open>The printed transaction, the printed amount and the printed recipient.\<close>

definition move_xsgd ::
    "(string \<Rightarrow> address) \<Rightarrow> string list \<Rightarrow> string option \<Rightarrow> string + unsigned_tx \<times> string \<times> address" where
  "move_xsgd toChecksum args balanceHex =
     bindE (parse_move args) (\<lambda>mv.
     bindE (transfer_data (mv_to mv) (mv_amount mv)) (\<lambda>data.
     bindE (preflight toChecksum balanceHex (mv_amount mv)) (\<lambda>_.
       Inr (\<lparr>ux_to = toChecksum (k_xsgd (mv_chain mv)), ux_data = data, ux_value = ''0'',
         ux_chainId = k_chainId (mv_chain mv), ux_gasLimit = MOVE_GAS_LIMIT\<rparr>,
         xsgd_text (mv_amount mv), toChecksum (mv_to mv)))))"

section \<open>sync-registry.ts\<close>

record broadcast_tx =
  bx_transactionType :: "string option"
  bx_contractName :: "string option"
  bx_contractAddress :: "json option"

record broadcast =
  bc_transactions :: "broadcast_tx list"
  bc_blockNumbers :: "string option list"

record registry_file =
  rg_addresses :: "(string \<times> string option) list"
  rg_deployBlock :: "(string \<times> int option) list"
  rg_abi :: "json list"

definition is_registry_create :: "broadcast_tx \<Rightarrow> bool" where
  "is_registry_create t \<longleftrightarrow>
     bx_transactionType t = Some ''CREATE'' \<and> bx_contractName t = Some ''MandateRegistry''"

fun find_index :: "('a \<Rightarrow> bool) \<Rightarrow> 'a list \<Rightarrow> nat option" where
  "find_index p [] = None"
| "find_index p (x # xs) = (if p x then Some 0 else map_option Suc (find_index p xs))"

text \<open>\<open>Number.isSafeInteger\<close> and the sign.\<close>

definition deploy_block :: "string \<Rightarrow> string + int" where
  "deploy_block rawBlock = bindE (raising (bigint rawBlock)) (\<lambda>n.
     if \<bar>n\<bar> > 2 ^ 53 - 1 \<or> n \<le> 0
     then Inl (''broadcast record has an implausible blockNumber: '' @ rawBlock) else Inr n)"

text \<open>
  The new file and whether the script warns that the address changed.  An artefact or record that
  cannot be read is \<open>None\<close>.
\<close>

definition sync_registry ::
    "string option \<Rightarrow> json list option \<Rightarrow> broadcast option \<Rightarrow> registry_file \<Rightarrow>
     string + registry_file \<times> bool" where
  "sync_registry chainArg artifact record current =
     (if falsy chainArg \<or> the chainArg \<notin> {''43113'', ''43114''}
      then Inl ''usage: pnpm tsx scripts/sync-registry.ts <43113|43114>''
      else case artifact of
          None \<Rightarrow> Inl ''no build artefact -- run `forge build` first''
        | Some abi \<Rightarrow>
            if abi = [] then Inl ''build artefact has an empty abi''
            else (case record of
                None \<Rightarrow> Inl ''no broadcast record''
              | Some b \<Rightarrow>
                (case find_index is_registry_create (bc_transactions b) of
                   None \<Rightarrow> Inl ''broadcast record contains no MandateRegistry CREATE transaction''
                 | Some i \<Rightarrow>
                   let chainId = the chainArg; raw = bx_contractAddress (bc_transactions b ! i) in
                   bindE (failing (parseAddress raw ''contractAddress'')
                     (''broadcast record has no valid contractAddress (got '' @ js_string_opt raw @ '')'')) (\<lambda>addr.
                   case (if i < length (bc_blockNumbers b) then bc_blockNumbers b ! i else None) of
                     None \<Rightarrow> Inl ''broadcast record has no receipt blockNumber''
                   | Some rawBlock \<Rightarrow>
                       bindE (deploy_block rawBlock) (\<lambda>block.
                       let previous = Option.bind (map_of (rg_addresses current) chainId) id
                       in Inr (\<lparr>rg_addresses = AList.update chainId (Some addr) (rg_addresses current),
                            rg_deployBlock = AList.update chainId (Some block) (rg_deployBlock current),
                            rg_abi = abi\<rparr>,
                          \<not> falsy previous \<and> to_lower (the previous) \<noteq> to_lower addr)))) ))"

section \<open>probe-production-402.ts\<close>

definition production_args :: "string list \<Rightarrow> string + string" where
  "production_args args =
     (let url = arg ''url'' args in
      bindE (throwIf (falsy url) ''--url is required and has no default.'') (\<lambda>_.
      bindE (throwIf (take 8 (the url) \<noteq> ''https://'') (''--url must be https, got '' @ the url)) (\<lambda>_.
      bindE (throwIf (\<not> has_flag ''cleared'' args) ''--cleared is required.'') (\<lambda>_. Inr (the url)))))"

text \<open>The three sanity checks: how many warn.\<close>

definition production_warnings :: "x402_requirements \<Rightarrow> nat" where
  "production_warnings c =
     (if c_chainId c \<noteq> 43114 then 1 else 0) +
     (if to_lower (c_asset c) \<noteq> to_lower (k_xsgd MAINNET) then 1 else 0) +
     (if Some (x_version (c_extra c)) = k_eip712Version FUJI then 1 else 0)"

text \<open>The lines to record, and the exit code of the process.\<close>

definition probe_production ::
    "(string \<Rightarrow> nat \<times> json option) \<Rightarrow> string list \<Rightarrow> string + (x402_requirements \<times> nat)" where
  "probe_production fetch args =
     bindE (production_args args) (\<lambda>url. case fetch url of (st, body) \<Rightarrow>
       if st \<noteq> 402 then Inl (''expected 402 Payment Required, got '' @ dec st)
       else bindE (raising (parseX402Challenge body)) (\<lambda>challenge.
         Inr (challenge, if production_warnings challenge > 0 then 1 else 0)))"

section \<open>probe-checkpoint2.ts\<close>

text \<open>\<open>KEY=value\<close> lines; blank lines, comments and lines without \<open>=\<close> are skipped, a later line wins.\<close>

definition env_line :: "string \<Rightarrow> (string \<times> string) option" where
  "env_line line =
     (let trimmed = js_trim line; key = takeWhile (\<lambda>c. c \<noteq> CHR ''='') trimmed
      in if trimmed = [] \<or> hd trimmed = CHR ''#'' \<or> CHR ''='' \<notin> set trimmed then None
         else Some (js_trim key, js_trim (drop (length key + 1) trimmed)))"

definition readEnvFile :: "string \<Rightarrow> string jsmap" where
  "readEnvFile raw = fold (\<lambda>line out. case env_line line of None \<Rightarrow> out | Some (k, v) \<Rightarrow> jset k v out)
     (js_split newline raw) []"

text \<open>\<open>{ ...readEnvFile(), ...process.env }\<close>.\<close>

definition probe_env :: "string \<Rightarrow> environment \<Rightarrow> environment" where
  "probe_env raw process k = (case process k of Some v \<Rightarrow> Some v | None \<Rightarrow> jget (readEnvFile raw) k)"

definition PROBE_MERCHANT :: string where
  "PROBE_MERCHANT = ''card.straitsx.ai''"

definition probe_hash :: "char \<Rightarrow> hex" where
  "probe_hash c = ''0x'' @ replicate 63 CHR ''0'' @ [c]"

definition challenge_domain :: "x402_requirements \<Rightarrow> td_domain" where
  "challenge_domain c = \<lparr>d_name = x_name (c_extra c), d_version = x_version (c_extra c),
     d_chainId = c_chainId c, d_verifyingContract = c_asset c\<rparr>"

text \<open>Steps 1 to 3: the challenge, the domain assertion, and the authorization that would be signed.\<close>

definition probe_authorization ::
    "(string \<Rightarrow> hex) \<Rightarrow> (string \<Rightarrow> hex) \<Rightarrow> environment \<Rightarrow> string list \<Rightarrow> int \<Rightarrow> nat \<times> json option \<Rightarrow>
     string + x402_requirements \<times> typed_data_input" where
  "probe_authorization keccak_text keccak_hex env args now response =
     (let rawChain = coalesce (arg ''chain'' args) ''43113''
      in case (case number_of_string rawChain of NInt c \<Rightarrow> CHAINS c | _ \<Rightarrow> None) of
           None \<Rightarrow> Inl (''unsupported --chain'')
         | Some chain \<Rightarrow>
             if fst response \<noteq> 402 then Inl (''expected 402 Payment Required, got '' @ dec (fst response))
             else bindE (raising (parseX402Challenge (snd response))) (\<lambda>challenge.
               let d = challenge_domain challenge in
               bindE (failing (assertDomainMatches d \<lparr>x_chainId = k_chainId chain,
                   x_asset = to_lower (k_xsgd chain), x_domainName = k_eip712Name chain,
                   x_domainVersion = coalesce (k_eip712Version chain) []\<rparr>)
                 ''DOMAIN MISMATCH, refusing to sign'') (\<lambda>_.
               let expectedSigner = env ''EXPECTED_SIGNER_ADDRESS'' in
               bindE (throwIf (falsy expectedSigner) ''EXPECTED_SIGNER_ADDRESS is not set in .env'') (\<lambda>_.
               bindE (raising (buildCommitmentNonce keccak_text keccak_hex (''probe-'' @ dec_int now)
                 (probe_hash CHR ''1'') (probe_hash CHR ''2'') PROBE_MERCHANT)) (\<lambda>nonce.
               let validAfter = now div 1000 - 60; window = min (c_maxTimeoutSeconds challenge) 540
               in Inr (challenge, \<lparr>bt_from = the expectedSigner, bt_to = c_payTo challenge,
                    bt_value = c_amount challenge, bt_validAfter = validAfter,
                    bt_validBefore = validAfter + window, bt_nonce = nonce, bt_domain = d\<rparr>))))))"

text \<open>Step 4: custody assertion and signature; the key source answers its public key and signs digests.\<close>

definition probe_header_input :: "x402_requirements \<Rightarrow> typed_data_input \<Rightarrow> x402_header_input" where
  "probe_header_input challenge td =
     \<lparr>h_x402Version = JNum (c_x402Version challenge), h_resource = CARDAPI_SANDBOX_ISSUE_CARD,
      h_accepted = (x402_accepted.truncate challenge)\<lparr>c_scheme := ''exact''\<rparr>,
      h_authorization = \<lparr>au_from = bt_from td, au_to = bt_to td, au_value = bt_value td,
        au_validAfter = dec_int (bt_validAfter td), au_validBefore = dec_int (bt_validBefore td),
        au_nonce = bt_nonce td\<rparr>\<rparr>"

definition probe_sign ::
    "'k sign_deps \<Rightarrow> ('k \<Rightarrow> (js_error + address) \<times> 'k) \<Rightarrow> environment \<Rightarrow> x402_requirements \<Rightarrow> typed_data_input \<Rightarrow>
     'k \<Rightarrow> (string + string) \<times> 'k" where
  "probe_sign deps derive env challenge td k =
     (if falsy (env ''KMS_KEY_ID'') then (Inl ''KMS_KEY_ID is not set in .env -- run scripts/setup-kms.sh'', k)
      else case derive k of
          (Inl e, k1) \<Rightarrow> (raising (Inl e), k1)
        | (Inr derived, k1) \<Rightarrow>
            if to_lower derived \<noteq> to_lower (bt_from td)
            then (Inl (''derived address '' @ derived @ '' does not match EXPECTED_SIGNER_ADDRESS '' @ bt_from td), k1)
            else let digest = sd_hashTypedData deps (buildTransferWithAuthorizationTypedData td)
              in case sd_signDigest deps digest k1 of
                   (Inl e, k2) \<Rightarrow> (raising (Inl e), k2)
                 | (Inr der, k2) \<Rightarrow> (bindE (raising (finish_signature (deps\<lparr>sd_signerAddress := derived\<rparr>) digest
                       (probe_header_input challenge td) der)) (\<lambda>(header, parts, signer). Inr header), k2))"

text \<open>Step 5: what the settlement response says, \<open>None\<close> when it names no transaction.\<close>

definition nullish :: "json option \<Rightarrow> bool" where
  "nullish v \<longleftrightarrow> v = None \<or> v = Some JNull"

definition rejection_reason :: "(string \<Rightarrow> json option) \<Rightarrow> string \<Rightarrow> string" where
  "rejection_reason json_parse body =
     (let e = Option.bind (json_parse body) (\<lambda>b. jprop b ''error'')
      in if nullish e then take 300 body else js_string_opt e)"

definition read_settlement :: "(string \<Rightarrow> json option) \<Rightarrow> nat \<times> string \<Rightarrow> string + string option" where
  "read_settlement json_parse response = (case response of (st, body) \<Rightarrow>
     if st = 402
     then Inl (''402 -- the facilitator rejected the payload. Reason: '' @ rejection_reason json_parse body)
     else if \<not> response_ok st then Inl (''unexpected '' @ dec st @ '': '' @ take 600 body)
     else case json_parse body of
         None \<Rightarrow> Inl (''response was not JSON: '' @ take 400 body)
       | Some b \<Rightarrow>
           let snake = jprop b ''settlement_tx'';
               tx = (if nullish snake then jprop b ''settlementTx'' else snake)
           in Inr (if nullish tx \<or> js_string_opt tx = [] then None else Some (js_string_opt tx)))"

text \<open>\<open>rpcCall\<close>: an \<open>error\<close> member throws; \<open>stringify\<close> is \<open>JSON.stringify\<close>.\<close>

definition rpc_answer :: "(json \<Rightarrow> string) \<Rightarrow> string \<Rightarrow> json \<Rightarrow> js_error + json option" where
  "rpc_answer stringify method b = (if truthy (jprop b ''error'')
     then Inl (JsError (''RPC '' @ method @ '': '' @ stringify (the (jprop b ''error''))))
     else Inr (jprop b ''result''))"

text \<open>Step 6: the receipt is asked for at most sixty times.\<close>

fun poll_receipt :: "nat \<Rightarrow> ('w \<Rightarrow> (js_error + 'r option) \<times> 'w) \<Rightarrow> ('w \<Rightarrow> 'w) \<Rightarrow> 'w \<Rightarrow> (js_error + 'r option) \<times> 'w" where
  "poll_receipt 0 ask sleep w = (Inr None, w)"
| "poll_receipt (Suc n) ask sleep w = (case ask w of
      (Inl e, w') \<Rightarrow> (Inl e, w')
    | (Inr (Some r), w') \<Rightarrow> (Inr (Some r), w')
    | (Inr None, w') \<Rightarrow> poll_receipt n ask sleep (sleep w'))"

section \<open>The isolation probe\<close>

text \<open>
  \<open>isolation-probe.ts\<close>, run with the network of the orchestrator: the signer's name must resolve, the
  other services must answer, and a connection to the signer must not be made.  What the socket does
  first settles the attempt; an error carries its code.
\<close>

datatype socket_event = Socket_connected | Socket_timeout | Socket_error "string option" string

definition signer_reachable :: "socket_event \<Rightarrow> string + bool" where
  "signer_reachable ev =
     (case ev of
        Socket_connected \<Rightarrow> Inr True
      | Socket_timeout \<Rightarrow> Inr False
      | Socket_error ecode message \<Rightarrow>
          if coalesce ecode [] \<in> {''ECONNREFUSED'', ''EHOSTUNREACH'', ''ETIMEDOUT''} then Inr False else Inl message)"

text \<open>
  The network: the number of addresses of a name, the response to \<open>/health\<close> below an address (whether it
  is ok, and its status), and the first event of a socket to a host and port.
\<close>

record probe_network =
  pn_lookup :: "string \<Rightarrow> js_error + nat"
  pn_health :: "url \<Rightarrow> js_error + bool \<times> nat"
  pn_connect :: "string \<Rightarrow> int \<Rightarrow> socket_event"

primrec probe_services :: "url_parser \<Rightarrow> probe_network \<Rightarrow> string list \<Rightarrow> string + unit" where
  "probe_services parse net [] = Inr ()"
| "probe_services parse net (base # rest) =
     bindE (raising (new_URL parse ''/health'' (Some base))) (\<lambda>address.
     bindE (raising (pn_health net address)) (\<lambda>(ok, status).
     bindE (raising (new_URL parse base None)) (\<lambda>u.
       if \<not> ok then Inl (u_hostname u @ '' health returned '' @ dec status)
       else probe_services parse net rest)))"

definition isolation_probe :: "environment \<Rightarrow> url_parser \<Rightarrow> probe_network \<Rightarrow> string + unit" where
  "isolation_probe env parse net =
     (let signerHost = env ''SIGNER_HOST'';
          signerPort = (case env ''SIGNER_PORT'' of None \<Rightarrow> NInt 4003 | Some p \<Rightarrow> number_of_string p);
          requiredUrls = [env ''POLICY_URL'', env ''LEDGER_URL'', env ''CHAIN_GATEWAY_URL'']
      in if falsy signerHost \<or> list_ex falsy requiredUrls
         then Inl ''SIGNER_HOST, POLICY_URL, LEDGER_URL and CHAIN_GATEWAY_URL are required''
         else bindE (raising (pn_lookup net (the signerHost))) (\<lambda>addresses.
           if addresses = 0 then Inl ''signer DNS returned no addresses''
           else bindE (probe_services parse net (map the requiredUrls)) (\<lambda>_.
             case signerPort of
               NInt port \<Rightarrow>
                 if port < 0 \<or> 65536 \<le> port then Inl ''options.port should be >= 0 and < 65536''
                 else bindE (signer_reachable (pn_connect net (the signerHost) port)) (\<lambda>reachable.
                   if reachable
                   then Inl (''FAIL orchestrator security group reached signer TCP '' @ dec_int port)
                   else Inr ())
             | _ \<Rightarrow> Inl ''options.port should be >= 0 and < 65536'')))"

end
