(* ===== verification/Ops_Properties.thy ===== *)
theory Ops_Properties
  imports Ops_Scripts Signer_Properties Dashboard_Properties
begin

text \<open>
  What the operational scripts promise: the custody move prints the calldata of the transfer it
  shows, publishing a registry leaves the other chain alone, and the probe signs only inside the
  configured domain and window.
\<close>

lemma raising_Inr [simp]: "raising r = Inr x \<longleftrightarrow> r = Inr x"
  by (auto simp: raising_def split: sum.splits js_error.splits)

lemma failing_Inr [simp]: "failing r m = Inr x \<longleftrightarrow> r = Inr x"
  by (auto simp: failing_def split: sum.splits)

section \<open>The custody move\<close>

lemma parse_move_Inr:
  assumes "parse_move args = Inr mv"
  shows "is_hex_of_length 40 (mv_to mv)" "0 < mv_amount mv"
    "to_lower (mv_to mv) \<noteq> to_lower FUNDING_ORIGIN_WALLET" "to_lower (mv_to mv) = mv_to mv"
    "CHAINS (k_chainId (mv_chain mv)) = Some (mv_chain mv)"
  using assms
  by (auto simp: parse_move_def Let_def failing_def parseAddress_def throwIf_def is_hex_of_length_lower
      CHAINS_def FUJI_def MAINNET_def
      split: jnum.splits option.splits sum.splits if_splits)

lemma pad32_Inr:
  "pad32 s = Inr w \<longleftrightarrow> length s \<le> 64 \<and> w = pad_start 64 CHR ''0'' s"
  by (auto simp: pad32_def)

lemma xsgd_text_reads_back: "sgdToBaseUnits (xsgd_text n) = Inr (dec n)"
  using printed_amount_reads_back [of n] by (simp add: xsgd_text_def XSGD_DECIMALS_def)

text \<open>
  The printed calldata is the \<open>transfer\<close> of the printed positive amount to the printed recipient,
  which is not the funding wallet; the token is that of the printed chain, and a funding wallet
  whose balance could be read holds the amount.
\<close>

theorem move_is_what_it_shows:
  assumes "move_xsgd toChecksum args balance = Inr (tx, shown, recipient)"
  shows "\<exists>to w. ux_data tx = ''0xa9059cbb'' @ replicate 24 CHR ''0'' @ drop 2 to @ w \<and>
     is_hex_of_length 40 to \<and> recipient = toChecksum to \<and> to \<noteq> to_lower FUNDING_ORIGIN_WALLET \<and>
     length w = 64 \<and> 0 < of_base 16 w \<and> sgdToBaseUnits shown = Inr (dec (of_base 16 w)) \<and>
     (\<exists>chain. CHAINS (ux_chainId tx) = Some chain \<and> ux_to tx = toChecksum (k_xsgd chain)) \<and>
     (\<forall>h n. balance = Some h \<longrightarrow> bigint h = Inr n \<longrightarrow> int (of_base 16 w) \<le> n)"
proof -
  from assms obtain mv data where mv: "parse_move args = Inr mv"
    and data: "transfer_data (mv_to mv) (mv_amount mv) = Inr data"
    and pre: "preflight toChecksum balance (mv_amount mv) = Inr ()"
    and tx: "ux_data tx = data" "ux_chainId tx = k_chainId (mv_chain mv)"
      "ux_to tx = toChecksum (k_xsgd (mv_chain mv))"
    and out: "shown = xsgd_text (mv_amount mv)" "recipient = toChecksum (mv_to mv)"
    by (auto simp: move_xsgd_def)
  note ok = parse_move_Inr [OF mv]
  have prefix: "take 2 (mv_to mv) = ''0x''" and len: "length (mv_to mv) = 42"
    using ok(1) by (simp_all add: is_hex_of_length_def)
  define w where "w = pad_start 64 CHR ''0'' (to_base 16 (mv_amount mv))"
  have w: "length w = 64" "of_base 16 w = mv_amount mv" and
    call: "data = ''0xa9059cbb'' @ replicate 24 CHR ''0'' @ drop 2 (mv_to mv) @ w"
    using data prefix len ok(4)
    by (auto simp: transfer_data_def pad32_Inr strip_0x_def w_def TRANSFER_SELECTOR_def pad_start_def of_to_base)
  have "int (mv_amount mv) \<le> n" if "balance = Some h" "bigint h = Inr n" for h n
    using pre that by (auto simp: preflight_def raising_def throwIf_def split: if_splits)
  with ok tx out w call xsgd_text_reads_back [of "mv_amount mv"] show ?thesis
    by (intro exI [of _ "mv_to mv"] exI [of _ w]) auto
qed

section \<open>Publishing a registry\<close>

lemma sync_registry_written:
  assumes "sync_registry chainArg artifact record current = Inr (written, warned)"
  obtains c addr block where "chainArg = Some (dec_int c)" "c \<in> {43113, 43114}"
    "is_hex_of_length 40 addr" "0 < block"
    "rg_addresses written = AList.update (dec_int c) (Some addr) (rg_addresses current)"
    "rg_deployBlock written = AList.update (dec_int c) (Some block) (rg_deployBlock current)"
proof -
  from assms obtain raw rawBlock addr block where known: "\<not> falsy chainArg" "the chainArg \<in> {''43113'', ''43114''}"
    and addr: "parseAddress raw ''contractAddress'' = Inr addr"
    and block: "deploy_block rawBlock = Inr block"
    and new: "rg_addresses written = AList.update (the chainArg) (Some addr) (rg_addresses current)"
      "rg_deployBlock written = AList.update (the chainArg) (Some block) (rg_deployBlock current)"
    unfolding sync_registry_def Let_def
    by (clarsimp simp del: not_falsy split: option.splits if_splits)
  have "dec_int 43113 = ''43113''" "dec_int 43114 = ''43114''" by code_simp+
  with known obtain c where "chainArg = Some (dec_int c)" "c \<in> {43113, 43114}"
    by (auto simp: insert_commute) (metis insertCI)+
  moreover have "is_hex_of_length 40 addr"
    using addr by (auto simp: parseAddress_def is_hex_of_length_lower
        split: option.splits json.splits if_splits)
  moreover have "0 < block" using block by (auto simp: deploy_block_def split: if_splits)
  ultimately show thesis using that new by simp
qed

text \<open>
  What a successful run writes: a well-formed address and a positive block for its own chain, and
  every other chain as it was.
\<close>

theorem sync_publishes_one_chain:
  assumes "sync_registry chainArg artifact record current = Inr (written, warned)"
  shows "\<exists>c a b. chainArg = Some (dec_int c) \<and> c \<in> {43113, 43114} \<and> is_hex_of_length 40 a \<and> 0 < b \<and>
     getRegistryAddress (rg_addresses written) c = Some a \<and>
     getRegistryDeployBlock (rg_deployBlock written) c = Some b \<and>
     (\<forall>c'. c' \<noteq> c \<longrightarrow> getRegistryAddress (rg_addresses written) c' = getRegistryAddress (rg_addresses current) c' \<and>
       getRegistryDeployBlock (rg_deployBlock written) c' = getRegistryDeployBlock (rg_deployBlock current) c')"
proof -
  from assms obtain c addr block where c: "chainArg = Some (dec_int c)" "c \<in> {43113, 43114}"
    and addr: "is_hex_of_length 40 addr" and block: "0 < block"
    and new: "rg_addresses written = AList.update (dec_int c) (Some addr) (rg_addresses current)"
      "rg_deployBlock written = AList.update (dec_int c) (Some block) (rg_deployBlock current)"
    by (rule sync_registry_written)
  show ?thesis
    by (intro exI [of _ c] exI [of _ addr] exI [of _ block])
      (use c addr block in \<open>simp add: new getRegistryAddress_def getRegistryDeployBlock_def update_conv'\<close>)
qed

section \<open>The probe\<close>

lemma challenge_version: "parseX402Challenge body = Inr c \<Longrightarrow> x_version (c_extra c) \<noteq> []"
  by (auto simp: parseX402Challenge_def parse_entry_def Let_def split: if_splits)

text \<open>
  What the probe would sign carries the challenge's amount to the challenge's payee, for at most 540
  seconds from a minute ago, and always under Fuji's constants: the version of mainnet is not
  configured and no challenge states an empty one.
\<close>

theorem probe_within_domain_and_window:
  assumes "probe_authorization kt kh env args now response = Inr (challenge, td)"
  shows "parseX402Challenge (snd response) = Inr challenge \<and>
     bt_to td = c_payTo challenge \<and> bt_value td = c_amount challenge \<and>
     bt_validBefore td \<le> bt_validAfter td + 540 \<and> bt_validAfter td = now div 1000 - 60 \<and>
     d_chainId (bt_domain td) = 43113 \<and> d_name (bt_domain td) = k_eip712Name FUJI \<and>
     to_lower (d_verifyingContract (bt_domain td)) = to_lower (k_xsgd FUJI) \<and>
     Some (d_version (bt_domain td)) = k_eip712Version FUJI"
proof -
  from assms obtain c chain where "CHAINS c = Some chain"
    and challenge: "parseX402Challenge (snd response) = Inr challenge"
    and dom: "assertDomainMatches (challenge_domain challenge) \<lparr>x_chainId = k_chainId chain,
      x_asset = to_lower (k_xsgd chain), x_domainName = k_eip712Name chain,
      x_domainVersion = coalesce (k_eip712Version chain) []\<rparr> = Inr ()"
    and td: "bt_to td = c_payTo challenge" "bt_value td = c_amount challenge"
      "bt_validAfter td = now div 1000 - 60" "bt_domain td = challenge_domain challenge"
      "bt_validBefore td = now div 1000 - 60 + min (c_maxTimeoutSeconds challenge) 540"
    unfolding probe_authorization_def Let_def
    by (clarsimp simp del: not_falsy split: option.splits if_splits jnum.splits)
  moreover from dom challenge_version [OF challenge] have "k_eip712Version chain \<noteq> None"
    by (cases "k_eip712Version chain") (auto simp: assertDomainMatches_Inr challenge_domain_def)
  ultimately have "chain = FUJI" by (auto simp: CHAINS_def MAINNET_def split: if_splits)
  with dom challenge td show ?thesis
    by (simp add: assertDomainMatches_Inr challenge_domain_def FUJI_def)
qed

section \<open>The isolation probe\<close>

lemma probe_services_Inr: "probe_services parse net bases = Inr () \<longleftrightarrow>
    (\<forall>base \<in> set bases. \<exists>address u status. parse ''/health'' (Some base) = Some address \<and>
      parse base None = Some u \<and> pn_health net address = Inr (True, status))"
  by (induction bases) (auto simp: new_URL_def split: option.splits)

text \<open>
  The probe passes exactly when it has proved isolation: everything it needs is configured, the signer's
  name resolves, the three services answer, and the connection to the signer timed out or was refused.
\<close>

theorem isolation_probe_passes_iff:
  "isolation_probe env parse net = Inr () \<longleftrightarrow>
     \<not> falsy (env ''SIGNER_HOST'') \<and> \<not> falsy (env ''POLICY_URL'') \<and> \<not> falsy (env ''LEDGER_URL'') \<and>
     \<not> falsy (env ''CHAIN_GATEWAY_URL'') \<and>
     (\<exists>port n. pn_lookup net (the (env ''SIGNER_HOST'')) = Inr n \<and> 0 < n \<and>
        probe_services parse net (map the [env ''POLICY_URL'', env ''LEDGER_URL'', env ''CHAIN_GATEWAY_URL'']) = Inr () \<and>
        (case env ''SIGNER_PORT'' of None \<Rightarrow> NInt 4003 | Some p \<Rightarrow> number_of_string p) = NInt port \<and>
        0 \<le> port \<and> port < 65536 \<and>
        signer_reachable (pn_connect net (the (env ''SIGNER_HOST'')) port) = Inr False)"
proof -
  have steps: "(if falsy h \<or> list_ex falsy us then Inl a
      else bindE (raising (f (the h))) (\<lambda>n. if n = 0 then Inl b
        else bindE (g (map the us)) (\<lambda>u. case sp of
            NInt port \<Rightarrow> if port < 0 \<or> 65536 \<le> port then Inl c
              else bindE (r (the h) port) (\<lambda>x. if x then Inl (d port) else Inr ())
          | _ \<Rightarrow> Inl c))) = Inr () \<longleftrightarrow>
      \<not> falsy h \<and> \<not> list_ex falsy us \<and> (\<exists>port n. f (the h) = Inr n \<and> 0 < n \<and> g (map the us) = Inr () \<and>
        sp = NInt port \<and> 0 \<le> port \<and> port < 65536 \<and> r (the h) port = Inr False)"
    for h us a b c d sp r and f :: "string \<Rightarrow> js_error + nat" and g :: "string list \<Rightarrow> string + unit"
    by (cases sp) (auto simp del: not_falsy)
  show ?thesis
    unfolding isolation_probe_def Let_def steps [where f = "pn_lookup net" and g = "probe_services parse net"
        and r = "\<lambda>host port. signer_reachable (pn_connect net host port)"
        and d = "\<lambda>port. ''FAIL orchestrator security group reached signer TCP '' @ dec_int port"]
    by (simp del: not_falsy probe_services.simps list.map)
qed

end
