(* ===== verification/Mandate_Registry.thy ===== *)
theory Mandate_Registry
  imports "HOL-Library.Word" Js_Strings Reservation
begin

text \<open>
  The contract \<open>packages/contracts-sol/src/MandateRegistry.sol\<close>, which chain-gateway reads: its storage,
  its two transactions with their custom errors, the read \<open>get\<close>, and the events it emits.  Storage is a
  total map whose slots start at zero; a transaction that reverts leaves it alone.
\<close>

type_synonym evm_address = "160 word"
type_synonym bytes32 = "256 word"
type_synonym uint64 = "64 word"

record mandate_slot =
  ms_owner :: evm_address
  ms_expiresAt :: uint64
  ms_revoked :: bool
  ms_policyHash :: bytes32

datatype registry_event =
    MandateCreated bytes32 evm_address bytes32 uint64
  | MandateRevoked bytes32 evm_address

datatype registry_error =
    MandateExists bytes32
  | NotOwner bytes32 evm_address
  | AlreadyRevoked bytes32

record registry =
  rg_mandates :: "bytes32 \<Rightarrow> mandate_slot"
  rg_log :: "registry_event list"

definition empty_registry :: registry where
  "empty_registry = \<lparr>rg_mandates = (\<lambda>_. \<lparr>ms_owner = 0, ms_expiresAt = 0, ms_revoked = False,
     ms_policyHash = 0\<rparr>), rg_log = []\<rparr>"

definition put_slot :: "bytes32 \<Rightarrow> mandate_slot \<Rightarrow> registry_event \<Rightarrow> registry \<Rightarrow> registry" where
  "put_slot k m e s = \<lparr>rg_mandates = (rg_mandates s)(k := m), rg_log = rg_log s @ [e]\<rparr>"

definition registry_create ::
    "evm_address \<Rightarrow> bytes32 \<Rightarrow> bytes32 \<Rightarrow> uint64 \<Rightarrow> registry \<Rightarrow> registry_error + registry" where
  "registry_create caller mandateId policyHash expiresAt s =
     (let m = rg_mandates s mandateId
      in if ms_owner m \<noteq> 0 then Inl (MandateExists mandateId)
         else Inr (put_slot mandateId
           (m\<lparr>ms_owner := caller, ms_policyHash := policyHash, ms_expiresAt := expiresAt\<rparr>)
           (MandateCreated mandateId caller policyHash expiresAt) s))"

definition registry_revoke :: "evm_address \<Rightarrow> bytes32 \<Rightarrow> registry \<Rightarrow> registry_error + registry" where
  "registry_revoke caller mandateId s =
     (let m = rg_mandates s mandateId
      in if ms_owner m \<noteq> caller then Inl (NotOwner mandateId caller)
         else if ms_revoked m then Inl (AlreadyRevoked mandateId)
         else Inr (put_slot mandateId (m\<lparr>ms_revoked := True\<rparr>) (MandateRevoked mandateId caller) s))"

definition registry_get :: "bytes32 \<Rightarrow> registry \<Rightarrow> evm_address \<times> bytes32 \<times> uint64 \<times> bool" where
  "registry_get mandateId s = (let m = rg_mandates s mandateId
     in (ms_owner m, ms_policyHash m, ms_expiresAt m, ms_revoked m))"

section \<open>Transactions\<close>

text \<open>The caller of a transaction; no caller has the address zero.\<close>

datatype registry_tx =
    CreateTx evm_address bytes32 bytes32 uint64
  | RevokeTx evm_address bytes32

fun tx_caller :: "registry_tx \<Rightarrow> evm_address" where
  "tx_caller (CreateTx a k h t) = a"
| "tx_caller (RevokeTx a k) = a"

fun execute :: "registry_tx \<Rightarrow> registry \<Rightarrow> registry_error + registry" where
  "execute (CreateTx a k h t) s = registry_create a k h t s"
| "execute (RevokeTx a k) s = registry_revoke a k s"

definition registry_step :: "registry_tx \<Rightarrow> registry \<Rightarrow> bool \<times> registry" where
  "registry_step tx s =
     (if tx_caller tx = 0 then (False, s)
      else case execute tx s of Inl e \<Rightarrow> (False, s) | Inr s' \<Rightarrow> (True, s'))"

abbreviation registry_run :: "registry_tx list \<Rightarrow> registry \<Rightarrow> registry" where
  "registry_run \<equiv> run_steps registry_step"

lemmas registry_defs = registry_step_def registry_create_def registry_revoke_def put_slot_def Let_def

definition exists_mandate :: "bytes32 \<Rightarrow> registry \<Rightarrow> bool" where
  "exists_mandate k s \<longleftrightarrow> ms_owner (rg_mandates s k) \<noteq> 0"

definition is_revoked_on_chain :: "bytes32 \<Rightarrow> registry \<Rightarrow> bool" where
  "is_revoked_on_chain k s \<longleftrightarrow> exists_mandate k s \<and> ms_revoked (rg_mandates s k)"

fun creates_mandate :: "bytes32 \<Rightarrow> registry_tx \<Rightarrow> bool" where
  "creates_mandate k (CreateTx a k' h t) \<longleftrightarrow> k' = k"
| "creates_mandate k (RevokeTx a k') \<longleftrightarrow> False"

fun revokes_mandate :: "bytes32 \<Rightarrow> registry_tx \<Rightarrow> bool" where
  "revokes_mandate k (CreateTx a k' h t) \<longleftrightarrow> False"
| "revokes_mandate k (RevokeTx a k') \<longleftrightarrow> k' = k"

lemma registry_step_cases:
  obtains (refused) "registry_step tx s = (False, s)"
  | (created) a k h t where "tx = CreateTx a k h t" "a \<noteq> 0" "\<not> exists_mandate k s"
      "registry_step tx s = (True, put_slot k ((rg_mandates s k)\<lparr>ms_owner := a, ms_policyHash := h,
         ms_expiresAt := t\<rparr>) (MandateCreated k a h t) s)"
  | (revoked) a k where "tx = RevokeTx a k" "a \<noteq> 0" "ms_owner (rg_mandates s k) = a"
      "\<not> ms_revoked (rg_mandates s k)"
      "registry_step tx s = (True, put_slot k ((rg_mandates s k)\<lparr>ms_revoked := True\<rparr>) (MandateRevoked k a) s)"
proof (cases tx)
  case (CreateTx a k h t)
  show thesis
  proof (cases "a = 0 \<or> exists_mandate k s")
    case True
    then show thesis by (intro refused) (auto simp: CreateTx registry_defs exists_mandate_def)
  next
    case False
    then show thesis
      by (intro created [OF CreateTx]) (auto simp: CreateTx registry_defs exists_mandate_def)
  qed
next
  case (RevokeTx a k)
  show thesis
  proof (cases "a = 0 \<or> ms_owner (rg_mandates s k) \<noteq> a \<or> ms_revoked (rg_mandates s k)")
    case True
    then show thesis by (intro refused) (auto simp: RevokeTx registry_defs)
  next
    case False
    then show thesis by (intro revoked [OF RevokeTx]) (auto simp: RevokeTx registry_defs)
  qed
qed

section \<open>What the contract promises\<close>

text \<open>A mandate is created once and revoked once, for good: the shared contract of the library.\<close>

interpretation registered: permanent registry_step "exists_mandate k" "creates_mandate k" "\<lambda>c. False"
proof
  fix c s
  show "creates_mandate k c \<Longrightarrow> fst (registry_step c s) \<Longrightarrow>
      \<not> exists_mandate k s \<and> exists_mandate k (snd (registry_step c s))"
    by (rule registry_step_cases [of c s]) (auto simp: exists_mandate_def put_slot_def)
  show "exists_mandate k s \<Longrightarrow> \<not> exists_mandate k (snd (registry_step c s)) \<Longrightarrow> False \<and> fst (registry_step c s)"
    by (rule registry_step_cases [of c s]) (auto simp: exists_mandate_def put_slot_def split: if_splits)
qed simp

interpretation revocation: permanent registry_step "is_revoked_on_chain k" "revokes_mandate k" "\<lambda>c. False"
proof
  fix c s
  show "revokes_mandate k c \<Longrightarrow> fst (registry_step c s) \<Longrightarrow>
      \<not> is_revoked_on_chain k s \<and> is_revoked_on_chain k (snd (registry_step c s))"
    by (rule registry_step_cases [of c s]) (auto simp: is_revoked_on_chain_def exists_mandate_def put_slot_def)
  show "is_revoked_on_chain k s \<Longrightarrow> \<not> is_revoked_on_chain k (snd (registry_step c s)) \<Longrightarrow>
      False \<and> fst (registry_step c s)"
    by (rule registry_step_cases [of c s])
      (auto simp: is_revoked_on_chain_def exists_mandate_def put_slot_def split: if_splits)
qed simp

text \<open>Owner, hash and expiry of a mandate never change.\<close>

definition terms_of :: "mandate_slot \<Rightarrow> evm_address \<times> bytes32 \<times> uint64" where
  "terms_of m = (ms_owner m, ms_policyHash m, ms_expiresAt m)"

lemma terms_step:
  "exists_mandate k s \<Longrightarrow>
   terms_of (rg_mandates (snd (registry_step tx s)) k) = terms_of (rg_mandates s k)"
  by (rule registry_step_cases [of tx s]) (auto simp: terms_of_def exists_mandate_def put_slot_def)

theorem terms_immutable:
  "exists_mandate k s \<Longrightarrow> terms_of (rg_mandates (registry_run txs s) k) = terms_of (rg_mandates s k)"
  by (induction txs arbitrary: s)
    (use registered.held_forever [of _ _ "[_]"] in \<open>simp_all add: terms_step\<close>)

text \<open>Only its owner revokes a mandate, and the log holds one event for the creation and one for the
  revocation of each.\<close>

definition log_ok :: "registry \<Rightarrow> bool" where
  "log_ok s \<longleftrightarrow> (\<forall>k.
     filter (\<lambda>e. case e of MandateCreated k' a h t \<Rightarrow> k' = k | MandateRevoked k' a \<Rightarrow> k' = k) (rg_log s) =
     (let m = rg_mandates s k
      in (if ms_owner m = 0 then [] else [MandateCreated k (ms_owner m) (ms_policyHash m) (ms_expiresAt m)]) @
         (if ms_revoked m then [MandateRevoked k (ms_owner m)] else [])) \<and>
     (ms_revoked (rg_mandates s k) \<longrightarrow> ms_owner (rg_mandates s k) \<noteq> 0))"

lemma log_ok_step: "log_ok s \<Longrightarrow> log_ok (snd (registry_step tx s))"
  by (rule registry_step_cases [of tx s]) (auto simp: log_ok_def put_slot_def exists_mandate_def Let_def)

theorem log_matches_storage: "log_ok (registry_run txs empty_registry)"
proof -
  have "log_ok s \<Longrightarrow> log_ok (registry_run txs s)" for s
    by (induction txs arbitrary: s) (simp_all add: log_ok_step)
  then show ?thesis by (simp add: log_ok_def empty_registry_def)
qed

end
