(* ===== verification/Registry_Properties.thy ===== *)
theory Registry_Properties
  imports Mandate_Registry Wiring_Properties Wiring_Witnesses
begin

text \<open>
  The registry contract behind chain-gateway: with a node that answers what the contract holds, a
  revocation stops every later payment request, and the policy a mandate was created under is the
  only one that is ever signed for.
\<close>

section \<open>Reading the contract\<close>

definition address_text :: "evm_address \<Rightarrow> string" where
  "address_text a = ''0x'' @ pad_start 40 CHR ''0'' (to_base 16 (unat a))"

definition bytes32_text :: "bytes32 \<Rightarrow> string" where
  "bytes32_text b = ''0x'' @ pad_start 64 CHR ''0'' (to_base 16 (unat b))"

definition bytes32_of_hex :: "hex \<Rightarrow> bytes32" where
  "bytes32_of_hex h = of_nat (of_base 16 (drop 2 h))"

text \<open>
  What is documented of the RPC client: a read of the registry that succeeds answers \<open>get\<close> of the
  contract as it is in that state of the chain.  \<open>deployed\<close> gives the contract at an address.
\<close>

definition reads_registry :: "'c rpc_client \<Rightarrow> ('c \<Rightarrow> int \<Rightarrow> address \<Rightarrow> registry) \<Rightarrow> bool" where
  "reads_registry client deployed \<longleftrightarrow> (\<forall>c addr mid s ow h t v.
     fst (cl_registryGet client c addr mid s) = Inr (ow, h, t, v) \<longrightarrow>
     (\<exists>a p e. registry_get (bytes32_of_hex mid) (deployed s c addr) = (a, p, e, v) \<and>
        to_lower ow = address_text a \<and> to_lower h = bytes32_text p \<and> t = uint e))"

text \<open>What a payment that consults the signer found in the contract.\<close>

lemma consulted_contract:
  assumes "reads_registry (gd_client gd) deployed"
    and "payment_request (wired env sd stok gd gtok tok rid snow chain) now body w = (r, w')"
    and "wd_signer w' \<noteq> wd_signer w"
  obtains mid m addr slot where "pb_mandateId body = Some mid"
    "map_option pr_policy (jget (l_policies (wd_ledger w)) mid) = Some m"
    "requireRegistryAddress (gd_registry gd) (m_chainId m) = Inr addr"
    "slot = rg_mandates (deployed chain (m_chainId m) addr) (bytes32_of_hex (to_lower mid))"
    "ms_owner slot \<noteq> 0" "\<not> ms_revoked slot" "nowSec now < uint (ms_expiresAt slot)"
    "to_lower (hashPolicy (pe_keccak_text env) m) = bytes32_text (ms_policyHash slot)"
proof -
  from consulted_mandate_live [OF assms(2,3)] obtain mid m addr ow h t
    where mid: "pb_mandateId body = Some mid"
      "map_option pr_policy (jget (l_policies (wd_ledger w)) mid) = Some m"
      "requireRegistryAddress (gd_registry gd) (m_chainId m) = Inr addr"
    and get: "fst (cl_registryGet (gd_client gd) (m_chainId m) addr (to_lower mid) chain) = Inr (ow, h, t, False)"
    and live: "to_lower ow \<noteq> ZERO_ADDRESS" "nowSec now < t"
      "to_lower h = to_lower (hashPolicy (pe_keccak_text env) m)"
    by blast
  let ?slot = "rg_mandates (deployed chain (m_chainId m) addr) (bytes32_of_hex (to_lower mid))"
  from assms(1) get have slot: "to_lower ow = address_text (ms_owner ?slot)"
    "to_lower h = bytes32_text (ms_policyHash ?slot)" "t = uint (ms_expiresAt ?slot)" "\<not> ms_revoked ?slot"
    unfolding reads_registry_def registry_get_def Let_def by fastforce+
  have "address_text 0 = ZERO_ADDRESS" by code_simp
  with live(1) slot(1) have "ms_owner ?slot \<noteq> 0" by auto
  with that [OF mid refl] slot live show thesis by simp
qed

lemma consulted_slot:
  assumes "reads_registry (gd_client gd) deployed"
    and "payment_request (wired env sd stok gd gtok tok rid snow chain) now body w = (r, w')"
    and "wd_signer w' \<noteq> wd_signer w"
    and "pb_mandateId body = Some mid" "map_option pr_policy (jget (l_policies (wd_ledger w)) mid) = Some m"
  shows "\<exists>addr. requireRegistryAddress (gd_registry gd) (m_chainId m) = Inr addr \<and>
    exists_mandate (bytes32_of_hex (to_lower mid)) (deployed chain (m_chainId m) addr) \<and>
    \<not> is_revoked_on_chain (bytes32_of_hex (to_lower mid)) (deployed chain (m_chainId m) addr) \<and>
    to_lower (hashPolicy (pe_keccak_text env) m) = bytes32_text (ms_policyHash
      (rg_mandates (deployed chain (m_chainId m) addr) (bytes32_of_hex (to_lower mid))))"
proof -
  obtain mid' m' addr slot where found: "pb_mandateId body = Some mid'"
      "map_option pr_policy (jget (l_policies (wd_ledger w)) mid') = Some m'"
    and slot: "requireRegistryAddress (gd_registry gd) (m_chainId m') = Inr addr"
      "slot = rg_mandates (deployed chain (m_chainId m') addr) (bytes32_of_hex (to_lower mid'))"
      "ms_owner slot \<noteq> 0" "\<not> ms_revoked slot"
      "to_lower (hashPolicy (pe_keccak_text env) m') = bytes32_text (ms_policyHash slot)"
    by (rule consulted_contract [OF assms(1-3)])
  from found(1) assms(4) have mid: "mid' = mid" by simp
  with found(2) assms(5) have "m' = m" by (metis option.inject)
  with mid slot show ?thesis
    by (intro exI [of _ addr]) (simp add: exists_mandate_def is_revoked_on_chain_def)
qed

section \<open>The kill switch\<close>

text \<open>C4. Once the registry has accepted the revocation of a mandate, no payment request for it ever consults
  the signer again, whatever else happens on chain and in the ledger.\<close>

theorem revoked_never_signed:
  assumes "reads_registry (gd_client gd) deployed"
    and "pb_mandateId body = Some mid"
    and "map_option pr_policy (jget (l_policies (wd_ledger w)) mid) = Some m"
    and "requireRegistryAddress (gd_registry gd) (m_chainId m) = Inr addr"
    and "fst (registry_step (RevokeTx owner (bytes32_of_hex (to_lower mid))) s)"
    and "deployed chain (m_chainId m) addr =
      registry_run txs (snd (registry_step (RevokeTx owner (bytes32_of_hex (to_lower mid))) s))"
  shows "wd_signer (snd (payment_request (wired env sd stok gd gtok tok rid snow chain) now body w)) = wd_signer w"
proof (rule ccontr)
  let ?k = "bytes32_of_hex (to_lower mid)" and ?tx = "RevokeTx owner (bytes32_of_hex (to_lower mid))"
  assume "wd_signer (snd (payment_request (wired env sd stok gd gtok tok rid snow chain) now body w)) \<noteq> wd_signer w"
  from consulted_slot [OF assms(1) prod.collapse [symmetric] this assms(2,3)] assms(4)
  have live: "\<not> is_revoked_on_chain ?k (deployed chain (m_chainId m) addr)" by auto
  have "is_revoked_on_chain ?k (snd (registry_step ?tx s))"
    using revocation.take_free [of ?k ?tx s] assms(5) by simp
  then have "is_revoked_on_chain ?k (deployed chain (m_chainId m) addr)"
    unfolding assms(6) by (rule revocation.held_forever)
  with live show False ..
qed

text \<open>Two payments ever signed for one mandate were decided under policies with one hash: the one the
  mandate was created with.\<close>

theorem policy_fixed_for_good:
  assumes "reads_registry (gd_client gd) deployed"
    and "payment_request (wired env sd stok gd gtok tok rid snow chain) now body w = (r, w1)" "wd_signer w1 \<noteq> wd_signer w"
    and "payment_request (wired env sd stok gd gtok tok rid' snow' chain') now' body' w' = (r', w1')"
      "wd_signer w1' \<noteq> wd_signer w'"
    and "pb_mandateId body = Some mid" "pb_mandateId body' = Some mid"
    and "map_option pr_policy (jget (l_policies (wd_ledger w)) mid) = Some m"
      "map_option pr_policy (jget (l_policies (wd_ledger w')) mid) = Some m'" "m_chainId m = m_chainId m'"
    and "\<forall>addr. \<exists>txs. deployed chain' (m_chainId m) addr = registry_run txs (deployed chain (m_chainId m) addr)"
  shows "to_lower (hashPolicy (pe_keccak_text env) m) = to_lower (hashPolicy (pe_keccak_text env) m')"
proof -
  let ?k = "bytes32_of_hex (to_lower mid)"
  obtain addr where a: "requireRegistryAddress (gd_registry gd) (m_chainId m) = Inr addr"
      "exists_mandate ?k (deployed chain (m_chainId m) addr)"
      "to_lower (hashPolicy (pe_keccak_text env) m) =
        bytes32_text (ms_policyHash (rg_mandates (deployed chain (m_chainId m) addr) ?k))"
    using consulted_slot [OF assms(1-3,6,8)] by blast
  then have b: "to_lower (hashPolicy (pe_keccak_text env) m') =
      bytes32_text (ms_policyHash (rg_mandates (deployed chain' (m_chainId m) addr) ?k))"
    using consulted_slot [OF assms(1,4,5,7,9)] assms(10) by auto
  from assms(11) obtain txs where
    "deployed chain' (m_chainId m) addr = registry_run txs (deployed chain (m_chainId m) addr)" by blast
  with terms_immutable [OF a(2), of txs] a(3) b show ?thesis by (simp add: terms_of_def)
qed

section \<open>A node that holds the contract\<close>

lemma to_lower_hex_digits [simp]: "to_lower (to_base 16 n) = to_base 16 n"
proof -
  have "list_all (\<lambda>c. lower_char c = c) (to_base 16 n)" by (rule to_base_all) (auto simp: lower_char_def digit_char_def)
  then show ?thesis by (simp add: to_lower_def list_all_iff map_idI)
qed

lemma to_lower_texts [simp]:
  "to_lower (address_text a) = address_text a" "to_lower (bytes32_text b) = bytes32_text b"
proof -
  have "to_lower (pad_start n CHR ''0'' (to_base 16 m)) = pad_start n CHR ''0'' (to_base 16 m)" for n m
    using to_lower_hex_digits [of m] by (simp add: pad_start_def to_lower_def lower_char_def)
  moreover have "to_lower (''0x'' @ x) = ''0x'' @ to_lower x" for x by (simp add: to_lower_def lower_char_def)
  ultimately show "to_lower (address_text a) = address_text a" "to_lower (bytes32_text b) = bytes32_text b"
    by (simp_all add: address_text_def bytes32_text_def)
qed

definition contract_client :: "registry rpc_client" where
  "contract_client = \<lparr>cl_name = (\<lambda>c s. (Inr ''XSGD'', s)), cl_decimals = (\<lambda>c s. (Inr 6, s)),
     cl_balanceOf = (\<lambda>c t a s. (Inr 0, s)), cl_getBalance = (\<lambda>c a s. (Inr 0, s)),
     cl_registryGet = (\<lambda>c r mid s. case registry_get (bytes32_of_hex mid) s of
        (a, p, e, v) \<Rightarrow> (Inr (address_text a, bytes32_text p, uint e, v), s)),
     cl_simulateRevoke = (\<lambda>c r m f s. (Inr (), s)), cl_getBlockNumber = (\<lambda>c s. (Inr 12, s)),
     cl_getTransactionReceipt = (\<lambda>c h s. (Inl (RpcError None None ''none'' None), s))\<rparr>"

definition contract_deps :: "registry gateway_deps" where
  "contract_deps = \<lparr>gd_client = contract_client, gd_getAddress = (\<lambda>s. s), gd_decode = toy_decode,
     gd_encode_revoke = (\<lambda>s. s), gd_registry = registry_addresses\<rparr>"

lemma contract_client_reads: "reads_registry (gd_client contract_deps) (\<lambda>s c addr. s)"
  by (auto simp: reads_registry_def contract_deps_def contract_client_def split: prod.splits)

text \<open>The wallet creates the mandate, revokes it, and another mandate is created.\<close>

definition revoked_registry :: registry where
  "revoked_registry = (let k = bytes32_of_hex (to_lower word32) in registry_run [CreateTx 2 7 7 9]
     (snd (registry_step (RevokeTx 1 k) (snd (registry_step (CreateTx 1 k 0 2000) empty_registry)))))"

lemma revoked_never_signed_witness:
  "wd_signer (snd (payment_request (wired base_env sample_deps (Some ''tok'') contract_deps (Some ''tok'')
     ''tok'' ''id'' 0 revoked_registry) 1000000 wired_body wired_world)) = start_state"
proof -
  let ?k = "bytes32_of_hex (to_lower word32)"
  have "map_option pr_policy (jget (l_policies (wd_ledger wired_world)) word32) = Some wired_mandate"
    "requireRegistryAddress registry_addresses (m_chainId wired_mandate) =
      Inr ''0x47b9b484944d95bc04888e40ad585462a06e7c6d''" by (code_simp, code_simp)
  moreover have "fst (registry_step (RevokeTx 1 ?k) (snd (registry_step (CreateTx 1 ?k 0 2000) empty_registry)))"
    by (simp add: registry_defs empty_registry_def)
  ultimately have "wd_signer (snd (payment_request (wired base_env sample_deps (Some ''tok'') contract_deps
      (Some ''tok'') ''tok'' ''id'' 0 revoked_registry) 1000000 wired_body wired_world)) = wd_signer wired_world"
    by (intro revoked_never_signed [OF contract_client_reads, where mid = word32 and m = wired_mandate and owner = 1
        and s = "snd (registry_step (CreateTx 1 ?k 0 2000) empty_registry)" and txs = "[CreateTx 2 7 7 9]"])
      (simp_all add: wired_body_def contract_deps_def revoked_registry_def Let_def)
  then show ?thesis by (simp add: wired_world_def)
qed

end
