(* ===== verification/Signer_Keys.thy ===== *)
theory Signer_Keys
  imports Signer_Service
begin

text \<open>
  The key sources of the signer and its assembly: \<open>keys/kms-key-source.ts\<close> on the calls of the key
  service's client, \<open>keys/local-key-source.ts\<close> on the curve library, the boot of \<open>main.ts\<close>, the
  application of \<open>app.ts\<close> with its routes, and the script that prints the address of a public key
  (\<open>scripts/derive-kms-address.ts\<close>).
\<close>

section \<open>The key source\<close>

record 'k key_source =
  ks_getPublicKeyDer :: "'k \<Rightarrow> (js_error + byte list) \<times> 'k"
  ks_signDigest :: "byte list \<Rightarrow> 'k \<Rightarrow> (js_error + byte list) \<times> 'k"

text \<open>
  The client of the key service.  A call throws, with the message when what it throws is an
  \<open>Error\<close>, or answers, with the bytes when the answer has them.  \<open>km_Sign\<close> takes the key id, the
  message, the message type and the signing algorithm.
\<close>

type_synonym kms_answer = "string option + byte list option"

record 'k kms_client =
  km_GetPublicKey :: "string \<Rightarrow> 'k \<Rightarrow> kms_answer \<times> 'k"
  km_Sign :: "string \<Rightarrow> byte list \<Rightarrow> string \<Rightarrow> string \<Rightarrow> 'k \<Rightarrow> kms_answer \<times> 'k"

text \<open>The body of the two \<open>try\<close> blocks: an answer without bytes throws inside the block.\<close>

definition kms_bytes :: "string \<Rightarrow> kms_answer \<Rightarrow> js_error + byte list" where
  "kms_bytes missing res =
     (case res of
        Inl message \<Rightarrow> Inl (wrapKmsError message)
      | Inr None \<Rightarrow> Inl (wrapKmsError (Some missing))
      | Inr (Some bytes) \<Rightarrow> Inr bytes)"

text \<open>\<open>connect\<close> is the constructor of the client; no caller passes a signing algorithm.\<close>

definition buildKmsKeySource :: "(string \<Rightarrow> 'k kms_client) \<Rightarrow> string \<Rightarrow> string \<Rightarrow> string option \<Rightarrow> 'k key_source" where
  "buildKmsKeySource connect keyId region signingAlgorithm =
     (let client = connect region; algorithm = coalesce signingAlgorithm ''ECDSA_SHA_256''
      in \<lparr>ks_getPublicKeyDer = (\<lambda>k. case km_GetPublicKey client keyId k of
            (res, k') \<Rightarrow> (kms_bytes ''KMS GetPublicKey returned no PublicKey'' res, k')),
          ks_signDigest = (\<lambda>digest k. case km_Sign client keyId digest ''DIGEST'' algorithm k of
            (res, k') \<Rightarrow> (kms_bytes ''KMS Sign returned no Signature'' res, k'))\<rparr>)"

text \<open>
  The local key source.  The curve library's \<open>getPublicKey\<close> (uncompressed) and \<open>sign\<close> (no
  prehashing, no low \<open>s\<close>) and viem's \<open>hexToBytes\<close> are parameters.
\<close>

record curve_library =
  cv_getPublicKey :: "byte list \<Rightarrow> js_error + byte list"
  cv_sign :: "byte list \<Rightarrow> byte list \<Rightarrow> js_error + nat \<times> nat"
  cv_hexToBytes :: "string \<Rightarrow> js_error + byte list"

datatype private_key = Key_bytes "byte list" | Key_text string

definition privateKeyBytes :: "curve_library \<Rightarrow> private_key \<Rightarrow> js_error + byte list" where
  "privateKeyBytes cv privateKey =
     (case privateKey of
        Key_text t \<Rightarrow>
          let hex = (if take 2 t = ''0x'' then drop 2 t else t) in cv_hexToBytes cv (''0x'' @ hex)
      | Key_bytes bs \<Rightarrow>
          if length bs \<noteq> 32
          then Inl (JsError (''private key must be 32 bytes, got '' @ dec (length bs))) else Inr bs)"

definition buildLocalKeySource :: "curve_library \<Rightarrow> private_key \<Rightarrow> js_error + 'k key_source" where
  "buildLocalKeySource cv privateKey =
     bindE (privateKeyBytes cv privateKey) (\<lambda>key.
     bindE (cv_getPublicKey cv key) (\<lambda>uncompressed.
     bindE (buildSpkiDer uncompressed) (\<lambda>spki.
       Inr \<lparr>ks_getPublicKeyDer = (\<lambda>k. (Inr spki, k)),
            ks_signDigest = (\<lambda>digest k.
              (if length digest \<noteq> 32
               then Inl (JsError (''digest must be 32 bytes, got '' @ dec (length digest)))
               else bindE (cv_sign cv digest key) (\<lambda>(r, s). encodeSignatureDer r s), k))\<rparr>)))"

section \<open>The application\<close>

text \<open>The libraries the signer is built on.\<close>

record 'k signer_libs =
  sb_curve :: curve_library
  sb_connect :: "string \<Rightarrow> 'k kms_client"
  sb_hashTypedData :: "typed_data \<Rightarrow> byte list"
  sb_recoverKey :: "byte list \<Rightarrow> byte list \<Rightarrow> byte list option"
  sb_keccakBytes :: "byte list \<Rightarrow> byte list"
  sb_getAddress :: "string \<Rightarrow> string"
  sb_json_parse :: "string \<Rightarrow> json option"

record 'k signer_options =
  bo_internalToken :: "string option"
  bo_chainId :: int
  bo_keySource :: "'k key_source"
  bo_signerAddress :: address
  bo_expectedDomain :: expected_domain
  bo_pinnedMandatesJson :: "string option"
  bo_kmsKeyId :: "string option"

record 'k signer_app =
  sa_internalToken :: "string option"
  sa_deps :: "'k sign_deps"
  sa_kmsKeyId :: "string option"

definition buildSignerApp :: "'k signer_libs \<Rightarrow> 'k signer_options \<Rightarrow> js_error + 'k signer_app" where
  "buildSignerApp libs opts =
     bindE (parsePinnedMandates (sb_json_parse libs) (bo_pinnedMandatesJson opts)) (\<lambda>pinned.
       Inr \<lparr>sa_internalToken = bo_internalToken opts,
         sa_deps = \<lparr>sd_signDigest = ks_signDigest (bo_keySource opts),
           sd_hashTypedData = sb_hashTypedData libs, sd_recoverKey = sb_recoverKey libs,
           sd_keccakBytes = sb_keccakBytes libs, sd_getAddress = sb_getAddress libs,
           sd_signerAddress = bo_signerAddress opts, sd_chainId = bo_chainId opts,
           sd_expectedDomain = bo_expectedDomain opts, sd_pinned = pinned\<rparr>,
         sa_kmsKeyId = bo_kmsKeyId opts\<rparr>)"

record signer_health =
  sh_derivedAddress :: address
  sh_kmsKeyId :: "string option"
  sh_chainId :: int

definition signer_health_route :: "'k signer_app \<Rightarrow> signer_health" where
  "signer_health_route app = \<lparr>sh_derivedAddress = sd_signerAddress (sa_deps app),
     sh_kmsKeyId = maskKmsKeyId (sa_kmsKeyId app), sh_chainId = sd_chainId (sa_deps app)\<rparr>"

text \<open>The routes: \<open>GET /health\<close>, \<open>POST /sign\<close> and \<open>POST /sign/*\<close>.\<close>

datatype signer_call = Get_signer_health | Post_sign | Post_sign_below

datatype signer_reply = Health_reply signer_health | Sign_reply sign_response

definition signer_handle ::
    "'k signer_app \<Rightarrow> int \<Rightarrow> signer_call \<Rightarrow> request \<Rightarrow> 'k signer_state \<Rightarrow>
     (js_error + signer_reply) \<times> 'k signer_state" where
  "signer_handle app now call req st =
     (case call of
        Get_signer_health \<Rightarrow> (Inr (Health_reply (signer_health_route app)), st)
      | Post_sign \<Rightarrow> map_prod (map_sum id Sign_reply) id (post_sign (sa_deps app) now (rq_body req) st)
      | Post_sign_below \<Rightarrow> (unknown_sign_route, st))"

definition signer_serve ::
    "'k signer_app \<Rightarrow> int \<Rightarrow> signer_call option \<Rightarrow> request \<Rightarrow> 'k signer_state \<Rightarrow>
     signer_reply reply \<times> 'k signer_state" where
  "signer_serve app now call req st =
     (case call of
        Some c \<Rightarrow> serve (sa_internalToken app) (signer_handle app now c) req st
      | None \<Rightarrow> (case internalAuth (sa_internalToken app) req of
            Inl e \<Rightarrow> (errorHandler e req, st) | Inr _ \<Rightarrow> (notFoundHandler req, st)))"

section \<open>The boot\<close>

definition buildKeySource :: "'k signer_libs \<Rightarrow> key_source_kind \<Rightarrow> js_error + 'k key_source" where
  "buildKeySource libs kind =
     (case kind of
        LocalKey privateKey \<Rightarrow> buildLocalKeySource (sb_curve libs) (Key_text privateKey)
      | KmsKey keyId region \<Rightarrow> Inr (buildKmsKeySource (sb_connect libs) keyId region None))"

text \<open>\<open>CHAINS[chainId]\<close>, whose first property access throws when there is no such chain.\<close>

definition boot_chain :: "jnum \<Rightarrow> js_error + int \<times> chain_constants" where
  "boot_chain chainId =
     (case chainId of
        NInt n \<Rightarrow> (case CHAINS n of
            Some c \<Rightarrow> Inr (n, c)
          | None \<Rightarrow> Inl (JsError ''Cannot read properties of undefined (reading 'xsgd')''))
      | _ \<Rightarrow> Inl (JsError ''Cannot read properties of undefined (reading 'xsgd')''))"

text \<open>Up to the first use of the key source.\<close>

definition boot_key_source :: "'k signer_libs \<Rightarrow> environment \<Rightarrow> js_error + jnum \<times> 'k key_source" where
  "boot_key_source libs env =
     bindE (envNumber env ''PORT'' (port_signer SERVICE_PORTS)) (\<lambda>port.
     bindE (envNumber env ''SIGNER_CHAIN_ID'' 43113) (\<lambda>chainId.
     bindE (select_key_source env) (\<lambda>kind.
     bindE (buildKeySource libs kind) (\<lambda>keySource.
     bindE (requireEnv env ''EXPECTED_SIGNER_ADDRESS'') (\<lambda>_. Inr (chainId, keySource))))))"

definition boot_app ::
    "'k signer_libs \<Rightarrow> environment \<Rightarrow> jnum \<Rightarrow> 'k key_source \<Rightarrow> byte list \<Rightarrow> js_error + 'k signer_app" where
  "boot_app libs env chainId keySource spki =
     bindE (custody_proof (sb_keccakBytes libs) (sb_getAddress libs) env spki) (\<lambda>signerAddress.
     bindE (boot_chain chainId) (\<lambda>(n, chain).
       buildSignerApp libs \<lparr>bo_internalToken = env ''INTERNAL_TOKEN'', bo_chainId = n,
         bo_keySource = keySource, bo_signerAddress = signerAddress,
         bo_expectedDomain = boot_expected_domain n chain,
         bo_pinnedMandatesJson = env ''PINNED_MANDATES'', bo_kmsKeyId = env ''KMS_KEY_ID''\<rparr>))"

definition signer_main ::
    "'k signer_libs \<Rightarrow> environment \<Rightarrow> 'k \<Rightarrow> (js_error + 'k signer_app) \<times> 'k" where
  "signer_main libs env k =
     (case boot_key_source libs env of
        Inl e \<Rightarrow> (Inl e, k)
      | Inr (chainId, keySource) \<Rightarrow>
          (case ks_getPublicKeyDer keySource k of
             (der, k') \<Rightarrow> (bindE der (boot_app libs env chainId keySource), k')))"

section \<open>The address of a public key\<close>

text \<open>
  \<open>derive-kms-address.ts\<close> on the text of its standard input: what it prints, or the message with
  which it exits.  \<open>decode\<close> is \<open>Buffer.from(s, "base64")\<close>, which throws on no string.
\<close>

definition derive_kms_address ::
    "(string \<Rightarrow> byte list) \<Rightarrow> (byte list \<Rightarrow> byte list) \<Rightarrow> (string \<Rightarrow> string) \<Rightarrow> string \<Rightarrow> string + string" where
  "derive_kms_address decode keccak_bytes getAddress stdin =
     (let b64 = js_trim stdin; der = decode b64
      in if b64 = []
         then Inl ''derive-kms-address: no input on stdin -- pipe the base64 SPKI DER in, e.g. aws kms get-public-key --key-id KEY --output text --query PublicKey | pnpm tsx scripts/derive-kms-address.ts''
         else if der = [] \<or> length (base64 (map unat der)) \<noteq> length b64
         then Inl (''derive-kms-address: stdin does not round-trip as base64 (decoded '' @
           dec (length der) @ '' bytes) -- the public key was probably truncated in transit'')
         else case deriveAddressFromSpki keccak_bytes getAddress der of
             Inl e \<Rightarrow> Inl (''derive-kms-address: could not parse the SPKI DER public key: '' @ error_text e)
           | Inr address \<Rightarrow> Inr (address @ [CHR 0x0A]))"

end
