(* ===== verification/Custody_Properties.thy ===== *)
theory Custody_Properties
  imports Signer_Keys Signer_Properties Der_Properties
begin

text \<open>
  Custody: what a signer that has started guarantees of its key and address, and that no error of the
  key service carries the name of the key.
\<close>

section \<open>Redaction\<close>

abbreviation arn :: string where "arn \<equiv> ''arn:aws:kms:''"

abbreviation redacted :: string where "redacted \<equiv> ''...(redacted)''"

text \<open>What every occurrence of the prefix goes on with, up to a blank, is nothing or was redacted.\<close>

definition names_no_key :: "string \<Rightarrow> bool" where
  "names_no_key s \<longleftrightarrow> (\<forall>xs ys. s = xs @ arn @ ys \<longrightarrow> takeWhile (\<lambda>c. c \<noteq> CHR '' '') ys \<in> {[], redacted})"

definition key_named :: "string \<Rightarrow> bool" where
  "key_named s \<longleftrightarrow> take 12 s = arn \<and> drop 12 s \<noteq> [] \<and> hd (drop 12 s) \<noteq> CHR '' ''"

lemma redact_named: "key_named s \<Longrightarrow>
    redact_arn s = arn @ redacted @ redact_arn (dropWhile (\<lambda>c. c \<noteq> CHR '' '') (drop 12 s))"
  by (subst redact_arn.simps) (auto simp: key_named_def)

lemma redact_other: "\<not> key_named (c # s) \<Longrightarrow> redact_arn (c # s) = c # redact_arn s"
  by (subst redact_arn.simps) (auto simp: key_named_def)

lemma redact_Nil [simp]: "redact_arn [] = []"
  by (subst redact_arn.simps) simp

lemma named_split: "key_named s \<Longrightarrow> s = arn @ drop 12 s"
  by (metis append_take_drop_id key_named_def)

text \<open>What the redacted text begins with, other than a prefix, the text begins with.\<close>

lemma redact_begins:
  assumes "redact_arn s = c # u" "c \<noteq> CHR ''a''"
  shows "\<exists>t. s = c # t \<and> u = redact_arn t"
proof (cases s)
  case (Cons d t)
  show ?thesis
  proof (cases "key_named s")
    case True
    then show ?thesis using assms redact_named [OF True] by simp
  next
    case False
    then show ?thesis using assms redact_other [of d t] Cons by auto
  qed
qed (use assms in simp)

lemma redact_begins_aws:
  assumes "redact_arn s = CHR ''a'' # CHR ''w'' # u"
  shows "\<exists>t. s = CHR ''a'' # t \<and> CHR ''w'' # u = redact_arn t"
proof (cases s)
  case (Cons d t)
  show ?thesis
  proof (cases "key_named s")
    case True
    then show ?thesis using assms redact_named [OF True] by simp
  next
    case False
    then show ?thesis using assms redact_other [of d t] Cons by auto
  qed
qed (use assms in simp)

lemma redact_begins_run:
  "redact_arn s = p @ u \<Longrightarrow> CHR ''a'' \<notin> set p \<Longrightarrow> \<exists>t. s = p @ t \<and> u = redact_arn t"
proof (induction p arbitrary: s)
  case (Cons c p)
  then obtain t where "s = c # t" "p @ u = redact_arn t"
    using redact_begins [of s c "p @ u"] by auto
  then show ?case using Cons.IH [of t] Cons.prems(2) by auto
qed simp

lemma redact_begins_arn:
  assumes "redact_arn s = ''rn:aws:kms:'' @ ys"
  shows "\<exists>t. s = ''rn:aws:kms:'' @ t \<and> ys = redact_arn t"
proof -
  obtain t where t: "s = ''rn:'' @ t" "redact_arn t = CHR ''a'' # CHR ''w'' # ''s:kms:'' @ ys"
    using redact_begins_run [of s "''rn:''" "''aws:kms:'' @ ys"] assms by auto
  obtain t' where t': "t = CHR ''a'' # t'" "redact_arn t' = ''ws:kms:'' @ ys"
    using redact_begins_aws [OF t(2)] by auto
  obtain u where "t' = ''ws:kms:'' @ u" "ys = redact_arn u"
    using redact_begins_run [OF t'(2)] by auto
  then show ?thesis using t(1) t'(1) by auto
qed

lemma redact_blank:
  "u = [] \<or> hd u = CHR '' '' \<Longrightarrow> takeWhile (\<lambda>c. c \<noteq> CHR '' '') (redact_arn u) = []"
  by (cases u) (simp_all add: redact_other key_named_def)

text \<open>An occurrence of the prefix does not begin inside a redacted name.\<close>

lemma append_longer: "p @ w = xs @ t \<Longrightarrow> length p \<le> length xs \<Longrightarrow> \<exists>zs. xs = p @ zs \<and> w = zs @ t"
  by (auto simp: append_eq_append_conv2)

lemma no_prefix_inside:
  "\<forall>k \<in> set [1..<25]. (arn @ redacted) ! k \<noteq> CHR ''a'' \<or> k < 24 \<and> (arn @ redacted) ! (k + 1) \<noteq> CHR ''r''"
  by code_simp

lemma occurrence_after:
  assumes "(arn @ redacted) @ w = xs @ arn @ ys" "xs \<noteq> []"
  shows "\<exists>zs. xs = (arn @ redacted) @ zs \<and> w = zs @ arn @ ys"
proof -
  have len: "length (arn @ redacted) = 25" by simp
  have "length (arn @ redacted) \<le> length xs"
  proof (rule ccontr)
    assume "\<not> length (arn @ redacted) \<le> length xs"
    then have k: "length xs < 25" "0 < length xs" using assms(2) by simp_all
    have "((arn @ redacted) @ w) ! length xs = CHR ''a''" "((arn @ redacted) @ w) ! (length xs + 1) = CHR ''r''"
      unfolding assms(1) by (simp_all add: nth_append)
    then have "(arn @ redacted) ! length xs = CHR ''a''"
      "length xs < 24 \<Longrightarrow> (arn @ redacted) ! (length xs + 1) = CHR ''r''"
      unfolding nth_append [of "arn @ redacted" w] len using k(1) by simp_all
    moreover have "length xs \<in> set [1..<25]" using k by (cases xs) simp_all
    ultimately show False using no_prefix_inside by blast
  qed
  then show ?thesis by (rule append_longer [OF assms(1)])
qed

lemma redact_names_no_key: "names_no_key (redact_arn s)"
  unfolding names_no_key_def
proof (induction s rule: redact_arn.induct)
  case (1 s)
  show ?case
  proof (intro allI impI)
    fix xs ys
    assume o: "redact_arn s = xs @ arn @ ys"
    show "takeWhile (\<lambda>c. c \<noteq> CHR '' '') ys \<in> {[], redacted}"
    proof (cases "key_named s")
      case True
      define u where "u = dropWhile (\<lambda>c. c \<noteq> CHR '' '') (drop 12 s)"
      have blank: "u = [] \<or> hd u = CHR '' ''"
        unfolding u_def using hd_dropWhile by blast
      have r: "(arn @ redacted) @ redact_arn u = xs @ arn @ ys"
        using o redact_named [OF True] by (simp add: u_def)
      show ?thesis
      proof (cases "xs = []")
        case True
        then have "ys = redacted @ redact_arn u" using r by simp
        then show ?thesis using redact_blank [OF blank] by simp
      next
        case False
        then obtain zs where "redact_arn u = zs @ arn @ ys"
          using occurrence_after [OF r] by blast
        moreover have "s \<noteq> []" using True by (auto simp: key_named_def)
        ultimately show ?thesis
          using 1(1) [OF _ True [unfolded key_named_def]] unfolding u_def by blast
      qed
    next
      case False
      then obtain c t where s: "s = c # t" "redact_arn s = c # redact_arn t"
        using o redact_other by (cases s) auto
      show ?thesis
      proof (cases xs)
        case Nil
        then have "redact_arn t = ''rn:aws:kms:'' @ ys" "c = CHR ''a''"
          using o s by auto
        then obtain u where u: "s = arn @ u" "ys = redact_arn u"
          using redact_begins_arn [of t ys] s by auto
        then have "u = [] \<or> hd u = CHR '' ''" using False by (auto simp: key_named_def)
        then show ?thesis using u(2) redact_blank [of u] by simp
      next
        case (Cons d zs)
        then have "redact_arn t = zs @ arn @ ys" using o s by simp
        then show ?thesis using 1(2) False s unfolding key_named_def by auto
      qed
    qed
  qed
qed

lemma names_Cons:
  assumes "names_no_key s" "c \<noteq> CHR ''a'' \<or> s = [] \<or> hd s \<noteq> CHR ''r''"
  shows "names_no_key (c # s)"
  unfolding names_no_key_def
proof (intro allI impI)
  fix xs ys
  assume "c # s = xs @ arn @ ys"
  then obtain zs where "s = zs @ arn @ ys" using assms(2) by (cases xs) auto
  then show "takeWhile (\<lambda>c. c \<noteq> CHR '' '') ys \<in> {[], redacted}"
    using assms(1) unfolding names_no_key_def by blast
qed

lemma wrapped_names_no_key: "names_no_key (error_text (wrapKmsError m))"
  using redact_names_no_key [of "coalesce m ''unknown KMS error''"]
  by (simp add: wrapKmsError_def mk_app_error_def names_Cons)

text \<open>C31.
  No error of the key service's source carries the name of the key: in its message whatever follows the
  prefix of a key name up to a blank is absent or redacted, and the error is a retryable 502.
\<close>

theorem kms_error_names_no_key:
  assumes "fst (ks_signDigest (buildKmsKeySource connect keyId region algorithm) digest k) = Inl e \<or>
    fst (ks_getPublicKeyDer (buildKmsKeySource connect keyId region algorithm) k) = Inl e"
  shows "names_no_key (error_text e) \<and> (\<exists>a. e = AppError a \<and> ae_status a = 502 \<and>
    ae_code a = SIGNER_KMS_FAILED \<and> ae_retryable a)"
proof -
  have "\<exists>m. e = wrapKmsError m"
    using assms unfolding buildKmsKeySource_def Let_def
    by (auto simp: kms_bytes_def split: prod.splits sum.splits option.splits)
  then show ?thesis using wrapped_names_no_key by (auto simp: wrapKmsError_def mk_app_error_def)
qed

definition leaking_client :: "nat kms_client" where
  "leaking_client = \<lparr>km_GetPublicKey = (\<lambda>i k. (Inr (Some []), k)),
     km_Sign = (\<lambda>i m t a k. (Inl (Some ''User: u is not allowed on arn:aws:kms:eu:1:key/ab today''), k))\<rparr>"

lemma kms_error_names_no_key_witness:
  "\<exists>e. fst (ks_signDigest (buildKmsKeySource (\<lambda>r. leaking_client) ''ab'' ''eu'' None) [] 0) = Inl e \<and>
     names_no_key (error_text e) \<and>
     error_text e = ''KMS signing failed: User: u is not allowed on arn:aws:kms:...(redacted) today''"
proof -
  let ?r = "fst (ks_signDigest (buildKmsKeySource (\<lambda>r. leaking_client) ''ab'' ''eu'' None) [] 0)"
  have "isl ?r" "error_text (projl ?r) =
      ''KMS signing failed: User: u is not allowed on arn:aws:kms:...(redacted) today''"
    by (code_simp, code_simp)
  then show ?thesis
    using kms_error_names_no_key [of "\<lambda>r. leaking_client" "''ab''" "''eu''" None "[]" 0 "projl ?r"]
    by (auto simp: isl_def)
qed

text \<open>A key id that is no key name passes through.\<close>

lemma bare_key_id_kept:
  "error_text (wrapKmsError (Some ''1234abcd-12ab-34cd-56ef is disabled'')) =
     ''KMS signing failed: 1234abcd-12ab-34cd-56ef is disabled''"
  by code_simp

section \<open>The boot\<close>

lemma select_local: "select_key_source env = Inr kind \<Longrightarrow>
    \<not> (env ''SIGNER_KEY_SOURCE'' = Some ''local'' \<and> env ''ALLOW_LOCAL_KEY_SOURCE'' \<noteq> Some ''true'')"
  by (auto simp: select_key_source_def split: if_splits)

lemma custody_proof_Inr: "custody_proof keccak checksum env spki = Inr a \<longleftrightarrow>
    (\<exists>expected point. env ''EXPECTED_SIGNER_ADDRESS'' = Some expected \<and> expected \<noteq> [] \<and>
      extractUncompressedPoint spki = Inr point \<and>
      to_lower (addressFromUncompressedPoint keccak checksum point) = to_lower expected \<and>
      a = checksum (addressFromUncompressedPoint keccak checksum point))"
  by (auto simp: custody_proof_def requireEnv_def deriveAddressFromSpki_def split: if_splits)

lemma buildSignerApp_Inr: "buildSignerApp libs opts = Inr app \<Longrightarrow>
    sa_internalToken app = bo_internalToken opts \<and>
    sd_signerAddress (sa_deps app) = bo_signerAddress opts \<and>
    sd_hashTypedData (sa_deps app) = sb_hashTypedData libs \<and>
    sd_keccakBytes (sa_deps app) = sb_keccakBytes libs \<and>
    sd_recoverKey (sa_deps app) = sb_recoverKey libs \<and> sd_getAddress (sa_deps app) = sb_getAddress libs"
  by (auto simp: buildSignerApp_def)

text \<open>A signer that has started: its key source, the key that this answered, and its address.\<close>

lemma signer_main_Inr:
  assumes "signer_main libs env k = (Inr app, k')"
  obtains chainId keySource spki point expected where
    "boot_key_source libs env = Inr (chainId, keySource)"
    "\<not> (env ''SIGNER_KEY_SOURCE'' = Some ''local'' \<and> env ''ALLOW_LOCAL_KEY_SOURCE'' \<noteq> Some ''true'')"
    "fst (ks_getPublicKeyDer keySource k) = Inr spki" "extractUncompressedPoint spki = Inr point"
    "env ''EXPECTED_SIGNER_ADDRESS'' = Some expected"
    "to_lower (addressFromUncompressedPoint (sb_keccakBytes libs) (sb_getAddress libs) point) = to_lower expected"
    "sd_signerAddress (sa_deps app) =
       sb_getAddress libs (addressFromUncompressedPoint (sb_keccakBytes libs) (sb_getAddress libs) point)"
    "sa_internalToken app = env ''INTERNAL_TOKEN''"
    "sd_keccakBytes (sa_deps app) = sb_keccakBytes libs" "sd_getAddress (sa_deps app) = sb_getAddress libs"
    "sd_recoverKey (sa_deps app) = sb_recoverKey libs" "sd_hashTypedData (sa_deps app) = sb_hashTypedData libs"
proof -
  obtain chainId keySource spki where b: "boot_key_source libs env = Inr (chainId, keySource)"
      "fst (ks_getPublicKeyDer keySource k) = Inr spki" "boot_app libs env chainId keySource spki = Inr app"
    using assms by (auto simp: signer_main_def split: sum.splits prod.splits)
  have l: "\<not> (env ''SIGNER_KEY_SOURCE'' = Some ''local'' \<and> env ''ALLOW_LOCAL_KEY_SOURCE'' \<noteq> Some ''true'')"
    using b(1) select_local by (fastforce simp: boot_key_source_def)
  obtain a n chain where c: "custody_proof (sb_keccakBytes libs) (sb_getAddress libs) env spki = Inr a"
      "buildSignerApp libs \<lparr>bo_internalToken = env ''INTERNAL_TOKEN'', bo_chainId = n,
         bo_keySource = keySource, bo_signerAddress = a,
         bo_expectedDomain = boot_expected_domain n chain,
         bo_pinnedMandatesJson = env ''PINNED_MANDATES'', bo_kmsKeyId = env ''KMS_KEY_ID''\<rparr> = Inr app"
    using b(3) by (auto simp: boot_app_def)
  from c(1) obtain expected point where "env ''EXPECTED_SIGNER_ADDRESS'' = Some expected"
      "extractUncompressedPoint spki = Inr point"
      "to_lower (addressFromUncompressedPoint (sb_keccakBytes libs) (sb_getAddress libs) point) = to_lower expected"
      "a = sb_getAddress libs (addressFromUncompressedPoint (sb_keccakBytes libs) (sb_getAddress libs) point)"
    unfolding custody_proof_Inr by blast
  then show thesis using that [OF b(1) l b(2)] buildSignerApp_Inr [OF c(2)] by simp
qed

lemma signer_serve_signed:
  assumes "fst (signer_serve app now (Some Post_sign) req st) = Reply n (Sign_reply so)"
    and "url_path (rq_url req) \<noteq> ''/health''"
  obtains token st' where "sa_internalToken app = Some token" "token \<noteq> []"
    "rq_headers req ''x-internal-token'' = Some token"
    "post_sign (sa_deps app) now (rq_body req) st = (Inr so, st')"
proof -
  obtain u where u: "internalAuth (sa_internalToken app) req = Inr u"
    using assms(1) by (cases "internalAuth (sa_internalToken app) req")
      (auto simp: signer_serve_def serve_def errorHandler_def split: js_error.splits if_splits)
  obtain st' where p: "post_sign (sa_deps app) now (rq_body req) st = (Inr so, st')"
    using assms(1) u by (cases "post_sign (sa_deps app) now (rq_body req) st")
      (auto simp: signer_serve_def serve_def signer_handle_def errorHandler_def map_sum_def
        split: sum.splits js_error.splits if_splits)
  then show thesis using that u [unfolded internalAuth_admits] assms(2) by blast
qed

text \<open>The address of a public key, up to the case of its letters.\<close>

definition wallet_of :: "'k signer_libs \<Rightarrow> byte list \<Rightarrow> string" where
  "wallet_of libs point = to_lower (addressFromUncompressedPoint (sb_keccakBytes libs) (sb_getAddress libs) point)"

text \<open>C5.
  Whatever a signer that has started signs is signed for the wallet of the key it read at boot, which is
  the wallet the deployment expects: the reply names its address, the signature over the typed data of the
  request recovers to a key with that address, and the request carried the configured, nonempty token.  A
  local key was explicitly allowed.  The checksum of an address changes the case of letters only.
\<close>

theorem started_signer_is_the_wallet:
  assumes boot: "signer_main libs env k = (Inr app, k')"
    and checksum: "\<And>a. to_lower (sb_getAddress libs a) = to_lower a"
    and answer: "fst (signer_serve app now (Some Post_sign) req st) = Reply n (Sign_reply so)"
    and url: "url_path (rq_url req) \<noteq> ''/health''"
  shows "\<exists>chainId keySource spki point expected rq r s recovery signer token.
    boot_key_source libs env = Inr (chainId, keySource) \<and>
    fst (ks_getPublicKeyDer keySource k) = Inr spki \<and> extractUncompressedPoint spki = Inr point \<and>
    env ''EXPECTED_SIGNER_ADDRESS'' = Some expected \<and> wallet_of libs point = to_lower expected \<and>
    to_lower (so_signerAddress so) = to_lower expected \<and>
    parseSignBody (rq_body req) = Inr rq \<and>
    so_signature so = \<lparr>g_v = 27 + recovery mod 2, g_r = toBigIntHex r, g_s = toBigIntHex s\<rparr> \<and>
    sb_recoverKey libs (word_of_nat recovery # bigIntTo32Bytes r @ bigIntTo32Bytes s)
      (sb_hashTypedData libs (buildTransferWithAuthorizationTypedData (sr_typedData rq))) = Some signer \<and>
    wallet_of libs signer = to_lower expected \<and>
    env ''INTERNAL_TOKEN'' = Some token \<and> token \<noteq> [] \<and> rq_headers req ''x-internal-token'' = Some token \<and>
    \<not> (env ''SIGNER_KEY_SOURCE'' = Some ''local'' \<and> env ''ALLOW_LOCAL_KEY_SOURCE'' \<noteq> Some ''true'')"
proof -
  obtain chainId keySource spki point expected where m:
      "boot_key_source libs env = Inr (chainId, keySource)"
      "\<not> (env ''SIGNER_KEY_SOURCE'' = Some ''local'' \<and> env ''ALLOW_LOCAL_KEY_SOURCE'' \<noteq> Some ''true'')"
      "fst (ks_getPublicKeyDer keySource k) = Inr spki" "extractUncompressedPoint spki = Inr point"
      "env ''EXPECTED_SIGNER_ADDRESS'' = Some expected" "wallet_of libs point = to_lower expected"
      "to_lower (sd_signerAddress (sa_deps app)) = to_lower expected"
      "sa_internalToken app = env ''INTERNAL_TOKEN''"
    and d: "sd_keccakBytes (sa_deps app) = sb_keccakBytes libs" "sd_getAddress (sa_deps app) = sb_getAddress libs"
      "sd_recoverKey (sa_deps app) = sb_recoverKey libs" "sd_hashTypedData (sa_deps app) = sb_hashTypedData libs"
    by (rule signer_main_Inr [OF boot]) (simp add: wallet_of_def checksum)
  obtain token st' where t: "sa_internalToken app = Some token" "token \<noteq> []"
      "rq_headers req ''x-internal-token'' = Some token"
      "post_sign (sa_deps app) now (rq_body req) st = (Inr so, st')"
    by (rule signer_serve_signed [OF answer url])
  obtain rq digest r s v where p: "sign_begin (sa_deps app) (rq_body req) (ss_seen st) = Inr (rq, digest)"
      "recovers (sa_deps app) r s digest v"
      "so_signature so = \<lparr>g_v = v, g_r = toBigIntHex r, g_s = toBigIntHex s\<rparr>"
      "so_signerAddress so = sb_getAddress libs (sd_signerAddress (sa_deps app))"
    by (rule post_sign_Inr [OF t(4)]) (simp add: d)
  obtain recovery signer where v: "v = 27 + recovery mod 2"
      "sb_recoverKey libs (word_of_nat recovery # bigIntTo32Bytes r @ bigIntTo32Bytes s) digest = Some signer"
      "wallet_of libs signer = to_lower expected"
    using p(2) m(7) unfolding recovers_def wallet_of_def d by (auto simp: checksum)
  have q: "parseSignBody (rq_body req) = Inr rq"
      "digest = sb_hashTypedData libs (buildTransferWithAuthorizationTypedData (sr_typedData rq))"
    using p(1) unfolding sign_begin_Inr by (auto simp: d)
  have "to_lower (so_signerAddress so) = to_lower expected" "env ''INTERNAL_TOKEN'' = Some token"
    using p(4) m(7,8) t(1) by (simp_all add: checksum)
  then show ?thesis
    using m(1-6) t(2,3) p(3) [unfolded v(1)] v(2) [unfolded q(2)] v(3) q(1) by blast
qed

section \<open>A signer that starts\<close>

definition boot_wallet :: string where
  "boot_wallet = ''0x'' @ replicate 40 CHR ''a''"

definition boot_payee :: string where
  "boot_payee = ''0x'' @ replicate 40 CHR ''b''"

definition boot_word :: string where
  "boot_word = ''0x'' @ replicate 64 CHR ''1''"

definition boot_body :: json where
  "boot_body = JObj
     [(''requestId'', JStr ''r''), (''mandateId'', JStr boot_word),
      (''typedData'', JObj
        [(''domain'', JObj [(''name'', JStr (k_eip712Name FUJI)), (''version'', JStr (coalesce (k_eip712Version FUJI) [])),
            (''chainId'', JNum 43113), (''verifyingContract'', JStr (to_lower (k_xsgd FUJI)))]),
         (''message'', JObj [(''from'', JStr boot_wallet), (''to'', JStr boot_payee), (''value'', JStr ''7000000''),
            (''validAfter'', JNum 100), (''validBefore'', JNum 160), (''nonce'', JStr boot_word)])]),
      (''accepted'', JObj [(''network'', JStr ''n''), (''chainId'', JNum 43113), (''amount'', JStr ''7000000''),
         (''asset'', JStr boot_payee), (''payTo'', JStr boot_payee), (''maxTimeoutSeconds'', JNum 60),
         (''extra'', JObj [(''name'', JStr ''XSGD''), (''version'', JStr ''2'')])]),
      (''resource'', JStr ''https://x'')]"

definition boot_libs :: "nat signer_libs" where
  "boot_libs = \<lparr>sb_curve = \<lparr>cv_getPublicKey = (\<lambda>key. Inr (4 # replicate 64 7)),
       cv_sign = (\<lambda>digest key. Inr (1, 5)), cv_hexToBytes = (\<lambda>s. Inr (replicate 32 1))\<rparr>,
     sb_connect = (\<lambda>region. leaking_client), sb_hashTypedData = (\<lambda>t. replicate 32 0),
     sb_recoverKey = (\<lambda>rs digest. Some (4 # replicate 64 7)), sb_keccakBytes = (\<lambda>b. replicate 32 0xAA),
     sb_getAddress = (\<lambda>a. a),
     sb_json_parse = (\<lambda>s. Some (JObj [(boot_word, JObj [(''settlementRecipient'', JStr boot_payee),
       (''hardMaxTotal'', JStr ''30000000'')])]))\<rparr>"

definition boot_env :: environment where
  "boot_env = map_of [(''SIGNER_KEY_SOURCE'', ''local''), (''ALLOW_LOCAL_KEY_SOURCE'', ''true''),
     (''LOCAL_SIGNER_PRIVATE_KEY'', ''0x01''), (''EXPECTED_SIGNER_ADDRESS'', boot_wallet),
     (''INTERNAL_TOKEN'', ''t''), (''PINNED_MANDATES'', ''p'')]"

definition boot_request :: request where
  "boot_request = \<lparr>rq_method = ''POST'', rq_url = ''/sign'',
     rq_headers = (\<lambda>h. if h = ''x-internal-token'' then Some ''t'' else None),
     rq_body = Some boot_body, rq_id = ''1''\<rparr>"

definition boot_answer :: "signer_reply reply" where
  "boot_answer = fst (signer_serve (projr (fst (signer_main boot_libs boot_env 0))) 0 (Some Post_sign) boot_request
     \<lparr>ss_seen = [], ss_key = 0\<rparr>)"

lemma boot_starts: "\<not> isl (fst (signer_main boot_libs boot_env 0))"
  by code_simp

lemma boot_signs: "case boot_answer of Reply n (Sign_reply so) \<Rightarrow> so_requestId so = ''r'' | _ \<Rightarrow> False"
  by code_simp

lemma started_signer_is_the_wallet_witness:
  "\<exists>n so signer recovery. boot_answer = Reply n (Sign_reply so) \<and> so_requestId so = ''r'' \<and>
     to_lower (so_signerAddress so) = to_lower boot_wallet \<and> g_v (so_signature so) = 27 + recovery mod 2 \<and>
     wallet_of boot_libs signer = to_lower boot_wallet"
proof -
  define app where "app = projr (fst (signer_main boot_libs boot_env 0))"
  have b: "signer_main boot_libs boot_env 0 = (Inr app, snd (signer_main boot_libs boot_env 0))"
    unfolding app_def using boot_starts by (simp add: prod_eq_iff)
  obtain n so where a: "boot_answer = Reply n (Sign_reply so)" "so_requestId so = ''r''"
    using boot_signs by (auto split: reply.splits signer_reply.splits)
  have c: "to_lower (sb_getAddress boot_libs x) = to_lower x" for x by (simp add: boot_libs_def)
  have u: "url_path (rq_url boot_request) \<noteq> ''/health''" by code_simp
  have e: "boot_env ''EXPECTED_SIGNER_ADDRESS'' = Some boot_wallet" by code_simp
  obtain r s recovery signer where w: "to_lower (so_signerAddress so) = to_lower boot_wallet"
      "so_signature so = \<lparr>g_v = 27 + recovery mod 2, g_r = toBigIntHex r, g_s = toBigIntHex s\<rparr>"
      "wallet_of boot_libs signer = to_lower boot_wallet"
    using started_signer_is_the_wallet [OF b c a(1) [unfolded boot_answer_def app_def [symmetric]] u, unfolded e]
    by (elim exE conjE) (simp only: option.inject)
  from w(2) have "g_v (so_signature so) = 27 + recovery mod 2" by simp
  with a w(1,3) show ?thesis by blast
qed

end
