(* ===== verification/Guard.thy ===== *)
theory Guard
  imports Http_Plumbing
begin

text \<open>
  What the internal token promises.  A service handles a request of some call on its state.  Only the
  path of the health route is public: a stranger's request to any other path is answered 401, and no
  request of a stranger changes the state.  From that contract: whatever strangers send between the
  requests of the other services, the state and every answer to those are the same.
\<close>

fun run_requests ::
    "('c \<Rightarrow> request \<Rightarrow> 's \<Rightarrow> 'b reply \<times> 's) \<Rightarrow> ('c \<times> request) list \<Rightarrow> 's \<Rightarrow> ('b reply \<times> request) list \<times> 's" where
  "run_requests app [] s = ([], s)"
| "run_requests app ((c, req) # cs) s =
     (case app c req s of (r, s1) \<Rightarrow>
       case run_requests app cs s1 of (rs, s2) \<Rightarrow> ((r, req) # rs, s2))"

text \<open>
  Strangers do not interfere.  The router sends a public path to the health route or to no route: that is
  what \<open>routed\<close> says of a call and its request.  Under it every request without the token to another
  path is answered 401, and without the requests of strangers, those to the health route included, the
  requests of the others have the same answers and end in the same state.
\<close>

definition strangers_barred ::
    "(request \<Rightarrow> bool) \<Rightarrow> (request \<Rightarrow> bool) \<Rightarrow> ('c \<Rightarrow> bool) \<Rightarrow> ('c \<Rightarrow> request \<Rightarrow> 's \<Rightarrow> 'b reply \<times> 's) \<Rightarrow> bool" where
  "strangers_barred token public health app \<longleftrightarrow> (\<forall>cs s. (\<forall>(c, req) \<in> set cs. public req \<longrightarrow> health c) \<longrightarrow>
     (\<forall>(r, req) \<in> set (fst (run_requests app cs s)). token req \<or> public req \<or> reply_status r = 401) \<and>
     run_requests app (filter (\<lambda>(c, req). token req) cs) s =
       (filter (\<lambda>(r, req). token req) (fst (run_requests app cs s)), snd (run_requests app cs s)))"

locale guarded =
  fixes token :: "request \<Rightarrow> bool"
    and public :: "request \<Rightarrow> bool"
    and health :: "'c \<Rightarrow> bool"
    and app :: "'c \<Rightarrow> request \<Rightarrow> 's \<Rightarrow> 'b reply \<times> 's"
  assumes refuses: "\<not> token req \<Longrightarrow> \<not> public req \<Longrightarrow> reply_status (fst (app c req s)) = 401"
    and keeps: "\<not> token req \<Longrightarrow> \<not> public req \<Longrightarrow> snd (app c req s) = s"
    and health_keeps: "health c \<Longrightarrow> snd (app c req s) = s"
begin

lemma answers:
  "(r, req) \<in> set (fst (run_requests app cs s)) \<Longrightarrow> token req \<or> public req \<or> reply_status r = 401"
proof (induction cs arbitrary: s)
  case (Cons cr cs)
  obtain c req' where cr: "cr = (c, req')" by (cases cr)
  show ?case
    using Cons.prems Cons.IH [of "snd (app c req' s)"] refuses [of req' c s]
    by (auto simp: cr split: prod.splits)
qed simp

lemma filtered:
  "\<forall>(c, req) \<in> set cs. public req \<longrightarrow> health c \<Longrightarrow>
   run_requests app (filter (\<lambda>(c, req). token req) cs) s =
     (filter (\<lambda>(r, req). token req) (fst (run_requests app cs s)), snd (run_requests app cs s))"
proof (induction cs arbitrary: s)
  case (Cons cr cs)
  obtain c req where cr: "cr = (c, req)" by (cases cr)
  have "\<not> token req \<Longrightarrow> snd (app c req s) = s"
    using keeps [of req c s] health_keeps [of c req s] Cons.prems cr by auto
  then show ?case
    using Cons.prems Cons.IH by (auto simp: cr split: prod.splits)
qed simp

lemma barred: "strangers_barred token public health app"
  unfolding strangers_barred_def using answers filtered by auto

end

section \<open>The shared hook\<close>

text \<open>The configured token and the public path of \<open>internalAuth\<close>: the query is cut off the url.\<close>

definition has_token :: "string option \<Rightarrow> request \<Rightarrow> bool" where
  "has_token token req \<longleftrightarrow> \<not> falsy token \<and> rq_headers req ''x-internal-token'' = token"

definition to_health :: "request \<Rightarrow> bool" where
  "to_health req \<longleftrightarrow> url_path (rq_url req) = ''/health''"

lemma no_token_refused:
  "\<not> has_token token req \<Longrightarrow> \<not> to_health req \<Longrightarrow>
   \<exists>e. internalAuth token req = Inl e \<and> thrown_status e = Some 401"
  using internalAuth_admits [of token req] internalAuth_refuses [of token req]
  by (cases "internalAuth token req") (auto simp: has_token_def to_health_def)

lemma refused_reply: "thrown_status e = Some st \<Longrightarrow> reply_status (errorHandler e req) = st"
  by (cases e) (auto simp: errorHandler_def)

end
