(* ===== verification/Service_Apps.thy ===== *)
theory Service_Apps
  imports Guard Signer_Keys Orchestrator_App Ledger_Invariants
begin

text \<open>
  The services as applications: the routes of the ledger and of the policy service behind their own hook,
  beside the signer, chain-gateway and the orchestrator behind the shared one, each interpreted as a
  guarded service.
\<close>

section \<open>The ledger\<close>

datatype ledger_call =
    Ledger_health
  | Ledger_write ledger_cmd
  | Read_intent string
  | List_intents
  | Open_events
  | Read_window string "int option" "string option"
  | Read_policy string
  | Read_escalation string
  | Read_standing "string option" "string option"
  | Read_receipt string

datatype ledger_body =
    LB_ok
  | LB_intent_created "string \<times> intent_state \<times> string \<times> bool"
  | LB_intent intent
  | LB_intents "intent_view list"
  | LB_stream "stream_message list"
  | LB_challenge "string \<times> intent_state \<times> string"
  | LB_nonce "string \<times> string \<times> bool \<times> string"
  | LB_released "string \<times> bool"
  | LB_window window_response
  | LB_policy policy_record
  | LB_policy_put "string \<times> nat"
  | LB_escalation escalation
  | LB_standing_set "string \<times> string \<times> int"
  | LB_standing "bool \<times> int option"
  | LB_decision "bool \<times> nat"
  | LB_settlement "string \<times> intent_state \<times> string"
  | LB_capture "string \<times> intent_state \<times> string \<times> string"
  | LB_spend "bool \<times> string \<times> string"
  | LB_receipt receipt

fun ledger_write :: "(string \<Rightarrow> hex) \<Rightarrow> int \<Rightarrow> ledger_cmd \<Rightarrow> ledger \<Rightarrow> ledger_body reply \<times> ledger" where
  "ledger_write h now (PostIntent r m a i c) l = map_prod (map_reply LB_intent_created) id (post_intent h now r m a i c l)"
| "ledger_write h now (PostChallenge r c) l = map_prod (map_reply LB_challenge) id (post_challenge now r c l)"
| "ledger_write h now (PostNonce r n) l = map_prod (map_reply LB_nonce) id (post_nonce now r n l)"
| "ledger_write h now (ReleaseNonce r) l = map_prod (map_reply LB_released) id (release_nonce now r l)"
| "ledger_write h now (PutPolicy m p) l = map_prod (map_reply LB_policy_put) id (put_policy now m p l)"
| "ledger_write h now (PostEscalation r m e u t d) l =
     map_prod (map_reply LB_escalation) id (post_escalation now r m e u t d l)"
| "ledger_write h now (PutEscalation r d b) l = map_prod (map_reply LB_escalation) id (put_escalation now r d b l)"
| "ledger_write h now (PostStanding m d e) l =
     map_prod (map_reply LB_standing_set) id (post_standing_approval now m d e l)"
| "ledger_write h now (PostDecision b) l = map_prod (map_reply LB_decision) id (post_decision now b l)"
| "ledger_write h now (PostSettlement r t b c w) l =
     map_prod (map_reply LB_settlement) id (post_settlement now r t b c w l)"
| "ledger_write h now (PostCapture r i c t b) l =
     map_prod (map_reply LB_capture) id (post_capture now r i c t b l)"
| "ledger_write h now (PostSpend r m t s i ob) l =
     map_prod (map_reply LB_spend) id (post_spend now r m t s i ob l)"

text \<open>A request of the application leaves the store that the command of the runs leaves.\<close>

lemma is_ok_map_reply [simp]: "is_ok (map_reply f r) = is_ok r"
  by (cases r) simp_all

lemma ledger_write_applies: "map_prod is_ok id (ledger_write h now c l) = ledger_apply h now c l"
  by (cases c) (simp_all add: prod.map_comp o_def id_def)

text \<open>What the host gives the ledger: the hash, the collation and the reading of dates not in ISO form.\<close>

record ledger_host =
  lh_hash :: "string \<Rightarrow> hex"
  lh_localeCompare :: "string \<Rightarrow> string \<Rightarrow> int"
  lh_date :: "string \<Rightarrow> int option"

definition ledger_handle ::
    "ledger_host \<Rightarrow> int \<Rightarrow> ledger_call \<Rightarrow> ledger \<Rightarrow> ledger_body reply \<times> ledger" where
  "ledger_handle host now call l =
     (case call of
        Ledger_health \<Rightarrow> (Reply 200 LB_ok, l)
      | Ledger_write c \<Rightarrow> ledger_write (lh_hash host) now c l
      | Read_intent r \<Rightarrow> (map_reply LB_intent (get_intent r l), l)
      | List_intents \<Rightarrow> (map_reply LB_intents (get_intents (lh_localeCompare host) l), l)
      | Open_events \<Rightarrow> (Reply 200 (LB_stream (event_stream (lh_localeCompare host) l l)), l)
      | Read_window m w cap \<Rightarrow> (map_reply LB_window (get_window (lh_date host) now m w cap l), l)
      | Read_policy m \<Rightarrow> (map_reply LB_policy (get_policy m l), l)
      | Read_escalation r \<Rightarrow> (map_reply LB_escalation (get_escalation r l), l)
      | Read_standing m d \<Rightarrow> (map_reply LB_standing (get_standing_approval now m d l), l)
      | Read_receipt r \<Rightarrow> (map_reply LB_receipt (get_receipt r l), l))"

definition ledger_app ::
    "ledger_host \<Rightarrow> environment \<Rightarrow> int \<times> ledger_call \<Rightarrow> request \<Rightarrow> ledger \<Rightarrow> ledger_body reply \<times> ledger" where
  "ledger_app host env c req l =
     (case ledger_auth (ledger_token env) req of
        Some refusal \<Rightarrow> (refusal, l)
      | None \<Rightarrow> ledger_handle host (fst c) (snd c) l)"

section \<open>The policy service\<close>

datatype policy_call =
    Policy_health
  | Payment_request payment_body
  | Resolve string "escalation_decision option" "string option" "string option" "standing_scope option"
  | Policy_get string
  | Policy_put string "mandate option"

datatype policy_body =
    PB_ok
  | PB_payment payment_reply
  | PB_resolved resolve_reply
  | PB_policy policy_view

definition policy_handle ::
    "'s policy_env \<Rightarrow> int \<Rightarrow> policy_call \<Rightarrow> 's world \<Rightarrow> policy_body reply \<times> 's world" where
  "policy_handle env now call w =
     (case call of
        Policy_health \<Rightarrow> (Reply 200 PB_ok, w)
      | Payment_request body \<Rightarrow> map_prod (map_reply PB_payment) id (payment_request env now body w)
      | Resolve r d approvedBy signature standing \<Rightarrow>
          map_prod (map_reply PB_resolved) id (resolve_escalation env now r d approvedBy signature standing w)
      | Policy_get m \<Rightarrow> map_prod (map_reply PB_policy) id (policy_get env m w)
      | Policy_put m p \<Rightarrow> map_prod (map_reply PB_policy) id (policy_put env now m p w))"

text \<open>\<open>options.internalToken ?? process.env.INTERNAL_TOKEN ?? "dev-secret"\<close>.\<close>

definition policy_token :: "string option \<Rightarrow> environment \<Rightarrow> string" where
  "policy_token option env = coalesce option (coalesce (env ''INTERNAL_TOKEN'') ''dev-secret'')"

definition policy_app ::
    "'s policy_env \<Rightarrow> string \<Rightarrow> int \<times> policy_call \<Rightarrow> request \<Rightarrow> 's world \<Rightarrow> policy_body reply \<times> 's world" where
  "policy_app env token c req w =
     (case policy_auth token req of
        Some refusal \<Rightarrow> (refusal, w)
      | None \<Rightarrow> policy_handle env (fst c) (snd c) w)"

section \<open>The five services are guarded\<close>

text \<open>The hook of the ledger and the policy service: the whole url is compared, and the token as it is.\<close>

definition carries_token :: "string \<Rightarrow> request \<Rightarrow> bool" where
  "carries_token token req \<longleftrightarrow> rq_headers req ''x-internal-token'' = Some token"

definition is_health_url :: "request \<Rightarrow> bool" where
  "is_health_url req \<longleftrightarrow> rq_url req = ''/health''"

interpretation ledger_guard:
  guarded "carries_token (ledger_token env)" is_health_url "\<lambda>(now, call). call = Ledger_health" "ledger_app host env"
  by unfold_locales
    (auto simp: carries_token_def is_health_url_def ledger_app_def ledger_auth_def ledger_handle_def sendError_def
      split: option.splits)

interpretation policy_guard:
  guarded "carries_token token" is_health_url "\<lambda>(now, call). call = Policy_health" "policy_app penv token"
  by unfold_locales
    (auto simp: carries_token_def is_health_url_def policy_app_def policy_auth_def policy_handle_def sendError_def
      split: option.splits)

text \<open>Behind the shared hook a public path may also meet no route: another method than \<open>GET\<close>.\<close>

interpretation signer_guard:
  guarded "has_token (sa_internalToken sapp)" to_health "\<lambda>(now, call). call \<in> {None, Some Get_signer_health}"
    "\<lambda>(now, call). signer_serve sapp now call"
  by unfold_locales
    (auto simp: signer_serve_def serve_def signer_handle_def signer_health_route_def refused_reply
      split: option.splits sum.splits prod.splits if_splits dest!: no_token_refused)

interpretation gateway_guard:
  guarded "has_token token" to_health "\<lambda>(now, call). call \<in> {None, Some GetHealth}"
    "\<lambda>(now, call). gateway_app gd token now call"
  by unfold_locales
    (auto simp: gateway_app_def serve_def gateway_handle_def refused_reply
      split: option.splits sum.splits prod.splits dest!: no_token_refused)

definition orch_request ::
    "('s, 'c, 'x) orch_env \<Rightarrow> string option \<Rightarrow>
     clock \<times> string \<times> readiness option \<times> (string \<Rightarrow> string \<Rightarrow> bool) \<times> orch_call option \<Rightarrow> request \<Rightarrow>
     ('s, 'c, 'x) orch \<Rightarrow> orch_reply reply \<times> ('s, 'c, 'x) orch" where
  "orch_request env token c = (case c of (clk, fresh, ready, later, call) \<Rightarrow> orch_app env token clk fresh ready later call)"

lemma orch_request_refused:
  assumes "\<not> has_token token req" "\<not> to_health req"
  shows "reply_status (fst (orch_request env token c req w)) = 401 \<and> snd (orch_request env token c req w) = w"
proof -
  obtain e where e: "internalAuth token req = Inl e" "thrown_status e = Some 401"
    using no_token_refused [OF assms] by blast
  have "reply_status (case errorHandler e req of Reply n r \<Rightarrow> Reply (orch_status r) r | r \<Rightarrow> r) = 401"
    using e(2) by (cases e) (auto simp: errorHandler_def)
  then show ?thesis using e
    by (cases e) (auto simp: orch_request_def orch_app_def serve_def errorHandler_def split: prod.splits option.splits)
qed

interpretation orch_guard:
  guarded "has_token token" to_health "\<lambda>(clk, fresh, ready, later, call). call \<in> {None, Some Health}"
    "orch_request oenv token"
proof unfold_locales
  show "snd (orch_request oenv token c req w) = w"
    if "case c of (clk, fresh, ready, later, call) \<Rightarrow> call \<in> {None, Some Health}" for c req w
    using that
    by (auto simp: orch_request_def orch_app_def serve_def orch_handle_def split: prod.splits sum.splits reply.splits)
qed (simp_all add: orch_request_refused)

text \<open>C6.
  Whoever has no internal token is kept out of the five services.  Only the health route is public: each
  request without the token to any other path is answered 401, and no request without it, to the health
  route or another, changes the state of the service or an answer to the requests of the others.  The
  ledger and the policy service compare the whole url and check the token they fall back to; the other
  three cut the query off, and with no token configured they admit nobody.
\<close>

theorem strangers_change_nothing:
  "strangers_barred (\<lambda>req. rq_headers req ''x-internal-token'' = Some (ledger_token env))
     (\<lambda>req. rq_url req = ''/health'') (\<lambda>(now, call). call = Ledger_health) (ledger_app host env) \<and>
   strangers_barred (\<lambda>req. rq_headers req ''x-internal-token'' = Some ptoken)
     (\<lambda>req. rq_url req = ''/health'') (\<lambda>(now, call). call = Policy_health) (policy_app penv ptoken) \<and>
   strangers_barred (has_token (sa_internalToken sapp)) to_health
     (\<lambda>(now, call). call \<in> {None, Some Get_signer_health}) (\<lambda>(now, call). signer_serve sapp now call) \<and>
   strangers_barred (has_token gtoken) to_health
     (\<lambda>(now, call). call \<in> {None, Some GetHealth}) (\<lambda>(now, call). gateway_app gd gtoken now call) \<and>
   strangers_barred (has_token otoken) to_health
     (\<lambda>(clk, fresh, ready, later, call). call \<in> {None, Some Health}) (orch_request oenv otoken)"
  using ledger_guard.barred [of env host] policy_guard.barred [of ptoken penv] signer_guard.barred [of sapp]
    gateway_guard.barred [of gtoken gd] orch_guard.barred [of otoken oenv]
  unfolding carries_token_def is_health_url_def by blast

end
