(* ===== verification/Mcp_Session.thy ===== *)
theory Mcp_Session
  imports Mcp_Properties
begin

text \<open>
  A session of the card service's tool: what \<open>getCard\<close> and \<open>viewCard\<close> do with the client of
  \<open>card-gateway/mcp-client.ts\<close>.  They connect, initialize, notify and call one tool, while the stream, the
  timers and the posts go on in any order.  The theorems show that the tool is called only after the
  handshake and that the session's result is the result of the tool's own response.
\<close>

section \<open>Connecting and posting\<close>

text \<open>The fetch of the stream threw (with the text of the error), or responded: ok, with a body, a status.\<close>

datatype connect_outcome = Connect_threw string | Connect_responded bool bool nat

definition connect_input :: "connect_outcome \<Rightarrow> mcp_input option" where
  "connect_input res =
     (case res of
        Connect_threw err \<Rightarrow> Some (Connect_failed (''mcp sse connect failed: '' @ err))
      | Connect_responded ok body status \<Rightarrow>
          if \<not> ok \<or> \<not> body then Some (Connect_failed (''mcp sse handshake failed: '' @ dec status)) else None)"

datatype post_outcome = Post_threw string | Post_responded nat

text \<open>What \<open>#post\<close> throws, once \<open>#ready\<close> is settled.\<close>

definition post_error :: "post_outcome \<Rightarrow> mcp_client \<Rightarrow> js_error option" where
  "post_error res c =
     (case post_target c of
        Inl e \<Rightarrow> Some e
      | Inr u \<Rightarrow>
          (case res of
             Post_threw err \<Rightarrow> Some (transportError (''mcp post failed: '' @ err))
           | Post_responded status \<Rightarrow>
               (case post_response status of Inl e \<Rightarrow> Some e | Inr _ \<Rightarrow> None)))"

definition rpc_request :: "int \<Rightarrow> string \<Rightarrow> json \<Rightarrow> json" where
  "rpc_request callId method params = JObj [(''jsonrpc'', JStr ''2.0''), (''id'', JNum callId),
     (''method'', JStr method), (''params'', params)]"

text \<open>A notification has no id; its parameters are undefined and left out by \<open>JSON.stringify\<close>.\<close>

definition rpc_notification :: "string \<Rightarrow> json" where
  "rpc_notification method = JObj [(''jsonrpc'', JStr ''2.0''), (''method'', JStr method)]"

definition initialize_params :: json where
  "initialize_params = JObj [(''protocolVersion'', JStr ''2024-11-05''), (''capabilities'', JObj []),
     (''clientInfo'', JObj [(''name'', JStr ''straitsx-agent-orchestrator''), (''version'', JStr ''0.1.0'')])]"

definition tool_params :: "string \<Rightarrow> json \<Rightarrow> json" where
  "tool_params tool args = JObj [(''name'', JStr tool), (''arguments'', args)]"

section \<open>The session\<close>

text \<open>
  Where the caller stands: it awaits the reply to \<open>initialize\<close>, the post of the notification, or the
  reply to the tool, or it has its result and has closed the client.  \<open>se_posts\<close> are the posts under
  way, with the call they belong to; \<open>se_accepted\<close> the bodies answered 202.
\<close>

datatype session_phase = Initializing int | Notifying | Calling int | Finished "js_error + json"

record session =
  se_client :: mcp_client
  se_phase :: session_phase
  se_posts :: "(int option \<times> json) list"
  se_accepted :: "json list"

definition session_call :: "string \<Rightarrow> json \<Rightarrow> (int \<Rightarrow> session_phase) \<Rightarrow> session \<Rightarrow> session" where
  "session_call method params phase s =
     (let callId = mc_nextId (se_client s)
      in s\<lparr>se_client := begin_call method (se_client s), se_phase := phase callId,
           se_posts := se_posts s @ [(Some callId, rpc_request callId method params)]\<rparr>)"

definition start_session :: "string \<Rightarrow> session" where
  "start_session sseUrl = session_call ''initialize'' initialize_params Initializing
     \<lparr>se_client = new_client sseUrl, se_phase = Notifying, se_posts = [], se_accepted = []\<rparr>"

definition session_notify :: "session \<Rightarrow> session" where
  "session_notify s = s\<lparr>se_phase := Notifying,
     se_posts := se_posts s @ [(None, rpc_notification ''notifications/initialized'')]\<rparr>"

text \<open>The result of the session; \<open>finally\<close> closes the client.\<close>

definition session_finish :: "js_error + json \<Rightarrow> session \<Rightarrow> session" where
  "session_finish r s = s\<lparr>se_phase := Finished r, se_client := close_client (se_client s)\<rparr>"

text \<open>What comes from outside; the connection, calls, failed posts and the closing have steps of their own.\<close>

fun from_outside :: "mcp_input \<Rightarrow> bool" where
  "from_outside (Call m) = False"
| "from_outside (Connect_failed e) = False"
| "from_outside (Post_failed i e) = False"
| "from_outside Close_client = False"
| "from_outside _ = True"

inductive session_step ::
    "url_parser \<Rightarrow> (string \<Rightarrow> json option) \<Rightarrow> string \<Rightarrow> json \<Rightarrow> session \<Rightarrow> session \<Rightarrow> bool"
  for parse :: url_parser and json_parse :: "string \<Rightarrow> json option" and tool :: string and args :: json
where
  outside: "from_outside x \<Longrightarrow>
    session_step parse json_parse tool args s (s\<lparr>se_client := mcp_step parse json_parse x (se_client s)\<rparr>)"
| not_connected: "connect_input res = Some x \<Longrightarrow>
    session_step parse json_parse tool args s (s\<lparr>se_client := mcp_step parse json_parse x (se_client s)\<rparr>)"
| call_posted: "(Some i, body) \<in> set (se_posts s) \<Longrightarrow> mc_ready (se_client s) \<noteq> None \<Longrightarrow>
    post_error res (se_client s) = None \<Longrightarrow>
    session_step parse json_parse tool args s
      (s\<lparr>se_posts := remove1 (Some i, body) (se_posts s), se_accepted := se_accepted s @ [body]\<rparr>)"
| call_post_failed: "(Some i, body) \<in> set (se_posts s) \<Longrightarrow> mc_ready (se_client s) \<noteq> None \<Longrightarrow>
    post_error res (se_client s) = Some e \<Longrightarrow>
    session_step parse json_parse tool args s (s\<lparr>se_posts := remove1 (Some i, body) (se_posts s),
      se_client := mcp_step parse json_parse (Post_failed i e) (se_client s)\<rparr>)"
| initialized: "se_phase s = Initializing i \<Longrightarrow> (i, Inr r) \<in> set (mc_settled (se_client s)) \<Longrightarrow>
    session_step parse json_parse tool args s (session_notify s)"
| not_initialized: "se_phase s = Initializing i \<Longrightarrow> (i, Inl e) \<in> set (mc_settled (se_client s)) \<Longrightarrow>
    session_step parse json_parse tool args s (session_finish (Inl e) s)"
| notified: "(None, body) \<in> set (se_posts s) \<Longrightarrow> mc_ready (se_client s) \<noteq> None \<Longrightarrow>
    post_error res (se_client s) = None \<Longrightarrow>
    session_step parse json_parse tool args s (session_call ''tools/call'' (tool_params tool args) Calling
      (s\<lparr>se_posts := remove1 (None, body) (se_posts s), se_accepted := se_accepted s @ [body]\<rparr>))"
| not_notified: "(None, body) \<in> set (se_posts s) \<Longrightarrow> mc_ready (se_client s) \<noteq> None \<Longrightarrow>
    post_error res (se_client s) = Some e \<Longrightarrow>
    session_step parse json_parse tool args s
      (session_finish (Inl e) (s\<lparr>se_posts := remove1 (None, body) (se_posts s)\<rparr>))"
| answered: "se_phase s = Calling i \<Longrightarrow> (i, r) \<in> set (mc_settled (se_client s)) \<Longrightarrow>
    session_step parse json_parse tool args s (session_finish r s)"

inductive session_reachable ::
    "url_parser \<Rightarrow> (string \<Rightarrow> json option) \<Rightarrow> string \<Rightarrow> json \<Rightarrow> string \<Rightarrow> session \<Rightarrow> bool"
  for parse json_parse tool args sseUrl
where
  start: "session_reachable parse json_parse tool args sseUrl (start_session sseUrl)"
| step: "session_reachable parse json_parse tool args sseUrl s \<Longrightarrow> session_step parse json_parse tool args s s' \<Longrightarrow>
    session_reachable parse json_parse tool args sseUrl s'"

section \<open>Settled calls stay settled\<close>

definition keeps_settled :: "mcp_client \<Rightarrow> mcp_client \<Rightarrow> bool" where
  "keeps_settled c c' \<longleftrightarrow> set (mc_settled c) \<subseteq> set (mc_settled c') \<and> mc_nextId c' = mc_nextId c"

lemma keeps_refl [simp]: "keeps_settled c c"
  and keeps_trans: "keeps_settled c d \<Longrightarrow> keeps_settled d e \<Longrightarrow> keeps_settled c e"
  by (auto simp: keeps_settled_def)

lemma keeps_fields [simp]:
  "keeps_settled (c\<lparr>mc_buffer := b\<rparr>) d = keeps_settled c d"
  "keeps_settled c (d\<lparr>mc_buffer := b\<rparr>) = keeps_settled c d"
  "keeps_settled c (d\<lparr>mc_ready := y\<rparr>) = keeps_settled c d"
  "keeps_settled c (d\<lparr>mc_reading := r\<rparr>) = keeps_settled c d"
  "keeps_settled c (d\<lparr>mc_closed := x\<rparr>) = keeps_settled c d"
  "keeps_settled c (d\<lparr>mc_messagesUrl := u\<rparr>) = keeps_settled c d"
  by (simp_all add: keeps_settled_def)

lemma settle_keeps: "keeps_settled c (settle i r c)"
  by (auto simp: settle_def keeps_settled_def split: option.splits)

lemma rejectAll_keeps: "keeps_settled c (rejectAll e c)"
  by (auto simp: rejectAll_def keeps_settled_def)

lemma fail_reading_keeps: "keeps_settled c (fail_reading e c)"
  using rejectAll_keeps by (simp add: fail_reading_def)

lemma dispatchEvent_keeps: "dispatchEvent parse jp raw c = Inr c' \<Longrightarrow> keeps_settled c c'"
  by (auto simp: dispatchEvent_def settle_keeps split: prod.splits if_splits option.splits json.splits
      sum.splits js_error.splits)

lemma drain_keeps: "keeps_settled c (drain parse jp c)"
proof (induction parse jp c rule: drain.induct)
  case (1 parse jp c)
  show ?case
  proof (cases "find_separator (mc_buffer c)")
    case (Some p)
    obtain x y where p: "p = (x, y)" by (cases p)
    show ?thesis
    proof (cases "dispatchEvent parse jp x (c\<lparr>mc_buffer := y\<rparr>)")
      case (Inl e)
      then show ?thesis
        using Some p fail_reading_keeps [of "c\<lparr>mc_buffer := y\<rparr>"] by (subst drain.simps) simp
    next
      case (Inr c')
      have "keeps_settled c c'" using dispatchEvent_keeps [OF Inr] by simp
      moreover have "keeps_settled c' (drain parse jp (c'\<lparr>mc_buffer := y\<rparr>))"
        using 1 [OF Some p [symmetric] Inr] by simp
      ultimately show ?thesis using Some p Inr by (subst drain.simps) (simp add: keeps_trans)
    qed
  qed (subst drain.simps, simp)
qed

lemma connect_input_failed: "connect_input res = Some x \<Longrightarrow> \<exists>e. x = Connect_failed e"
  by (auto simp: connect_input_def split: connect_outcome.splits if_splits)

lemma outside_keeps: "from_outside x \<or> (\<exists>res. connect_input res = Some x) \<Longrightarrow> keeps_settled c (mcp_step parse jp x c)"
proof (cases x)
  case (Chunk t)
  then show ?thesis
    using drain_keeps [of "c\<lparr>mc_buffer := mc_buffer c @ normalise_newlines t\<rparr>"] by (simp add: mcp_step_defs)
qed (auto simp: mcp_step_defs settle_keeps fail_reading_keeps dest: connect_input_failed split: option.splits)

lemma close_keeps: "keeps_settled c (close_client c)"
  using rejectAll_keeps by (simp add: close_client_def)

lemma close_ok: "mcp_ok jp c \<Longrightarrow> mcp_ok jp (close_client c)"
  using mcp_step_ok [of jp c _ Close_client] by (simp add: mcp_step_def)

section \<open>The order of a session\<close>

definition greeting :: json where
  "greeting = rpc_request 1 ''initialize'' initialize_params"

definition acknowledgement :: json where
  "acknowledgement = rpc_notification ''notifications/initialized''"

definition question :: "string \<Rightarrow> json \<Rightarrow> json" where
  "question tool args = rpc_request 2 ''tools/call'' (tool_params tool args)"

lemma bodies_distinct [simp]: "question tool args \<noteq> greeting" "question tool args \<noteq> acknowledgement"
  by (simp_all add: question_def greeting_def acknowledgement_def rpc_request_def rpc_notification_def)

text \<open>The handshake: \<open>initialize\<close> has its result and the notification was accepted.\<close>

definition shaken :: "session \<Rightarrow> bool" where
  "shaken s \<longleftrightarrow> acknowledgement \<in> set (se_accepted s) \<and> (\<exists>v. (1, Inr v) \<in> set (mc_settled (se_client s)))"

definition phase_ok :: "string \<Rightarrow> json \<Rightarrow> session \<Rightarrow> bool" where
  "phase_ok tool args s \<longleftrightarrow> (case se_phase s of
      Initializing i \<Rightarrow> i = 1 \<and> mc_nextId (se_client s) = 2 \<and> set (se_posts s) \<subseteq> {(Some 1, greeting)} \<and>
        set (se_accepted s) \<subseteq> {greeting}
    | Notifying \<Rightarrow> mc_nextId (se_client s) = 2 \<and> (\<exists>v. (1, Inr v) \<in> set (mc_settled (se_client s))) \<and>
        set (se_posts s) \<subseteq> {(Some 1, greeting), (None, acknowledgement)} \<and> set (se_accepted s) \<subseteq> {greeting}
    | Calling i \<Rightarrow> i = 2 \<and> shaken s \<and> set (se_posts s) \<subseteq> {(Some 1, greeting), (Some 2, question tool args)}
    | Finished r \<Rightarrow> set (se_posts s) \<subseteq> {(Some 1, greeting), (Some 2, question tool args)} \<and>
        (question tool args \<in> set (se_accepted s) \<or> (Some 2, question tool args) \<in> set (se_posts s) \<longrightarrow> shaken s) \<and>
        (\<forall>v. r = Inr v \<longrightarrow> shaken s \<and> (2, Inr v) \<in> set (mc_settled (se_client s))))"

definition session_ok :: "(string \<Rightarrow> json option) \<Rightarrow> string \<Rightarrow> json \<Rightarrow> session \<Rightarrow> bool" where
  "session_ok json_parse tool args s \<longleftrightarrow>
     mcp_ok json_parse (se_client s) \<and> distinct (se_posts s) \<and> phase_ok tool args s"

text \<open>A client that keeps its settled calls keeps the phase.\<close>

lemma phase_ok_keeps:
  "phase_ok tool args s \<Longrightarrow> keeps_settled (se_client s) c \<Longrightarrow> phase_ok tool args (s\<lparr>se_client := c\<rparr>)"
  by (cases "se_phase s") (auto simp: phase_ok_def shaken_def keeps_settled_def, blast+)

lemma phase_ok_fewer:
  "phase_ok tool args s \<Longrightarrow> set ps \<subseteq> set (se_posts s) \<Longrightarrow> phase_ok tool args (s\<lparr>se_posts := ps\<rparr>)"
  by (fastforce simp: phase_ok_def shaken_def split: session_phase.splits)

lemma start_ok: "session_ok jp tool args (start_session u)"
  using mcp_step_ok [OF mcp_ok_new [of jp u], where x = "Call ''initialize''"]
  by (simp add: session_ok_def phase_ok_def start_session_def session_call_def greeting_def begin_call_def
      new_client_def mcp_step_def)

text \<open>The notification is posted once, between the two calls.\<close>

lemma notification_posted:
  assumes "session_ok jp tool args s" "(None, body) \<in> set (se_posts s)"
  shows "se_phase s = Notifying" "(Some 2, v) \<notin> set (se_posts s)" "set (remove1 (None, body) (se_posts s)) \<subseteq> {(Some 1, greeting)}"
    "body = acknowledgement"
proof -
  show phase: "se_phase s = Notifying"
    using assms by (cases "se_phase s") (auto simp: session_ok_def phase_ok_def)
  show "(Some 2, v) \<notin> set (se_posts s)"
    using assms phase by (auto simp: session_ok_def phase_ok_def)
  show "body = acknowledgement"
    using assms phase by (auto simp: session_ok_def phase_ok_def)
  then show "set (remove1 (None, body) (se_posts s)) \<subseteq> {(Some 1, greeting)}"
    using assms phase by (auto simp: session_ok_def phase_ok_def)
qed

lemma step_ok:
  assumes "session_step parse jp tool args s s'" "session_ok jp tool args s"
  shows "session_ok jp tool args s'"
  using assms
proof (cases rule: session_step.cases)
  case (outside x)
  then show ?thesis
    using assms(2) phase_ok_keeps [OF _ outside_keeps] mcp_step_ok by (auto simp: session_ok_def)
next
  case (not_connected res x)
  then have "keeps_settled (se_client s) (mcp_step parse jp x (se_client s))"
    by (intro outside_keeps) blast
  then show ?thesis
    using not_connected assms(2) phase_ok_keeps mcp_step_ok by (auto simp: session_ok_def)
next
  case (call_posted i body res)
  then show ?thesis
    using assms(2) set_remove1_subset [of "(Some i, body)" "se_posts s"]
    by (auto simp: session_ok_def phase_ok_def shaken_def split: session_phase.splits)
next
  case (call_post_failed i body res e)
  have "phase_ok tool args (s\<lparr>se_posts := remove1 (Some i, body) (se_posts s)\<rparr>)"
    using assms(2) by (auto simp: session_ok_def intro!: phase_ok_fewer set_remove1_subset)
  then have "phase_ok tool args (s\<lparr>se_posts := remove1 (Some i, body) (se_posts s),
      se_client := settle i (Inl e) (se_client s)\<rparr>)"
    by (rule phase_ok_keeps) (simp add: settle_keeps)
  then show ?thesis
    using call_post_failed assms(2) mcp_step_ok [of jp "se_client s" parse "Post_failed i e"]
    by (simp add: session_ok_def mcp_step_def)
next
  case (initialized i r)
  then show ?thesis
    using assms(2) by (auto simp: session_ok_def phase_ok_def session_notify_def acknowledgement_def)
next
  case (not_initialized i e)
  then show ?thesis
    using assms(2) close_ok by (auto simp: session_ok_def phase_ok_def session_finish_def)
next
  case (notified body res)
  note posted = notification_posted [OF assms(2) notified(2)]
  have "mc_nextId (se_client s) = 2" "\<exists>v. (1, Inr v) \<in> set (mc_settled (se_client s))"
    using assms(2) posted(1) by (auto simp: session_ok_def phase_ok_def)
  moreover have "mcp_ok jp (begin_call ''tools/call'' (se_client s))"
    using assms(2) mcp_step_ok [of jp "se_client s" parse "Call ''tools/call''"] by (simp add: session_ok_def mcp_step_def)
  moreover have "distinct (remove1 (None, body) (se_posts s))"
    using assms(2) by (simp add: session_ok_def)
  ultimately show ?thesis
    unfolding notified(1) session_ok_def phase_ok_def shaken_def session_call_def question_def begin_call_def Let_def
    using posted by auto
next
  case (not_notified body res e)
  note posted = notification_posted [OF assms(2) not_notified(2)]
  have "set (se_accepted s) \<subseteq> {greeting}"
    using assms(2) posted(1) by (auto simp: session_ok_def phase_ok_def)
  then have "question tool args \<notin> set (se_accepted s)" by auto
  moreover have "mcp_ok jp (close_client (se_client s))" "distinct (remove1 (None, body) (se_posts s))"
    using assms(2) close_ok by (auto simp: session_ok_def)
  ultimately show ?thesis
    unfolding not_notified(1) session_ok_def phase_ok_def session_finish_def using posted by auto
next
  case (answered i r)
  then show ?thesis
    using assms(2) close_ok close_keeps [of "se_client s"]
    by (auto simp: session_ok_def phase_ok_def shaken_def session_finish_def keeps_settled_def)
qed

lemma reachable_ok: "session_reachable parse jp tool args u s \<Longrightarrow> session_ok jp tool args s"
  by (induction rule: session_reachable.induct) (auto intro: start_ok step_ok)

text \<open>
  The tool's call is accepted by the service only after the handshake, and a session that returned a
  value returned the result of the service's response to that call: id 2, no error.
\<close>

theorem tool_called_after_handshake:
  assumes "session_reachable parse json_parse tool args sseUrl s"
  shows "(question tool args \<in> set (se_accepted s) \<longrightarrow> shaken s) \<and>
    (\<forall>v. se_phase s = Finished (Inr v) \<longrightarrow> shaken s \<and> replies_to json_parse 2 v)"
proof -
  have ok: "session_ok json_parse tool args s" by (rule reachable_ok [OF assms])
  then show ?thesis
    by (cases "se_phase s") (auto simp: session_ok_def phase_ok_def mcp_ok_def)
qed

end
