(* ===== verification/Page_State.thy ===== *)
theory Page_State
  imports View_Properties
begin

text \<open>
  The state behind the page of a run (\<open>app/runs/[requestId]/page.tsx\<close>), as its timer, its effects and
  its buttons change it, the poll of the list of runs, and two pieces of shared interface code: the
  theme key and the error line of a form field.
\<close>

section \<open>The page of a run\<close>

text \<open>
  \<open>rg_seen\<close> is the outcome status the effect of the second read last ran for (\<open>None\<close> is undefined),
  \<open>rg_reading\<close> the number of second reads under way.
\<close>

record run_page =
  rg_run :: "(run_summary \<times> run_event list) option"
  rg_independent :: "product_attributes option"
  rg_busy :: bool
  rg_error :: "string option"
  rg_seen :: "string option"
  rg_reading :: nat

definition new_run_page :: run_page where
  "new_run_page = \<lparr>rg_run = None, rg_independent = None, rg_busy = False, rg_error = None, rg_seen = None,
     rg_reading = 0\<rparr>"

fun outcome_word :: "run_outcome \<Rightarrow> string" where
  "outcome_word (Out_refused check i detail h) = ''refused''"
| "outcome_word (Out_escalated reason url expiresAt ttl) = ''escalated''"
| "outcome_word (Out_checkout_pending tx cardId) = ''checkout-pending''"
| "outcome_word (Out_signed tx cardId) = ''signed''"
| "outcome_word (Out_failed message fresh) = ''failed''"

text \<open>\<open>run?.outcome?.status\<close>.\<close>

definition page_status :: "run_page \<Rightarrow> string option" where
  "page_status p = Option.bind (rg_run p) (\<lambda>(run, events). map_option outcome_word (rs_outcome run))"

text \<open>The effect of the second read: it runs after a render in which its status has changed.\<close>

definition rendered :: "run_page \<Rightarrow> run_page" where
  "rendered p =
     (if page_status p = rg_seen p then p
      else p\<lparr>rg_seen := page_status p,
        rg_reading := rg_reading p + (if page_status p = Some ''escalated'' then 1 else 0)\<rparr>)"

text \<open>What the browser makes of a route: one that throws answers 500.\<close>

definition fetched :: "js_error + 'b dash_reply \<Rightarrow> 'b option" where
  "fetched r = (case r of Inr (Sent b) \<Rightarrow> Some b | _ \<Rightarrow> None)"

text \<open>\<open>load\<close>, at once and then every two seconds.\<close>

definition run_page_load ::
    "('s, 'c, 'x) dash_env \<Rightarrow> string \<Rightarrow> run_page \<Rightarrow> ('s, 'c, 'x) dash \<Rightarrow> run_page \<times> ('s, 'c, 'x) dash" where
  "run_page_load env requestId p w = (case get_run_route env requestId w of
      (r, w') \<Rightarrow> (rendered (p\<lparr>rg_run := fetched r\<rparr>), w'))"

definition run_page_second_read ::
    "('s, 'c, 'x) dash_env \<Rightarrow> string \<Rightarrow> run_page \<Rightarrow> ('s, 'c, 'x) dash \<Rightarrow> run_page \<times> ('s, 'c, 'x) dash" where
  "run_page_second_read env requestId p w = (case independent_check_route env requestId w of
      (r, w') \<Rightarrow> (p\<lparr>rg_independent := map_option ic_independentlyFetched (fetched r),
        rg_reading := rg_reading p - 1\<rparr>, w'))"

text \<open>\<open>respond\<close> up to the wallet, and from the answer on.\<close>

definition respond_begin :: "run_page \<Rightarrow> run_page" where
  "respond_begin p =
     (if page_status p = Some ''escalated'' then p\<lparr>rg_busy := True, rg_error := None\<rparr> else p)"

definition respond_end :: "js_error + unit \<Rightarrow> run_page \<Rightarrow> run_page" where
  "respond_end r p =
     (case r of Inl e \<Rightarrow> p\<lparr>rg_busy := False, rg_error := Some (error_text e)\<rparr> | Inr _ \<Rightarrow> p\<lparr>rg_busy := False\<rparr>)"

definition run_page_view :: "string \<Rightarrow> int \<Rightarrow> run_page \<Rightarrow> el list" where
  "run_page_view requestId now p =
     run_detail_view requestId (rg_run p) (rg_independent p) (rg_error p) (rg_busy p) now"

text \<open>
  The steps of the page over the system behind it, which changes under its hands.  \<open>asked\<close> is the run
  a decision was pressed for: \<open>respond\<close> keeps the run of the render it belongs to.
\<close>

record ('s, 'c, 'x) open_page =
  op_page :: run_page
  op_asked :: "run_summary option"
  op_world :: "('s, 'c, 'x) dash"

inductive page_step ::
    "('s, 'c, 'x) dash_env \<Rightarrow> ('s, 'c, 'x) wallet \<Rightarrow> string \<Rightarrow> ('s, 'c, 'x) open_page \<Rightarrow> ('s, 'c, 'x) open_page \<Rightarrow> bool"
  for env injected requestId
where
  behind: "page_step env injected requestId s (s\<lparr>op_world := w\<rparr>)"
| loaded: "run_page_load env requestId (op_page s) (op_world s) = (p, w) \<Longrightarrow>
    page_step env injected requestId s (s\<lparr>op_page := p, op_world := w\<rparr>)"
| second_read: "0 < rg_reading (op_page s) \<Longrightarrow>
    run_page_second_read env requestId (op_page s) (op_world s) = (p, w) \<Longrightarrow>
    page_step env injected requestId s (s\<lparr>op_page := p, op_world := w\<rparr>)"
| pressed: "Button b False \<in> set (run_page_view requestId now (op_page s)) \<Longrightarrow>
    rg_run (op_page s) = Some (run, events) \<Longrightarrow>
    page_step env injected requestId s (s\<lparr>op_page := respond_begin (op_page s), op_asked := Some run\<rparr>)"
| answered: "op_asked s = Some run \<Longrightarrow>
    respond_escalation env injected requestId run decision standing (op_world s) = (r, w) \<Longrightarrow>
    page_step env injected requestId s
      (s\<lparr>op_page := respond_end r (op_page s), op_asked := None, op_world := w\<rparr>)"

inductive page_reachable ::
    "('s, 'c, 'x) dash_env \<Rightarrow> ('s, 'c, 'x) wallet \<Rightarrow> string \<Rightarrow> ('s, 'c, 'x) open_page \<Rightarrow> bool"
  for env injected requestId
where
  opened: "page_reachable env injected requestId \<lparr>op_page = new_run_page, op_asked = None, op_world = w\<rparr>"
| next_state: "page_reachable env injected requestId s \<Longrightarrow> page_step env injected requestId s s' \<Longrightarrow>
    page_reachable env injected requestId s'"

section \<open>The list of runs\<close>

text \<open>\<open>load\<close> of \<open>RunsPage\<close>: an answer that is no list (the text of a 500) is not read and leaves the rows.\<close>

definition runs_page_load ::
    "('s, 'c, 'x) dash_env \<Rightarrow> run_summary list \<Rightarrow> ('s, 'c, 'x) dash \<Rightarrow> run_summary list \<times> ('s, 'c, 'x) dash" where
  "runs_page_load env rows w = (case get_runs_route env w of
      (Inl e, w') \<Rightarrow> (rows, w') | (Inr runs, w') \<Rightarrow> (runs, w'))"

section \<open>The theme key\<close>

record event_target =
  et_isContentEditable :: bool
  et_tagName :: string

record key_event =
  ke_key :: string
  ke_defaultPrevented :: bool
  ke_repeat :: bool
  ke_metaKey :: bool
  ke_ctrlKey :: bool
  ke_altKey :: bool
  ke_target :: "event_target option"

text \<open>\<open>None\<close> is a target that is no \<open>HTMLElement\<close>.\<close>

definition isTypingTarget :: "event_target option \<Rightarrow> bool" where
  "isTypingTarget target = (case target of None \<Rightarrow> False
     | Some t \<Rightarrow> et_isContentEditable t \<or> et_tagName t = ''INPUT'' \<or> et_tagName t = ''TEXTAREA'' \<or>
         et_tagName t = ''SELECT'')"

text \<open>The theme that is set by a key, from the theme in force.\<close>

definition onKeyDown :: "string \<Rightarrow> key_event \<Rightarrow> string option" where
  "onKeyDown resolvedTheme event =
     (if ke_defaultPrevented event \<or> ke_repeat event then None
      else if ke_metaKey event \<or> ke_ctrlKey event \<or> ke_altKey event then None
      else if to_lower (ke_key event) \<noteq> ''d'' then None
      else if isTypingTarget (ke_target event) then None
      else Some (if resolvedTheme = ''dark'' then ''light'' else ''dark''))"

definition theme_after :: "string \<Rightarrow> key_event list \<Rightarrow> string" where
  "theme_after theme keys = foldl (\<lambda>t e. coalesce (onKeyDown t e) t) theme keys"

section \<open>The error line of a field\<close>

datatype field_content = One_message string | Message_list "string list"

text \<open>
  An error is undefined or an object whose message may be missing: in both cases \<open>error?.message\<close> is
  undefined.  A \<open>Map\<close> over the messages keeps the place of the first error with a message.  Children are
  taken as text.
\<close>

definition unique_errors :: "string option list \<Rightarrow> string option list" where
  "unique_errors errors = map fst (foldl (\<lambda>m e. AList.update e e m) [] errors)"

definition field_error :: "string option \<Rightarrow> string option list option \<Rightarrow> field_content option" where
  "field_error children errors =
     (if \<not> falsy children then map_option One_message children
      else case errors of
          None \<Rightarrow> None
        | Some errs \<Rightarrow>
            (if errs = [] then None
             else case unique_errors errs of
                 [m] \<Rightarrow> if falsy m then None else map_option One_message m
               | ms \<Rightarrow> Some (Message_list (map the (filter (\<lambda>m. \<not> falsy m) ms)))))"

end
