(* ===== verification/Page_Properties.thy ===== *)
theory Page_Properties
  imports Page_State
begin

text \<open>
  The page of a run shows the record of the orchestrator's store; a decision is under way only while its
  buttons are off, and only for a run that the page showed as escalated; a failed decision can be
  repeated.  The theme key never takes a letter from a text field.  The error line of a field names each
  message once.
\<close>

section \<open>What the page shows is what is stored\<close>

lemma no_reply_thrown: "errorHandler e req \<noteq> Reply st b"
  by (auto simp: errorHandler_def split: js_error.splits)

lemma run_of_stored:
  assumes "run_of env requestId v = (Inr (Some r), v')"
  shows "get_run requestId v = Inr r \<and> v' = v"
  using assms
  by (cases "get_run requestId v") (auto simp: no_reply_thrown run_of_def io_Inr orch_reply_of_def answered_def orch_app_def serve_def orch_handle_def
      orch_status_def split: prod.splits reply.splits sum.splits orch_reply.splits if_splits)

text \<open>A record that a load puts on the page is the summary and the events of the stored run.\<close>

theorem page_shows_stored_run:
  assumes "run_page_load env requestId p w = (p', w')" "rg_run p' = Some r"
  shows "w' = w \<and> (\<exists>run. getRun requestId (oc_store (dw_orch w)) = Some run \<and>
    r = (summary_of run, ru_events run))"
proof -
  obtain x where x: "get_run_route env requestId w = (x, w')" "rg_run p' = fetched x"
    using assms(1) by (auto simp: run_page_load_def rendered_def split: prod.splits)
  with assms(2) have "x = Inr (Sent r)"
    by (auto simp: fetched_def split: sum.splits dash_reply.splits)
  with x(1) obtain v where v: "run_of env requestId (dw_orch w) = (Inr (Some r), v)" "w' = w\<lparr>dw_orch := v\<rparr>"
    by (auto simp: get_run_route_def io_Inr system_def io_within split: option.splits)
  with run_of_stored [OF v(1)] show ?thesis
    by (auto simp: get_run_def split: option.splits)
qed

section \<open>Decisions\<close>

text \<open>The effect has run for the status on the page; what is asked was shown as escalated.\<close>

definition page_ok :: "('s, 'c, 'x) open_page \<Rightarrow> bool" where
  "page_ok s \<longleftrightarrow> rg_seen (op_page s) = page_status (op_page s) \<and>
     (rg_busy (op_page s) \<longleftrightarrow> op_asked s \<noteq> None) \<and>
     (\<forall>run. op_asked s = Some run \<longrightarrow> map_option outcome_word (rs_outcome run) = Some ''escalated'')"

lemma rendered_seen: "rg_seen (rendered p) = page_status (rendered p)"
  and rendered_busy: "rg_busy (rendered p) = rg_busy p"
  by (auto simp: rendered_def page_status_def)

lemma button_escalated:
  assumes "Button b d \<in> set (run_page_view requestId now p)" "rg_run p = Some (run, events)"
  shows "map_option outcome_word (rs_outcome run) = Some ''escalated''"
proof (cases "rs_outcome run")
  case None
  with assms show ?thesis by (auto simp: run_page_view_def run_detail_view_def outcome_view_def decision_not_elsewhere)
next
  case (Some out)
  with assms show ?thesis
    by (cases out) (auto simp: run_page_view_def run_detail_view_def outcome_view_def decision_not_elsewhere)
qed

lemma page_step_ok: "page_step env injected requestId s s' \<Longrightarrow> page_ok s \<Longrightarrow> page_ok s'"
proof (induction rule: page_step.induct)
  case (loaded s p w)
  then show ?case
    using rendered_seen rendered_busy
    by (auto simp: run_page_load_def page_ok_def split: prod.splits)
next
  case (second_read s p w)
  then show ?case
    by (auto simp: run_page_second_read_def page_ok_def page_status_def split: prod.splits)
next
  case (pressed b now s run events)
  then show ?case
    using button_escalated [OF pressed(1,2)]
    by (auto simp: respond_begin_def page_ok_def page_status_def)
next
  case (answered s run decision standing r w)
  then show ?case
    by (auto simp: respond_end_def page_ok_def page_status_def split: sum.splits)
qed (simp add: page_ok_def)

lemma page_reachable_ok: "page_reachable env injected requestId s \<Longrightarrow> page_ok s"
proof (induction rule: page_reachable.induct)
  case (next_state s s')
  then show ?case by (blast intro: page_step_ok)
qed (simp add: page_ok_def new_run_page_def page_status_def)

text \<open>
  While a decision is under way no button takes another, whatever the polls bring, and the decision is
  for a run that was on the page as escalated.
\<close>

theorem one_decision_at_a_time:
  assumes "page_reachable env injected requestId s" "op_asked s = Some run"
  shows "(\<forall>now b. Button b False \<notin> set (run_page_view requestId now (op_page s))) \<and>
    (\<exists>reason url expiresAt ttl. rs_outcome run = Some (Out_escalated reason url expiresAt ttl))"
proof -
  have ok: "rg_busy (op_page s)" "map_option outcome_word (rs_outcome run) = Some ''escalated''"
    using page_reachable_ok [OF assms(1)] assms(2) by (auto simp: page_ok_def)
  have "\<exists>reason url expiresAt ttl. rs_outcome run = Some (Out_escalated reason url expiresAt ttl)"
    using ok(2) by (cases "rs_outcome run"; cases "the (rs_outcome run)") auto
  moreover have "Button b False \<notin> set (run_page_view requestId now (op_page s))" for now b
    using ok(1)
    by (auto simp: run_page_view_def run_detail_view_def outcome_view_def escalation_view_def Let_def
        decision_not_elsewhere split: option.splits run_outcome.splits)
  ultimately show ?thesis by blast
qed

text \<open>A decision that failed shows its error and is offered again, until the deadline.\<close>

theorem failed_decision_offered_again:
  assumes "rg_run p = Some (run, events)" "rs_outcome run = Some (Out_escalated reason url expiresAt ttl)"
    and "now div 1000 < expiresAt"
  shows "Button ''Approve once'' False \<in> set (run_page_view requestId now (respond_end (Inl e) p)) \<and>
    set (alert ''Escalation failed'' (Some (error_text e))) \<subseteq>
      set (run_page_view requestId now (respond_end (Inl e) p))"
  using assms
  by (auto simp: run_page_view_def respond_end_def run_detail_view_def outcome_view_def escalation_view_def
      Let_def isExpired_def)

section \<open>The list of runs\<close>

text \<open>The list shows the runs of the store, newest first, or what it showed.\<close>

theorem runs_page_shows_store:
  assumes "runs_page_load env rows w = (rows', w')"
  shows "rows' = rows \<or> rows' = get_runs (de_later env) (dw_orch w)"
  using assms
  by (auto simp: no_reply_thrown runs_page_load_def get_runs_route_def system_def within_def run_summaries_def andThen_def
      orch_reply_of_def answered_def orch_app_def serve_def orch_handle_def
      split: prod.splits sum.splits reply.splits orch_reply.splits if_splits)

section \<open>The theme key\<close>

text \<open>Keys typed into a field leave the theme; the key pressed twice, on anything else, gives it back.\<close>

theorem typing_keeps_theme:
  "(\<And>e. e \<in> set keys \<Longrightarrow> isTypingTarget (ke_target e)) \<Longrightarrow> theme_after theme keys = theme"
  unfolding theme_after_def by (induction keys arbitrary: theme) (auto simp: onKeyDown_def)

theorem theme_key_twice:
  assumes "theme \<in> {''dark'', ''light''}"
  shows "theme_after theme [e, e] = theme"
  using assms by (auto simp: theme_after_def onKeyDown_def)

section \<open>The error line\<close>

fun messages_of :: "field_content \<Rightarrow> string list" where
  "messages_of (One_message m) = [m]"
| "messages_of (Message_list ms) = ms"

lemma unique_errors_set: "set (unique_errors errors) = set errors \<and> distinct (unique_errors errors)"
proof -
  have "set (map fst (foldl (\<lambda>m e. AList.update e e m) m errors)) = fst ` set m \<union> set errors \<and>
      distinct (map fst (foldl (\<lambda>m e. AList.update e e m) m errors))"
    if "distinct (map fst m)" for m :: "(string option \<times> string option) list"
    using that
    by (induction errors arbitrary: m) (auto simp: distinct_update dom_update)
  from this [of "[]"] show ?thesis unfolding unique_errors_def by simp
qed

text \<open>Without children, the line lists every message there is, each once.\<close>

theorem field_error_lists_once:
  assumes "field_error None (Some errors) = Some content"
  shows "distinct (messages_of content) \<and> set (messages_of content) = {m. Some m \<in> set errors \<and> m \<noteq> []}"
proof -
  have *: "distinct (unique_errors errors)" "set errors = set (unique_errors errors)"
    using unique_errors_set by auto
  show ?thesis
  proof (cases "\<exists>m. unique_errors errors = [m]")
    case True
    then obtain m where m: "unique_errors errors = [m]" by blast
    with assms obtain x where x: "m = Some x" "x \<noteq> []" and content: "content = One_message x"
      by (cases m) (auto simp: field_error_def split: if_splits)
    have "set errors = {Some x}" using *(2) m x by simp
    then have "{m. Some m \<in> set errors \<and> m \<noteq> []} = {x}" using x(2) by (simp only:) blast
    then show ?thesis by (simp only: content) simp
  next
    case False
    have "errors \<noteq> []" using assms by (auto simp: field_error_def)
    with False assms have content: "content = Message_list (map the (filter (\<lambda>m. \<not> falsy m) (unique_errors errors)))"
      by (cases "unique_errors errors"; cases "tl (unique_errors errors)") (simp_all add: field_error_def)
    have "inj_on the {m. \<not> falsy m}" by (auto intro!: inj_onI)
    then have "distinct (messages_of content)"
      using *(1) by (simp add: content distinct_map del: not_falsy) (blast intro: inj_on_subset)
    moreover have "set (messages_of content) = the ` {m \<in> set errors. \<not> falsy m}"
      by (simp add: content *(2) del: not_falsy)
    moreover have "the ` {m \<in> set errors. \<not> falsy m} = {m. Some m \<in> set errors \<and> m \<noteq> []}"
      by force
    ultimately show ?thesis by simp
  qed
qed

end
