(* ===== verification/Spec2Isabelle.thy ===== *)
theory Spec2Isabelle
  imports Contract_Properties Der_Properties Escalation_Properties Ledger_Properties
    Policy_Witnesses Signer_Witnesses Chain_Witnesses Wiring_Witnesses
    Orchestrator_App Orchestrator_Witnesses Dashboard_Witnesses
    View_Properties Ops_Properties Registry_Properties Custody_Properties Service_Apps
    Mcp_Session Page_Properties
begin

text \<open>
  \<^bold>\<open>What this is.\<close>  A verification library of the mandated-payments system in this repository: an agent
  buys for its user with single-use cards paid in XSGD, and nothing signs without a live mandate.
  The program is a set of TypeScript services and a dashboard; every definition below is translated
  from a file under \<open>src/\<close> and every theorem is about those definitions.

  \<^bold>\<open>The parts and how they interact.\<close>  The dashboard (\<open>services/dashboard\<close>) lets the owner create a mandate
  in the registry contract with a wallet and stores the policy body behind its hash.  The orchestrator
  (\<open>services/agent-orchestrator\<close>) takes a run from an instruction to a settled purchase: it discovers
  the product, obtains the HTTP 402 challenge of the card service, records the intent and the challenge
  in the ledger, asks the policy service for a decision, redeems the signed header for a card, checks
  out at the merchant and confirms the settlement on chain.  The policy service
  (\<open>services/policy-service\<close>) reads the mandate through chain-gateway, runs nine checks, reserves the
  commitment nonce in the ledger and has the signer sign.  The signer (\<open>services/signer-service\<close>) holds
  the only key behind a rail of refusals.  The ledger (\<open>services/ledger-service\<close>) is the append-only
  record; chain-gateway (\<open>services/chain-gateway\<close>) is the only reader of the chain.  All share the
  package \<open>packages/contracts\<close>.  Scripts move funds to the signer, publish a deployment and probe the
  card service.

  \<^bold>\<open>Theories and sources.\<close>
  \<^item> Shared vocabulary: \<open>Prelude\<close> (results with errors, replies, insertion-ordered maps), \<open>Actions\<close>
    (stateful actions that throw, and what they preserve), \<open>Js_Strings\<close>, \<open>Js_Values\<close>, \<open>Js_Date\<close>,
    \<open>Json_Text\<close> (the parts of the language and its library that the sources use).
  \<^item> \<open>packages/contracts\<close>: \<open>Contract_Types\<close> (types.ts, constants.ts, registry.ts), \<open>Errors\<close> and
    \<open>Validation\<close> (errors.ts, validation.ts), \<open>Http_Plumbing\<close> (http.ts), \<open>X402\<close> (x402.ts),
    \<open>Mandate_Codec\<close> (mandate.ts, escalation.ts).
  \<^item> Ledger: \<open>Ledger_Store\<close> (store.ts), \<open>Ledger_Service\<close> (the routes of app.ts), \<open>Ledger_Invariants\<close>
    (reachable stores and the relation of allowed changes of an intent), \<open>Ledger_Evolution\<close> (what the
    requests of other services leave alone).
  \<^item> Policy service: \<open>Policy_Checks\<close> (checks/), \<open>Intent_Matcher\<close> (matcher.ts), \<open>Policy_Clients\<close>
    (clients/ledgerClient.ts, signing.ts, typedData.ts), \<open>Policy_Service\<close> (app.ts), \<open>Service_Wiring\<close>
    (clients/chainGatewayClient.ts, clients/signerClient.ts, run on the models of those services).
  \<^item> Signer: \<open>Der\<close> (keys/der.ts, keys/derive-address.ts, the codecs of keys/local-key-source.ts),
    \<open>Signer_Rail\<close> (sign/), \<open>Signer_Service\<close> (routes/, the checks of main.ts), \<open>Signer_Keys\<close> (the key sources,
    app.ts, the boot of main.ts, scripts/derive-kms-address.ts).
  \<^item> Chain-gateway: \<open>Chain_Rpc\<close> (chain.ts, main.ts), \<open>Chain_Gateway\<close> (routes/, app.ts).
  \<^item> Orchestrator: \<open>Discovery\<close> (discovery/, checkout/merchant-profiles.ts, the host assertion of
    post-issuance/), \<open>Card_Gateway\<close> (card-gateway/ without the client), \<open>Mcp_Client\<close>
    (card-gateway/mcp-client.ts as a state machine; \<open>Mcp_Session\<close> runs getCard's session on it), \<open>Orchestrator_Clients\<close> (clients/), \<open>Run_Store\<close>
    (run/store.ts), \<open>Run_Pipeline\<close> (run/pipeline.ts, checkout/), \<open>Orchestrator_App\<close> (routes/, app.ts,
    dependency-readiness.ts), \<open>Run_System\<close> (the step relation of overlapping handlers).
  \<^item> Dashboard: \<open>Dashboard_Lib\<close> (lib/format.ts, lib/wallet.ts), \<open>Dashboard_Routes\<close> (lib/mandate-store.ts,
    lib/mandate-tx.ts, the service clients, the mandate routes of app/api), \<open>Dashboard_Proxies\<close> (the
    other routes of app/api), \<open>Agent_Api\<close> (lib/agent-api.ts and the chat), \<open>Dashboard_Pages\<close> (state and
    handlers of the pages), \<open>Dashboard_Views\<close> (the elements the pages show), \<open>Page_State\<close> (the
    page of a run as a step relation over the system, the theme key, the error line of a field).
  \<^item> The contract: \<open>Mandate_Registry\<close> (packages/contracts-sol/src/MandateRegistry.sol on words of the EVM
    widths: storage, transactions, custom errors, events, \<open>get\<close>).
  \<^item> Scripts: \<open>Ops_Scripts\<close> (move-xsgd.ts, sync-registry.ts, probe-checkpoint2.ts,
    probe-production-402.ts, isolation-probe.ts).
  \<^item> All services as applications behind their hooks: \<open>Service_Apps\<close>.

  A record of TypeScript is a \<open>record\<close>, a union a \<open>datatype\<close>, a \<open>Map\<close> an association list in insertion
  order, a handler a function from the world to its reply and the new world.  A world is the product of
  the states of the services it reaches: \<open>world\<close> (ledger, signer), \<open>orch\<close> (that, chain-gateway, run
  store, timers, the outside), \<open>dash\<close> (that and the staged mandates).  A service is called by running its
  model, with its token check and its error handler, so theorems about a caller rest on the callee's code.

  \<^bold>\<open>Lemmas.\<close>  Each \<open>..._Properties\<close> theory holds the properties of its part and each \<open>..._Witnesses\<close>
  theory applies them to concrete data (\<open>Samples\<close>).
  \<^item> Safety of signing: \<open>Policy_Check_Properties\<close>, \<open>Policy_Properties\<close> (a payment is signed only when the
    declarative condition holds, or when the owner approved it), \<open>Escalation_Properties\<close>,
    \<open>Signer_Properties\<close> (rail, canonical signature, replay boundary), \<open>Wiring_Properties\<close> (the three services
    together, down to the one message the key is asked to sign), \<open>Custody_Properties\<close> (a started signer signs for the expected wallet, errors name no key),
    \<open>Service_Apps\<close> (without the token every path but the health check is answered 401, and nothing changes).
  \<^item> The record: \<open>Ledger_Properties\<close> (nonces are exclusive, a nonce that was reserved when the request was signed stays, stored intents refine
    an immutable view, the window sum).
  \<^item> Codecs: \<open>Contract_Properties\<close> (what hashes and the owner's message determine, up to collisions),
    \<open>Der_Properties\<close> (round trip).
  \<^item> The chain: \<open>Chain_Properties\<close> (what a confirmed settlement proves, token answers are reads of the chain, outages).
  \<^item> Runs: \<open>Purchase_Properties\<close> (exact price, what crosses from the untrusted tool result, when and where
    the browser pays), \<open>Mcp_Properties\<close> (every call is settled once, chunks do not matter),
    \<open>Mcp_Session\<close> (the tool is called after the handshake), \<open>Run_Invariants\<close>, \<open>Run_Properties\<close>, \<open>Run_System\<close> (coherent records, done means settled),
    \<open>Run_Order\<close> (the stages as a linear order; the events of a run are a prefix of them, and all of them when it is
    done).
  \<^item> The contract under the services: \<open>Registry_Properties\<close> (a revocation stops every later payment request,
    the policy of a mandate is fixed for good).
  \<^item> Dashboard and scripts: \<open>Dashboard_Properties\<close> (the live page equals the ledger once its snapshot is no older than the
    stream it has seen, amounts read back,
    waits end), \<open>Mandate_Properties\<close> (a created mandate is in force), \<open>View_Properties\<close>,
    \<open>Page_Properties\<close> (the run page shows the stored run and takes one decision at a time), \<open>Ops_Properties\<close>.

  \<^bold>\<open>Interfaces.\<close>  \<open>ordered_map\<close> (Prelude) is the contract of the \<open>Map\<close> objects, interpreted on association
  lists.  \<open>reservation\<close> and its extension \<open>permanent\<close> (Reservation) say that something is taken only while
  free and held until released; the ledger interprets them for nonces, burned nonces, challenges,
  captures and request ids, the signer for the ids it has signed, the registry contract for creations and
  revocations.  \<open>guarded\<close> (Guard) is the contract of the internal token, interpreted on the five services.
  \<open>pipeline_invariant\<close> (Run_Invariants)
  states which elementary writes a property must survive to survive every handler of the orchestrator; it
  is interpreted on the coherence of the run records.

  \<^bold>\<open>Bounds, fuel and termination.\<close>  The recursions are structural or terminate by a measure:
  \<open>drain\<close> (the event-stream buffer shrinks), \<open>redact_arn\<close>, \<open>split_space\<close>, \<open>length_bytes\<close>.  Loops that
  the code bounds keep its bound: 80 attempts for an agent run, 60 for the receipt of the probe.  The
  receipt loop of the wallet has no bound but a clock: it is a \<open>partial_function (option)\<close> and
  \<open>receipt_wait_ends\<close> proves that it returns.  The retry loop of the boot assertion is taken for a given
  number of attempts.

  \<^bold>\<open>Conventions.\<close>  Strings are sequences of code units below 256; a long dash is written as two hyphens, an
  ellipsis as three dots.  Numbers are unbounded integers: no property of a fraction or of rounding is
  claimed, amounts with decimals are strings as in the code.  A handler reads one instant of the clock (the
  orchestrator one per stage) and is atomic; where the code awaits between a check and a write and that
  matters, it is split: the sign route at its key call, the orchestrator's answers and expiries at the
  policy call.  A run is atomic up to its pause.  \<open>Promise.all\<close> is a sequence.  JSON arrives as the value
  that was sent.  Bodies of ledger, policy service and orchestrator have their declared types; chain-gateway
  and signer parse untyped JSON.  A timer that fired is gone.  Identifiers contain no characters that a URL
  would escape.  Where a table is a plain object, only the merchant profiles are asked for names of strangers:
  what they inherit from \<open>Object.prototype\<close> is \<open>merchant_entry\<close>; no other key is such a name.

  \<^bold>\<open>Parameters.\<close>  Code outside \<open>src/\<close> is an argument: viem (hashing, typed data, recovery, encoding,
  checksums), the RPC client as actions on a chain state, the key service, the curve library,
  \<open>JSON.parse\<close> of text, dates not in ISO form, \<open>localeCompare\<close>, URL parsing, the browser, the tool session
  and the HTTP side of the card service, the UCP endpoint, the agent service, the injected wallet.  What a
  theorem needs of them is a named hypothesis, such as the absence of collisions among the texts hashed, or
  that a successful read of the registry answers what the contract holds (\<open>reads_registry\<close>).

  \<^bold>\<open>What modelling showed.\<close>  Several theorems state behaviour the code does not intend:
  \<open>repeated_payment_unrecords\<close>, \<open>overlapping_requests_both_sign\<close>, \<open>policy_hash_collision\<close>,
  \<open>policy_refusal_never_refuses_run\<close>, \<open>expiry_timer_too_early\<close>, \<open>ended_run_revived\<close>,
  \<open>split_crlf_loses_reply\<close>, \<open>live_stream_never_ended\<close>, \<open>honest_price_flagged\<close>, \<open>card_never_shows_outcome\<close>,
  \<open>late_snapshot_rolls_back\<close>, \<open>resolution_ignores_registry\<close>, \<open>negative_amount_misread\<close>, \<open>run_again_mixes_events\<close>.

  \<^bold>\<open>Not modelled.\<close>  Listening on ports, reading files and logging; styling, icons and the static
  pages of the dashboard; the shell scripts, which call cloud tools.
\<close>

end
